(* ===== verification/Prelude.thy ===== *)
theory Prelude
  imports Main "HOL-Library.Word"
begin

text \<open>
  Shared vocabulary of the development: the machine types of the Rust sources, the arithmetic
  of the Rust standard library that the sources use (\<open>saturating_add\<close>, \<open>saturating_sub\<close>,
  \<open>saturating_mul\<close>, \<open>abs_diff\<close>, \<open>clamp\<close>, \<open>min\<close>), results as sums, and the list
  lemmas that several components need.

  A Rust integer of \<open>w\<close> bits is a \<open>w word\<close>. The workspace sets no \<open>overflow-checks\<close> in
  its release profile, so a bare \<open>+\<close> or \<open>-\<close> of the sources wraps around and is the bare
  \<open>+\<close> or \<open>-\<close> on words here.
  A \<open>Result<T, E>\<close> is \<open>'e + 'a\<close> with \<open>Inl\<close> for \<open>Err\<close> and \<open>Inr\<close> for \<open>Ok\<close>.
\<close>

section \<open>Machine types\<close>

type_synonym u8 = "8 word"
type_synonym u32 = "32 word"
type_synonym u64 = "64 word"
type_synonym u128 = "128 word"
type_synonym u256 = "256 word"
type_synonym address = "160 word"
type_synonym b256 = "256 word"
type_synonym b64 = "64 word"
type_synonym bytes = "u8 list"

named_theorems sat_simps \<open>numeric readings of the saturating operations\<close>
named_theorems result_elims \<open>inversions of the result combinators\<close>

section \<open>Saturating arithmetic\<close>

definition saturating_add :: "'a::len word \<Rightarrow> 'a word \<Rightarrow> 'a word" where
  "saturating_add a b = (if unat a + unat b < 2 ^ LENGTH('a) then a + b else - 1)"

definition saturating_sub :: "'a::len word \<Rightarrow> 'a word \<Rightarrow> 'a word" where
  "saturating_sub a b = (if b \<le> a then a - b else 0)"

definition saturating_mul :: "'a::len word \<Rightarrow> 'a word \<Rightarrow> 'a word" where
  "saturating_mul a b = (if unat a * unat b < 2 ^ LENGTH('a) then a * b else - 1)"

definition abs_diff :: "'a::len word \<Rightarrow> 'a word \<Rightarrow> 'a word" where
  "abs_diff a b = (if a < b then b - a else a - b)"

text \<open>\<open>Ord::clamp\<close>: the standard library panics unless \<open>lo \<le> hi\<close>, which the callers ensure.\<close>

definition clamp :: "'a::linorder \<Rightarrow> 'a \<Rightarrow> 'a \<Rightarrow> 'a" where
  "clamp x lo hi = (if x < lo then lo else if hi < x then hi else x)"

text \<open>\<open>saturating_to::<u64>\<close> of a \<open>U256\<close>.\<close>

definition saturating_to_u64 :: "u256 \<Rightarrow> u64" where
  "saturating_to_u64 x = (if unat x < 2 ^ 64 then ucast x else - 1)"

lemma unat_minus_one_word: "unat (- 1 :: 'a::len word) = 2 ^ LENGTH('a) - 1"
  by (simp add: unsigned_minus_1_eq_mask mask_eq_exp_minus_1)

lemma unat_le_max: "unat a \<le> 2 ^ LENGTH('a) - 1" for a :: "'a::len word"
proof -
  have "unat a < 2 ^ LENGTH('a)" by (rule unsigned_less)
  then show ?thesis by arith
qed

lemma unat_saturating_add [sat_simps]:
  "unat (saturating_add a b) = min (unat a + unat b) (2 ^ LENGTH('a) - 1)"
  for a b :: "'a::len word"
  by (auto simp: saturating_add_def unat_word_ariths unat_minus_one_word)

lemma unat_saturating_sub [sat_simps]:
  "unat (saturating_sub a b) = unat a - unat b"
  by (auto simp: saturating_sub_def unat_sub word_le_nat_alt)

lemma unat_saturating_mul [sat_simps]:
  "unat (saturating_mul a b) = min (unat a * unat b) (2 ^ LENGTH('a) - 1)"
  for a b :: "'a::len word"
  by (auto simp: saturating_mul_def unat_word_ariths unat_minus_one_word)

lemma unat_abs_diff [sat_simps]:
  "unat (abs_diff a b) = (unat a - unat b) + (unat b - unat a)"
  by (auto simp: abs_diff_def unat_sub word_le_nat_alt word_less_nat_alt)

lemma unat_saturating_to_u64 [sat_simps]:
  "unat (saturating_to_u64 x) = min (unat x) (2 ^ 64 - 1)"
  by (auto simp: saturating_to_u64_def unat_minus_one_word unsigned_ucast_eq
      take_bit_nat_eq_self)

lemma unat_min [sat_simps]: "unat (min a b) = min (unat a) (unat b)"
  for a b :: "'a::len word"
  by (simp add: min_def word_le_nat_alt)

lemma word_eq_unatI: "unat a = unat b \<Longrightarrow> a = b" for a b :: "'a::len word"
  by (simp add: word_unat_eq_iff)

lemma saturating_to_u64_eq_0 [simp]: "saturating_to_u64 x = 0 \<longleftrightarrow> x = 0"
  by (simp add: word_unat_eq_iff sat_simps min_def)

lemma saturating_sub_add_max: "saturating_add (saturating_sub p q) q = max p q"
  for p q :: "'a::len word"
  using unat_le_max [of p] unat_le_max [of q]
  by (intro word_eq_unatI) (auto simp: sat_simps max_def word_le_nat_alt)

lemma saturating_add_zero [simp]: "saturating_add a 0 = a"
  by (simp add: saturating_add_def)

lemma saturating_add_ge: "a \<le> saturating_add a b"
  using unat_le_max [of a] by (simp add: word_le_nat_alt sat_simps)

lemma saturating_add_mono: "a \<le> a' \<Longrightarrow> b \<le> b' \<Longrightarrow> saturating_add a b \<le> saturating_add a' b'"
  by (simp add: word_le_nat_alt sat_simps)

lemma saturating_add_exact:
  "saturating_add a b \<le> m \<Longrightarrow> m < - 1 \<Longrightarrow> unat (saturating_add a b) = unat a + unat b"
  for a b m :: "'a::len word"
  by (simp add: word_le_nat_alt word_less_nat_alt sat_simps unat_minus_one_word)

lemma clamp_bounds: "lo \<le> hi \<Longrightarrow> lo \<le> clamp x lo hi \<and> clamp x lo hi \<le> hi"
  by (auto simp: clamp_def)

lemma unat_add_small:
  "unat a + unat b < 2 ^ LENGTH('a) \<Longrightarrow> unat (a + b) = unat a + unat b"
  for a b :: "'a::len word"
  by (simp add: unat_word_ariths)

lemma unat_add_le_limit:
  "b \<le> m - a \<Longrightarrow> a \<le> m \<Longrightarrow> unat (a + b) = unat a + unat b"
  for a b m :: "'a::len word"
proof -
  assume "b \<le> m - a" and "a \<le> m"
  then have "unat a + unat b \<le> unat m" by (simp add: word_le_nat_alt unat_sub)
  also have "unat m < 2 ^ LENGTH('a)" by (rule unsigned_less)
  finally show ?thesis by (rule unat_add_small)
qed

section \<open>Results\<close>

text \<open>The \<open>?\<close> operator: the first error is returned, the value is passed on.\<close>

definition rbind :: "'e + 'a \<Rightarrow> ('a \<Rightarrow> 'e + 'b) \<Rightarrow> 'e + 'b" where
  "rbind m f = (case m of Inl e \<Rightarrow> Inl e | Inr a \<Rightarrow> f a)"

text \<open>\<open>Result::map_err\<close>, \<open>Option::ok_or\<close> and \<open>Result::ok\<close>.\<close>

definition map_err :: "('e \<Rightarrow> 'f) \<Rightarrow> 'e + 'a \<Rightarrow> 'f + 'a" where
  "map_err g m = (case m of Inl e \<Rightarrow> Inl (g e) | Inr a \<Rightarrow> Inr a)"

definition ok_or :: "'e \<Rightarrow> 'a option \<Rightarrow> 'e + 'a" where
  "ok_or e m = (case m of None \<Rightarrow> Inl e | Some a \<Rightarrow> Inr a)"

definition result_ok :: "'e + 'a \<Rightarrow> 'a option" where
  "result_ok m = (case m of Inl e \<Rightarrow> None | Inr a \<Rightarrow> Some a)"

text \<open>An early return \<open>if c { return Err(e) }\<close>.\<close>

definition ensure :: "bool \<Rightarrow> 'e \<Rightarrow> 'e + unit" where
  "ensure c e = (if c then Inr () else Inl e)"

definition is_ok :: "'e + 'a \<Rightarrow> bool" where
  "is_ok m = (case m of Inl e \<Rightarrow> False | Inr a \<Rightarrow> True)"

text \<open>\<open>Iterator::collect\<close> into a \<open>Result<Vec<_>, _>\<close>: left to right, stops at the first error.\<close>

fun collect_results :: "('e + 'a) list \<Rightarrow> 'e + 'a list" where
  "collect_results [] = Inr []"
| "collect_results (r # rs) =
     rbind r (\<lambda>a. rbind (collect_results rs) (\<lambda>as. Inr (a # as)))"

lemma rbind_simps [simp]: "rbind (Inl e) f = Inl e" "rbind (Inr a) f = f a"
  by (simp_all add: rbind_def)

lemma map_err_simps [simp]: "map_err g (Inl e) = Inl (g e)" "map_err g (Inr a) = Inr a"
  by (simp_all add: map_err_def)

lemma ok_or_simps [simp]: "ok_or e None = Inl e" "ok_or e (Some a) = Inr a"
  by (simp_all add: ok_or_def)

lemma result_ok_simps [simp]: "result_ok (Inl e) = None" "result_ok (Inr a) = Some a"
  by (simp_all add: result_ok_def)

lemma is_ok_simps [simp]: "is_ok (Inl e) = False" "is_ok (Inr a) = True"
  by (simp_all add: is_ok_def)

lemma ensure_simps [simp]: "ensure True e = Inr ()" "ensure False e = Inl e"
  by (simp_all add: ensure_def)

lemma rbind_Inr_iff [result_elims]: "rbind m f = Inr b \<longleftrightarrow> (\<exists>a. m = Inr a \<and> f a = Inr b)"
  by (cases m) auto

lemma rbind_Inl_iff [result_elims]:
  "rbind m f = Inl e \<longleftrightarrow> m = Inl e \<or> (\<exists>a. m = Inr a \<and> f a = Inl e)"
  by (cases m) auto

lemma ensure_Inr_iff [result_elims]: "ensure c e = Inr u \<longleftrightarrow> c"
  by (cases c) auto

lemma ensure_Inl_iff [result_elims]: "ensure c e = Inl e' \<longleftrightarrow> \<not> c \<and> e' = e"
  by (cases c) auto

lemma map_err_Inr_iff [result_elims]: "map_err g m = Inr a \<longleftrightarrow> m = Inr a"
  by (cases m) auto

lemma Inr_map_err_iff [result_elims]: "Inr a = map_err g m \<longleftrightarrow> m = Inr a"
  by (cases m) auto

lemma map_err_Inl_iff [result_elims]: "map_err g m = Inl e' \<longleftrightarrow> (\<exists>e. m = Inl e \<and> e' = g e)"
  by (cases m) auto

lemma ok_or_Inr_iff [result_elims]: "ok_or e m = Inr a \<longleftrightarrow> m = Some a"
  by (cases m) auto

lemma ok_or_Inl_iff [result_elims]: "ok_or e m = Inl e' \<longleftrightarrow> m = None \<and> e' = e"
  by (cases m) auto

lemma is_ok_iff: "is_ok m \<longleftrightarrow> (\<exists>a. m = Inr a)"
  by (cases m) auto

lemma collect_results_Inr_iff:
  "collect_results rs = Inr as \<longleftrightarrow> rs = map Inr as"
  by (induction rs arbitrary: as) (auto simp: result_elims)

lemma collect_results_map_Inr [simp]: "collect_results (map (\<lambda>x. Inr (f x)) xs) = Inr (map f xs)"
  by (induction xs) simp_all

section \<open>Operations on a mutable receiver\<close>

text \<open>
  A method on \<open>&mut self\<close> returns its outcome and the receiver it leaves behind, which is changed
  by an error too. The outcome is \<open>None\<close> for a panic, otherwise a result.
\<close>

type_synonym ('s, 'e, 'a) run = "'s \<Rightarrow> ('e + 'a) option \<times> 's"

definition run_return :: "'a \<Rightarrow> ('s, 'e, 'a) run" where
  "run_return a s = (Some (Inr a), s)"

definition run_fail :: "'e \<Rightarrow> ('s, 'e, 'a) run" where
  "run_fail e s = (Some (Inl e), s)"

definition run_panic :: "('s, 'e, 'a) run" where
  "run_panic s = (None, s)"

definition run_bind :: "('s, 'e, 'a) run \<Rightarrow> ('a \<Rightarrow> ('s, 'e, 'b) run) \<Rightarrow> ('s, 'e, 'b) run" where
  "run_bind m f s =
     (case m s of
        (Some (Inr a), s') \<Rightarrow> f a s'
      | (Some (Inl e), s') \<Rightarrow> (Some (Inl e), s')
      | (None, s') \<Rightarrow> (None, s'))"

definition run_result :: "'e + 'a \<Rightarrow> ('s, 'e, 'a) run" where
  "run_result r s = (Some r, s)"

definition run_modify :: "('s \<Rightarrow> 's) \<Rightarrow> ('s, 'e, unit) run" where
  "run_modify f s = (Some (Inr ()), f s)"

lemma run_simps [simp]:
  "run_bind (run_return a) f s = f a s"
  "run_bind (run_fail e) f s = (Some (Inl e), s)"
  "run_bind run_panic f s = (None, s)"
  "run_bind (run_result (Inr a)) f s = f a s"
  "run_bind (run_result (Inl e)) f s = (Some (Inl e), s)"
  "run_bind (run_modify g) h s = h () (g s)"
  by (simp_all add: run_bind_def run_return_def run_fail_def run_panic_def run_result_def
      run_modify_def)

lemma run_outcomes [simp]:
  "run_return a s = (Some (Inr b), s') \<longleftrightarrow> a = b \<and> s = s'"
  "run_fail e s = (Some (Inr b), s') \<longleftrightarrow> False"
  "run_panic s = (Some r, s') \<longleftrightarrow> False"
  "run_result r s = (x, s') \<longleftrightarrow> x = Some r \<and> s = s'"
  "run_modify f s = (y, s') \<longleftrightarrow> y = Some (Inr ()) \<and> s' = f s"
  by (auto simp: run_return_def run_fail_def run_panic_def run_result_def run_modify_def)

lemma run_bind_ok_iff [result_elims]:
  "run_bind m f s = (Some (Inr b), s'') \<longleftrightarrow>
   (\<exists>a s'. m s = (Some (Inr a), s') \<and> f a s' = (Some (Inr b), s''))"
  by (auto simp: run_bind_def split: prod.splits option.splits sum.splits)

lemma run_bind_err_iff:
  "run_bind m f s = (Some (Inl e), s'') \<longleftrightarrow>
   m s = (Some (Inl e), s'') \<or> (\<exists>a s'. m s = (Some (Inr a), s') \<and> f a s' = (Some (Inl e), s''))"
  by (auto simp: run_bind_def split: prod.splits option.splits sum.splits)

lemma run_bind_panic_iff:
  "run_bind m f s = (None, s'') \<longleftrightarrow>
   m s = (None, s'') \<or> (\<exists>a s'. m s = (Some (Inr a), s') \<and> f a s' = (None, s''))"
  by (auto simp: run_bind_def split: prod.splits option.splits sum.splits)

section \<open>Lists\<close>

lemma in_set_map_filter: "y \<in> set (List.map_filter f xs) \<longleftrightarrow> (\<exists>x \<in> set xs. f x = Some y)"
  by (induction xs) (auto simp: List.map_filter_simps split: option.splits)

section \<open>Invariants of sequences of steps\<close>

text \<open>Operations that all keep an invariant keep it over every sequence.\<close>

locale step_invariant =
  fixes step :: "'op \<Rightarrow> 's \<Rightarrow> 's" and inv :: "'s \<Rightarrow> bool"
  assumes step_keeps: "inv s \<Longrightarrow> inv (step op s)"
begin

lemma steps_keep: "inv s \<Longrightarrow> inv (fold step ops s)"
  by (induction ops arbitrary: s) (simp_all add: step_keeps)

end

end
