(* ===== verification/Hardforks.thy ===== *)
theory Hardforks
  imports Prelude
begin

text \<open>
  The hardfork policy: \<open>crates/dogeos-hardforks/src/lib.rs\<close> (fork identifiers, the built-in
  schedules, the sorted schedule searched by binary search) and
  \<open>crates/dogeos-reth-evm/src/spec.rs\<close> (the choice of the EVM specification).

  \<open>ForkCondition\<close> and its activation tests belong to the crate \<open>alloy_hardforks\<close>: the
  tests are the parameter \<open>fork_api\<close>, their documented behaviour is \<open>fork_api_laws\<close>.
\<close>

section \<open>Fork identifiers and activation conditions\<close>

datatype DogeosHardfork = Feynman | Galileo | GalileoV2 | Tsuki | TsukiV2

fun fork_rank :: "DogeosHardfork \<Rightarrow> nat" where
  "fork_rank Feynman = 0"
| "fork_rank Galileo = 1"
| "fork_rank GalileoV2 = 2"
| "fork_rank Tsuki = 3"
| "fork_rank TsukiV2 = 4"

lemma fork_rank_inject [simp]: "fork_rank f = fork_rank g \<longleftrightarrow> f = g"
  by (cases f; cases g) simp_all

text \<open>The \<open>hardfork!\<close> macro derives \<open>Ord\<close> in declaration order.\<close>

instantiation DogeosHardfork :: linorder
begin

definition less_eq_DogeosHardfork :: "DogeosHardfork \<Rightarrow> DogeosHardfork \<Rightarrow> bool" where
  "f \<le> g \<longleftrightarrow> fork_rank f \<le> fork_rank g"

definition less_DogeosHardfork :: "DogeosHardfork \<Rightarrow> DogeosHardfork \<Rightarrow> bool" where
  "f < g \<longleftrightarrow> fork_rank f < fork_rank g"

instance
proof
  fix f g h :: DogeosHardfork
  show "f < g \<longleftrightarrow> f \<le> g \<and> \<not> g \<le> f"
    by (auto simp: less_eq_DogeosHardfork_def less_DogeosHardfork_def)
  show "f \<le> f" by (simp add: less_eq_DogeosHardfork_def)
  show "f \<le> g \<Longrightarrow> g \<le> h \<Longrightarrow> f \<le> h" by (simp add: less_eq_DogeosHardfork_def)
  show "f \<le> g \<Longrightarrow> g \<le> f \<Longrightarrow> f = g"
    using fork_rank_inject [of f g] by (simp add: less_eq_DogeosHardfork_def)
  show "f \<le> g \<or> g \<le> f" by (auto simp: less_eq_DogeosHardfork_def)
qed

end

lemmas fork_order = less_eq_DogeosHardfork_def less_DogeosHardfork_def

text \<open>\<open>TTD\<close> has further fields, which no code of the repository reads.\<close>

datatype ForkCondition =
    Block u64
  | TTD "u64 option"
  | Timestamp u64
  | Never

record fork_api =
  active_at_timestamp :: "ForkCondition \<Rightarrow> u64 \<Rightarrow> bool"
  active_at_timestamp_or_number :: "ForkCondition \<Rightarrow> u64 \<Rightarrow> u64 \<Rightarrow> bool"
  as_timestamp :: "ForkCondition \<Rightarrow> u64 option"

text \<open>
  What the documentation of \<open>alloy_hardforks\<close> promises on the conditions a DogeOS schedule
  can hold: a timestamp fork is active from its timestamp on, \<open>Never\<close> never is, and
  \<open>as_timestamp\<close> returns the timestamp of a timestamp fork only.
\<close>

definition fork_api_laws :: "fork_api \<Rightarrow> bool" where
  "fork_api_laws fa \<longleftrightarrow>
     (\<forall>t ts. active_at_timestamp fa (Timestamp t) ts \<longleftrightarrow> t \<le> ts) \<and>
     (\<forall>ts. \<not> active_at_timestamp fa Never ts) \<and>
     (\<forall>t ts n. active_at_timestamp_or_number fa (Timestamp t) ts n \<longleftrightarrow> t \<le> ts) \<and>
     (\<forall>ts n. \<not> active_at_timestamp_or_number fa Never ts n) \<and>
     (\<forall>c t. as_timestamp fa c = Some t \<longleftrightarrow> c = Timestamp t)"

lemma fork_api_lawsD:
  assumes "fork_api_laws fa"
  shows "active_at_timestamp fa (Timestamp t) ts \<longleftrightarrow> t \<le> ts"
    and "\<not> active_at_timestamp fa Never ts"
    and "active_at_timestamp_or_number fa (Timestamp t) ts n \<longleftrightarrow> t \<le> ts"
    and "\<not> active_at_timestamp_or_number fa Never ts n"
    and "as_timestamp fa c = Some t \<longleftrightarrow> c = Timestamp t"
  using assms by (auto simp: fork_api_laws_def)

text \<open>A concrete instance, used to show that the laws can hold.\<close>

definition sample_fork_api :: fork_api where
  "sample_fork_api = \<lparr>
     active_at_timestamp = (\<lambda>c ts. case c of Timestamp t \<Rightarrow> t \<le> ts | _ \<Rightarrow> False),
     active_at_timestamp_or_number =
       (\<lambda>c ts n. case c of Timestamp t \<Rightarrow> t \<le> ts | Block b \<Rightarrow> b \<le> n | _ \<Rightarrow> False),
     as_timestamp = (\<lambda>c. case c of Timestamp t \<Rightarrow> Some t | _ \<Rightarrow> None)\<rparr>"

lemma sample_fork_api_laws [simp]: "fork_api_laws sample_fork_api"
  by (auto simp: fork_api_laws_def sample_fork_api_def split: ForkCondition.splits)

section \<open>Binary search as in the standard library\<close>

datatype ordering = OLess | OEqual | OGreater

definition ord_cmp :: "'a::linorder \<Rightarrow> 'a \<Rightarrow> ordering" where
  "ord_cmp a b = (if a < b then OLess else if a = b then OEqual else OGreater)"

function binary_search_loop :: "('a \<Rightarrow> ordering) \<Rightarrow> 'a list \<Rightarrow> nat \<Rightarrow> nat \<Rightarrow> nat" where
  "binary_search_loop f xs base sz =
     (if 1 < sz then
        let half = sz div 2; mid = base + half in
        binary_search_loop f xs (if f (xs ! mid) = OGreater then base else mid) (sz - half)
      else base)"
  by pat_completeness auto
termination
  by (relation "measure (\<lambda>(f, xs, base, sz). sz)") auto

declare binary_search_loop.simps [simp del]

text \<open>\<open>Inr i\<close> is \<open>Ok(i)\<close>, \<open>Inl i\<close> the insertion point of \<open>Err(i)\<close>.\<close>

definition binary_search_by :: "'a list \<Rightarrow> ('a \<Rightarrow> ordering) \<Rightarrow> nat + nat" where
  "binary_search_by xs f =
     (if xs = [] then Inl 0
      else let base = binary_search_loop f xs 0 (length xs) in
        case f (xs ! base) of
          OEqual \<Rightarrow> Inr base
        | OLess \<Rightarrow> Inl (base + 1)
        | OGreater \<Rightarrow> Inl base)"

definition search_window :: "('a \<Rightarrow> 'k::linorder) \<Rightarrow> 'k \<Rightarrow> 'a list \<Rightarrow> nat \<Rightarrow> nat \<Rightarrow> bool" where
  "search_window key k xs base sz \<longleftrightarrow>
     0 < sz \<and> base + sz \<le> length xs \<and> (base = 0 \<or> key (xs ! base) \<le> k) \<and>
     (\<forall>j. base + sz \<le> j \<and> j < length xs \<longrightarrow> k < key (xs ! j))"

lemma search_window_step:
  assumes win: "search_window key k xs base sz" and big: "1 < sz"
    and sorted: "sorted (map key xs)"
  shows "search_window key k xs
    (if ord_cmp (key (xs ! (base + sz div 2))) k = OGreater then base else base + sz div 2)
    (sz - sz div 2)"
proof (cases "k < key (xs ! (base + sz div 2))")
  case True
  have "k < key (xs ! j)" if "base + sz div 2 \<le> j" "j < length xs" for j
    using True that sorted_nth_mono [OF sorted, of "base + sz div 2" j]
    by (auto intro: less_le_trans)
  with True win big show ?thesis
    by (auto simp: search_window_def ord_cmp_def)
next
  case False
  with win big show ?thesis
    by (auto simp: search_window_def ord_cmp_def)
qed

lemma binary_search_loop_window:
  assumes "search_window key k xs base sz" and "sorted (map key xs)"
  shows "search_window key k xs
    (binary_search_loop (\<lambda>x. ord_cmp (key x) k) xs base sz) 1"
  using assms
proof (induction "\<lambda>x. ord_cmp (key x) k" xs base sz rule: binary_search_loop.induct)
  case (1 xs base sz)
  show ?case
  proof (cases "1 < sz")
    case True
    with 1 show ?thesis
      using search_window_step [OF "1.prems"(1) True "1.prems"(2)]
      by (subst binary_search_loop.simps) (simp add: Let_def)
  next
    case False
    with "1.prems" have "sz = 1" by (simp add: search_window_def)
    with "1.prems" show ?thesis by (subst binary_search_loop.simps) simp
  qed
qed

lemma binary_search_found:
  assumes "sorted (map key xs)"
    and "binary_search_by xs (\<lambda>x. ord_cmp (key x) k) = Inr i"
  shows "i < length xs \<and> key (xs ! i) = k"
proof -
  from assms(2) have ne: "xs \<noteq> []" by (auto simp: binary_search_by_def)
  define base where "base = binary_search_loop (\<lambda>x. ord_cmp (key x) k) xs 0 (length xs)"
  have "search_window key k xs 0 (length xs)" using ne by (auto simp: search_window_def)
  from binary_search_loop_window [OF this assms(1)] have "base < length xs"
    by (simp add: search_window_def base_def)
  with assms(2) ne show ?thesis
    by (auto simp: binary_search_by_def base_def Let_def ord_cmp_def
        split: ordering.splits if_splits)
qed

lemma binary_search_missing:
  assumes srt: "sorted (map key xs)"
    and res: "binary_search_by xs (\<lambda>x. ord_cmp (key x) k) = Inl i"
  shows "k \<notin> key ` set xs"
proof
  assume "k \<in> key ` set xs"
  then obtain j where j: "j < length xs" "key (xs ! j) = k" by (auto simp: in_set_conv_nth)
  define base where "base = binary_search_loop (\<lambda>x. ord_cmp (key x) k) xs 0 (length xs)"
  have "search_window key k xs 0 (length xs)" using j by (auto simp: search_window_def)
  from binary_search_loop_window [OF this srt] have win: "search_window key k xs base 1"
    by (simp add: base_def)
  have "j \<le> base"
  proof (rule ccontr)
    assume "\<not> j \<le> base"
    then have "base + 1 \<le> j" by simp
    with win j(1) have "k < key (xs ! j)" unfolding search_window_def by blast
    with j show False by simp
  qed
  with win j srt have le: "k \<le> key (xs ! base)"
    using sorted_nth_mono [OF srt, of j base] by (auto simp: search_window_def)
  from res j have "key (xs ! base) \<noteq> k"
    by (auto simp: binary_search_by_def base_def Let_def ord_cmp_def split: ordering.splits if_splits)
  with le have gt: "k < key (xs ! base)" by simp
  with win have "base = 0" by (auto simp: search_window_def)
  with \<open>j \<le> base\<close> j gt show False by simp
qed

section \<open>Schedules\<close>

definition CHIKYU_TSUKI_V2_TIMESTAMP :: u64 where
  "CHIKYU_TSUKI_V2_TIMESTAMP = 1798761600"

type_synonym schedule = "(DogeosHardfork \<times> ForkCondition) list"

definition hardfork_chikyu :: schedule where
  "hardfork_chikyu = [
     (Feynman, Timestamp 0),
     (Galileo, Timestamp 1790030800),
     (GalileoV2, Timestamp 1790030800),
     (Tsuki, Timestamp 1790030900),
     (TsukiV2, Timestamp CHIKYU_TSUKI_V2_TIMESTAMP)]"

definition hardfork_mainnet :: schedule where
  "hardfork_mainnet = [
     (Feynman, Timestamp 0),
     (Galileo, Timestamp 0),
     (GalileoV2, Timestamp 0),
     (Tsuki, Timestamp 0),
     (TsukiV2, Timestamp 0)]"

definition hardfork_dev :: schedule where
  "hardfork_dev = [
     (Feynman, Timestamp 0),
     (Galileo, Timestamp 0),
     (GalileoV2, Timestamp 0),
     (Tsuki, Timestamp 0),
     (TsukiV2, Timestamp 0)]"

text \<open>
  \<open>Vec::sort\<close> on pairs: the lexicographic order of the pair, the first component compared by
  the derived order above, ties by the order of \<open>ForkCondition\<close>, which is the parameter \<open>cle\<close>.
\<close>

definition pair_le ::
  "(ForkCondition \<Rightarrow> ForkCondition \<Rightarrow> bool) \<Rightarrow>
   DogeosHardfork \<times> ForkCondition \<Rightarrow> DogeosHardfork \<times> ForkCondition \<Rightarrow> bool" where
  "pair_le cle p q \<longleftrightarrow> fst p < fst q \<or> fst p = fst q \<and> cle (snd p) (snd q)"

fun insert_pair ::
  "(ForkCondition \<Rightarrow> ForkCondition \<Rightarrow> bool) \<Rightarrow>
   DogeosHardfork \<times> ForkCondition \<Rightarrow> schedule \<Rightarrow> schedule" where
  "insert_pair cle p [] = [p]"
| "insert_pair cle p (q # qs) =
     (if pair_le cle p q then p # q # qs else q # insert_pair cle p qs)"

fun sort_pairs ::
  "(ForkCondition \<Rightarrow> ForkCondition \<Rightarrow> bool) \<Rightarrow> schedule \<Rightarrow> schedule" where
  "sort_pairs cle [] = []"
| "sort_pairs cle (p # ps) = insert_pair cle p (sort_pairs cle ps)"

record DogeosChainHardforks =
  forks :: schedule

definition hardforks_new ::
  "(ForkCondition \<Rightarrow> ForkCondition \<Rightarrow> bool) \<Rightarrow> schedule \<Rightarrow> DogeosChainHardforks" where
  "hardforks_new cle fs = \<lparr>forks = sort_pairs cle fs\<rparr>"

definition chain_hardforks_mainnet ::
  "(ForkCondition \<Rightarrow> ForkCondition \<Rightarrow> bool) \<Rightarrow> DogeosChainHardforks" where
  "chain_hardforks_mainnet cle = hardforks_new cle hardfork_mainnet"

definition chain_hardforks_chikyu ::
  "(ForkCondition \<Rightarrow> ForkCondition \<Rightarrow> bool) \<Rightarrow> DogeosChainHardforks" where
  "chain_hardforks_chikyu cle = hardforks_new cle hardfork_chikyu"

definition chain_hardforks_dev ::
  "(ForkCondition \<Rightarrow> ForkCondition \<Rightarrow> bool) \<Rightarrow> DogeosChainHardforks" where
  "chain_hardforks_dev cle = hardforks_new cle hardfork_dev"

definition dogeos_fork_activation :: "DogeosChainHardforks \<Rightarrow> DogeosHardfork \<Rightarrow> ForkCondition" where
  "dogeos_fork_activation hf fork =
     (case binary_search_by (forks hf) (\<lambda>p. ord_cmp (fst p) fork) of
        Inr index \<Rightarrow> snd (forks hf ! index)
      | Inl _ \<Rightarrow> Never)"

text \<open>The Ethereum baseline; the source's \<open>_\<close> arm covers every other variant.\<close>

datatype EthereumHardfork =
    Frontier | Homestead | Tangerine | SpuriousDragon | Byzantium | Constantinople
  | Petersburg | Istanbul | Berlin | London | Shanghai | OtherEthereumFork nat

fun ethereum_fork_activation :: "EthereumHardfork \<Rightarrow> ForkCondition" where
  "ethereum_fork_activation Frontier = Block 0"
| "ethereum_fork_activation Homestead = Block 0"
| "ethereum_fork_activation Tangerine = Block 0"
| "ethereum_fork_activation SpuriousDragon = Block 0"
| "ethereum_fork_activation Byzantium = Block 0"
| "ethereum_fork_activation Constantinople = Block 0"
| "ethereum_fork_activation Petersburg = Block 0"
| "ethereum_fork_activation Istanbul = Block 0"
| "ethereum_fork_activation Berlin = Block 0"
| "ethereum_fork_activation London = Block 0"
| "ethereum_fork_activation Shanghai = Timestamp 0"
| "ethereum_fork_activation (OtherEthereumFork n) = Never"

section \<open>Activation helpers and the EVM specification\<close>

text \<open>
  The trait \<open>DogeosHardforks\<close> has one required method, the activation condition of a fork: the
  argument \<open>act\<close> of the helpers.
\<close>

definition is_feynman_active_at_timestamp ::
  "fork_api \<Rightarrow> (DogeosHardfork \<Rightarrow> ForkCondition) \<Rightarrow> u64 \<Rightarrow> bool" where
  "is_feynman_active_at_timestamp fa act timestamp =
     active_at_timestamp fa (act Feynman) timestamp"

definition is_tsuki_active_at_timestamp ::
  "fork_api \<Rightarrow> (DogeosHardfork \<Rightarrow> ForkCondition) \<Rightarrow> u64 \<Rightarrow> bool" where
  "is_tsuki_active_at_timestamp fa act timestamp =
     active_at_timestamp fa (act Tsuki) timestamp"

definition is_tsuki_v2_active_at_timestamp ::
  "fork_api \<Rightarrow> (DogeosHardfork \<Rightarrow> ForkCondition) \<Rightarrow> u64 \<Rightarrow> bool" where
  "is_tsuki_v2_active_at_timestamp fa act timestamp =
     active_at_timestamp fa (act TsukiV2) timestamp"

datatype ScrollSpecId = FEYNMAN | GALILEO | TSUKI | TSUKI_V2

fun spec_rank :: "ScrollSpecId \<Rightarrow> nat" where
  "spec_rank FEYNMAN = 0"
| "spec_rank GALILEO = 1"
| "spec_rank TSUKI = 2"
| "spec_rank TSUKI_V2 = 3"

definition spec_id_at_timestamp_and_number ::
  "fork_api \<Rightarrow> u64 \<Rightarrow> u64 \<Rightarrow> (DogeosHardfork \<Rightarrow> ForkCondition) \<Rightarrow> ScrollSpecId" where
  "spec_id_at_timestamp_and_number fa timestamp number act =
     (let active = (\<lambda>fork. active_at_timestamp_or_number fa (act fork) timestamp number) in
      if active TsukiV2 then TSUKI_V2
      else if active Tsuki then TSUKI
      else if active GalileoV2 \<or> active Galileo then GALILEO
      else FEYNMAN)"

section \<open>The schedule lookup is the association lookup\<close>

lemma set_insert_pair [simp]: "set (insert_pair cle p ps) = insert p (set ps)"
  by (induction ps) auto

lemma set_sort_pairs [simp]: "set (sort_pairs cle ps) = set ps"
  by (induction ps) auto

lemma sorted_insert_pair:
  "sorted (map fst ps) \<Longrightarrow> sorted (map fst (insert_pair cle p ps))"
  by (induction ps) (auto simp: pair_le_def)

lemma sorted_sort_pairs: "sorted (map fst (sort_pairs cle ps))"
  by (induction ps) (auto simp: sorted_insert_pair)

text \<open>
  The binary search over the sorted pairs finds exactly the configured condition of a fork, and
  \<open>Never\<close> for a fork that was not configured.
\<close>

lemma hardforks_new_lookup:
  assumes "distinct (map fst fs)"
  shows "dogeos_fork_activation (hardforks_new cle fs) f =
    (case map_of fs f of None \<Rightarrow> Never | Some c \<Rightarrow> c)"
proof -
  let ?xs = "sort_pairs cle fs"
  have srt: "sorted (map fst ?xs)" by (rule sorted_sort_pairs)
  show ?thesis
  proof (cases "binary_search_by ?xs (\<lambda>p. ord_cmp (fst p) f)")
    case (Inl i)
    from binary_search_missing [OF srt Inl] have "f \<notin> fst ` set fs" by simp
    then have "map_of fs f = None" by (simp add: map_of_eq_None_iff)
    with Inl show ?thesis by (simp add: dogeos_fork_activation_def hardforks_new_def)
  next
    case (Inr i)
    from binary_search_found [OF srt Inr] have i: "i < length ?xs" "fst (?xs ! i) = f" by auto
    then have "?xs ! i \<in> set fs" using nth_mem [of i ?xs] by simp
    with i have "(f, snd (?xs ! i)) \<in> set fs" by (metis prod.collapse)
    with assms have "map_of fs f = Some (snd (?xs ! i))" by simp
    with Inr show ?thesis by (simp add: dogeos_fork_activation_def hardforks_new_def)
  qed
qed

section \<open>Ordered schedules\<close>

text \<open>
  The contract the rest of the node relies on: forks activate by timestamp, in the order of
  their declaration. The locale proves its consequences once; the built-in schedules are shown
  to provide it.
\<close>

fun cond_ordered :: "ForkCondition \<Rightarrow> ForkCondition \<Rightarrow> bool" where
  "cond_ordered (Timestamp s) (Timestamp t) \<longleftrightarrow> s \<le> t"
| "cond_ordered (Timestamp s) Never \<longleftrightarrow> True"
| "cond_ordered Never Never \<longleftrightarrow> True"
| "cond_ordered _ _ \<longleftrightarrow> False"

locale ordered_schedule =
  fixes act :: "DogeosHardfork \<Rightarrow> ForkCondition"
  assumes ordered: "f \<le> g \<Longrightarrow> cond_ordered (act f) (act g)"
begin

lemma timestamp_or_never: "act f = Never \<or> (\<exists>t. act f = Timestamp t)"
  using ordered [of f f] by (cases "act f") auto

lemma active_downward:
  assumes "fork_api_laws fa" and "f \<le> g" and "active_at_timestamp fa (act g) ts"
  shows "active_at_timestamp fa (act f) ts"
  using assms ordered [OF assms(2)]
  by (cases "act f"; cases "act g") (auto simp: fork_api_lawsD)

lemma active_later:
  assumes "fork_api_laws fa" and "ts \<le> ts'" and "active_at_timestamp_or_number fa (act f) ts n"
  shows "active_at_timestamp_or_number fa (act f) ts' n'"
  using assms timestamp_or_never [of f] by (auto simp: fork_api_lawsD)

lemma spec_id_mono:
  assumes "fork_api_laws fa" and "ts \<le> ts'"
  shows "spec_rank (spec_id_at_timestamp_and_number fa ts n act)
    \<le> spec_rank (spec_id_at_timestamp_and_number fa ts' n' act)"
  using active_later [OF assms, of _ n n']
  by (auto simp: spec_id_at_timestamp_and_number_def Let_def)

end

lemmas schedule_defs = hardfork_chikyu_def hardfork_mainnet_def hardfork_dev_def
  chain_hardforks_chikyu_def chain_hardforks_mainnet_def chain_hardforks_dev_def
  CHIKYU_TSUKI_V2_TIMESTAMP_def

lemma chikyu_activation:
  "dogeos_fork_activation (chain_hardforks_chikyu cle) =
     (\<lambda>f. case f of Feynman \<Rightarrow> Timestamp 0 | Galileo \<Rightarrow> Timestamp 1790030800
       | GalileoV2 \<Rightarrow> Timestamp 1790030800 | Tsuki \<Rightarrow> Timestamp 1790030900
       | TsukiV2 \<Rightarrow> Timestamp 1798761600)"
proof
  fix f
  show "dogeos_fork_activation (chain_hardforks_chikyu cle) f =
     (case f of Feynman \<Rightarrow> Timestamp 0 | Galileo \<Rightarrow> Timestamp 1790030800
       | GalileoV2 \<Rightarrow> Timestamp 1790030800 | Tsuki \<Rightarrow> Timestamp 1790030900
       | TsukiV2 \<Rightarrow> Timestamp 1798761600)"
    using hardforks_new_lookup [of hardfork_chikyu cle f]
    by (cases f) (simp_all add: schedule_defs)
qed

lemma mainnet_activation:
  "dogeos_fork_activation (chain_hardforks_mainnet cle) = (\<lambda>f. Timestamp 0)"
proof
  fix f
  show "dogeos_fork_activation (chain_hardforks_mainnet cle) f = Timestamp 0"
    using hardforks_new_lookup [of hardfork_mainnet cle f]
    by (cases f) (simp_all add: schedule_defs)
qed

lemma dev_activation:
  "dogeos_fork_activation (chain_hardforks_dev cle) = (\<lambda>f. Timestamp 0)"
proof
  fix f
  show "dogeos_fork_activation (chain_hardforks_dev cle) f = Timestamp 0"
    using hardforks_new_lookup [of hardfork_dev cle f]
    by (cases f) (simp_all add: schedule_defs)
qed

interpretation chikyu: ordered_schedule "dogeos_fork_activation (chain_hardforks_chikyu cle)" for cle
proof
  fix f g :: DogeosHardfork
  assume "f \<le> g"
  then show "cond_ordered (dogeos_fork_activation (chain_hardforks_chikyu cle) f)
      (dogeos_fork_activation (chain_hardforks_chikyu cle) g)"
    by (cases f; cases g) (simp_all add: chikyu_activation fork_order)
qed

interpretation mainnet: ordered_schedule "dogeos_fork_activation (chain_hardforks_mainnet cle)" for cle
  by unfold_locales (simp add: mainnet_activation)

interpretation dev: ordered_schedule "dogeos_fork_activation (chain_hardforks_dev cle)" for cle
  by unfold_locales (simp add: dev_activation)

end
