(* ===== verification/Chainspec.thy ===== *)
theory Chainspec
  imports Hardforks
begin

text \<open>
  The chain specification: \<open>crates/dogeos-chainspec/src/constants.rs\<close> (frozen configuration),
  \<open>genesis.rs\<close> (the DogeOS fields of a genesis document: flexible integers, the fork
  timestamps and their validation) and \<open>lib.rs\<close> (construction of a specification and the
  fork-filter keys announced to peers).

  JSON values are those of \<open>serde_json\<close>: a number is left abstract (\<open>'n\<close>) with the parser's
  \<open>as_u64\<close> as parameter. Genesis documents and headers are the records of \<open>alloy\<close> with the
  fields the sources use.
\<close>

section \<open>Headers and genesis documents\<close>

type_synonym bloom = "2048 word"

record header =
  h_parent_hash :: b256
  h_ommers_hash :: b256
  h_beneficiary :: address
  h_state_root :: b256
  h_transactions_root :: b256
  h_receipts_root :: b256
  h_logs_bloom :: bloom
  h_difficulty :: u256
  h_number :: u64
  h_gas_limit :: u64
  h_gas_used :: u64
  h_timestamp :: u64
  h_extra_data :: bytes
  h_mix_hash :: b256
  h_nonce :: b64
  h_base_fee_per_gas :: "u64 option"
  h_withdrawals_root :: "b256 option"
  h_blob_gas_used :: "u64 option"
  h_excess_blob_gas :: "u64 option"
  h_parent_beacon_block_root :: "b256 option"
  h_requests_hash :: "b256 option"

datatype 'n json =
    JNull
  | JBool bool
  | JNumber 'n
  | JString string
  | JArray "'n json list"
  | JObject "(string \<times> 'n json) list"

type_synonym 'n other_fields = "string \<rightharpoonup> 'n json"

record ('n, 'a) genesis =
  g_chain_id :: u64
  g_extra_fields :: "'n other_fields"
  g_gas_limit :: u64
  g_difficulty :: u256
  g_nonce :: u64
  g_extra_data :: bytes
  g_timestamp :: u64
  g_mix_hash :: b256
  g_coinbase :: address
  g_base_fee_per_gas :: "u128 option"
  g_alloc :: 'a

section \<open>Configuration\<close>

record L1Config =
  l1_chain_id :: u64
  l1_message_queue_address :: address
  l1_message_queue_v2_address :: address
  scroll_chain_address :: address
  l2_system_config_address :: address
  num_l1_messages_per_block :: u64

record ScrollChainConfig =
  fee_vault_address :: "address option"
  max_tx_payload_bytes_per_block :: nat
  l1_config :: L1Config

record BaseFeeParams =
  max_change_denominator :: u128
  elasticity_multiplier :: u128

definition SCROLL_FEE_VAULT_ADDRESS :: address where
  "SCROLL_FEE_VAULT_ADDRESS = 0x5300000000000000000000000000000000000005"

definition MAX_TX_PAYLOAD_BYTES_PER_BLOCK :: nat where
  "MAX_TX_PAYLOAD_BYTES_PER_BLOCK = 120 * 1024"

definition DOGEOS_BASE_FEE_PARAMS_FEYNMAN :: BaseFeeParams where
  "DOGEOS_BASE_FEE_PARAMS_FEYNMAN =
     \<lparr>max_change_denominator = 8, elasticity_multiplier = 2\<rparr>"

definition DOGEOS_BASE_FEE_PARAMS_TSUKI :: BaseFeeParams where
  "DOGEOS_BASE_FEE_PARAMS_TSUKI =
     \<lparr>max_change_denominator = 48, elasticity_multiplier = 10\<rparr>"

text \<open>The numeric id of \<open>NamedChain::Goerli\<close> is a constant of \<open>alloy_chains\<close>.\<close>

definition DOGEOS_DEV_L1_CONFIG :: "u64 \<Rightarrow> L1Config" where
  "DOGEOS_DEV_L1_CONFIG goerli_id = \<lparr>
     l1_chain_id = goerli_id,
     l1_message_queue_address = 0,
     l1_message_queue_v2_address = 0,
     scroll_chain_address = 0,
     l2_system_config_address = 0,
     num_l1_messages_per_block = 10\<rparr>"

definition DOGEOS_MAINNET_L1_CONFIG :: L1Config where
  "DOGEOS_MAINNET_L1_CONFIG = \<lparr>
     l1_chain_id = 1,
     l1_message_queue_address = 0x890579692e4eFb4353852ea192663a17632C2b75,
     l1_message_queue_v2_address = 0x97E03805774DC6A8219F6c0a11c1998CC7F60990,
     scroll_chain_address = 0x23834c0FcC397dDd8292174E99F95b93577a91DA,
     l2_system_config_address = 0x198c9525615604f871f74857DEDFcC7A7dEe6531,
     num_l1_messages_per_block = 10\<rparr>"

definition DOGEOS_CHIKYU_L1_CONFIG :: L1Config where
  "DOGEOS_CHIKYU_L1_CONFIG = \<lparr>
     l1_chain_id = 111111,
     l1_message_queue_address = 0x3396BeD5adB7d83CC6C424264d229478556d3C02,
     l1_message_queue_v2_address = 0x6B72155A3aC485Ea8C4CCacF243F6e634D4869bD,
     scroll_chain_address = 0x8cB645a973e0C595aaAb55361fe917915b4E656c,
     l2_system_config_address = 0x2669B071E88e272CBDA1e12182D8C754CB737400,
     num_l1_messages_per_block = 10\<rparr>"

definition scroll_chain_config_new :: "L1Config \<Rightarrow> ScrollChainConfig" where
  "scroll_chain_config_new l1 = \<lparr>
     fee_vault_address = Some SCROLL_FEE_VAULT_ADDRESS,
     max_tx_payload_bytes_per_block = MAX_TX_PAYLOAD_BYTES_PER_BLOCK,
     l1_config = l1\<rparr>"

definition scroll_chain_config_dev :: "u64 \<Rightarrow> ScrollChainConfig" where
  "scroll_chain_config_dev goerli_id = scroll_chain_config_new (DOGEOS_DEV_L1_CONFIG goerli_id)"

definition scroll_chain_config_mainnet :: ScrollChainConfig where
  "scroll_chain_config_mainnet = scroll_chain_config_new DOGEOS_MAINNET_L1_CONFIG"

definition scroll_chain_config_chikyu :: ScrollChainConfig where
  "scroll_chain_config_chikyu = scroll_chain_config_new DOGEOS_CHIKYU_L1_CONFIG"

section \<open>Flexible integers of a genesis document\<close>

datatype json_error =
    ExpectedUnsignedInteger
  | ExpectedIntegerOrString
  | ParseEmpty
  | ParseInvalidDigit
  | ParseOverflow
  | TsukiV2Required
  | TsukiV2RequiresTsuki
  | TsukiV2TooEarly
  | RetiredTsukiFeeParams
  | MissingField string
  | OtherJsonError string

text \<open>\<open>char::to_digit\<close> for a radix up to 16.\<close>

definition digit_value :: "char \<Rightarrow> nat option" where
  "digit_value c =
     (let n = of_char c :: nat in
      if 48 \<le> n \<and> n \<le> 57 then Some (n - 48)
      else if 97 \<le> n \<and> n \<le> 102 then Some (n - 87)
      else if 65 \<le> n \<and> n \<le> 70 then Some (n - 55)
      else None)"

definition to_digit :: "nat \<Rightarrow> char \<Rightarrow> nat option" where
  "to_digit radix c =
     (case digit_value c of
        Some d \<Rightarrow> if d < radix then Some d else None
      | None \<Rightarrow> None)"

text \<open>
  \<open>u64::from_str_radix\<close>: an optional \<open>+\<close>, then digits, left to right, with the overflow of
  \<open>checked_mul\<close> and \<open>checked_add\<close> reported as an error.
\<close>

fun parse_digits :: "nat \<Rightarrow> nat \<Rightarrow> string \<Rightarrow> json_error + u64" where
  "parse_digits radix acc [] = Inr (of_nat acc)"
| "parse_digits radix acc (c # cs) =
     (case to_digit radix c of
        None \<Rightarrow> Inl ParseInvalidDigit
      | Some d \<Rightarrow>
          if 2 ^ 64 \<le> acc * radix + d then Inl ParseOverflow
          else parse_digits radix (acc * radix + d) cs)"

definition u64_from_str_radix :: "string \<Rightarrow> nat \<Rightarrow> json_error + u64" where
  "u64_from_str_radix src radix =
     (case src of
        [] \<Rightarrow> Inl ParseEmpty
      | [c] \<Rightarrow> if c = CHR ''+'' \<or> c = CHR ''-'' then Inl ParseInvalidDigit
               else parse_digits radix 0 [c]
      | c # cs \<Rightarrow> if c = CHR ''+'' then parse_digits radix 0 cs
                  else parse_digits radix 0 src)"

definition strip_prefix_0x :: "string \<Rightarrow> string \<times> nat" where
  "strip_prefix_0x s = (if take 2 s = ''0x'' then (drop 2 s, 16) else (s, 10))"

definition deserialize_u64_flexible :: "('n \<Rightarrow> u64 option) \<Rightarrow> 'n json \<Rightarrow> json_error + u64" where
  "deserialize_u64_flexible as_u64 v =
     (case v of
        JNumber n \<Rightarrow> ok_or ExpectedUnsignedInteger (as_u64 n)
      | JString s \<Rightarrow> (case strip_prefix_0x s of (ds, radix) \<Rightarrow> u64_from_str_radix ds radix)
      | _ \<Rightarrow> Inl ExpectedIntegerOrString)"

text \<open>\<open>Option::<Value>::deserialize\<close> reads \<open>null\<close> as \<open>None\<close>.\<close>

definition deserialize_optional_u64_flexible ::
  "('n \<Rightarrow> u64 option) \<Rightarrow> 'n json \<Rightarrow> json_error + u64 option" where
  "deserialize_optional_u64_flexible as_u64 v =
     (case v of
        JNull \<Rightarrow> Inr None
      | JNumber n \<Rightarrow> rbind (ok_or ExpectedUnsignedInteger (as_u64 n)) (\<lambda>x. Inr (Some x))
      | JString s \<Rightarrow>
          (case strip_prefix_0x s of (ds, radix) \<Rightarrow>
             rbind (u64_from_str_radix ds radix) (\<lambda>x. Inr (Some x)))
      | _ \<Rightarrow> Inl ExpectedIntegerOrString)"

section \<open>Fork timestamps of a genesis document\<close>

definition RETIRED_TSUKI_FEE_PARAMS_TIME :: string where
  "RETIRED_TSUKI_FEE_PARAMS_TIME = ''tsukiFeeParamsTime''"

record DogeosHardforkInfo =
  feynman_time :: "u64 option"
  galileo_time :: "u64 option"
  galileo_v2_time :: "u64 option"
  tsuki_time :: "u64 option"
  tsuki_v2_time :: "u64 option"

definition schedule_condition :: "u64 option \<Rightarrow> ForkCondition" where
  "schedule_condition timestamp =
     (case timestamp of Some t \<Rightarrow> Timestamp t | None \<Rightarrow> Never)"

definition activation_schedule :: "DogeosHardforkInfo \<Rightarrow> schedule" where
  "activation_schedule info = [
     (Feynman, schedule_condition (feynman_time info)),
     (Galileo, schedule_condition (galileo_time info)),
     (GalileoV2, schedule_condition (galileo_v2_time info)),
     (Tsuki, schedule_condition (tsuki_time info)),
     (TsukiV2, schedule_condition (tsuki_v2_time info))]"

definition hardfork_info_validate :: "DogeosHardforkInfo \<Rightarrow> json_error + DogeosHardforkInfo" where
  "hardfork_info_validate info =
     (case (tsuki_time info, tsuki_v2_time info) of
        (Some _, None) \<Rightarrow> Inl TsukiV2Required
      | (None, Some _) \<Rightarrow> Inl TsukiV2RequiresTsuki
      | (Some tsuki, Some tsuki_v2) \<Rightarrow>
          if tsuki_v2 < tsuki then Inl TsukiV2TooEarly else Inr info
      | (None, None) \<Rightarrow> Inr info)"

text \<open>One field of the derived deserializer: \<open>default\<close> when the key is absent.\<close>

definition optional_field ::
  "('n \<Rightarrow> u64 option) \<Rightarrow> 'n other_fields \<Rightarrow> string \<Rightarrow> json_error + u64 option" where
  "optional_field as_u64 others key =
     (case others key of
        None \<Rightarrow> Inr None
      | Some v \<Rightarrow> deserialize_optional_u64_flexible as_u64 v)"

definition hardfork_info_deserialize ::
  "('n \<Rightarrow> u64 option) \<Rightarrow> 'n other_fields \<Rightarrow> json_error + DogeosHardforkInfo" where
  "hardfork_info_deserialize as_u64 others =
     rbind (optional_field as_u64 others ''feynmanTime'') (\<lambda>f.
     rbind (optional_field as_u64 others ''galileoTime'') (\<lambda>g.
     rbind (optional_field as_u64 others ''galileoV2Time'') (\<lambda>g2.
     rbind (optional_field as_u64 others ''tsukiTime'') (\<lambda>t.
     rbind (optional_field as_u64 others ''tsukiV2Time'') (\<lambda>t2.
       Inr \<lparr>feynman_time = f, galileo_time = g, galileo_v2_time = g2,
            tsuki_time = t, tsuki_v2_time = t2\<rparr>)))))"

definition hardfork_info_try_from ::
  "('n \<Rightarrow> u64 option) \<Rightarrow> 'n other_fields \<Rightarrow> json_error + DogeosHardforkInfo" where
  "hardfork_info_try_from as_u64 others =
     (if others RETIRED_TSUKI_FEE_PARAMS_TIME \<noteq> None then Inl RetiredTsukiFeeParams
      else rbind (hardfork_info_deserialize as_u64 others) hardfork_info_validate)"

text \<open>
  The \<open>scroll\<close> object: its strict deserializer is derived by \<open>serde\<close> (parameter
  \<open>get_scroll\<close>, the value of \<open>get_deserialized("scroll")\<close>).
\<close>

definition scroll_chain_config_try_from ::
  "('n other_fields \<Rightarrow> (json_error + ScrollChainConfig) option) \<Rightarrow> 'n other_fields \<Rightarrow>
   json_error + ScrollChainConfig" where
  "scroll_chain_config_try_from get_scroll others =
     (case get_scroll others of
        Some config \<Rightarrow> config
      | None \<Rightarrow> Inl (MissingField ''scroll''))"

definition scroll_chain_config_extract_from ::
  "('n other_fields \<Rightarrow> (json_error + ScrollChainConfig) option) \<Rightarrow> 'n other_fields \<Rightarrow>
   ScrollChainConfig option" where
  "scroll_chain_config_extract_from get_scroll others =
     result_ok (scroll_chain_config_try_from get_scroll others)"

section \<open>Building a specification\<close>

datatype hardfork_id = EthFork EthereumHardfork | DogeFork DogeosHardfork

text \<open>
  \<open>spec_hardforks\<close> is the ordered list held by \<open>ChainHardforks\<close>, \<open>spec_base_fee_kind\<close> the list
  of \<open>BaseFeeParamsKind::Variable\<close>.
\<close>

record ('n, 'a) DogeosChainSpec =
  spec_chain :: u64
  spec_genesis_header :: header
  spec_genesis :: "('n, 'a) genesis"
  spec_hardforks :: "(hardfork_id \<times> ForkCondition) list"
  spec_base_fee_kind :: "(hardfork_id \<times> BaseFeeParams) list"
  spec_paris :: "u64 \<times> u256"
  spec_config :: ScrollChainConfig

definition feynman_hardforks :: "schedule \<Rightarrow> (hardfork_id \<times> ForkCondition) list" where
  "feynman_hardforks dogeos_forks =
     [(EthFork Frontier, Block 0),
      (EthFork Homestead, Block 0),
      (EthFork Tangerine, Block 0),
      (EthFork SpuriousDragon, Block 0),
      (EthFork Byzantium, Block 0),
      (EthFork Constantinople, Block 0),
      (EthFork Petersburg, Block 0),
      (EthFork Istanbul, Block 0),
      (EthFork Berlin, Block 0),
      (EthFork London, Block 0),
      (EthFork Shanghai, Timestamp 0)]
     @ map (\<lambda>(fork, condition). (DogeFork fork, condition)) dogeos_forks"

text \<open>
  The conversion of the genesis base fee panics (\<open>expect\<close>) when it does not fit in 64 bits:
  \<open>None\<close>. Fields not written are those of \<open>Header::default()\<close>, the parameter \<open>dflt\<close>;
  \<open>state_root\<close> stands for \<open>state_root_ref_unhashed\<close>.
\<close>

definition make_genesis_header ::
  "header \<Rightarrow> ('a \<Rightarrow> b256) \<Rightarrow> ('n, 'a) genesis \<Rightarrow> header option" where
  "make_genesis_header dflt state_root g =
     (let fee = (case g_base_fee_per_gas g of None \<Rightarrow> 0 | Some f \<Rightarrow> f) in
      if unat fee < 2 ^ 64 then
        Some (dflt\<lparr>
          h_gas_limit := g_gas_limit g,
          h_difficulty := g_difficulty g,
          h_nonce := g_nonce g,
          h_extra_data := g_extra_data g,
          h_state_root := state_root (g_alloc g),
          h_timestamp := g_timestamp g,
          h_mix_hash := g_mix_hash g,
          h_beneficiary := g_coinbase g,
          h_base_fee_per_gas := Some (ucast fee),
          h_withdrawals_root := None,
          h_parent_beacon_block_root := None,
          h_blob_gas_used := None,
          h_excess_blob_gas := None,
          h_requests_hash := None\<rparr>)
      else None)"

definition build_spec_with_hardforks ::
  "header \<Rightarrow> ('a \<Rightarrow> b256) \<Rightarrow> ('n, 'a) genesis \<Rightarrow> ScrollChainConfig \<Rightarrow>
   (hardfork_id \<times> ForkCondition) list \<Rightarrow> u64 option \<Rightarrow> ('n, 'a) DogeosChainSpec option" where
  "build_spec_with_hardforks dflt state_root g config hardforks chain_override =
     (case make_genesis_header dflt state_root g of
        None \<Rightarrow> None
      | Some hdr \<Rightarrow> Some \<lparr>
          spec_chain = (case chain_override of Some c \<Rightarrow> c | None \<Rightarrow> g_chain_id g),
          spec_genesis_header = hdr,
          spec_genesis = g,
          spec_hardforks = hardforks,
          spec_base_fee_kind =
            [(DogeFork Feynman, DOGEOS_BASE_FEE_PARAMS_FEYNMAN),
             (DogeFork TsukiV2, DOGEOS_BASE_FEE_PARAMS_TSUKI)],
          spec_paris = (0, 0),
          spec_config = config\<rparr>)"

definition build_spec ::
  "header \<Rightarrow> ('a \<Rightarrow> b256) \<Rightarrow> ('n, 'a) genesis \<Rightarrow> ScrollChainConfig \<Rightarrow> schedule \<Rightarrow>
   u64 option \<Rightarrow> ('n, 'a) DogeosChainSpec option" where
  "build_spec dflt state_root g config dogeos_forks chain_override =
     build_spec_with_hardforks dflt state_root g config (feynman_hardforks dogeos_forks)
       chain_override"

text \<open>\<open>None\<close> is the panic of an \<open>expect\<close>.\<close>

definition from_custom_genesis ::
  "('n \<Rightarrow> u64 option) \<Rightarrow> ('n other_fields \<Rightarrow> (json_error + ScrollChainConfig) option) \<Rightarrow>
   header \<Rightarrow> ('a \<Rightarrow> b256) \<Rightarrow> ('n, 'a) genesis \<Rightarrow> ('n, 'a) DogeosChainSpec option" where
  "from_custom_genesis as_u64 get_scroll dflt state_root g =
     (case scroll_chain_config_try_from get_scroll (g_extra_fields g) of
        Inl _ \<Rightarrow> None
      | Inr config \<Rightarrow>
          (case hardfork_info_try_from as_u64 (g_extra_fields g) of
             Inl _ \<Rightarrow> None
           | Inr info \<Rightarrow>
               build_spec dflt state_root g config (activation_schedule info) None))"

text \<open>
  \<open>ChainSpec::fork\<close> of \<open>reth\<close> is the parameter \<open>hf_lookup\<close>: documented to return the
  condition stored for a fork, \<open>Never\<close> if there is none.
\<close>

type_synonym fork_lookup = "(hardfork_id \<times> ForkCondition) list \<Rightarrow> hardfork_id \<Rightarrow> ForkCondition"

definition fork_lookup_laws :: "fork_lookup \<Rightarrow> bool" where
  "fork_lookup_laws hf_lookup \<longleftrightarrow>
     (\<forall>hs fork. distinct (map fst hs) \<longrightarrow>
        hf_lookup hs fork = (case map_of hs fork of Some c \<Rightarrow> c | None \<Rightarrow> Never))"

definition sample_fork_lookup :: fork_lookup where
  "sample_fork_lookup hs fork = (case map_of hs fork of Some c \<Rightarrow> c | None \<Rightarrow> Never)"

definition spec_dogeos_fork_activation ::
  "fork_lookup \<Rightarrow> ('n, 'a) DogeosChainSpec \<Rightarrow> DogeosHardfork \<Rightarrow> ForkCondition" where
  "spec_dogeos_fork_activation hf_lookup spec fork =
     hf_lookup (spec_hardforks spec) (DogeFork fork)"

definition spec_ethereum_fork_activation ::
  "fork_lookup \<Rightarrow> ('n, 'a) DogeosChainSpec \<Rightarrow> EthereumHardfork \<Rightarrow> ForkCondition" where
  "spec_ethereum_fork_activation hf_lookup spec fork =
     hf_lookup (spec_hardforks spec) (EthFork fork)"

section \<open>Fork-filter keys\<close>

datatype ForkFilterKey = KeyBlock u64 | KeyTime u64

fun fork_filter_key :: "u64 option \<Rightarrow> u64 \<Rightarrow> ForkCondition \<Rightarrow> ForkFilterKey option" where
  "fork_filter_key tsuki genesis_ts (Block b) = Some (KeyBlock b)"
| "fork_filter_key tsuki genesis_ts (TTD (Some b)) = Some (KeyBlock b)"
| "fork_filter_key tsuki genesis_ts (Timestamp time) =
     (if (case tsuki of Some t \<Rightarrow> t < time | None \<Rightarrow> False) \<and> genesis_ts < time
      then Some (KeyTime time) else None)"
| "fork_filter_key tsuki genesis_ts (TTD None) = None"
| "fork_filter_key tsuki genesis_ts Never = None"

definition fork_filter_keys ::
  "fork_api \<Rightarrow> fork_lookup \<Rightarrow> ('n, 'a) DogeosChainSpec \<Rightarrow> ForkFilterKey list" where
  "fork_filter_keys fa hf_lookup spec =
     (let tsuki = as_timestamp fa (spec_dogeos_fork_activation hf_lookup spec Tsuki) in
      List.map_filter
        (\<lambda>(_, condition). fork_filter_key tsuki (g_timestamp (spec_genesis spec)) condition)
        (spec_hardforks spec))"

section \<open>Integers are read at their positional value\<close>

definition digits_value :: "nat \<Rightarrow> nat \<Rightarrow> string \<Rightarrow> nat" where
  "digits_value radix acc ds = foldl (\<lambda>a c. a * radix + the (to_digit radix c)) acc ds"

definition plus_stripped :: "string \<Rightarrow> string" where
  "plus_stripped s =
     (case s of [] \<Rightarrow> [] | c # cs \<Rightarrow> if c = CHR ''+'' \<and> cs \<noteq> [] then cs else s)"

lemma digits_value_mono: "0 < radix \<Longrightarrow> acc \<le> digits_value radix acc ds"
proof (induction ds arbitrary: acc)
  case Nil
  then show ?case by (simp add: digits_value_def)
next
  case (Cons c cs)
  have "acc \<le> acc * radix" using Cons.prems by (cases radix) auto
  then have "acc \<le> acc * radix + the (to_digit radix c)" by (rule trans_le_add1)
  also have "\<dots> \<le> digits_value radix (acc * radix + the (to_digit radix c)) cs"
    using Cons by blast
  finally show ?case by (simp add: digits_value_def)
qed

lemma parse_digits_iff:
  assumes "0 < radix" and "acc < 2 ^ 64"
  shows "parse_digits radix acc ds = Inr n \<longleftrightarrow>
    (\<forall>c \<in> set ds. to_digit radix c \<noteq> None) \<and> digits_value radix acc ds < 2 ^ 64 \<and>
    n = of_nat (digits_value radix acc ds)"
  using assms
proof (induction ds arbitrary: acc)
  case Nil
  then show ?case by (auto simp: digits_value_def)
next
  case (Cons c cs)
  show ?case
  proof (cases "to_digit radix c")
    case None
    then show ?thesis by simp
  next
    case (Some d)
    then have val: "digits_value radix acc (c # cs) = digits_value radix (acc * radix + d) cs"
      by (simp add: digits_value_def)
    show ?thesis
    proof (cases "acc * radix + d < 2 ^ 64")
      case True
      with Cons Some show ?thesis by (auto simp: val not_le)
    next
      case False
      with digits_value_mono [OF Cons.prems(1), of "acc * radix + d" cs]
      have "\<not> digits_value radix (acc * radix + d) cs < 2 ^ 64" by linarith
      with False Some show ?thesis by (simp add: val)
    qed
  qed
qed

lemma sign_not_digit [simp]: "to_digit radix CHR ''+'' = None" "to_digit radix CHR ''-'' = None"
  by (simp_all add: to_digit_def digit_value_def Let_def)

lemma u64_from_str_radix_iff:
  assumes "0 < radix"
  shows "u64_from_str_radix s radix = Inr n \<longleftrightarrow>
    plus_stripped s \<noteq> [] \<and> (\<forall>c \<in> set (plus_stripped s). to_digit radix c \<noteq> None) \<and>
    digits_value radix 0 (plus_stripped s) < 2 ^ 64 \<and>
    n = of_nat (digits_value radix 0 (plus_stripped s))"
proof -
  note parse = parse_digits_iff [OF assms, of 0, simplified]
  consider (empty) "s = []" | (single) c where "s = [c]" | (many) c d cs where "s = c # d # cs"
    by (cases s rule: list.exhaust) (auto, metis list.exhaust)
  then show ?thesis
  proof cases
    case empty
    then show ?thesis by (simp add: u64_from_str_radix_def plus_stripped_def)
  next
    case (single c)
    then show ?thesis
      using parse [of "[c]" n] by (auto simp: u64_from_str_radix_def plus_stripped_def)
  next
    case (many c d cs)
    then show ?thesis
      using parse [of "d # cs" n] parse [of "c # d # cs" n]
      by (simp add: u64_from_str_radix_def plus_stripped_def)
  qed
qed

section \<open>Fork timestamps are fail-closed\<close>

definition hardfork_info_consistent :: "DogeosHardforkInfo \<Rightarrow> bool" where
  "hardfork_info_consistent info \<longleftrightarrow>
     (case (tsuki_time info, tsuki_v2_time info) of
        (Some tsuki, Some tsuki_v2) \<Rightarrow> tsuki \<le> tsuki_v2
      | (None, None) \<Rightarrow> True
      | _ \<Rightarrow> False)"

lemma hardfork_info_validate_iff:
  "hardfork_info_validate info = Inr info' \<longleftrightarrow> info' = info \<and> hardfork_info_consistent info"
  by (auto simp: hardfork_info_validate_def hardfork_info_consistent_def split: option.splits)

lemma hardfork_info_try_from_consistent:
  assumes "hardfork_info_try_from as_u64 others = Inr info"
  shows "others RETIRED_TSUKI_FEE_PARAMS_TIME = None \<and> hardfork_info_consistent info"
  using assms
  by (auto simp: hardfork_info_try_from_def result_elims hardfork_info_validate_iff split: if_splits)

lemma activation_schedule_distinct [simp]: "distinct (map fst (activation_schedule info))"
  by (simp add: activation_schedule_def)

lemma activation_schedule_lookup:
  "dogeos_fork_activation (hardforks_new cle (activation_schedule info)) f =
     (case f of Feynman \<Rightarrow> schedule_condition (feynman_time info)
      | Galileo \<Rightarrow> schedule_condition (galileo_time info)
      | GalileoV2 \<Rightarrow> schedule_condition (galileo_v2_time info)
      | Tsuki \<Rightarrow> schedule_condition (tsuki_time info)
      | TsukiV2 \<Rightarrow> schedule_condition (tsuki_v2_time info))"
  by (cases f) (simp_all add: hardforks_new_lookup activation_schedule_def)

text \<open>The fork timestamps of \<open>res/genesis/chikyu_dogeos.json\<close> and \<open>res/genesis/dogeos.json\<close>.\<close>

definition chikyu_fork_fields :: "u64 other_fields" where
  "chikyu_fork_fields = map_of [
     (''feynmanTime'', JNumber 0),
     (''galileoTime'', JNumber 1790030800),
     (''galileoV2Time'', JNumber 1790030800),
     (''tsukiTime'', JNumber 1790030900),
     (''tsukiV2Time'', JNumber 1798761600)]"

definition mainnet_fork_fields :: "u64 other_fields" where
  "mainnet_fork_fields = map_of [
     (''feynmanTime'', JNumber 0),
     (''galileoTime'', JNumber 0),
     (''galileoV2Time'', JNumber 0),
     (''tsukiTime'', JNumber 0),
     (''tsukiV2Time'', JNumber 0)]"

lemma parse_chikyu_fork_fields:
  "hardfork_info_try_from Some chikyu_fork_fields = Inr \<lparr>
     feynman_time = Some 0, galileo_time = Some 1790030800, galileo_v2_time = Some 1790030800,
     tsuki_time = Some 1790030900, tsuki_v2_time = Some 1798761600\<rparr>"
  by (simp add: hardfork_info_try_from_def hardfork_info_deserialize_def optional_field_def
      deserialize_optional_u64_flexible_def hardfork_info_validate_def chikyu_fork_fields_def
      RETIRED_TSUKI_FEE_PARAMS_TIME_def)

lemma parse_mainnet_fork_fields:
  "hardfork_info_try_from Some mainnet_fork_fields = Inr \<lparr>
     feynman_time = Some 0, galileo_time = Some 0, galileo_v2_time = Some 0,
     tsuki_time = Some 0, tsuki_v2_time = Some 0\<rparr>"
  by (simp add: hardfork_info_try_from_def hardfork_info_deserialize_def optional_field_def
      deserialize_optional_u64_flexible_def hardfork_info_validate_def mainnet_fork_fields_def
      RETIRED_TSUKI_FEE_PARAMS_TIME_def)

section \<open>A built specification agrees with the hardfork crate\<close>

lemma sample_fork_lookup_laws [simp]: "fork_lookup_laws sample_fork_lookup"
  by (simp add: fork_lookup_laws_def sample_fork_lookup_def)

lemma fork_lookup_lawsD:
  "fork_lookup_laws hf_lookup \<Longrightarrow> distinct (map fst hs) \<Longrightarrow>
   hf_lookup hs fork = (case map_of hs fork of Some c \<Rightarrow> c | None \<Rightarrow> Never)"
  by (simp add: fork_lookup_laws_def)

lemma build_spec_hardforks:
  "build_spec dflt sr g config ds co = Some spec \<Longrightarrow>
   spec_hardforks spec = feynman_hardforks ds \<and> spec_genesis spec = g \<and> spec_config spec = config"
  by (auto simp: build_spec_def build_spec_with_hardforks_def split: option.splits)

lemma feynman_hardforks_distinct:
  assumes "distinct (map fst ds)"
  shows "distinct (map fst (feynman_hardforks ds))"
proof -
  have "map (fst \<circ> (\<lambda>(fork, condition). (DogeFork fork, condition))) ds
      = map DogeFork (map fst ds)"
    by (induction ds) auto
  then show ?thesis
    using assms by (auto simp: feynman_hardforks_def distinct_map inj_on_def)
qed

lemma map_of_feynman_eth:
  "(case map_of (feynman_hardforks ds) (EthFork f) of Some c \<Rightarrow> c | None \<Rightarrow> Never)
     = ethereum_fork_activation f"
proof -
  have "map_of (map (\<lambda>(fork, condition). (DogeFork fork, condition)) ds) (EthFork f) = None"
    by (auto simp: map_of_eq_None_iff)
  then show ?thesis by (cases f) (simp_all add: feynman_hardforks_def)
qed

lemma map_of_feynman_doge:
  "map_of (feynman_hardforks ds) (DogeFork f) = map_of ds f"
proof -
  have "map_of (map (\<lambda>(fork, condition). (DogeFork fork, condition)) ds) (DogeFork f) = map_of ds f"
    by (induction ds) auto
  then show ?thesis by (simp add: feynman_hardforks_def)
qed

lemma build_spec_activation:
  assumes "build_spec dflt sr g config ds co = Some spec"
    and "fork_lookup_laws hf_lookup" and "distinct (map fst ds)"
  shows "spec_dogeos_fork_activation hf_lookup spec = dogeos_fork_activation (hardforks_new cle ds)"
    and "spec_ethereum_fork_activation hf_lookup spec = ethereum_fork_activation"
  using build_spec_hardforks [OF assms(1)] fork_lookup_lawsD [OF assms(2)]
    feynman_hardforks_distinct [OF assms(3)] map_of_feynman_eth
  by (auto simp: spec_dogeos_fork_activation_def spec_ethereum_fork_activation_def fun_eq_iff
      map_of_feynman_doge hardforks_new_lookup [OF assms(3)] split: option.splits)

section \<open>Properties\<close>

text \<open>Integers of a genesis document are read at their positional value: a string is accepted
  exactly when, after an optional \<open>0x\<close> (radix 16, otherwise 10) and an optional \<open>+\<close>, it is a
  non-empty sequence of digits of that radix whose value fits in 64 bits, and then the result
  is that value; every other string is an error.\<close>

theorem deserialize_u64_flexible_string:
  "deserialize_u64_flexible as_u64 (JString s) = Inr n \<longleftrightarrow>
     (let (ds, radix) = strip_prefix_0x s; body = plus_stripped ds in
      body \<noteq> [] \<and> list_all (\<lambda>c. to_digit radix c \<noteq> None) body \<and>
      digits_value radix 0 body < 2 ^ 64 \<and> n = of_nat (digits_value radix 0 body))"
proof -
  obtain ds radix where sp: "strip_prefix_0x s = (ds, radix)" by fastforce
  then have "0 < radix" by (auto simp: strip_prefix_0x_def split: if_splits)
  then show ?thesis
    using u64_from_str_radix_iff [of radix ds n]
    by (simp add: deserialize_u64_flexible_def sp Let_def list_all_iff)
qed

text \<open>An accepted custom genesis never activates the TsukiV2 fee rules without Tsuki: the
  retired key is absent, and at every timestamp at which TsukiV2 is active, Tsuki is active too.\<close>

theorem custom_genesis_tsuki_order:
  assumes "hardfork_info_try_from as_u64 others = Inr info" and "fork_api_laws fa"
  shows "others ''tsukiFeeParamsTime'' = None \<and>
    (\<forall>ts. is_tsuki_v2_active_at_timestamp fa
            (dogeos_fork_activation (hardforks_new cle (activation_schedule info))) ts \<longrightarrow>
          is_tsuki_active_at_timestamp fa
            (dogeos_fork_activation (hardforks_new cle (activation_schedule info))) ts)"
proof -
  from hardfork_info_try_from_consistent [OF assms(1)] have cons: "hardfork_info_consistent info"
    and "others ''tsukiFeeParamsTime'' = None"
    by (simp_all add: RETIRED_TSUKI_FEE_PARAMS_TIME_def)
  with fork_api_lawsD [OF assms(2)] show ?thesis
    by (auto simp: is_tsuki_v2_active_at_timestamp_def is_tsuki_active_at_timestamp_def
        activation_schedule_lookup schedule_condition_def hardfork_info_consistent_def
        split: option.splits)
qed

theorem custom_genesis_tsuki_order_witness:
  "chikyu_fork_fields ''tsukiFeeParamsTime'' = None \<and>
   is_tsuki_active_at_timestamp sample_fork_api
     (dogeos_fork_activation (hardforks_new (\<lambda>_ _. True) (activation_schedule \<lparr>
        feynman_time = Some 0, galileo_time = Some 1790030800, galileo_v2_time = Some 1790030800,
        tsuki_time = Some 1790030900, tsuki_v2_time = Some 1798761600\<rparr>))) 1798761600"
  using custom_genesis_tsuki_order [OF parse_chikyu_fork_fields sample_fork_api_laws,
      of "\<lambda>_ _. True"]
  by (simp add: is_tsuki_v2_active_at_timestamp_def activation_schedule_lookup
      schedule_condition_def sample_fork_api_def)

text \<open>The genesis documents shipped with the node and the schedules compiled into the hardfork
  crate agree: parsing the fork timestamps of the Chikyu and of the mainnet document gives
  exactly the built-in schedules.\<close>

theorem genesis_documents_match_builtin_schedules:
  "rbind (hardfork_info_try_from Some chikyu_fork_fields) (\<lambda>info. Inr (activation_schedule info))
     = Inr hardfork_chikyu \<and>
   rbind (hardfork_info_try_from Some mainnet_fork_fields) (\<lambda>info. Inr (activation_schedule info))
     = Inr hardfork_mainnet"
  by (simp add: parse_chikyu_fork_fields parse_mainnet_fork_fields activation_schedule_def
      schedule_condition_def schedule_defs)

text \<open>Two views of one schedule: a specification built by \<open>build_spec\<close> answers every DogeOS
  fork as the sorted, binary-searched schedule of the hardfork crate does, and every Ethereum
  fork as that crate's fixed baseline.\<close>

theorem build_spec_agrees_with_hardforks:
  assumes "build_spec dflt state_root g config ds chain_override = Some spec"
    and "fork_lookup_laws hf_lookup" and "distinct (map fst ds)"
  shows "spec_dogeos_fork_activation hf_lookup spec f
      = dogeos_fork_activation (hardforks_new cle ds) f \<and>
    spec_ethereum_fork_activation hf_lookup spec e = ethereum_fork_activation e"
  using build_spec_activation(1) [OF assms, of cle] build_spec_activation(2) [OF assms] by simp

definition sample_header :: header where
  "sample_header = \<lparr>h_parent_hash = 0, h_ommers_hash = 0, h_beneficiary = 0, h_state_root = 0,
     h_transactions_root = 0, h_receipts_root = 0, h_logs_bloom = 0, h_difficulty = 1,
     h_number = 0, h_gas_limit = 30000000, h_gas_used = 0, h_timestamp = 0, h_extra_data = [],
     h_mix_hash = 0, h_nonce = 0, h_base_fee_per_gas = Some 1000000000,
     h_withdrawals_root = None, h_blob_gas_used = None, h_excess_blob_gas = None,
     h_parent_beacon_block_root = None, h_requests_hash = None\<rparr>"

definition sample_genesis :: "(u64, unit) genesis" where
  "sample_genesis = \<lparr>g_chain_id = 1122005, g_extra_fields = chikyu_fork_fields,
     g_gas_limit = 30000000, g_difficulty = 1, g_nonce = 0, g_extra_data = [],
     g_timestamp = 0, g_mix_hash = 0, g_coinbase = 0,
     g_base_fee_per_gas = Some 1000000000, g_alloc = ()\<rparr>"

definition sample_spec :: "(u64, unit) DogeosChainSpec" where
  "sample_spec = the (build_spec sample_header (\<lambda>_. 0) sample_genesis scroll_chain_config_chikyu
     hardfork_chikyu None)"

lemma sample_spec_built:
  "build_spec sample_header (\<lambda>_. 0) sample_genesis scroll_chain_config_chikyu hardfork_chikyu None
     = Some sample_spec"
  by (simp add: sample_spec_def build_spec_def build_spec_with_hardforks_def
      make_genesis_header_def sample_genesis_def)

theorem build_spec_agrees_with_hardforks_witness:
  "spec_dogeos_fork_activation sample_fork_lookup sample_spec Tsuki = Timestamp 1790030900 \<and>
   spec_ethereum_fork_activation sample_fork_lookup sample_spec Shanghai = Timestamp 0"
proof -
  have "distinct (map fst hardfork_chikyu)" by (simp add: hardfork_chikyu_def)
  from build_spec_agrees_with_hardforks [OF sample_spec_built sample_fork_lookup_laws this,
      of Tsuki "\<lambda>_ _. True" Shanghai]
  show ?thesis by (simp add: chikyu_activation [unfolded chain_hardforks_chikyu_def])
qed

lemma fork_filter_key_time:
  "fork_filter_key tsuki g c = Some (KeyTime t) \<longleftrightarrow>
     c = Timestamp t \<and> (\<exists>u. tsuki = Some u \<and> u < t) \<and> g < t"
  by (induction tsuki g c rule: fork_filter_key.induct) (auto split: option.splits)

lemma fork_filter_keys_time:
  "KeyTime t \<in> set (fork_filter_keys fa hf_lookup spec) \<longleftrightarrow>
     (\<exists>f u. (f, Timestamp t) \<in> set (spec_hardforks spec) \<and>
       as_timestamp fa (spec_dogeos_fork_activation hf_lookup spec Tsuki) = Some u \<and>
       u < t \<and> g_timestamp (spec_genesis spec) < t)"
  by (force simp: fork_filter_keys_def Let_def in_set_map_filter fork_filter_key_time)

text \<open>Peers keep their legacy fork identifier through Tsuki: a timestamp contributes a
  fork-filter key exactly when it is the activation of a DogeOS fork scheduled strictly after
  both the Tsuki activation and the genesis block; without a scheduled Tsuki no timestamp does.\<close>

theorem fork_filter_time_keys_after_tsuki:
  assumes "build_spec dflt state_root g config ds chain_override = Some spec"
    and "fork_api_laws fa" and "fork_lookup_laws hf_lookup" and "distinct (map fst ds)"
  shows "KeyTime t \<in> set (fork_filter_keys fa hf_lookup spec) \<longleftrightarrow>
    (\<exists>f tsuki. (f, Timestamp t) \<in> set ds \<and> map_of ds Tsuki = Some (Timestamp tsuki) \<and>
      tsuki < t \<and> g_timestamp g < t)"
proof -
  have hs: "spec_hardforks spec = feynman_hardforks ds" "spec_genesis spec = g"
    using build_spec_hardforks [OF assms(1)] by auto
  have tsuki: "as_timestamp fa (spec_dogeos_fork_activation hf_lookup spec Tsuki) = Some u \<longleftrightarrow>
      map_of ds Tsuki = Some (Timestamp u)" for u
    using fork_api_lawsD(5) [OF assms(2)] build_spec_activation(1) [OF assms(1,3,4), of "\<lambda>_ _. True"]
    by (auto simp: hardforks_new_lookup [OF assms(4)] split: option.splits)
  have mem: "(\<exists>f. (f, Timestamp t) \<in> set (feynman_hardforks ds)) \<longleftrightarrow>
      t = 0 \<or> (\<exists>f. (f, Timestamp t) \<in> set ds)"
    by (auto simp: feynman_hardforks_def image_iff split_def) (metis fst_conv snd_conv)+
  show ?thesis
    unfolding fork_filter_keys_time hs tsuki using mem
    by (metis word_zero_le leD)
qed

theorem fork_filter_time_keys_after_tsuki_witness:
  "KeyTime 1798761600 \<in> set (fork_filter_keys sample_fork_api sample_fork_lookup sample_spec) \<and>
   KeyTime 1790030900 \<notin> set (fork_filter_keys sample_fork_api sample_fork_lookup sample_spec)"
proof -
  have "distinct (map fst hardfork_chikyu)" by (simp add: hardfork_chikyu_def)
  from fork_filter_time_keys_after_tsuki [OF sample_spec_built sample_fork_api_laws
      sample_fork_lookup_laws this]
  show ?thesis by (auto simp: hardfork_chikyu_def sample_genesis_def CHIKYU_TSUKI_V2_TIMESTAMP_def)
qed

end
