(* ===== verification/Evm_Db.thy ===== *)
theory Evm_Db
  imports Chainspec
begin

text \<open>
  What the node uses of the EVM state database of \<open>revm\<close>: reading an account, reading a storage
  slot, committing a set of account changes. The database itself is not part of the repository:
  its operations are the record \<open>db_ops\<close>, its documented behaviour \<open>db_laws\<close>, and
  \<open>map_db\<close> is a concrete database that satisfies the laws.

  The view of a chain specification that the execution crates need
  (\<open>EthChainSpec + DogeosHardforks + ChainConfig\<close>) is the record \<open>spec_view\<close>.
\<close>

record AccountInfo =
  ai_balance :: u256
  ai_nonce :: u64
  ai_code_hash :: b256
  ai_code :: "bytes option"

record Account =
  acc_info :: AccountInfo
  acc_touched :: bool
  acc_created :: bool
  acc_selfdestructed :: bool
  acc_storage :: "u256 \<rightharpoonup> u256 \<times> u256"

type_synonym EvmState = "address \<rightharpoonup> Account"

record ('db, 'e) db_ops =
  db_basic :: "'db \<Rightarrow> address \<Rightarrow> 'e + AccountInfo option"
  db_storage :: "'db \<Rightarrow> address \<Rightarrow> u256 \<Rightarrow> 'e + u256"
  db_commit :: "'db \<Rightarrow> EvmState \<Rightarrow> 'db"

text \<open>
  Committing a touched account replaces its information and the listed slots and leaves every
  other account and slot alone. (A touched account that is empty is deleted by \<open>revm\<close>; the law
  for \<open>db_basic\<close> speaks of accounts with a nonzero nonce or stored code only. Nothing is said of an
  account that was destroyed, nor of the other slots of one that was created, whose storage starts
  anew.)
\<close>

definition db_laws :: "('db, 'e) db_ops \<Rightarrow> bool" where
  "db_laws ops \<longleftrightarrow>
     (\<forall>db st a acc. st a = Some acc \<and> acc_touched acc \<and> \<not> acc_selfdestructed acc \<and>
        (ai_nonce (acc_info acc) \<noteq> 0 \<or> ai_code (acc_info acc) \<noteq> None) \<longrightarrow>
        db_basic ops (db_commit ops db st) a = Inr (Some (acc_info acc))) \<and>
     (\<forall>db st a. st a = None \<longrightarrow> db_basic ops (db_commit ops db st) a = db_basic ops db a) \<and>
     (\<forall>db st a acc k original present. st a = Some acc \<and> acc_touched acc \<and> \<not> acc_selfdestructed acc \<and>
        acc_storage acc k = Some (original, present) \<longrightarrow>
        db_storage ops (db_commit ops db st) a k = Inr present) \<and>
     (\<forall>db st a k. st a = None \<or> (\<exists>acc. st a = Some acc \<and> acc_storage acc k = None \<and> \<not> acc_created acc \<and> \<not> acc_selfdestructed acc) \<longrightarrow>
        db_storage ops (db_commit ops db st) a k = db_storage ops db a k)"

lemma db_laws_basic_hit:
  "db_laws ops \<Longrightarrow> st a = Some acc \<Longrightarrow> acc_touched acc \<Longrightarrow> \<not> acc_selfdestructed acc \<Longrightarrow>
   ai_nonce (acc_info acc) \<noteq> 0 \<or> ai_code (acc_info acc) \<noteq> None \<Longrightarrow>
   db_basic ops (db_commit ops db st) a = Inr (Some (acc_info acc))"
  by (simp add: db_laws_def)

lemma db_laws_basic_other:
  "db_laws ops \<Longrightarrow> st a = None \<Longrightarrow> db_basic ops (db_commit ops db st) a = db_basic ops db a"
  by (simp add: db_laws_def)

lemma db_laws_storage_hit:
  "db_laws ops \<Longrightarrow> st a = Some acc \<Longrightarrow> acc_touched acc \<Longrightarrow> \<not> acc_selfdestructed acc \<Longrightarrow>
   acc_storage acc k = Some (original, present) \<Longrightarrow>
   db_storage ops (db_commit ops db st) a k = Inr present"
  unfolding db_laws_def by blast

lemma db_laws_storage_other:
  "db_laws ops \<Longrightarrow> st a = None \<or> (\<exists>acc. st a = Some acc \<and> acc_storage acc k = None \<and> \<not> acc_created acc \<and> \<not> acc_selfdestructed acc) \<Longrightarrow>
   db_storage ops (db_commit ops db st) a k = db_storage ops db a k"
  unfolding db_laws_def by blast

section \<open>A concrete database\<close>

record map_db =
  md_accounts :: "address \<rightharpoonup> AccountInfo"
  md_storage :: "address \<Rightarrow> u256 \<Rightarrow> u256"

definition map_db_ops :: "(map_db, 'e) db_ops" where
  "map_db_ops = \<lparr>
     db_basic = (\<lambda>db a. Inr (md_accounts db a)),
     db_storage = (\<lambda>db a k. Inr (md_storage db a k)),
     db_commit = (\<lambda>db st. \<lparr>
        md_accounts = (\<lambda>a. case st a of
           Some acc \<Rightarrow> if acc_touched acc then Some (acc_info acc) else md_accounts db a
         | None \<Rightarrow> md_accounts db a),
        md_storage = (\<lambda>a k. case st a of
           Some acc \<Rightarrow> (case acc_storage acc k of
               Some (original, present) \<Rightarrow>
                 if acc_touched acc then present else md_storage db a k
             | None \<Rightarrow> md_storage db a k)
         | None \<Rightarrow> md_storage db a k)\<rparr>)\<rparr>"

lemma map_db_ops_laws [simp]: "db_laws map_db_ops"
  by (auto simp: db_laws_def map_db_ops_def split: option.splits)

definition empty_map_db :: map_db where
  "empty_map_db = \<lparr>md_accounts = Map.empty, md_storage = (\<lambda>_ _. 0)\<rparr>"

section \<open>The execution view of a chain specification\<close>

record spec_view =
  sv_activation :: "DogeosHardfork \<Rightarrow> ForkCondition"
  sv_base_fee_params :: "u64 \<Rightarrow> BaseFeeParams"
  sv_chain_id :: u64
  sv_config :: ScrollChainConfig

definition sample_view :: spec_view where
  "sample_view = \<lparr>
     sv_activation = (\<lambda>_. Timestamp 0),
     sv_base_fee_params = (\<lambda>_. DOGEOS_BASE_FEE_PARAMS_TSUKI),
     sv_chain_id = 1122005,
     sv_config = scroll_chain_config_mainnet\<rparr>"

end
