(* ===== verification/Base_Fee.thy ===== *)
theory Base_Fee
  imports Evm_Db
begin

text \<open>
  The L2 base-fee rule: \<open>crates/dogeos-reth-evm/src/base_fee.rs\<close>, with the two limits of
  \<open>crates/dogeos-protocol-types/src/lib.rs\<close>.

  \<open>calc_next_block_base_fee\<close> of \<open>alloy_eips\<close> is the parameter \<open>calc\<close>. Its one documented
  behaviour used below is \<open>eip1559_stable\<close>: a parent that used exactly its gas target leaves
  the fee unchanged.
\<close>

definition MAX_L2_BASE_FEE :: u64 where
  "MAX_L2_BASE_FEE = 420000000000000"

definition PRE_TSUKI_V2_MAX_L2_BASE_FEE :: u64 where
  "PRE_TSUKI_V2_MAX_L2_BASE_FEE = 10000000000"

definition L2_BASE_FEE_OVERHEAD_SLOT :: u256 where
  "L2_BASE_FEE_OVERHEAD_SLOT = 101"

definition DEFAULT_BASE_FEE_OVERHEAD :: u256 where
  "DEFAULT_BASE_FEE_OVERHEAD = 15680000"

type_synonym base_fee_calc = "u64 \<Rightarrow> u64 \<Rightarrow> u64 \<Rightarrow> BaseFeeParams \<Rightarrow> u64"

definition eip1559_stable :: "base_fee_calc \<Rightarrow> bool" where
  "eip1559_stable calc \<longleftrightarrow>
     (\<forall>used limit fee params. elasticity_multiplier params \<noteq> 0 \<and>
        unat used = unat limit div unat (elasticity_multiplier params) \<longrightarrow>
        calc used limit fee params = fee)"

record ScrollBaseFeeParent =
  bfp_base_fee_per_gas :: u64
  bfp_gas_used :: u64
  bfp_gas_limit :: u64

definition base_fee_parent_from_header :: "header \<Rightarrow> ScrollBaseFeeParent option" where
  "base_fee_parent_from_header h =
     (case h_base_fee_per_gas h of
        None \<Rightarrow> None
      | Some fee \<Rightarrow> Some \<lparr>
          bfp_base_fee_per_gas = fee,
          bfp_gas_used = h_gas_used h,
          bfp_gas_limit = h_gas_limit h\<rparr>)"

definition base_fee_overhead ::
  "('db, 'e) db_ops \<Rightarrow> spec_view \<Rightarrow> 'db \<Rightarrow> 'e + u64" where
  "base_fee_overhead ops spec db =
     (let system_config = l2_system_config_address (l1_config (sv_config spec)) in
      rbind (db_storage ops db system_config L2_BASE_FEE_OVERHEAD_SLOT) (\<lambda>configured_overhead.
        Inr (saturating_to_u64
          (if configured_overhead = 0 then DEFAULT_BASE_FEE_OVERHEAD else configured_overhead))))"

definition max_l2_base_fee_at_timestamp :: "fork_api \<Rightarrow> spec_view \<Rightarrow> u64 \<Rightarrow> u64" where
  "max_l2_base_fee_at_timestamp fa spec timestamp =
     (if is_tsuki_v2_active_at_timestamp fa (sv_activation spec) timestamp
      then MAX_L2_BASE_FEE else PRE_TSUKI_V2_MAX_L2_BASE_FEE)"

definition next_block_base_fee_with_overhead ::
  "fork_api \<Rightarrow> base_fee_calc \<Rightarrow> spec_view \<Rightarrow> ScrollBaseFeeParent \<Rightarrow> u64 \<Rightarrow> u64 \<Rightarrow> u64" where
  "next_block_base_fee_with_overhead fa calc spec parent overhead timestamp =
     (let parent_eip1559_base_fee = saturating_sub (bfp_base_fee_per_gas parent) overhead;
          next_eip1559_base_fee =
            calc (bfp_gas_used parent) (bfp_gas_limit parent) parent_eip1559_base_fee
              (sv_base_fee_params spec timestamp) in
      min (saturating_add next_eip1559_base_fee overhead)
        (max_l2_base_fee_at_timestamp fa spec timestamp))"

definition next_block_base_fee_for_parent ::
  "fork_api \<Rightarrow> base_fee_calc \<Rightarrow> ('db, 'e) db_ops \<Rightarrow> spec_view \<Rightarrow> 'db \<Rightarrow>
   ScrollBaseFeeParent \<Rightarrow> u64 \<Rightarrow> 'e + u64" where
  "next_block_base_fee_for_parent fa calc ops spec db parent timestamp =
     rbind (base_fee_overhead ops spec db) (\<lambda>overhead.
       Inr (next_block_base_fee_with_overhead fa calc spec parent overhead timestamp))"

text \<open>\<open>None\<close> is the panic of the \<open>expect\<close> on a parent header without a base fee.\<close>

definition next_block_base_fee ::
  "fork_api \<Rightarrow> base_fee_calc \<Rightarrow> ('db, 'e) db_ops \<Rightarrow> spec_view \<Rightarrow> 'db \<Rightarrow>
   header \<Rightarrow> u64 \<Rightarrow> ('e + u64) option" where
  "next_block_base_fee fa calc ops spec db parent timestamp =
     (case base_fee_parent_from_header parent of
        None \<Rightarrow> None
      | Some p \<Rightarrow> Some (next_block_base_fee_for_parent fa calc ops spec db p timestamp))"

definition predict_next_block_base_fee ::
  "fork_api \<Rightarrow> base_fee_calc \<Rightarrow> ('db, 'e) db_ops \<Rightarrow> spec_view \<Rightarrow> 'db \<Rightarrow>
   header \<Rightarrow> ('e + u64) option" where
  "predict_next_block_base_fee fa calc ops spec db parent =
     next_block_base_fee fa calc ops spec db parent (saturating_add (h_timestamp parent) 1)"

section \<open>Lemmas\<close>

lemmas base_fee_limits = MAX_L2_BASE_FEE_def PRE_TSUKI_V2_MAX_L2_BASE_FEE_def

lemma max_l2_base_fee_le: "max_l2_base_fee_at_timestamp fa spec ts \<le> MAX_L2_BASE_FEE"
  by (simp add: max_l2_base_fee_at_timestamp_def base_fee_limits)

lemma next_base_fee_le_cap:
  "next_block_base_fee_with_overhead fa calc spec parent overhead ts
     \<le> max_l2_base_fee_at_timestamp fa spec ts"
  by (simp add: next_block_base_fee_with_overhead_def Let_def)

lemma next_base_fee_ge_overhead:
  "min overhead (max_l2_base_fee_at_timestamp fa spec ts)
     \<le> next_block_base_fee_with_overhead fa calc spec parent overhead ts"
proof -
  have "overhead \<le> saturating_add x overhead" for x :: u64
    using unat_le_max [of overhead] by (simp add: word_le_nat_alt sat_simps)
  then show ?thesis
    by (auto simp: next_block_base_fee_with_overhead_def Let_def min_le_iff_disj)
qed

lemma base_fee_overhead_pos: "base_fee_overhead ops spec db = Inr overhead \<Longrightarrow> overhead \<noteq> 0"
  by (auto simp: base_fee_overhead_def Let_def result_elims DEFAULT_BASE_FEE_OVERHEAD_def
      split: if_splits)

lemma next_base_fee_at_target:
  assumes "eip1559_stable calc" and "elasticity_multiplier (sv_base_fee_params spec ts) \<noteq> 0"
    and "unat (bfp_gas_used parent) =
      unat (bfp_gas_limit parent) div unat (elasticity_multiplier (sv_base_fee_params spec ts))"
  shows "next_block_base_fee_with_overhead fa calc spec parent overhead ts =
    min (max (bfp_base_fee_per_gas parent) overhead) (max_l2_base_fee_at_timestamp fa spec ts)"
proof -
  have "calc (bfp_gas_used parent) (bfp_gas_limit parent) x (sv_base_fee_params spec ts) = x"
    for x
    using assms unfolding eip1559_stable_def by blast
  then show ?thesis
    by (simp add: next_block_base_fee_with_overhead_def Let_def saturating_sub_add_max)
qed

lemma computed_fee:
  assumes "next_block_base_fee_for_parent fa calc ops spec db parent ts = Inr fee"
  obtains overhead where "base_fee_overhead ops spec db = Inr overhead"
    "fee = next_block_base_fee_with_overhead fa calc spec parent overhead ts" "0 < fee"
proof -
  from assms obtain overhead where o: "base_fee_overhead ops spec db = Inr overhead"
    and fee: "fee = next_block_base_fee_with_overhead fa calc spec parent overhead ts"
    by (auto simp: next_block_base_fee_for_parent_def result_elims)
  have "0 < min overhead (max_l2_base_fee_at_timestamp fa spec ts)"
    using base_fee_overhead_pos [OF o]
    by (auto simp: max_l2_base_fee_at_timestamp_def base_fee_limits word_neq_0_conv)
  then have "0 < fee" unfolding fee using next_base_fee_ge_overhead by (rule less_le_trans)
  then show ?thesis using that o fee by blast
qed

section \<open>The prediction as an interface\<close>

text \<open>What the pool and the fee history rely on: a prediction exists for every header with a base fee,
  and a predicted fee is positive and within the cap.\<close>

locale base_fee_source =
  fixes predict :: "'db \<Rightarrow> header \<Rightarrow> ('e + u64) option" and cap :: u64
  assumes predict_panics: "predict db h = None \<longleftrightarrow> h_base_fee_per_gas h = None"
    and predict_within: "predict db h = Some (Inr fee) \<Longrightarrow> 0 < fee \<and> fee \<le> cap"
begin

lemma predict_cases:
  assumes "h_base_fee_per_gas h \<noteq> None"
  obtains (failed) e where "predict db h = Some (Inl e)"
  | (fee) fee where "predict db h = Some (Inr fee)" "0 < fee" "fee \<le> cap"
proof (cases "predict db h")
  case None
  then show ?thesis using assms by (simp add: predict_panics)
next
  case (Some r)
  then show ?thesis using failed fee predict_within by (cases r) auto
qed

end

interpretation prediction: base_fee_source "predict_next_block_base_fee fa calc ops spec" MAX_L2_BASE_FEE for fa calc ops spec
proof unfold_locales
  fix db h fee
  show "predict_next_block_base_fee fa calc ops spec db h = None \<longleftrightarrow> h_base_fee_per_gas h = None"
    by (simp add: predict_next_block_base_fee_def next_block_base_fee_def base_fee_parent_from_header_def split: option.splits)
  assume "predict_next_block_base_fee fa calc ops spec db h = Some (Inr fee)"
  then obtain parent where "next_block_base_fee_for_parent fa calc ops spec db parent (saturating_add (h_timestamp h) 1) = Inr fee"
    by (auto simp: predict_next_block_base_fee_def next_block_base_fee_def split: option.splits)
  then show "0 < fee \<and> fee \<le> MAX_L2_BASE_FEE"
    using next_base_fee_le_cap max_l2_base_fee_le by (elim computed_fee) (metis order_trans)
qed

section \<open>Properties\<close>

text \<open>C8. Every computed base fee lies between the overhead and the protocol cap: it never exceeds
  the clamp of the child's timestamp, hence never the limit of header validation, and is at
  least the overhead read from the system contract unless the clamp cuts it.\<close>

theorem next_block_base_fee_bounds:
  assumes "next_block_base_fee_for_parent fa calc ops spec db parent ts = Inr fee"
  shows "fee \<le> max_l2_base_fee_at_timestamp fa spec ts \<and> fee \<le> MAX_L2_BASE_FEE \<and> 0 < fee \<and>
    (\<exists>overhead. base_fee_overhead ops spec db = Inr overhead \<and>
       min overhead (max_l2_base_fee_at_timestamp fa spec ts) \<le> fee)"
proof -
  from assms obtain overhead where o: "base_fee_overhead ops spec db = Inr overhead"
    and fee: "fee = next_block_base_fee_with_overhead fa calc spec parent overhead ts" and pos: "0 < fee"
    by (rule computed_fee)
  show ?thesis
    using next_base_fee_ge_overhead [of overhead fa spec ts calc parent]
      next_base_fee_le_cap [of fa calc spec parent overhead ts] max_l2_base_fee_le [of fa spec ts] pos o
    unfolding fee by (auto intro: order_trans)
qed

definition sample_parent :: ScrollBaseFeeParent where
  "sample_parent = \<lparr>bfp_base_fee_per_gas = 1000000000, bfp_gas_used = 3000000,
     bfp_gas_limit = 30000000\<rparr>"

theorem next_block_base_fee_bounds_witness:
  "(1000000000 :: u64) \<le> MAX_L2_BASE_FEE \<and>
   next_block_base_fee_for_parent sample_fork_api (\<lambda>_ _ fee _. fee)
     (map_db_ops :: (map_db, unit) db_ops) sample_view empty_map_db sample_parent 7
     = Inr 1000000000"
proof -
  have r: "next_block_base_fee_for_parent sample_fork_api (\<lambda>_ _ fee _. fee)
     (map_db_ops :: (map_db, unit) db_ops) sample_view empty_map_db sample_parent 7
     = Inr 1000000000"
    by (simp add: next_block_base_fee_for_parent_def base_fee_overhead_def map_db_ops_def
        empty_map_db_def DEFAULT_BASE_FEE_OVERHEAD_def saturating_to_u64_def
        next_block_base_fee_with_overhead_def saturating_sub_def saturating_add_def
        sample_parent_def max_l2_base_fee_at_timestamp_def is_tsuki_v2_active_at_timestamp_def
        sample_view_def sample_fork_api_def MAX_L2_BASE_FEE_def)
  from next_block_base_fee_bounds [OF r] r show ?thesis by simp
qed

text \<open>The congestion part is stable at the gas target: when the parent used exactly its target,
  the next base fee is the parent's, raised to the overhead and cut at the cap; in particular a
  fee already between the overhead and the cap is kept.\<close>

theorem next_block_base_fee_at_target:
  assumes "eip1559_stable calc"
    and "base_fee_overhead ops spec db = Inr overhead"
    and "elasticity_multiplier (sv_base_fee_params spec ts) \<noteq> 0"
    and "unat (bfp_gas_used parent) =
      unat (bfp_gas_limit parent) div unat (elasticity_multiplier (sv_base_fee_params spec ts))"
  shows "next_block_base_fee_for_parent fa calc ops spec db parent ts =
    Inr (min (max (bfp_base_fee_per_gas parent) overhead)
      (max_l2_base_fee_at_timestamp fa spec ts))"
  using next_base_fee_at_target [OF assms(1,3,4)] assms(2)
  by (simp add: next_block_base_fee_for_parent_def)

theorem next_block_base_fee_at_target_witness:
  "next_block_base_fee_for_parent sample_fork_api (\<lambda>_ _ fee _. fee)
     (map_db_ops :: (map_db, unit) db_ops) sample_view empty_map_db sample_parent 7
   = Inr (min (max 1000000000 15680000)
       (max_l2_base_fee_at_timestamp sample_fork_api sample_view 7))"
proof -
  have s: "eip1559_stable (\<lambda>_ _ fee _. fee)" by (simp add: eip1559_stable_def)
  have o: "base_fee_overhead (map_db_ops :: (map_db, unit) db_ops) sample_view empty_map_db
      = Inr 15680000"
    by (simp add: base_fee_overhead_def map_db_ops_def empty_map_db_def
        DEFAULT_BASE_FEE_OVERHEAD_def saturating_to_u64_def)
  have e: "elasticity_multiplier (sv_base_fee_params sample_view 7) \<noteq> 0"
    by (simp add: sample_view_def DOGEOS_BASE_FEE_PARAMS_TSUKI_def)
  have g: "unat (bfp_gas_used sample_parent) = unat (bfp_gas_limit sample_parent) div
      unat (elasticity_multiplier (sv_base_fee_params sample_view 7))"
    by (simp add: sample_view_def DOGEOS_BASE_FEE_PARAMS_TSUKI_def sample_parent_def)
  from next_block_base_fee_at_target [OF s o e g, of sample_fork_api]
  show ?thesis by (simp add: sample_parent_def)
qed

end
