(* ===== verification/Transitions.thy ===== *)
theory Transitions
  imports Base_Fee
begin

text \<open>
  The protocol state transitions applied before a block's transactions:
  \<open>crates/dogeos-reth-evm/src/transitions/\<close> (Feynman, GalileoV2, Tsuki),
  \<open>gas_price_oracle.rs\<close> (addresses and slots) and \<open>system_caller.rs\<close> (state hooks and the
  EIP-2935 system call).

  Parameters: the database operations of \<open>revm\<close>; \<open>pd_*\<close>, the three compiled contracts the
  sources carry as byte literals and the code hashing of \<open>revm\<close>, kept abstract because no
  property depends on their content; \<open>is_empty_code_hash\<close> and the default account of \<open>revm\<close>.
\<close>

section \<open>Oracle layout\<close>

definition L1_GAS_PRICE_ORACLE_ADDRESS :: address where
  "L1_GAS_PRICE_ORACLE_ADDRESS = 0x5300000000000000000000000000000000000002"

definition GPO_PENALTY_THRESHOLD_SLOT :: u256 where "GPO_PENALTY_THRESHOLD_SLOT = 9"
definition GPO_PENALTY_FACTOR_SLOT :: u256 where "GPO_PENALTY_FACTOR_SLOT = 10"
definition GPO_IS_FEYNMAN_SLOT :: u256 where "GPO_IS_FEYNMAN_SLOT = 11"
definition GPO_IS_GALILEO_SLOT :: u256 where "GPO_IS_GALILEO_SLOT = 12"

definition INITIAL_PENALTY_THRESHOLD :: u256 where "INITIAL_PENALTY_THRESHOLD = 1000000000"
definition INITIAL_PENALTY_FACTOR :: u256 where "INITIAL_PENALTY_FACTOR = 1000000000"
definition IS_FEYNMAN :: u256 where "IS_FEYNMAN = 1"
definition IS_GALILEO :: u256 where "IS_GALILEO = 1"

definition FEYNMAN_L1_GAS_PRICE_ORACLE_STORAGE :: "(u256 \<times> u256) list" where
  "FEYNMAN_L1_GAS_PRICE_ORACLE_STORAGE = [
     (GPO_PENALTY_THRESHOLD_SLOT, INITIAL_PENALTY_THRESHOLD),
     (GPO_PENALTY_FACTOR_SLOT, INITIAL_PENALTY_FACTOR),
     (GPO_IS_FEYNMAN_SLOT, IS_FEYNMAN)]"

definition GALILEO_V2_L1_GAS_PRICE_ORACLE_STORAGE :: "(u256 \<times> u256) list" where
  "GALILEO_V2_L1_GAS_PRICE_ORACLE_STORAGE = [(GPO_IS_GALILEO_SLOT, IS_GALILEO)]"

text \<open>The total supply is \<open>U256::from_limbs([0, 0, 0, 0x0080_0000_0000_0000])\<close>.\<close>

definition TSUKI_NATIVE_DOGE_TOKEN_TOTAL_SUPPLY :: u256 where
  "TSUKI_NATIVE_DOGE_TOKEN_TOTAL_SUPPLY = 0x0080000000000000 * 2 ^ 192"

definition TSUKI_NATIVE_DOGE_TOKEN_STORAGE :: "(u256 \<times> u256) list" where
  "TSUKI_NATIVE_DOGE_TOKEN_STORAGE = [(0, TSUKI_NATIVE_DOGE_TOKEN_TOTAL_SUPPLY)]"

definition TSUKI_NATIVE_DOGE_TOKEN_BYTECODE_HASH :: b256 where
  "TSUKI_NATIVE_DOGE_TOKEN_BYTECODE_HASH =
     0x90a64eee730d7b76311162eaac2977d5a2f0608dc01641e365c4173aa8da1384"

record predeploys =
  pd_feynman_oracle :: bytes
  pd_galileo_oracle :: bytes
  pd_native_doge :: bytes
  pd_native_doge_address :: address
  pd_code_hash :: "bytes \<Rightarrow> b256"
  pd_is_empty_code_hash :: "AccountInfo \<Rightarrow> bool"
  pd_default_info :: AccountInfo

section \<open>Committing an account update\<close>

text \<open>
  The loop reads the original value of every slot before it is overwritten and stops at the
  first failing read; nothing is committed then.
\<close>

fun read_slots ::
  "('db, 'e) db_ops \<Rightarrow> 'db \<Rightarrow> address \<Rightarrow> (u256 \<times> u256) list \<Rightarrow>
   (u256 \<rightharpoonup> u256 \<times> u256) \<Rightarrow> 'e + (u256 \<rightharpoonup> u256 \<times> u256)" where
  "read_slots ops db addr [] acc = Inr acc"
| "read_slots ops db addr ((slot, present_value) # rest) acc =
     rbind (db_storage ops db addr slot) (\<lambda>original_value.
       read_slots ops db addr rest (acc(slot \<mapsto> (original_value, present_value))))"

definition commit_account_update ::
  "('db, 'e) db_ops \<Rightarrow> 'db \<Rightarrow> address \<Rightarrow> AccountInfo \<Rightarrow> AccountInfo \<Rightarrow>
   (u256 \<times> u256) list \<Rightarrow> 'e + EvmState \<times> 'db" where
  "commit_account_update ops db addr original_info new_info slots =
     rbind (read_slots ops db addr slots Map.empty) (\<lambda>changed.
       let account = \<lparr>acc_info = new_info, acc_touched = True, acc_created = False, acc_selfdestructed = False,
              acc_storage = changed\<rparr>;
           state = [addr \<mapsto> account] in
       Inr (state, db_commit ops db state))"

section \<open>The three transitions\<close>

definition basic_or_default ::
  "('db, 'e) db_ops \<Rightarrow> predeploys \<Rightarrow> 'db \<Rightarrow> address \<Rightarrow> 'e + AccountInfo" where
  "basic_or_default ops pd db addr =
     rbind (db_basic ops db addr) (\<lambda>info.
       Inr (case info of Some i \<Rightarrow> i | None \<Rightarrow> pd_default_info pd))"

definition apply_feynman_hard_fork ::
  "('db, 'e) db_ops \<Rightarrow> predeploys \<Rightarrow> 'db \<Rightarrow> 'e + EvmState \<times> 'db" where
  "apply_feynman_hard_fork ops pd db =
     rbind (db_storage ops db L1_GAS_PRICE_ORACLE_ADDRESS GPO_IS_FEYNMAN_SLOT) (\<lambda>flag.
       if flag = IS_FEYNMAN then Inr (Map.empty, db)
       else
         let bytecode = pd_feynman_oracle pd; code_hash = pd_code_hash pd bytecode in
         rbind (basic_or_default ops pd db L1_GAS_PRICE_ORACLE_ADDRESS) (\<lambda>old_oracle_info.
           commit_account_update ops db L1_GAS_PRICE_ORACLE_ADDRESS old_oracle_info
             (old_oracle_info\<lparr>ai_code_hash := code_hash, ai_code := Some bytecode\<rparr>)
             FEYNMAN_L1_GAS_PRICE_ORACLE_STORAGE))"

definition apply_galileo_v2_hard_fork ::
  "('db, 'e) db_ops \<Rightarrow> predeploys \<Rightarrow> 'db \<Rightarrow> 'e + EvmState \<times> 'db" where
  "apply_galileo_v2_hard_fork ops pd db =
     rbind (db_storage ops db L1_GAS_PRICE_ORACLE_ADDRESS GPO_IS_GALILEO_SLOT) (\<lambda>flag.
       if flag = IS_GALILEO then Inr (Map.empty, db)
       else
         let bytecode = pd_galileo_oracle pd; code_hash = pd_code_hash pd bytecode in
         rbind (basic_or_default ops pd db L1_GAS_PRICE_ORACLE_ADDRESS) (\<lambda>old_oracle_info.
           commit_account_update ops db L1_GAS_PRICE_ORACLE_ADDRESS old_oracle_info
             (old_oracle_info\<lparr>ai_code_hash := code_hash, ai_code := Some bytecode\<rparr>)
             GALILEO_V2_L1_GAS_PRICE_ORACLE_STORAGE))"

definition apply_tsuki_hard_fork ::
  "('db, 'e) db_ops \<Rightarrow> predeploys \<Rightarrow> 'db \<Rightarrow> 'e + EvmState \<times> 'db" where
  "apply_tsuki_hard_fork ops pd db =
     rbind (basic_or_default ops pd db (pd_native_doge_address pd)) (\<lambda>old_info.
       if ai_nonce old_info \<noteq> 0 \<or> \<not> pd_is_empty_code_hash pd old_info then Inr (Map.empty, db)
       else
         commit_account_update ops db (pd_native_doge_address pd) old_info
           (old_info\<lparr>ai_nonce := 1, ai_code_hash := TSUKI_NATIVE_DOGE_TOKEN_BYTECODE_HASH,
              ai_code := Some (pd_native_doge pd)\<rparr>)
           TSUKI_NATIVE_DOGE_TOKEN_STORAGE)"

section \<open>State hooks\<close>

datatype StateChangeSource = PreBlockBlockHashes | SourceTransaction nat

text \<open>An installed hook is the list of the notifications it received, oldest first.\<close>

record ScrollSystemCaller =
  sc_hook :: "(StateChangeSource \<times> EvmState) list option"

definition system_caller_new :: ScrollSystemCaller where
  "system_caller_new = \<lparr>sc_hook = None\<rparr>"

definition set_state_hook ::
  "(StateChangeSource \<times> EvmState) list option \<Rightarrow> ScrollSystemCaller \<Rightarrow> ScrollSystemCaller" where
  "set_state_hook hook sc = sc\<lparr>sc_hook := hook\<rparr>"

definition on_state ::
  "StateChangeSource \<Rightarrow> EvmState \<Rightarrow> ScrollSystemCaller \<Rightarrow> ScrollSystemCaller" where
  "on_state source state sc =
     (case sc_hook sc of
        Some log \<Rightarrow> sc\<lparr>sc_hook := Some (log @ [(source, state)])\<rparr>
      | None \<Rightarrow> sc)"

definition on_pre_block_state :: "EvmState \<Rightarrow> ScrollSystemCaller \<Rightarrow> ScrollSystemCaller" where
  "on_pre_block_state state sc =
     (if state = Map.empty then sc else on_state PreBlockBlockHashes state sc)"

section \<open>Effect of an account update\<close>

lemma read_slots_dom:
  "read_slots ops db addr slots acc = Inr changed \<Longrightarrow> distinct (map fst slots) \<Longrightarrow>
   (\<forall>k. changed k = (case map_of slots k of
      Some v \<Rightarrow> (case db_storage ops db addr k of Inr original \<Rightarrow> Some (original, v) | Inl _ \<Rightarrow> None)
    | None \<Rightarrow> acc k)) \<and> (\<forall>k \<in> fst ` set slots. is_ok (db_storage ops db addr k))"
proof (induction slots arbitrary: acc)
  case Nil
  then show ?case by simp
next
  case (Cons p slots)
  obtain k v where p: "p = (k, v)" by (cases p)
  with Cons.prems(1) obtain original where ok: "db_storage ops db addr k = Inr original"
    and rest: "read_slots ops db addr slots (acc(k \<mapsto> (original, v))) = Inr changed"
    by (auto simp: result_elims)
  from Cons.prems(2) p have "map_of slots k = None" by (simp add: map_of_eq_None_iff)
  with Cons.IH [OF rest] Cons.prems(2) p ok show ?case
    by (auto split: option.splits sum.splits)
qed

lemma commit_account_update_effect:
  assumes upd: "commit_account_update ops db addr old new slots = Inr (state, db')"
    and laws: "db_laws ops" and dist: "distinct (map fst slots)"
    and info: "ai_code new \<noteq> None"
  shows "db_basic ops db' addr = Inr (Some new)"
    and "map_of slots k = Some v \<Longrightarrow> db_storage ops db' addr k = Inr v"
    and "map_of slots k = None \<Longrightarrow> db_storage ops db' addr k = db_storage ops db addr k"
    and "a \<noteq> addr \<Longrightarrow> db_basic ops db' a = db_basic ops db a"
    and "a \<noteq> addr \<Longrightarrow> db_storage ops db' a j = db_storage ops db a j"
    and "db' = db_commit ops db state"
    and "dom state = {addr}"
proof -
  from upd obtain changed where ch: "read_slots ops db addr slots Map.empty = Inr changed"
    and st: "state = [addr \<mapsto> \<lparr>acc_info = new, acc_touched = True, acc_created = False, acc_selfdestructed = False,
              acc_storage = changed\<rparr>]"
    and db': "db' = db_commit ops db state"
    by (auto simp: commit_account_update_def result_elims Let_def)
  note dom = read_slots_dom [OF ch dist]
  show "db_basic ops db' addr = Inr (Some new)"
    unfolding db' using db_laws_basic_hit [OF laws] st info by simp
  show "map_of slots k = Some v \<Longrightarrow> db_storage ops db' addr k = Inr v"
  proof -
    assume kv: "map_of slots k = Some v"
    then have "k \<in> fst ` set slots" by (metis domI dom_map_of_conv_image_fst)
    with dom kv obtain original where "changed k = Some (original, v)"
      by (auto simp: is_ok_iff)
    then show ?thesis
      unfolding db' using db_laws_storage_hit [OF laws] st by simp
  qed
  show "map_of slots k = None \<Longrightarrow> db_storage ops db' addr k = db_storage ops db addr k"
    unfolding db' using db_laws_storage_other [OF laws] dom st by simp
  show "a \<noteq> addr \<Longrightarrow> db_basic ops db' a = db_basic ops db a"
    unfolding db' using db_laws_basic_other [OF laws] st by simp
  show "a \<noteq> addr \<Longrightarrow> db_storage ops db' a j = db_storage ops db a j"
    unfolding db' using db_laws_storage_other [OF laws] st by simp
  show "db' = db_commit ops db state" by (rule db')
  show "dom state = {addr}" using st by simp
qed

lemmas oracle_slots = GPO_PENALTY_THRESHOLD_SLOT_def GPO_PENALTY_FACTOR_SLOT_def
  GPO_IS_FEYNMAN_SLOT_def GPO_IS_GALILEO_SLOT_def FEYNMAN_L1_GAS_PRICE_ORACLE_STORAGE_def
  GALILEO_V2_L1_GAS_PRICE_ORACLE_STORAGE_def TSUKI_NATIVE_DOGE_TOKEN_STORAGE_def
  IS_FEYNMAN_def IS_GALILEO_def

section \<open>Every transition is applied once\<close>

text \<open>
  The contract of a pre-block transition, as the executor relies on it: it may be applied in
  every block after its activation, because a second application does nothing.
\<close>

locale idempotent_transition =
  fixes apply_fork :: "('db, 'e) db_ops \<Rightarrow> predeploys \<Rightarrow> 'db \<Rightarrow> 'e + EvmState \<times> 'db"
  assumes reapply_noop: "db_laws ops \<Longrightarrow> apply_fork ops pd db = Inr (state, db') \<Longrightarrow>
      apply_fork ops pd db' = Inr (Map.empty, db')"
    and unchanged_if_empty: "apply_fork ops pd db = Inr (Map.empty, db') \<Longrightarrow> db' = db"
begin

lemma second_notification_silent:
  assumes "db_laws ops" and "apply_fork ops pd db = Inr (state, db')"
    and "apply_fork ops pd db' = Inr (state', db'')"
  shows "on_pre_block_state state' sc = sc \<and> db'' = db'"
  using reapply_noop [OF assms(1,2)] assms(3) by (simp add: on_pre_block_state_def)

end

lemma commit_not_empty:
  "commit_account_update ops db addr old new slots \<noteq> Inr (Map.empty, db')"
  by (auto simp: commit_account_update_def result_elims Let_def)

interpretation feynman: idempotent_transition apply_feynman_hard_fork
proof
  fix ops :: "('db, 'e) db_ops" and pd db state db'
  assume laws: "db_laws ops" and app: "apply_feynman_hard_fork ops pd db = Inr (state, db')"
  then obtain flag where flag: "db_storage ops db L1_GAS_PRICE_ORACLE_ADDRESS GPO_IS_FEYNMAN_SLOT = Inr flag"
    by (auto simp: apply_feynman_hard_fork_def result_elims)
  have "db_storage ops db' L1_GAS_PRICE_ORACLE_ADDRESS GPO_IS_FEYNMAN_SLOT = Inr IS_FEYNMAN"
  proof (cases "flag = IS_FEYNMAN")
    case True
    with app flag show ?thesis by (simp add: apply_feynman_hard_fork_def)
  next
    case False
    with app flag obtain old where
      "commit_account_update ops db L1_GAS_PRICE_ORACLE_ADDRESS old
        (old\<lparr>ai_code_hash := pd_code_hash pd (pd_feynman_oracle pd),
          ai_code := Some (pd_feynman_oracle pd)\<rparr>)
        FEYNMAN_L1_GAS_PRICE_ORACLE_STORAGE = Inr (state, db')"
      by (auto simp: apply_feynman_hard_fork_def result_elims Let_def)
    from commit_account_update_effect(2) [OF this laws] show ?thesis
      by (simp add: oracle_slots)
  qed
  then show "apply_feynman_hard_fork ops pd db' = Inr (Map.empty, db')"
    by (simp add: apply_feynman_hard_fork_def)
next
  fix ops :: "('db, 'e) db_ops" and pd db db'
  assume "apply_feynman_hard_fork ops pd db = Inr (Map.empty, db')"
  then show "db' = db"
    by (auto simp: apply_feynman_hard_fork_def result_elims Let_def commit_not_empty
        split: if_splits)
qed

interpretation galileo_v2: idempotent_transition apply_galileo_v2_hard_fork
proof
  fix ops :: "('db, 'e) db_ops" and pd db state db'
  assume laws: "db_laws ops" and app: "apply_galileo_v2_hard_fork ops pd db = Inr (state, db')"
  then obtain flag where flag: "db_storage ops db L1_GAS_PRICE_ORACLE_ADDRESS GPO_IS_GALILEO_SLOT = Inr flag"
    by (auto simp: apply_galileo_v2_hard_fork_def result_elims)
  have "db_storage ops db' L1_GAS_PRICE_ORACLE_ADDRESS GPO_IS_GALILEO_SLOT = Inr IS_GALILEO"
  proof (cases "flag = IS_GALILEO")
    case True
    with app flag show ?thesis by (simp add: apply_galileo_v2_hard_fork_def)
  next
    case False
    with app flag obtain old where
      "commit_account_update ops db L1_GAS_PRICE_ORACLE_ADDRESS old
        (old\<lparr>ai_code_hash := pd_code_hash pd (pd_galileo_oracle pd),
          ai_code := Some (pd_galileo_oracle pd)\<rparr>)
        GALILEO_V2_L1_GAS_PRICE_ORACLE_STORAGE = Inr (state, db')"
      by (auto simp: apply_galileo_v2_hard_fork_def result_elims Let_def)
    from commit_account_update_effect(2) [OF this laws] show ?thesis
      by (simp add: oracle_slots)
  qed
  then show "apply_galileo_v2_hard_fork ops pd db' = Inr (Map.empty, db')"
    by (simp add: apply_galileo_v2_hard_fork_def)
next
  fix ops :: "('db, 'e) db_ops" and pd db db'
  assume "apply_galileo_v2_hard_fork ops pd db = Inr (Map.empty, db')"
  then show "db' = db"
    by (auto simp: apply_galileo_v2_hard_fork_def result_elims Let_def commit_not_empty
        split: if_splits)
qed

lemma tsuki_commits:
  assumes app: "apply_tsuki_hard_fork ops pd db = Inr (state, db')"
    and old: "basic_or_default ops pd db (pd_native_doge_address pd) = Inr old"
    and vacant: "ai_nonce old = 0" "pd_is_empty_code_hash pd old"
  shows "commit_account_update ops db (pd_native_doge_address pd) old
      (old\<lparr>ai_nonce := 1, ai_code_hash := TSUKI_NATIVE_DOGE_TOKEN_BYTECODE_HASH,
         ai_code := Some (pd_native_doge pd)\<rparr>)
      TSUKI_NATIVE_DOGE_TOKEN_STORAGE = Inr (state, db')"
  using assms by (auto simp: apply_tsuki_hard_fork_def)

interpretation tsuki: idempotent_transition apply_tsuki_hard_fork
proof
  fix ops :: "('db, 'e) db_ops" and pd db state db'
  assume laws: "db_laws ops" and app: "apply_tsuki_hard_fork ops pd db = Inr (state, db')"
  then obtain old where old: "basic_or_default ops pd db (pd_native_doge_address pd) = Inr old"
    by (auto simp: apply_tsuki_hard_fork_def result_elims)
  show "apply_tsuki_hard_fork ops pd db' = Inr (Map.empty, db')"
  proof (cases "ai_nonce old \<noteq> 0 \<or> \<not> pd_is_empty_code_hash pd old")
    case True
    with app old have "db' = db" by (simp add: apply_tsuki_hard_fork_def)
    with True old show ?thesis by (simp add: apply_tsuki_hard_fork_def)
  next
    case False
    with tsuki_commits [OF app old]
    have "commit_account_update ops db (pd_native_doge_address pd) old
        (old\<lparr>ai_nonce := 1, ai_code_hash := TSUKI_NATIVE_DOGE_TOKEN_BYTECODE_HASH,
           ai_code := Some (pd_native_doge pd)\<rparr>)
        TSUKI_NATIVE_DOGE_TOKEN_STORAGE = Inr (state, db')" by simp
    from commit_account_update_effect(1) [OF this laws] show ?thesis
      by (simp add: apply_tsuki_hard_fork_def basic_or_default_def oracle_slots)
  qed
next
  fix ops :: "('db, 'e) db_ops" and pd db db'
  assume "apply_tsuki_hard_fork ops pd db = Inr (Map.empty, db')"
  then show "db' = db"
    by (auto simp: apply_tsuki_hard_fork_def result_elims commit_not_empty split: if_splits)
qed

section \<open>Properties\<close>

text \<open>C10. Applying a fork transition in every block after its activation is safe: for each of the
  three transitions, applying it to the state it produced succeeds, changes nothing and reports
  no state to the hook.\<close>

theorem transitions_are_idempotent:
  assumes "db_laws ops"
    and "fork \<in> {apply_feynman_hard_fork, apply_galileo_v2_hard_fork, apply_tsuki_hard_fork}"
    and "fork ops pd db = Inr (state, db')"
  shows "fork ops pd db' = Inr (Map.empty, db') \<and> on_pre_block_state Map.empty sc = sc"
  using assms feynman.reapply_noop [OF assms(1)] galileo_v2.reapply_noop [OF assms(1)]
    tsuki.reapply_noop [OF assms(1)]
  by (auto simp: on_pre_block_state_def)

definition sample_predeploys :: predeploys where
  "sample_predeploys = \<lparr>pd_feynman_oracle = [0x60], pd_galileo_oracle = [0x61],
     pd_native_doge = [0x62], pd_native_doge_address = 0x530000000000000000000000000000000000d09e,
     pd_code_hash = (\<lambda>code. of_nat (length code)),
     pd_is_empty_code_hash = (\<lambda>info. ai_code_hash info = 0),
     pd_default_info = \<lparr>ai_balance = 0, ai_nonce = 0, ai_code_hash = 0, ai_code = None\<rparr>\<rparr>"

lemma sample_tsuki_applies:
  "\<exists>state db'. apply_tsuki_hard_fork (map_db_ops :: (map_db, unit) db_ops) sample_predeploys
     empty_map_db = Inr (state, db')"
  by (simp add: apply_tsuki_hard_fork_def basic_or_default_def sample_predeploys_def
      map_db_ops_def empty_map_db_def commit_account_update_def oracle_slots Let_def)

theorem transitions_are_idempotent_witness:
  "\<exists>state db'. apply_tsuki_hard_fork (map_db_ops :: (map_db, unit) db_ops) sample_predeploys
       empty_map_db = Inr (state, db') \<and>
     apply_tsuki_hard_fork (map_db_ops :: (map_db, unit) db_ops) sample_predeploys db'
       = Inr (Map.empty, db')"
proof -
  from sample_tsuki_applies obtain state db' where
    app: "apply_tsuki_hard_fork (map_db_ops :: (map_db, unit) db_ops) sample_predeploys
       empty_map_db = Inr (state, db')" by blast
  have "apply_tsuki_hard_fork (map_db_ops :: (map_db, unit) db_ops) sample_predeploys db'
       = Inr (Map.empty, db')"
    using transitions_are_idempotent [where fork = apply_tsuki_hard_fork, OF map_db_ops_laws _ app]
    by simp
  with app show ?thesis by blast
qed

text \<open>The Feynman upgrade of the gas-price oracle is exact: where the oracle is not yet marked,
  it gets the new code, the initial penalty threshold and factor and the marker, keeps its
  balance, its nonce and every other slot, and no other account or slot changes.\<close>

theorem feynman_upgrade_effect:
  assumes laws: "db_laws ops"
    and flag: "db_storage ops db L1_GAS_PRICE_ORACLE_ADDRESS GPO_IS_FEYNMAN_SLOT = Inr flag"
      "flag \<noteq> IS_FEYNMAN"
    and old: "db_basic ops db L1_GAS_PRICE_ORACLE_ADDRESS = Inr (Some old)"
    and app: "apply_feynman_hard_fork ops pd db = Inr (state, db')"
  shows "db_basic ops db' L1_GAS_PRICE_ORACLE_ADDRESS = Inr (Some (old\<lparr>
        ai_code_hash := pd_code_hash pd (pd_feynman_oracle pd),
        ai_code := Some (pd_feynman_oracle pd)\<rparr>)) \<and>
    db_storage ops db' L1_GAS_PRICE_ORACLE_ADDRESS 9 = Inr 1000000000 \<and>
    db_storage ops db' L1_GAS_PRICE_ORACLE_ADDRESS 10 = Inr 1000000000 \<and>
    db_storage ops db' L1_GAS_PRICE_ORACLE_ADDRESS 11 = Inr 1 \<and>
    (\<forall>k. k \<notin> {9, 10, 11} \<longrightarrow> db_storage ops db' L1_GAS_PRICE_ORACLE_ADDRESS k
       = db_storage ops db L1_GAS_PRICE_ORACLE_ADDRESS k) \<and>
    (\<forall>a k. a \<noteq> L1_GAS_PRICE_ORACLE_ADDRESS \<longrightarrow>
       db_basic ops db' a = db_basic ops db a \<and> db_storage ops db' a k = db_storage ops db a k)"
proof -
  let ?new = "old\<lparr>ai_code_hash := pd_code_hash pd (pd_feynman_oracle pd),
    ai_code := Some (pd_feynman_oracle pd)\<rparr>"
  have upd: "commit_account_update ops db L1_GAS_PRICE_ORACLE_ADDRESS old ?new
      FEYNMAN_L1_GAS_PRICE_ORACLE_STORAGE = Inr (state, db')"
    using app flag old
    by (simp add: apply_feynman_hard_fork_def basic_or_default_def Let_def)
  have dist: "distinct (map fst FEYNMAN_L1_GAS_PRICE_ORACLE_STORAGE)" and code: "ai_code ?new \<noteq> None"
    by (simp_all add: oracle_slots)
  note eff = commit_account_update_effect [OF upd laws dist code]
  have slots: "map_of FEYNMAN_L1_GAS_PRICE_ORACLE_STORAGE =
      [9 \<mapsto> 1000000000, 10 \<mapsto> 1000000000, 11 \<mapsto> 1]"
    by (auto simp: oracle_slots INITIAL_PENALTY_THRESHOLD_def INITIAL_PENALTY_FACTOR_def)
  show ?thesis using eff(1-5) by (simp add: slots)
qed

lemma sample_feynman_applies:
  "\<exists>state db'. apply_feynman_hard_fork (map_db_ops :: (map_db, unit) db_ops) sample_predeploys
     (empty_map_db\<lparr>md_accounts := [L1_GAS_PRICE_ORACLE_ADDRESS \<mapsto>
        \<lparr>ai_balance = 5, ai_nonce = 1, ai_code_hash = 3, ai_code = Some [1]\<rparr>]\<rparr>)
     = Inr (state, db')"
  by (simp add: apply_feynman_hard_fork_def basic_or_default_def sample_predeploys_def
      map_db_ops_def empty_map_db_def commit_account_update_def oracle_slots Let_def)

theorem feynman_upgrade_effect_witness:
  "\<exists>state db'. apply_feynman_hard_fork (map_db_ops :: (map_db, unit) db_ops) sample_predeploys
       (empty_map_db\<lparr>md_accounts := [L1_GAS_PRICE_ORACLE_ADDRESS \<mapsto>
          \<lparr>ai_balance = 5, ai_nonce = 1, ai_code_hash = 3, ai_code = Some [1]\<rparr>]\<rparr>)
       = Inr (state, db') \<and>
     db_storage (map_db_ops :: (map_db, unit) db_ops) db' L1_GAS_PRICE_ORACLE_ADDRESS 11 = Inr 1"
proof -
  let ?db = "empty_map_db\<lparr>md_accounts := [L1_GAS_PRICE_ORACLE_ADDRESS \<mapsto>
      \<lparr>ai_balance = 5, ai_nonce = 1, ai_code_hash = 3, ai_code = Some [1]\<rparr>]\<rparr>"
  from sample_feynman_applies obtain state db' where
    app: "apply_feynman_hard_fork (map_db_ops :: (map_db, unit) db_ops) sample_predeploys ?db
      = Inr (state, db')" by blast
  have flag: "db_storage (map_db_ops :: (map_db, unit) db_ops) ?db L1_GAS_PRICE_ORACLE_ADDRESS
      GPO_IS_FEYNMAN_SLOT = Inr 0" and ne: "0 \<noteq> IS_FEYNMAN"
    and old: "db_basic (map_db_ops :: (map_db, unit) db_ops) ?db L1_GAS_PRICE_ORACLE_ADDRESS
      = Inr (Some \<lparr>ai_balance = 5, ai_nonce = 1, ai_code_hash = 3, ai_code = Some [1]\<rparr>)"
    by (simp_all add: map_db_ops_def empty_map_db_def IS_FEYNMAN_def)
  from feynman_upgrade_effect [OF map_db_ops_laws flag ne old app] app show ?thesis by blast
qed

text \<open>The Tsuki transition installs the NativeDogeToken predeploy only on a vacant account: an
  account with a nonce or code is left untouched with the whole state; a vacant one keeps its
  balance and gets nonce one, the token code and the total supply in slot zero, and nothing else
  changes.\<close>

theorem tsuki_install_effect:
  assumes laws: "db_laws ops"
    and old: "basic_or_default ops pd db (pd_native_doge_address pd) = Inr old"
    and app: "apply_tsuki_hard_fork ops pd db = Inr (state, db')"
  shows "if ai_nonce old \<noteq> 0 \<or> \<not> pd_is_empty_code_hash pd old
    then state = Map.empty \<and> db' = db
    else db_basic ops db' (pd_native_doge_address pd) = Inr (Some (old\<lparr>ai_nonce := 1,
          ai_code_hash := TSUKI_NATIVE_DOGE_TOKEN_BYTECODE_HASH,
          ai_code := Some (pd_native_doge pd)\<rparr>)) \<and>
      db_storage ops db' (pd_native_doge_address pd) 0
        = Inr TSUKI_NATIVE_DOGE_TOKEN_TOTAL_SUPPLY \<and>
      (\<forall>k. k \<noteq> 0 \<longrightarrow> db_storage ops db' (pd_native_doge_address pd) k
         = db_storage ops db (pd_native_doge_address pd) k) \<and>
      (\<forall>a k. a \<noteq> pd_native_doge_address pd \<longrightarrow>
         db_basic ops db' a = db_basic ops db a \<and> db_storage ops db' a k = db_storage ops db a k)"
proof (cases "ai_nonce old \<noteq> 0 \<or> \<not> pd_is_empty_code_hash pd old")
  case True
  with app old show ?thesis by (auto simp: apply_tsuki_hard_fork_def)
next
  case False
  let ?new = "old\<lparr>ai_nonce := 1, ai_code_hash := TSUKI_NATIVE_DOGE_TOKEN_BYTECODE_HASH,
    ai_code := Some (pd_native_doge pd)\<rparr>"
  from False tsuki_commits [OF app old]
  have upd: "commit_account_update ops db (pd_native_doge_address pd) old ?new
      TSUKI_NATIVE_DOGE_TOKEN_STORAGE = Inr (state, db')" by simp
  have dist: "distinct (map fst TSUKI_NATIVE_DOGE_TOKEN_STORAGE)" and code: "ai_code ?new \<noteq> None"
    by (simp_all add: oracle_slots)
  note eff = commit_account_update_effect [OF upd laws dist code]
  show ?thesis using False eff(1-5) by (simp add: oracle_slots)
qed

theorem tsuki_install_effect_witness:
  "\<exists>state db'. apply_tsuki_hard_fork (map_db_ops :: (map_db, unit) db_ops) sample_predeploys
       empty_map_db = Inr (state, db') \<and>
     db_storage (map_db_ops :: (map_db, unit) db_ops) db'
       (pd_native_doge_address sample_predeploys) 0 = Inr TSUKI_NATIVE_DOGE_TOKEN_TOTAL_SUPPLY"
proof -
  from sample_tsuki_applies obtain state db' where
    app: "apply_tsuki_hard_fork (map_db_ops :: (map_db, unit) db_ops) sample_predeploys
       empty_map_db = Inr (state, db')" by blast
  have old: "basic_or_default (map_db_ops :: (map_db, unit) db_ops) sample_predeploys empty_map_db
      (pd_native_doge_address sample_predeploys)
      = Inr \<lparr>ai_balance = 0, ai_nonce = 0, ai_code_hash = 0, ai_code = None\<rparr>"
    by (simp add: basic_or_default_def sample_predeploys_def map_db_ops_def empty_map_db_def)
  have vacant: "pd_is_empty_code_hash sample_predeploys
      \<lparr>ai_balance = 0, ai_nonce = 0, ai_code_hash = 0, ai_code = None\<rparr>"
    by (simp add: sample_predeploys_def)
  from tsuki_install_effect [OF map_db_ops_laws old app] vacant app show ?thesis by auto
qed

end
