(* ===== verification/Transactions.thy ===== *)
theory Transactions
  imports Prelude
begin

text \<open>
  Transactions: \<open>crates/dogeos-protocol-types/src/transaction/\<close>, the type identifiers
  (\<open>tx_type.rs\<close>), the L1 message (\<open>l1_message.rs\<close>), the signed envelope (\<open>envelope.rs\<close>), the
  unsigned transaction (\<open>typed.rs\<close>) and the pool form without L1 messages (\<open>pooled.rs\<close>).

  The four Ethereum transaction structs and their \<open>Transaction\<close> methods belong to
  \<open>alloy_consensus\<close>: the structs are records with their published fields, the methods are the
  parameter \<open>alloy_tx_api\<close>, one function per method of the trait.
\<close>

section \<open>Type identifiers\<close>

definition L1_MESSAGE_TX_TYPE_ID :: u8 where
  "L1_MESSAGE_TX_TYPE_ID = 126"

definition L1_MESSAGE_TRANSACTION_TYPE :: u8 where
  "L1_MESSAGE_TRANSACTION_TYPE = 126"

datatype ScrollTxType = TyLegacy | TyEip2930 | TyEip1559 | TyEip7702 | TyL1Message

definition tx_type_all :: "ScrollTxType list" where
  "tx_type_all = [TyLegacy, TyEip1559, TyEip2930, TyEip7702, TyL1Message]"

fun tx_type_to_u8 :: "ScrollTxType \<Rightarrow> u8" where
  "tx_type_to_u8 TyLegacy = 0"
| "tx_type_to_u8 TyEip2930 = 1"
| "tx_type_to_u8 TyEip1559 = 2"
| "tx_type_to_u8 TyEip7702 = 4"
| "tx_type_to_u8 TyL1Message = L1_MESSAGE_TX_TYPE_ID"

datatype eip2718_error = UnexpectedType u8 | RlpError string

definition tx_type_try_from_u8 :: "u8 \<Rightarrow> eip2718_error + ScrollTxType" where
  "tx_type_try_from_u8 value =
     (if value = tx_type_to_u8 TyLegacy then Inr TyLegacy
      else if value = tx_type_to_u8 TyEip2930 then Inr TyEip2930
      else if value = tx_type_to_u8 TyEip1559 then Inr TyEip1559
      else if value = tx_type_to_u8 TyEip7702 then Inr TyEip7702
      else if value = tx_type_to_u8 TyL1Message then Inr TyL1Message
      else Inl (UnexpectedType value))"

definition tx_type_try_from_u64 :: "u64 \<Rightarrow> string + ScrollTxType" where
  "tx_type_try_from_u64 value =
     (if unat value < 256
      then map_err (\<lambda>_. ''invalid tx type'') (tx_type_try_from_u8 (ucast value))
      else Inl ''invalid tx type'')"

definition tx_type_eq_u8 :: "ScrollTxType \<Rightarrow> u8 \<Rightarrow> bool" where
  "tx_type_eq_u8 t other \<longleftrightarrow> tx_type_to_u8 t = other"

text \<open>
  The database codec. The identifiers are constants of \<open>reth_codecs\<close> (parameter); reading from
  an empty buffer and an unknown identifier panic (\<open>None\<close>).
\<close>

record compact_ids =
  ci_legacy :: nat
  ci_eip2930 :: nat
  ci_eip1559 :: nat
  ci_extended :: nat

definition compact_ids_distinct :: "compact_ids \<Rightarrow> bool" where
  "compact_ids_distinct ids \<longleftrightarrow>
     distinct [ci_legacy ids, ci_eip2930 ids, ci_eip1559 ids, ci_extended ids]"

fun tx_type_to_compact :: "compact_ids \<Rightarrow> ScrollTxType \<Rightarrow> bytes \<Rightarrow> nat \<times> bytes" where
  "tx_type_to_compact ids TyLegacy buf = (ci_legacy ids, buf)"
| "tx_type_to_compact ids TyEip2930 buf = (ci_eip2930 ids, buf)"
| "tx_type_to_compact ids TyEip1559 buf = (ci_eip1559 ids, buf)"
| "tx_type_to_compact ids TyEip7702 buf = (ci_extended ids, buf @ [4])"
| "tx_type_to_compact ids TyL1Message buf = (ci_extended ids, buf @ [L1_MESSAGE_TX_TYPE_ID])"

definition tx_type_from_compact ::
  "compact_ids \<Rightarrow> bytes \<Rightarrow> nat \<Rightarrow> (ScrollTxType \<times> bytes) option" where
  "tx_type_from_compact ids buf identifier =
     (if identifier = ci_legacy ids then Some (TyLegacy, buf)
      else if identifier = ci_eip2930 ids then Some (TyEip2930, buf)
      else if identifier = ci_eip1559 ids then Some (TyEip1559, buf)
      else if identifier = ci_extended ids then
        (case buf of
           [] \<Rightarrow> None
         | b # rest \<Rightarrow>
             if b = 4 then Some (TyEip7702, rest)
             else if b = L1_MESSAGE_TX_TYPE_ID then Some (TyL1Message, rest)
             else None)
      else None)"

section \<open>Transaction structs\<close>

datatype TxKind = Create | Call address

type_synonym access_list = "(address \<times> b256 list) list"

record Signature =
  sig_r :: u256
  sig_s :: u256
  sig_y_parity :: bool

record SignedAuthorization =
  auth_chain_id :: u256
  auth_address :: address
  auth_nonce :: u64
  auth_signature :: Signature

record TxLegacy =
  lg_chain_id :: "u64 option"
  lg_nonce :: u64
  lg_gas_price :: u128
  lg_gas_limit :: u64
  lg_to :: TxKind
  lg_value :: u256
  lg_input :: bytes

record TxEip2930 =
  t2930_chain_id :: u64
  t2930_nonce :: u64
  t2930_gas_price :: u128
  t2930_gas_limit :: u64
  t2930_to :: TxKind
  t2930_value :: u256
  t2930_access_list :: access_list
  t2930_input :: bytes

record TxEip1559 =
  t1559_chain_id :: u64
  t1559_nonce :: u64
  t1559_gas_limit :: u64
  t1559_max_fee_per_gas :: u128
  t1559_max_priority_fee_per_gas :: u128
  t1559_to :: TxKind
  t1559_value :: u256
  t1559_access_list :: access_list
  t1559_input :: bytes

record TxEip7702 =
  t7702_chain_id :: u64
  t7702_nonce :: u64
  t7702_gas_limit :: u64
  t7702_max_fee_per_gas :: u128
  t7702_max_priority_fee_per_gas :: u128
  t7702_to :: address
  t7702_value :: u256
  t7702_access_list :: access_list
  t7702_authorization_list :: "SignedAuthorization list"
  t7702_input :: bytes

record TxL1Message =
  l1m_queue_index :: u64
  l1m_gas_limit :: u64
  l1m_to :: address
  l1m_value :: u256
  l1m_sender :: address
  l1m_input :: bytes

datatype alloy_tx = ALegacy TxLegacy | A2930 TxEip2930 | A1559 TxEip1559 | A7702 TxEip7702

record 'a Signed =
  signed_tx :: 'a
  signed_signature :: Signature
  signed_hash :: b256

record 'a Sealed =
  sealed_inner :: 'a
  sealed_hash :: b256

datatype ScrollTxEnvelope =
    Legacy "TxLegacy Signed"
  | Eip2930 "TxEip2930 Signed"
  | Eip1559 "TxEip1559 Signed"
  | Eip7702 "TxEip7702 Signed"
  | L1Message "TxL1Message Sealed"

datatype ScrollTypedTransaction =
    TLegacy TxLegacy
  | TEip2930 TxEip2930
  | TEip1559 TxEip1559
  | TEip7702 TxEip7702
  | TL1Message TxL1Message

datatype ScrollPooledTransaction =
    PLegacy "TxLegacy Signed"
  | PEip2930 "TxEip2930 Signed"
  | PEip1559 "TxEip1559 Signed"
  | PEip7702 "TxEip7702 Signed"

section \<open>The methods of the \<open>Transaction\<close> trait\<close>

record alloy_tx_api =
  al_ty :: "alloy_tx \<Rightarrow> u8"
  al_chain_id :: "alloy_tx \<Rightarrow> u64 option"
  al_nonce :: "alloy_tx \<Rightarrow> u64"
  al_gas_limit :: "alloy_tx \<Rightarrow> u64"
  al_gas_price :: "alloy_tx \<Rightarrow> u128 option"
  al_max_fee_per_gas :: "alloy_tx \<Rightarrow> u128"
  al_max_priority_fee_per_gas :: "alloy_tx \<Rightarrow> u128 option"
  al_max_fee_per_blob_gas :: "alloy_tx \<Rightarrow> u128 option"
  al_priority_fee_or_price :: "alloy_tx \<Rightarrow> u128"
  al_to :: "alloy_tx \<Rightarrow> address option"
  al_kind :: "alloy_tx \<Rightarrow> TxKind"
  al_value :: "alloy_tx \<Rightarrow> u256"
  al_input :: "alloy_tx \<Rightarrow> bytes"
  al_access_list :: "alloy_tx \<Rightarrow> access_list option"
  al_blob_versioned_hashes :: "alloy_tx \<Rightarrow> b256 list option"
  al_authorization_list :: "alloy_tx \<Rightarrow> SignedAuthorization list option"
  al_is_dynamic_fee :: "alloy_tx \<Rightarrow> bool"
  al_effective_gas_price :: "alloy_tx \<Rightarrow> u64 option \<Rightarrow> u128"
  al_is_create :: "alloy_tx \<Rightarrow> bool"

text \<open>The implementation for an L1 message, which pays no fee on the L2 and has no signature.\<close>

definition l1_ty :: "TxL1Message \<Rightarrow> u8" where
  "l1_ty tx = tx_type_to_u8 TyL1Message"

definition l1_chain_id :: "TxL1Message \<Rightarrow> u64 option" where
  "l1_chain_id tx = None"

definition l1_nonce :: "TxL1Message \<Rightarrow> u64" where
  "l1_nonce tx = 0"

definition l1_gas_limit :: "TxL1Message \<Rightarrow> u64" where
  "l1_gas_limit tx = l1m_gas_limit tx"

definition l1_gas_price :: "TxL1Message \<Rightarrow> u128 option" where
  "l1_gas_price tx = None"

definition l1_max_fee_per_gas :: "TxL1Message \<Rightarrow> u128" where
  "l1_max_fee_per_gas tx = 0"

definition l1_max_priority_fee_per_gas :: "TxL1Message \<Rightarrow> u128 option" where
  "l1_max_priority_fee_per_gas tx = None"

definition l1_max_fee_per_blob_gas :: "TxL1Message \<Rightarrow> u128 option" where
  "l1_max_fee_per_blob_gas tx = None"

definition l1_priority_fee_or_price :: "TxL1Message \<Rightarrow> u128" where
  "l1_priority_fee_or_price tx = 0"

text \<open>\<open>to\<close> is the provided method of the trait, read off \<open>kind\<close>.\<close>

definition l1_to :: "TxL1Message \<Rightarrow> address option" where
  "l1_to tx = (case Call (l1m_to tx) of Call a \<Rightarrow> Some a | Create \<Rightarrow> None)"

definition l1_kind :: "TxL1Message \<Rightarrow> TxKind" where
  "l1_kind tx = Call (l1m_to tx)"

definition l1_value :: "TxL1Message \<Rightarrow> u256" where
  "l1_value tx = l1m_value tx"

definition l1_input :: "TxL1Message \<Rightarrow> bytes" where
  "l1_input tx = l1m_input tx"

definition l1_access_list :: "TxL1Message \<Rightarrow> access_list option" where
  "l1_access_list tx = None"

definition l1_blob_versioned_hashes :: "TxL1Message \<Rightarrow> b256 list option" where
  "l1_blob_versioned_hashes tx = None"

definition l1_authorization_list :: "TxL1Message \<Rightarrow> SignedAuthorization list option" where
  "l1_authorization_list tx = None"

definition l1_is_dynamic_fee :: "TxL1Message \<Rightarrow> bool" where
  "l1_is_dynamic_fee tx = False"

definition l1_effective_gas_price :: "TxL1Message \<Rightarrow> u64 option \<Rightarrow> u128" where
  "l1_effective_gas_price tx = (\<lambda>_. 0)"

definition l1_is_create :: "TxL1Message \<Rightarrow> bool" where
  "l1_is_create tx = False"

definition l1_signature :: Signature where
  "l1_signature = \<lparr>sig_r = 0, sig_s = 0, sig_y_parity = False\<rparr>"

text \<open>The in-memory size: two 64-bit words, two addresses, one 256-bit word and the input.\<close>

definition l1_size :: "TxL1Message \<Rightarrow> nat" where
  "l1_size tx = 8 + 8 + 20 + 32 + length (l1m_input tx) + 20"

subsection \<open>Envelope\<close>

definition env_ty :: "alloy_tx_api \<Rightarrow> ScrollTxEnvelope \<Rightarrow> u8" where
  "env_ty api e =
     (case e of
        Legacy tx \<Rightarrow> al_ty api (ALegacy (signed_tx tx))
      | Eip2930 tx \<Rightarrow> al_ty api (A2930 (signed_tx tx))
      | Eip1559 tx \<Rightarrow> al_ty api (A1559 (signed_tx tx))
      | Eip7702 tx \<Rightarrow> al_ty api (A7702 (signed_tx tx))
      | L1Message tx \<Rightarrow> l1_ty (sealed_inner tx))"

definition env_chain_id :: "alloy_tx_api \<Rightarrow> ScrollTxEnvelope \<Rightarrow> u64 option" where
  "env_chain_id api e =
     (case e of
        Legacy tx \<Rightarrow> al_chain_id api (ALegacy (signed_tx tx))
      | Eip2930 tx \<Rightarrow> al_chain_id api (A2930 (signed_tx tx))
      | Eip1559 tx \<Rightarrow> al_chain_id api (A1559 (signed_tx tx))
      | Eip7702 tx \<Rightarrow> al_chain_id api (A7702 (signed_tx tx))
      | L1Message tx \<Rightarrow> l1_chain_id (sealed_inner tx))"

definition env_nonce :: "alloy_tx_api \<Rightarrow> ScrollTxEnvelope \<Rightarrow> u64" where
  "env_nonce api e =
     (case e of
        Legacy tx \<Rightarrow> al_nonce api (ALegacy (signed_tx tx))
      | Eip2930 tx \<Rightarrow> al_nonce api (A2930 (signed_tx tx))
      | Eip1559 tx \<Rightarrow> al_nonce api (A1559 (signed_tx tx))
      | Eip7702 tx \<Rightarrow> al_nonce api (A7702 (signed_tx tx))
      | L1Message tx \<Rightarrow> l1_nonce (sealed_inner tx))"

definition env_gas_limit :: "alloy_tx_api \<Rightarrow> ScrollTxEnvelope \<Rightarrow> u64" where
  "env_gas_limit api e =
     (case e of
        Legacy tx \<Rightarrow> al_gas_limit api (ALegacy (signed_tx tx))
      | Eip2930 tx \<Rightarrow> al_gas_limit api (A2930 (signed_tx tx))
      | Eip1559 tx \<Rightarrow> al_gas_limit api (A1559 (signed_tx tx))
      | Eip7702 tx \<Rightarrow> al_gas_limit api (A7702 (signed_tx tx))
      | L1Message tx \<Rightarrow> l1_gas_limit (sealed_inner tx))"

definition env_gas_price :: "alloy_tx_api \<Rightarrow> ScrollTxEnvelope \<Rightarrow> u128 option" where
  "env_gas_price api e =
     (case e of
        Legacy tx \<Rightarrow> al_gas_price api (ALegacy (signed_tx tx))
      | Eip2930 tx \<Rightarrow> al_gas_price api (A2930 (signed_tx tx))
      | Eip1559 tx \<Rightarrow> al_gas_price api (A1559 (signed_tx tx))
      | Eip7702 tx \<Rightarrow> al_gas_price api (A7702 (signed_tx tx))
      | L1Message tx \<Rightarrow> l1_gas_price (sealed_inner tx))"

definition env_max_fee_per_gas :: "alloy_tx_api \<Rightarrow> ScrollTxEnvelope \<Rightarrow> u128" where
  "env_max_fee_per_gas api e =
     (case e of
        Legacy tx \<Rightarrow> al_max_fee_per_gas api (ALegacy (signed_tx tx))
      | Eip2930 tx \<Rightarrow> al_max_fee_per_gas api (A2930 (signed_tx tx))
      | Eip1559 tx \<Rightarrow> al_max_fee_per_gas api (A1559 (signed_tx tx))
      | Eip7702 tx \<Rightarrow> al_max_fee_per_gas api (A7702 (signed_tx tx))
      | L1Message tx \<Rightarrow> l1_max_fee_per_gas (sealed_inner tx))"

definition env_max_priority_fee_per_gas :: "alloy_tx_api \<Rightarrow> ScrollTxEnvelope \<Rightarrow> u128 option" where
  "env_max_priority_fee_per_gas api e =
     (case e of
        Legacy tx \<Rightarrow> al_max_priority_fee_per_gas api (ALegacy (signed_tx tx))
      | Eip2930 tx \<Rightarrow> al_max_priority_fee_per_gas api (A2930 (signed_tx tx))
      | Eip1559 tx \<Rightarrow> al_max_priority_fee_per_gas api (A1559 (signed_tx tx))
      | Eip7702 tx \<Rightarrow> al_max_priority_fee_per_gas api (A7702 (signed_tx tx))
      | L1Message tx \<Rightarrow> l1_max_priority_fee_per_gas (sealed_inner tx))"

definition env_max_fee_per_blob_gas :: "alloy_tx_api \<Rightarrow> ScrollTxEnvelope \<Rightarrow> u128 option" where
  "env_max_fee_per_blob_gas api e =
     (case e of
        Legacy tx \<Rightarrow> al_max_fee_per_blob_gas api (ALegacy (signed_tx tx))
      | Eip2930 tx \<Rightarrow> al_max_fee_per_blob_gas api (A2930 (signed_tx tx))
      | Eip1559 tx \<Rightarrow> al_max_fee_per_blob_gas api (A1559 (signed_tx tx))
      | Eip7702 tx \<Rightarrow> al_max_fee_per_blob_gas api (A7702 (signed_tx tx))
      | L1Message tx \<Rightarrow> l1_max_fee_per_blob_gas (sealed_inner tx))"

definition env_priority_fee_or_price :: "alloy_tx_api \<Rightarrow> ScrollTxEnvelope \<Rightarrow> u128" where
  "env_priority_fee_or_price api e =
     (case e of
        Legacy tx \<Rightarrow> al_priority_fee_or_price api (ALegacy (signed_tx tx))
      | Eip2930 tx \<Rightarrow> al_priority_fee_or_price api (A2930 (signed_tx tx))
      | Eip1559 tx \<Rightarrow> al_priority_fee_or_price api (A1559 (signed_tx tx))
      | Eip7702 tx \<Rightarrow> al_priority_fee_or_price api (A7702 (signed_tx tx))
      | L1Message tx \<Rightarrow> l1_priority_fee_or_price (sealed_inner tx))"

definition env_to :: "alloy_tx_api \<Rightarrow> ScrollTxEnvelope \<Rightarrow> address option" where
  "env_to api e =
     (case e of
        Legacy tx \<Rightarrow> al_to api (ALegacy (signed_tx tx))
      | Eip2930 tx \<Rightarrow> al_to api (A2930 (signed_tx tx))
      | Eip1559 tx \<Rightarrow> al_to api (A1559 (signed_tx tx))
      | Eip7702 tx \<Rightarrow> al_to api (A7702 (signed_tx tx))
      | L1Message tx \<Rightarrow> l1_to (sealed_inner tx))"

definition env_kind :: "alloy_tx_api \<Rightarrow> ScrollTxEnvelope \<Rightarrow> TxKind" where
  "env_kind api e =
     (case e of
        Legacy tx \<Rightarrow> al_kind api (ALegacy (signed_tx tx))
      | Eip2930 tx \<Rightarrow> al_kind api (A2930 (signed_tx tx))
      | Eip1559 tx \<Rightarrow> al_kind api (A1559 (signed_tx tx))
      | Eip7702 tx \<Rightarrow> al_kind api (A7702 (signed_tx tx))
      | L1Message tx \<Rightarrow> l1_kind (sealed_inner tx))"

definition env_value :: "alloy_tx_api \<Rightarrow> ScrollTxEnvelope \<Rightarrow> u256" where
  "env_value api e =
     (case e of
        Legacy tx \<Rightarrow> al_value api (ALegacy (signed_tx tx))
      | Eip2930 tx \<Rightarrow> al_value api (A2930 (signed_tx tx))
      | Eip1559 tx \<Rightarrow> al_value api (A1559 (signed_tx tx))
      | Eip7702 tx \<Rightarrow> al_value api (A7702 (signed_tx tx))
      | L1Message tx \<Rightarrow> l1_value (sealed_inner tx))"

definition env_input :: "alloy_tx_api \<Rightarrow> ScrollTxEnvelope \<Rightarrow> bytes" where
  "env_input api e =
     (case e of
        Legacy tx \<Rightarrow> al_input api (ALegacy (signed_tx tx))
      | Eip2930 tx \<Rightarrow> al_input api (A2930 (signed_tx tx))
      | Eip1559 tx \<Rightarrow> al_input api (A1559 (signed_tx tx))
      | Eip7702 tx \<Rightarrow> al_input api (A7702 (signed_tx tx))
      | L1Message tx \<Rightarrow> l1_input (sealed_inner tx))"

definition env_access_list :: "alloy_tx_api \<Rightarrow> ScrollTxEnvelope \<Rightarrow> access_list option" where
  "env_access_list api e =
     (case e of
        Legacy tx \<Rightarrow> al_access_list api (ALegacy (signed_tx tx))
      | Eip2930 tx \<Rightarrow> al_access_list api (A2930 (signed_tx tx))
      | Eip1559 tx \<Rightarrow> al_access_list api (A1559 (signed_tx tx))
      | Eip7702 tx \<Rightarrow> al_access_list api (A7702 (signed_tx tx))
      | L1Message tx \<Rightarrow> l1_access_list (sealed_inner tx))"

definition env_blob_versioned_hashes :: "alloy_tx_api \<Rightarrow> ScrollTxEnvelope \<Rightarrow> b256 list option" where
  "env_blob_versioned_hashes api e =
     (case e of
        Legacy tx \<Rightarrow> al_blob_versioned_hashes api (ALegacy (signed_tx tx))
      | Eip2930 tx \<Rightarrow> al_blob_versioned_hashes api (A2930 (signed_tx tx))
      | Eip1559 tx \<Rightarrow> al_blob_versioned_hashes api (A1559 (signed_tx tx))
      | Eip7702 tx \<Rightarrow> al_blob_versioned_hashes api (A7702 (signed_tx tx))
      | L1Message tx \<Rightarrow> l1_blob_versioned_hashes (sealed_inner tx))"

definition env_authorization_list :: "alloy_tx_api \<Rightarrow> ScrollTxEnvelope \<Rightarrow> SignedAuthorization list option" where
  "env_authorization_list api e =
     (case e of
        Legacy tx \<Rightarrow> al_authorization_list api (ALegacy (signed_tx tx))
      | Eip2930 tx \<Rightarrow> al_authorization_list api (A2930 (signed_tx tx))
      | Eip1559 tx \<Rightarrow> al_authorization_list api (A1559 (signed_tx tx))
      | Eip7702 tx \<Rightarrow> al_authorization_list api (A7702 (signed_tx tx))
      | L1Message tx \<Rightarrow> l1_authorization_list (sealed_inner tx))"

definition env_is_dynamic_fee :: "alloy_tx_api \<Rightarrow> ScrollTxEnvelope \<Rightarrow> bool" where
  "env_is_dynamic_fee api e =
     (case e of
        Legacy tx \<Rightarrow> al_is_dynamic_fee api (ALegacy (signed_tx tx))
      | Eip2930 tx \<Rightarrow> al_is_dynamic_fee api (A2930 (signed_tx tx))
      | Eip1559 tx \<Rightarrow> al_is_dynamic_fee api (A1559 (signed_tx tx))
      | Eip7702 tx \<Rightarrow> al_is_dynamic_fee api (A7702 (signed_tx tx))
      | L1Message tx \<Rightarrow> l1_is_dynamic_fee (sealed_inner tx))"

definition env_effective_gas_price :: "alloy_tx_api \<Rightarrow> ScrollTxEnvelope \<Rightarrow> u64 option \<Rightarrow> u128" where
  "env_effective_gas_price api e =
     (case e of
        Legacy tx \<Rightarrow> al_effective_gas_price api (ALegacy (signed_tx tx))
      | Eip2930 tx \<Rightarrow> al_effective_gas_price api (A2930 (signed_tx tx))
      | Eip1559 tx \<Rightarrow> al_effective_gas_price api (A1559 (signed_tx tx))
      | Eip7702 tx \<Rightarrow> al_effective_gas_price api (A7702 (signed_tx tx))
      | L1Message tx \<Rightarrow> l1_effective_gas_price (sealed_inner tx))"

definition env_is_create :: "alloy_tx_api \<Rightarrow> ScrollTxEnvelope \<Rightarrow> bool" where
  "env_is_create api e =
     (case e of
        Legacy tx \<Rightarrow> al_is_create api (ALegacy (signed_tx tx))
      | Eip2930 tx \<Rightarrow> al_is_create api (A2930 (signed_tx tx))
      | Eip1559 tx \<Rightarrow> al_is_create api (A1559 (signed_tx tx))
      | Eip7702 tx \<Rightarrow> al_is_create api (A7702 (signed_tx tx))
      | L1Message tx \<Rightarrow> l1_is_create (sealed_inner tx))"

subsection \<open>Unsigned transaction\<close>

definition typed_ty :: "ScrollTypedTransaction \<Rightarrow> u8" where
  "typed_ty t =
     (case t of
        TLegacy _ \<Rightarrow> tx_type_to_u8 TyLegacy
      | TEip2930 _ \<Rightarrow> tx_type_to_u8 TyEip2930
      | TEip1559 _ \<Rightarrow> tx_type_to_u8 TyEip1559
      | TEip7702 _ \<Rightarrow> tx_type_to_u8 TyEip7702
      | TL1Message _ \<Rightarrow> tx_type_to_u8 TyL1Message)"

definition typed_chain_id :: "alloy_tx_api \<Rightarrow> ScrollTypedTransaction \<Rightarrow> u64 option" where
  "typed_chain_id api t =
     (case t of
        TLegacy tx \<Rightarrow> al_chain_id api (ALegacy tx)
      | TEip2930 tx \<Rightarrow> al_chain_id api (A2930 tx)
      | TEip1559 tx \<Rightarrow> al_chain_id api (A1559 tx)
      | TEip7702 tx \<Rightarrow> al_chain_id api (A7702 tx)
      | TL1Message tx \<Rightarrow> l1_chain_id tx)"

definition typed_nonce :: "alloy_tx_api \<Rightarrow> ScrollTypedTransaction \<Rightarrow> u64" where
  "typed_nonce api t =
     (case t of
        TLegacy tx \<Rightarrow> al_nonce api (ALegacy tx)
      | TEip2930 tx \<Rightarrow> al_nonce api (A2930 tx)
      | TEip1559 tx \<Rightarrow> al_nonce api (A1559 tx)
      | TEip7702 tx \<Rightarrow> al_nonce api (A7702 tx)
      | TL1Message tx \<Rightarrow> l1_nonce tx)"

definition typed_gas_limit :: "alloy_tx_api \<Rightarrow> ScrollTypedTransaction \<Rightarrow> u64" where
  "typed_gas_limit api t =
     (case t of
        TLegacy tx \<Rightarrow> al_gas_limit api (ALegacy tx)
      | TEip2930 tx \<Rightarrow> al_gas_limit api (A2930 tx)
      | TEip1559 tx \<Rightarrow> al_gas_limit api (A1559 tx)
      | TEip7702 tx \<Rightarrow> al_gas_limit api (A7702 tx)
      | TL1Message tx \<Rightarrow> l1_gas_limit tx)"

definition typed_gas_price :: "alloy_tx_api \<Rightarrow> ScrollTypedTransaction \<Rightarrow> u128 option" where
  "typed_gas_price api t =
     (case t of
        TLegacy tx \<Rightarrow> al_gas_price api (ALegacy tx)
      | TEip2930 tx \<Rightarrow> al_gas_price api (A2930 tx)
      | TEip1559 tx \<Rightarrow> al_gas_price api (A1559 tx)
      | TEip7702 tx \<Rightarrow> al_gas_price api (A7702 tx)
      | TL1Message tx \<Rightarrow> l1_gas_price tx)"

definition typed_max_fee_per_gas :: "alloy_tx_api \<Rightarrow> ScrollTypedTransaction \<Rightarrow> u128" where
  "typed_max_fee_per_gas api t =
     (case t of
        TLegacy tx \<Rightarrow> al_max_fee_per_gas api (ALegacy tx)
      | TEip2930 tx \<Rightarrow> al_max_fee_per_gas api (A2930 tx)
      | TEip1559 tx \<Rightarrow> al_max_fee_per_gas api (A1559 tx)
      | TEip7702 tx \<Rightarrow> al_max_fee_per_gas api (A7702 tx)
      | TL1Message tx \<Rightarrow> l1_max_fee_per_gas tx)"

definition typed_max_priority_fee_per_gas :: "alloy_tx_api \<Rightarrow> ScrollTypedTransaction \<Rightarrow> u128 option" where
  "typed_max_priority_fee_per_gas api t =
     (case t of
        TLegacy tx \<Rightarrow> al_max_priority_fee_per_gas api (ALegacy tx)
      | TEip2930 tx \<Rightarrow> al_max_priority_fee_per_gas api (A2930 tx)
      | TEip1559 tx \<Rightarrow> al_max_priority_fee_per_gas api (A1559 tx)
      | TEip7702 tx \<Rightarrow> al_max_priority_fee_per_gas api (A7702 tx)
      | TL1Message tx \<Rightarrow> l1_max_priority_fee_per_gas tx)"

definition typed_max_fee_per_blob_gas :: "alloy_tx_api \<Rightarrow> ScrollTypedTransaction \<Rightarrow> u128 option" where
  "typed_max_fee_per_blob_gas api t =
     (case t of
        TLegacy tx \<Rightarrow> al_max_fee_per_blob_gas api (ALegacy tx)
      | TEip2930 tx \<Rightarrow> al_max_fee_per_blob_gas api (A2930 tx)
      | TEip1559 tx \<Rightarrow> al_max_fee_per_blob_gas api (A1559 tx)
      | TEip7702 tx \<Rightarrow> al_max_fee_per_blob_gas api (A7702 tx)
      | TL1Message tx \<Rightarrow> l1_max_fee_per_blob_gas tx)"

definition typed_priority_fee_or_price :: "alloy_tx_api \<Rightarrow> ScrollTypedTransaction \<Rightarrow> u128" where
  "typed_priority_fee_or_price api t =
     (case t of
        TLegacy tx \<Rightarrow> al_priority_fee_or_price api (ALegacy tx)
      | TEip2930 tx \<Rightarrow> al_priority_fee_or_price api (A2930 tx)
      | TEip1559 tx \<Rightarrow> al_priority_fee_or_price api (A1559 tx)
      | TEip7702 tx \<Rightarrow> al_priority_fee_or_price api (A7702 tx)
      | TL1Message tx \<Rightarrow> l1_priority_fee_or_price tx)"

definition typed_to :: "alloy_tx_api \<Rightarrow> ScrollTypedTransaction \<Rightarrow> address option" where
  "typed_to api t =
     (case t of
        TLegacy tx \<Rightarrow> al_to api (ALegacy tx)
      | TEip2930 tx \<Rightarrow> al_to api (A2930 tx)
      | TEip1559 tx \<Rightarrow> al_to api (A1559 tx)
      | TEip7702 tx \<Rightarrow> al_to api (A7702 tx)
      | TL1Message tx \<Rightarrow> l1_to tx)"

definition typed_kind :: "alloy_tx_api \<Rightarrow> ScrollTypedTransaction \<Rightarrow> TxKind" where
  "typed_kind api t =
     (case t of
        TLegacy tx \<Rightarrow> al_kind api (ALegacy tx)
      | TEip2930 tx \<Rightarrow> al_kind api (A2930 tx)
      | TEip1559 tx \<Rightarrow> al_kind api (A1559 tx)
      | TEip7702 tx \<Rightarrow> al_kind api (A7702 tx)
      | TL1Message tx \<Rightarrow> l1_kind tx)"

definition typed_value :: "alloy_tx_api \<Rightarrow> ScrollTypedTransaction \<Rightarrow> u256" where
  "typed_value api t =
     (case t of
        TLegacy tx \<Rightarrow> al_value api (ALegacy tx)
      | TEip2930 tx \<Rightarrow> al_value api (A2930 tx)
      | TEip1559 tx \<Rightarrow> al_value api (A1559 tx)
      | TEip7702 tx \<Rightarrow> al_value api (A7702 tx)
      | TL1Message tx \<Rightarrow> l1_value tx)"

definition typed_input :: "alloy_tx_api \<Rightarrow> ScrollTypedTransaction \<Rightarrow> bytes" where
  "typed_input api t =
     (case t of
        TLegacy tx \<Rightarrow> al_input api (ALegacy tx)
      | TEip2930 tx \<Rightarrow> al_input api (A2930 tx)
      | TEip1559 tx \<Rightarrow> al_input api (A1559 tx)
      | TEip7702 tx \<Rightarrow> al_input api (A7702 tx)
      | TL1Message tx \<Rightarrow> l1_input tx)"

definition typed_access_list :: "alloy_tx_api \<Rightarrow> ScrollTypedTransaction \<Rightarrow> access_list option" where
  "typed_access_list api t =
     (case t of
        TLegacy tx \<Rightarrow> al_access_list api (ALegacy tx)
      | TEip2930 tx \<Rightarrow> al_access_list api (A2930 tx)
      | TEip1559 tx \<Rightarrow> al_access_list api (A1559 tx)
      | TEip7702 tx \<Rightarrow> al_access_list api (A7702 tx)
      | TL1Message tx \<Rightarrow> l1_access_list tx)"

definition typed_blob_versioned_hashes :: "alloy_tx_api \<Rightarrow> ScrollTypedTransaction \<Rightarrow> b256 list option" where
  "typed_blob_versioned_hashes api t =
     (case t of
        TLegacy tx \<Rightarrow> al_blob_versioned_hashes api (ALegacy tx)
      | TEip2930 tx \<Rightarrow> al_blob_versioned_hashes api (A2930 tx)
      | TEip1559 tx \<Rightarrow> al_blob_versioned_hashes api (A1559 tx)
      | TEip7702 tx \<Rightarrow> al_blob_versioned_hashes api (A7702 tx)
      | TL1Message tx \<Rightarrow> l1_blob_versioned_hashes tx)"

definition typed_authorization_list :: "alloy_tx_api \<Rightarrow> ScrollTypedTransaction \<Rightarrow> SignedAuthorization list option" where
  "typed_authorization_list api t =
     (case t of
        TLegacy tx \<Rightarrow> al_authorization_list api (ALegacy tx)
      | TEip2930 tx \<Rightarrow> al_authorization_list api (A2930 tx)
      | TEip1559 tx \<Rightarrow> al_authorization_list api (A1559 tx)
      | TEip7702 tx \<Rightarrow> al_authorization_list api (A7702 tx)
      | TL1Message tx \<Rightarrow> l1_authorization_list tx)"

definition typed_is_dynamic_fee :: "alloy_tx_api \<Rightarrow> ScrollTypedTransaction \<Rightarrow> bool" where
  "typed_is_dynamic_fee api t =
     (case t of
        TLegacy tx \<Rightarrow> al_is_dynamic_fee api (ALegacy tx)
      | TEip2930 tx \<Rightarrow> al_is_dynamic_fee api (A2930 tx)
      | TEip1559 tx \<Rightarrow> al_is_dynamic_fee api (A1559 tx)
      | TEip7702 tx \<Rightarrow> al_is_dynamic_fee api (A7702 tx)
      | TL1Message tx \<Rightarrow> l1_is_dynamic_fee tx)"

definition typed_effective_gas_price :: "alloy_tx_api \<Rightarrow> ScrollTypedTransaction \<Rightarrow> u64 option \<Rightarrow> u128" where
  "typed_effective_gas_price api t =
     (case t of
        TLegacy tx \<Rightarrow> al_effective_gas_price api (ALegacy tx)
      | TEip2930 tx \<Rightarrow> al_effective_gas_price api (A2930 tx)
      | TEip1559 tx \<Rightarrow> al_effective_gas_price api (A1559 tx)
      | TEip7702 tx \<Rightarrow> al_effective_gas_price api (A7702 tx)
      | TL1Message tx \<Rightarrow> l1_effective_gas_price tx)"

definition typed_is_create :: "alloy_tx_api \<Rightarrow> ScrollTypedTransaction \<Rightarrow> bool" where
  "typed_is_create api t =
     (case t of
        TLegacy tx \<Rightarrow> al_is_create api (ALegacy tx)
      | TEip2930 tx \<Rightarrow> al_is_create api (A2930 tx)
      | TEip1559 tx \<Rightarrow> al_is_create api (A1559 tx)
      | TEip7702 tx \<Rightarrow> al_is_create api (A7702 tx)
      | TL1Message tx \<Rightarrow> l1_is_create tx)"

subsection \<open>Pooled transaction\<close>

definition pooled_ty :: "alloy_tx_api \<Rightarrow> ScrollPooledTransaction \<Rightarrow> u8" where
  "pooled_ty api p =
     (case p of
        PLegacy tx \<Rightarrow> al_ty api (ALegacy (signed_tx tx))
      | PEip2930 tx \<Rightarrow> al_ty api (A2930 (signed_tx tx))
      | PEip1559 tx \<Rightarrow> al_ty api (A1559 (signed_tx tx))
      | PEip7702 tx \<Rightarrow> al_ty api (A7702 (signed_tx tx)))"

definition pooled_chain_id :: "alloy_tx_api \<Rightarrow> ScrollPooledTransaction \<Rightarrow> u64 option" where
  "pooled_chain_id api p =
     (case p of
        PLegacy tx \<Rightarrow> al_chain_id api (ALegacy (signed_tx tx))
      | PEip2930 tx \<Rightarrow> al_chain_id api (A2930 (signed_tx tx))
      | PEip1559 tx \<Rightarrow> al_chain_id api (A1559 (signed_tx tx))
      | PEip7702 tx \<Rightarrow> al_chain_id api (A7702 (signed_tx tx)))"

definition pooled_nonce :: "alloy_tx_api \<Rightarrow> ScrollPooledTransaction \<Rightarrow> u64" where
  "pooled_nonce api p =
     (case p of
        PLegacy tx \<Rightarrow> al_nonce api (ALegacy (signed_tx tx))
      | PEip2930 tx \<Rightarrow> al_nonce api (A2930 (signed_tx tx))
      | PEip1559 tx \<Rightarrow> al_nonce api (A1559 (signed_tx tx))
      | PEip7702 tx \<Rightarrow> al_nonce api (A7702 (signed_tx tx)))"

definition pooled_gas_limit :: "alloy_tx_api \<Rightarrow> ScrollPooledTransaction \<Rightarrow> u64" where
  "pooled_gas_limit api p =
     (case p of
        PLegacy tx \<Rightarrow> al_gas_limit api (ALegacy (signed_tx tx))
      | PEip2930 tx \<Rightarrow> al_gas_limit api (A2930 (signed_tx tx))
      | PEip1559 tx \<Rightarrow> al_gas_limit api (A1559 (signed_tx tx))
      | PEip7702 tx \<Rightarrow> al_gas_limit api (A7702 (signed_tx tx)))"

definition pooled_gas_price :: "alloy_tx_api \<Rightarrow> ScrollPooledTransaction \<Rightarrow> u128 option" where
  "pooled_gas_price api p =
     (case p of
        PLegacy tx \<Rightarrow> al_gas_price api (ALegacy (signed_tx tx))
      | PEip2930 tx \<Rightarrow> al_gas_price api (A2930 (signed_tx tx))
      | PEip1559 tx \<Rightarrow> al_gas_price api (A1559 (signed_tx tx))
      | PEip7702 tx \<Rightarrow> al_gas_price api (A7702 (signed_tx tx)))"

definition pooled_max_fee_per_gas :: "alloy_tx_api \<Rightarrow> ScrollPooledTransaction \<Rightarrow> u128" where
  "pooled_max_fee_per_gas api p =
     (case p of
        PLegacy tx \<Rightarrow> al_max_fee_per_gas api (ALegacy (signed_tx tx))
      | PEip2930 tx \<Rightarrow> al_max_fee_per_gas api (A2930 (signed_tx tx))
      | PEip1559 tx \<Rightarrow> al_max_fee_per_gas api (A1559 (signed_tx tx))
      | PEip7702 tx \<Rightarrow> al_max_fee_per_gas api (A7702 (signed_tx tx)))"

definition pooled_max_priority_fee_per_gas :: "alloy_tx_api \<Rightarrow> ScrollPooledTransaction \<Rightarrow> u128 option" where
  "pooled_max_priority_fee_per_gas api p =
     (case p of
        PLegacy tx \<Rightarrow> al_max_priority_fee_per_gas api (ALegacy (signed_tx tx))
      | PEip2930 tx \<Rightarrow> al_max_priority_fee_per_gas api (A2930 (signed_tx tx))
      | PEip1559 tx \<Rightarrow> al_max_priority_fee_per_gas api (A1559 (signed_tx tx))
      | PEip7702 tx \<Rightarrow> al_max_priority_fee_per_gas api (A7702 (signed_tx tx)))"

definition pooled_max_fee_per_blob_gas :: "alloy_tx_api \<Rightarrow> ScrollPooledTransaction \<Rightarrow> u128 option" where
  "pooled_max_fee_per_blob_gas api p =
     (case p of
        PLegacy tx \<Rightarrow> al_max_fee_per_blob_gas api (ALegacy (signed_tx tx))
      | PEip2930 tx \<Rightarrow> al_max_fee_per_blob_gas api (A2930 (signed_tx tx))
      | PEip1559 tx \<Rightarrow> al_max_fee_per_blob_gas api (A1559 (signed_tx tx))
      | PEip7702 tx \<Rightarrow> al_max_fee_per_blob_gas api (A7702 (signed_tx tx)))"

definition pooled_priority_fee_or_price :: "alloy_tx_api \<Rightarrow> ScrollPooledTransaction \<Rightarrow> u128" where
  "pooled_priority_fee_or_price api p =
     (case p of
        PLegacy tx \<Rightarrow> al_priority_fee_or_price api (ALegacy (signed_tx tx))
      | PEip2930 tx \<Rightarrow> al_priority_fee_or_price api (A2930 (signed_tx tx))
      | PEip1559 tx \<Rightarrow> al_priority_fee_or_price api (A1559 (signed_tx tx))
      | PEip7702 tx \<Rightarrow> al_priority_fee_or_price api (A7702 (signed_tx tx)))"

definition pooled_kind :: "alloy_tx_api \<Rightarrow> ScrollPooledTransaction \<Rightarrow> TxKind" where
  "pooled_kind api p =
     (case p of
        PLegacy tx \<Rightarrow> al_kind api (ALegacy (signed_tx tx))
      | PEip2930 tx \<Rightarrow> al_kind api (A2930 (signed_tx tx))
      | PEip1559 tx \<Rightarrow> al_kind api (A1559 (signed_tx tx))
      | PEip7702 tx \<Rightarrow> al_kind api (A7702 (signed_tx tx)))"

text \<open>\<open>to\<close> is not overridden: the provided method of the trait, read off \<open>kind\<close>.\<close>

definition pooled_to :: "alloy_tx_api \<Rightarrow> ScrollPooledTransaction \<Rightarrow> address option" where
  "pooled_to api p = (case pooled_kind api p of Call a \<Rightarrow> Some a | Create \<Rightarrow> None)"

definition pooled_value :: "alloy_tx_api \<Rightarrow> ScrollPooledTransaction \<Rightarrow> u256" where
  "pooled_value api p =
     (case p of
        PLegacy tx \<Rightarrow> al_value api (ALegacy (signed_tx tx))
      | PEip2930 tx \<Rightarrow> al_value api (A2930 (signed_tx tx))
      | PEip1559 tx \<Rightarrow> al_value api (A1559 (signed_tx tx))
      | PEip7702 tx \<Rightarrow> al_value api (A7702 (signed_tx tx)))"

definition pooled_input :: "alloy_tx_api \<Rightarrow> ScrollPooledTransaction \<Rightarrow> bytes" where
  "pooled_input api p =
     (case p of
        PLegacy tx \<Rightarrow> al_input api (ALegacy (signed_tx tx))
      | PEip2930 tx \<Rightarrow> al_input api (A2930 (signed_tx tx))
      | PEip1559 tx \<Rightarrow> al_input api (A1559 (signed_tx tx))
      | PEip7702 tx \<Rightarrow> al_input api (A7702 (signed_tx tx)))"

definition pooled_access_list :: "alloy_tx_api \<Rightarrow> ScrollPooledTransaction \<Rightarrow> access_list option" where
  "pooled_access_list api p =
     (case p of
        PLegacy tx \<Rightarrow> al_access_list api (ALegacy (signed_tx tx))
      | PEip2930 tx \<Rightarrow> al_access_list api (A2930 (signed_tx tx))
      | PEip1559 tx \<Rightarrow> al_access_list api (A1559 (signed_tx tx))
      | PEip7702 tx \<Rightarrow> al_access_list api (A7702 (signed_tx tx)))"

definition pooled_blob_versioned_hashes :: "alloy_tx_api \<Rightarrow> ScrollPooledTransaction \<Rightarrow> b256 list option" where
  "pooled_blob_versioned_hashes api p =
     (case p of
        PLegacy tx \<Rightarrow> al_blob_versioned_hashes api (ALegacy (signed_tx tx))
      | PEip2930 tx \<Rightarrow> al_blob_versioned_hashes api (A2930 (signed_tx tx))
      | PEip1559 tx \<Rightarrow> al_blob_versioned_hashes api (A1559 (signed_tx tx))
      | PEip7702 tx \<Rightarrow> al_blob_versioned_hashes api (A7702 (signed_tx tx)))"

definition pooled_authorization_list :: "alloy_tx_api \<Rightarrow> ScrollPooledTransaction \<Rightarrow> SignedAuthorization list option" where
  "pooled_authorization_list api p =
     (case p of
        PLegacy tx \<Rightarrow> al_authorization_list api (ALegacy (signed_tx tx))
      | PEip2930 tx \<Rightarrow> al_authorization_list api (A2930 (signed_tx tx))
      | PEip1559 tx \<Rightarrow> al_authorization_list api (A1559 (signed_tx tx))
      | PEip7702 tx \<Rightarrow> al_authorization_list api (A7702 (signed_tx tx)))"

definition pooled_is_dynamic_fee :: "alloy_tx_api \<Rightarrow> ScrollPooledTransaction \<Rightarrow> bool" where
  "pooled_is_dynamic_fee api p =
     (case p of
        PLegacy tx \<Rightarrow> al_is_dynamic_fee api (ALegacy (signed_tx tx))
      | PEip2930 tx \<Rightarrow> al_is_dynamic_fee api (A2930 (signed_tx tx))
      | PEip1559 tx \<Rightarrow> al_is_dynamic_fee api (A1559 (signed_tx tx))
      | PEip7702 tx \<Rightarrow> al_is_dynamic_fee api (A7702 (signed_tx tx)))"

definition pooled_effective_gas_price :: "alloy_tx_api \<Rightarrow> ScrollPooledTransaction \<Rightarrow> u64 option \<Rightarrow> u128" where
  "pooled_effective_gas_price api p =
     (case p of
        PLegacy tx \<Rightarrow> al_effective_gas_price api (ALegacy (signed_tx tx))
      | PEip2930 tx \<Rightarrow> al_effective_gas_price api (A2930 (signed_tx tx))
      | PEip1559 tx \<Rightarrow> al_effective_gas_price api (A1559 (signed_tx tx))
      | PEip7702 tx \<Rightarrow> al_effective_gas_price api (A7702 (signed_tx tx)))"

definition pooled_is_create :: "alloy_tx_api \<Rightarrow> ScrollPooledTransaction \<Rightarrow> bool" where
  "pooled_is_create api p =
     (case p of
        PLegacy tx \<Rightarrow> al_is_create api (ALegacy (signed_tx tx))
      | PEip2930 tx \<Rightarrow> al_is_create api (A2930 (signed_tx tx))
      | PEip1559 tx \<Rightarrow> al_is_create api (A1559 (signed_tx tx))
      | PEip7702 tx \<Rightarrow> al_is_create api (A7702 (signed_tx tx)))"

section \<open>Selectors and conversions\<close>

definition env_is_legacy :: "ScrollTxEnvelope \<Rightarrow> bool" where
  "env_is_legacy e = (case e of Legacy _ \<Rightarrow> True | _ \<Rightarrow> False)"

definition env_is_eip2930 :: "ScrollTxEnvelope \<Rightarrow> bool" where
  "env_is_eip2930 e = (case e of Eip2930 _ \<Rightarrow> True | _ \<Rightarrow> False)"

definition env_is_eip1559 :: "ScrollTxEnvelope \<Rightarrow> bool" where
  "env_is_eip1559 e = (case e of Eip1559 _ \<Rightarrow> True | _ \<Rightarrow> False)"

definition env_is_eip7702 :: "ScrollTxEnvelope \<Rightarrow> bool" where
  "env_is_eip7702 e = (case e of Eip7702 _ \<Rightarrow> True | _ \<Rightarrow> False)"

definition env_is_l1_message :: "ScrollTxEnvelope \<Rightarrow> bool" where
  "env_is_l1_message e = (case e of L1Message _ \<Rightarrow> True | _ \<Rightarrow> False)"

definition env_as_legacy :: "ScrollTxEnvelope \<Rightarrow> TxLegacy Signed option" where
  "env_as_legacy e = (case e of Legacy tx \<Rightarrow> Some tx | _ \<Rightarrow> None)"

definition env_as_eip2930 :: "ScrollTxEnvelope \<Rightarrow> TxEip2930 Signed option" where
  "env_as_eip2930 e = (case e of Eip2930 tx \<Rightarrow> Some tx | _ \<Rightarrow> None)"

definition env_as_eip1559 :: "ScrollTxEnvelope \<Rightarrow> TxEip1559 Signed option" where
  "env_as_eip1559 e = (case e of Eip1559 tx \<Rightarrow> Some tx | _ \<Rightarrow> None)"

definition env_as_eip7702 :: "ScrollTxEnvelope \<Rightarrow> TxEip7702 Signed option" where
  "env_as_eip7702 e = (case e of Eip7702 tx \<Rightarrow> Some tx | _ \<Rightarrow> None)"

definition env_as_l1_message :: "ScrollTxEnvelope \<Rightarrow> TxL1Message Sealed option" where
  "env_as_l1_message e = (case e of L1Message tx \<Rightarrow> Some tx | _ \<Rightarrow> None)"

fun env_tx_type :: "ScrollTxEnvelope \<Rightarrow> ScrollTxType" where
  "env_tx_type (Legacy _) = TyLegacy"
| "env_tx_type (Eip2930 _) = TyEip2930"
| "env_tx_type (Eip1559 _) = TyEip1559"
| "env_tx_type (Eip7702 _) = TyEip7702"
| "env_tx_type (L1Message _) = TyL1Message"

fun env_signature :: "ScrollTxEnvelope \<Rightarrow> Signature option" where
  "env_signature (Legacy t) = Some (signed_signature t)"
| "env_signature (Eip2930 t) = Some (signed_signature t)"
| "env_signature (Eip1559 t) = Some (signed_signature t)"
| "env_signature (Eip7702 t) = Some (signed_signature t)"
| "env_signature (L1Message _) = None"

fun queue_index :: "ScrollTxEnvelope \<Rightarrow> u64 option" where
  "queue_index (L1Message tx) = Some (l1m_queue_index (sealed_inner tx))"
| "queue_index (Legacy _) = None"
| "queue_index (Eip2930 _) = None"
| "queue_index (Eip1559 _) = None"
| "queue_index (Eip7702 _) = None"

fun env_tx_hash :: "ScrollTxEnvelope \<Rightarrow> b256" where
  "env_tx_hash (Legacy tx) = signed_hash tx"
| "env_tx_hash (Eip2930 tx) = signed_hash tx"
| "env_tx_hash (Eip1559 tx) = signed_hash tx"
| "env_tx_hash (Eip7702 tx) = signed_hash tx"
| "env_tx_hash (L1Message tx) = sealed_hash tx"

fun pooled_hash :: "ScrollPooledTransaction \<Rightarrow> b256" where
  "pooled_hash (PLegacy tx) = signed_hash tx"
| "pooled_hash (PEip2930 tx) = signed_hash tx"
| "pooled_hash (PEip1559 tx) = signed_hash tx"
| "pooled_hash (PEip7702 tx) = signed_hash tx"

fun pooled_signature :: "ScrollPooledTransaction \<Rightarrow> Signature" where
  "pooled_signature (PLegacy tx) = signed_signature tx"
| "pooled_signature (PEip2930 tx) = signed_signature tx"
| "pooled_signature (PEip1559 tx) = signed_signature tx"
| "pooled_signature (PEip7702 tx) = signed_signature tx"

fun typed_tx_type :: "ScrollTypedTransaction \<Rightarrow> ScrollTxType" where
  "typed_tx_type (TLegacy _) = TyLegacy"
| "typed_tx_type (TEip2930 _) = TyEip2930"
| "typed_tx_type (TEip1559 _) = TyEip1559"
| "typed_tx_type (TEip7702 _) = TyEip7702"
| "typed_tx_type (TL1Message _) = TyL1Message"

text \<open>\<open>Signed::new_unchecked\<close> and \<open>Sealed::new_unchecked\<close> keep the given hash.\<close>

fun env_from_signed_typed :: "ScrollTypedTransaction Signed \<Rightarrow> ScrollTxEnvelope" where
  "env_from_signed_typed s =
     (let sg = signed_signature s; h = signed_hash s in
      case signed_tx s of
        TLegacy tx \<Rightarrow> Legacy \<lparr>signed_tx = tx, signed_signature = sg, signed_hash = h\<rparr>
      | TEip2930 tx \<Rightarrow> Eip2930 \<lparr>signed_tx = tx, signed_signature = sg, signed_hash = h\<rparr>
      | TEip1559 tx \<Rightarrow> Eip1559 \<lparr>signed_tx = tx, signed_signature = sg, signed_hash = h\<rparr>
      | TEip7702 tx \<Rightarrow> Eip7702 \<lparr>signed_tx = tx, signed_signature = sg, signed_hash = h\<rparr>
      | TL1Message tx \<Rightarrow> L1Message \<lparr>sealed_inner = tx, sealed_hash = h\<rparr>)"

fun typed_from_env :: "ScrollTxEnvelope \<Rightarrow> ScrollTypedTransaction" where
  "typed_from_env (Legacy tx) = TLegacy (signed_tx tx)"
| "typed_from_env (Eip2930 tx) = TEip2930 (signed_tx tx)"
| "typed_from_env (Eip1559 tx) = TEip1559 (signed_tx tx)"
| "typed_from_env (Eip7702 tx) = TEip7702 (signed_tx tx)"
| "typed_from_env (L1Message tx) = TL1Message (sealed_inner tx)"

datatype ValueError = ValueError ScrollTxEnvelope string

fun try_into_pooled :: "ScrollTxEnvelope \<Rightarrow> ValueError + ScrollPooledTransaction" where
  "try_into_pooled (Legacy tx) = Inr (PLegacy tx)"
| "try_into_pooled (Eip2930 tx) = Inr (PEip2930 tx)"
| "try_into_pooled (Eip1559 tx) = Inr (PEip1559 tx)"
| "try_into_pooled (Eip7702 tx) = Inr (PEip7702 tx)"
| "try_into_pooled (L1Message tx) =
     Inl (ValueError (L1Message tx) ''L1 messages cannot be pooled'')"

fun into_scroll_envelope :: "ScrollPooledTransaction \<Rightarrow> ScrollTxEnvelope" where
  "into_scroll_envelope (PLegacy tx) = Legacy tx"
| "into_scroll_envelope (PEip2930 tx) = Eip2930 tx"
| "into_scroll_envelope (PEip1559 tx) = Eip1559 tx"
| "into_scroll_envelope (PEip7702 tx) = Eip7702 tx"

text \<open>The JSON helper of an L1 message writes a zero nonce and ignores the nonce it reads.\<close>

record L1MsgSerdeHelper = TxL1Message +
  helper_nonce :: u64

definition l1_to_serde :: "TxL1Message \<Rightarrow> L1MsgSerdeHelper" where
  "l1_to_serde tx = TxL1Message.extend tx \<lparr>helper_nonce = 0\<rparr>"

definition l1_from_serde :: "L1MsgSerdeHelper \<Rightarrow> TxL1Message" where
  "l1_from_serde h = TxL1Message.truncate h"

section \<open>Lemmas\<close>

lemmas env_method_defs = env_ty_def env_chain_id_def env_nonce_def env_gas_limit_def
  env_gas_price_def env_max_fee_per_gas_def env_max_priority_fee_per_gas_def
  env_max_fee_per_blob_gas_def env_priority_fee_or_price_def env_to_def env_kind_def
  env_value_def env_input_def env_access_list_def env_blob_versioned_hashes_def
  env_authorization_list_def env_is_dynamic_fee_def env_effective_gas_price_def
  env_is_create_def

lemmas typed_method_defs = typed_ty_def typed_chain_id_def typed_nonce_def typed_gas_limit_def
  typed_gas_price_def typed_max_fee_per_gas_def typed_max_priority_fee_per_gas_def
  typed_max_fee_per_blob_gas_def typed_priority_fee_or_price_def typed_to_def typed_kind_def
  typed_value_def typed_input_def typed_access_list_def typed_blob_versioned_hashes_def
  typed_authorization_list_def typed_is_dynamic_fee_def typed_effective_gas_price_def
  typed_is_create_def

lemmas pooled_method_defs = pooled_ty_def pooled_chain_id_def pooled_nonce_def
  pooled_gas_limit_def pooled_gas_price_def pooled_max_fee_per_gas_def
  pooled_max_priority_fee_per_gas_def pooled_max_fee_per_blob_gas_def
  pooled_priority_fee_or_price_def pooled_to_def pooled_kind_def pooled_value_def
  pooled_input_def pooled_access_list_def pooled_blob_versioned_hashes_def
  pooled_authorization_list_def pooled_is_dynamic_fee_def pooled_effective_gas_price_def
  pooled_is_create_def

lemmas l1_method_defs = l1_ty_def l1_chain_id_def l1_nonce_def l1_gas_limit_def
  l1_gas_price_def l1_max_fee_per_gas_def l1_max_priority_fee_per_gas_def
  l1_max_fee_per_blob_gas_def l1_priority_fee_or_price_def l1_to_def l1_kind_def
  l1_value_def l1_input_def l1_access_list_def l1_blob_versioned_hashes_def
  l1_authorization_list_def l1_is_dynamic_fee_def l1_effective_gas_price_def
  l1_is_create_def

lemma tx_type_try_from_u8_ok [simp]: "tx_type_try_from_u8 (tx_type_to_u8 t) = Inr t"
  by (cases t) (simp_all add: tx_type_try_from_u8_def L1_MESSAGE_TX_TYPE_ID_def)

lemma tx_type_try_from_u8_iff: "tx_type_try_from_u8 v = Inr t \<longleftrightarrow> v = tx_type_to_u8 t"
  by (cases t) (auto simp: tx_type_try_from_u8_def L1_MESSAGE_TX_TYPE_ID_def split: if_splits)

lemma is_l1_message_iff: "env_is_l1_message e \<longleftrightarrow> env_tx_type e = TyL1Message"
  by (cases e) (simp_all add: env_is_l1_message_def)

lemma queue_index_iff: "queue_index e \<noteq> None \<longleftrightarrow> env_is_l1_message e"
  by (cases e) (simp_all add: env_is_l1_message_def)

lemma l1_serde_roundtrip: "l1_from_serde (l1_to_serde tx) = tx"
  by (simp add: l1_from_serde_def l1_to_serde_def TxL1Message.defs)

text \<open>The trait's provided \<open>to\<close> of \<open>alloy\<close>: read off \<open>kind\<close>; and the type bytes of its structs.\<close>

definition alloy_tx_laws :: "alloy_tx_api \<Rightarrow> bool" where
  "alloy_tx_laws api \<longleftrightarrow>
     (\<forall>tx. al_to api tx = (case al_kind api tx of Call a \<Rightarrow> Some a | Create \<Rightarrow> None)) \<and>
     (\<forall>tx. al_ty api (ALegacy tx) = 0) \<and> (\<forall>tx. al_ty api (A2930 tx) = 1) \<and>
     (\<forall>tx. al_ty api (A1559 tx) = 2) \<and> (\<forall>tx. al_ty api (A7702 tx) = 4)"

lemma alloy_ty_laws:
  "alloy_tx_laws api \<Longrightarrow> al_ty api (ALegacy a) = 0 \<and> al_ty api (A2930 b) = 1 \<and>
     al_ty api (A1559 c) = 2 \<and> al_ty api (A7702 d) = 4"
  by (simp add: alloy_tx_laws_def)

lemma env_ty_tx_type: "alloy_tx_laws api \<Longrightarrow> env_ty api e = tx_type_to_u8 (env_tx_type e)"
  by (cases e) (simp_all add: env_ty_def l1_ty_def alloy_tx_laws_def)

text \<open>A concrete instance of the trait methods, for the witnesses below.\<close>

fun sample_kind :: "alloy_tx \<Rightarrow> TxKind" where
  "sample_kind (ALegacy t) = lg_to t"
| "sample_kind (A2930 t) = t2930_to t"
| "sample_kind (A1559 t) = t1559_to t"
| "sample_kind (A7702 t) = Call (t7702_to t)"

definition sample_alloy_tx_api :: alloy_tx_api where
  "sample_alloy_tx_api = \<lparr>
     al_ty = (\<lambda>t. case t of ALegacy _ \<Rightarrow> 0 | A2930 _ \<Rightarrow> 1 | A1559 _ \<Rightarrow> 2 | A7702 _ \<Rightarrow> 4),
     al_chain_id = (\<lambda>t. case t of ALegacy t \<Rightarrow> lg_chain_id t | A2930 t \<Rightarrow> Some (t2930_chain_id t)
       | A1559 t \<Rightarrow> Some (t1559_chain_id t) | A7702 t \<Rightarrow> Some (t7702_chain_id t)),
     al_nonce = (\<lambda>t. case t of ALegacy t \<Rightarrow> lg_nonce t | A2930 t \<Rightarrow> t2930_nonce t
       | A1559 t \<Rightarrow> t1559_nonce t | A7702 t \<Rightarrow> t7702_nonce t),
     al_gas_limit = (\<lambda>t. case t of ALegacy t \<Rightarrow> lg_gas_limit t | A2930 t \<Rightarrow> t2930_gas_limit t
       | A1559 t \<Rightarrow> t1559_gas_limit t | A7702 t \<Rightarrow> t7702_gas_limit t),
     al_gas_price = (\<lambda>t. case t of ALegacy t \<Rightarrow> Some (lg_gas_price t)
       | A2930 t \<Rightarrow> Some (t2930_gas_price t) | _ \<Rightarrow> None),
     al_max_fee_per_gas = (\<lambda>t. case t of ALegacy t \<Rightarrow> lg_gas_price t | A2930 t \<Rightarrow> t2930_gas_price t
       | A1559 t \<Rightarrow> t1559_max_fee_per_gas t | A7702 t \<Rightarrow> t7702_max_fee_per_gas t),
     al_max_priority_fee_per_gas = (\<lambda>t. case t of
         A1559 t \<Rightarrow> Some (t1559_max_priority_fee_per_gas t)
       | A7702 t \<Rightarrow> Some (t7702_max_priority_fee_per_gas t) | _ \<Rightarrow> None),
     al_max_fee_per_blob_gas = (\<lambda>_. None),
     al_priority_fee_or_price = (\<lambda>t. case t of ALegacy t \<Rightarrow> lg_gas_price t
       | A2930 t \<Rightarrow> t2930_gas_price t | A1559 t \<Rightarrow> t1559_max_priority_fee_per_gas t
       | A7702 t \<Rightarrow> t7702_max_priority_fee_per_gas t),
     al_to = (\<lambda>t. case sample_kind t of Call a \<Rightarrow> Some a | Create \<Rightarrow> None),
     al_kind = sample_kind,
     al_value = (\<lambda>t. case t of ALegacy t \<Rightarrow> lg_value t | A2930 t \<Rightarrow> t2930_value t
       | A1559 t \<Rightarrow> t1559_value t | A7702 t \<Rightarrow> t7702_value t),
     al_input = (\<lambda>t. case t of ALegacy t \<Rightarrow> lg_input t | A2930 t \<Rightarrow> t2930_input t
       | A1559 t \<Rightarrow> t1559_input t | A7702 t \<Rightarrow> t7702_input t),
     al_access_list = (\<lambda>t. case t of ALegacy _ \<Rightarrow> None | A2930 t \<Rightarrow> Some (t2930_access_list t)
       | A1559 t \<Rightarrow> Some (t1559_access_list t) | A7702 t \<Rightarrow> Some (t7702_access_list t)),
     al_blob_versioned_hashes = (\<lambda>_. None),
     al_authorization_list = (\<lambda>t. case t of A7702 t \<Rightarrow> Some (t7702_authorization_list t)
       | _ \<Rightarrow> None),
     al_is_dynamic_fee = (\<lambda>t. case t of A1559 _ \<Rightarrow> True | A7702 _ \<Rightarrow> True | _ \<Rightarrow> False),
     al_effective_gas_price = (\<lambda>t _. case t of ALegacy t \<Rightarrow> lg_gas_price t
       | A2930 t \<Rightarrow> t2930_gas_price t | A1559 t \<Rightarrow> t1559_max_fee_per_gas t
       | A7702 t \<Rightarrow> t7702_max_fee_per_gas t),
     al_is_create = (\<lambda>t. sample_kind t = Create)\<rparr>"

lemma sample_alloy_tx_laws [simp]: "alloy_tx_laws sample_alloy_tx_api"
  by (simp add: alloy_tx_laws_def sample_alloy_tx_api_def)

definition sample_legacy :: "TxLegacy Signed" where
  "sample_legacy = \<lparr>
     signed_tx = \<lparr>lg_chain_id = Some 1122005, lg_nonce = 7, lg_gas_price = 1000000000,
       lg_gas_limit = 21000, lg_to = Call 5, lg_value = 3, lg_input = []\<rparr>,
     signed_signature = \<lparr>sig_r = 9, sig_s = 12, sig_y_parity = True\<rparr>, signed_hash = 1256\<rparr>"

definition sample_l1_message :: "TxL1Message Sealed" where
  "sample_l1_message = \<lparr>
     sealed_inner = \<lparr>l1m_queue_index = 4, l1m_gas_limit = 100000, l1m_to = 6, l1m_value = 2,
       l1m_sender = 8, l1m_input = [1, 2]\<rparr>, sealed_hash = 77\<rparr>"

text \<open>The pool form loses nothing: a transaction converts to it exactly when it is not an L1
  message, converting back gives the same envelope (so the same hash and signature), and every
  accessor of the trait, the recipient included, answers the same on both sides.\<close>

theorem pooled_conversion_faithful:
  assumes laws: "alloy_tx_laws api"
  shows "(is_ok (try_into_pooled e) \<longleftrightarrow> \<not> env_is_l1_message e) \<and>
    (\<forall>p. try_into_pooled e = Inr p \<longleftrightarrow> e = into_scroll_envelope p) \<and>
    (\<forall>p. e = into_scroll_envelope p \<longrightarrow>
       pooled_hash p = env_tx_hash e \<and> Some (pooled_signature p) = env_signature e \<and>
       (pooled_ty api p, pooled_chain_id api p, pooled_nonce api p, pooled_gas_limit api p,
        pooled_gas_price api p, pooled_max_fee_per_gas api p,
        pooled_max_priority_fee_per_gas api p, pooled_max_fee_per_blob_gas api p,
        pooled_priority_fee_or_price api p, pooled_to api p, pooled_kind api p,
        pooled_value api p, pooled_input api p, pooled_access_list api p,
        pooled_blob_versioned_hashes api p, pooled_authorization_list api p,
        pooled_is_dynamic_fee api p, pooled_effective_gas_price api p, pooled_is_create api p) =
       (env_ty api e, env_chain_id api e, env_nonce api e, env_gas_limit api e,
        env_gas_price api e, env_max_fee_per_gas api e, env_max_priority_fee_per_gas api e,
        env_max_fee_per_blob_gas api e, env_priority_fee_or_price api e, env_to api e,
        env_kind api e, env_value api e, env_input api e, env_access_list api e,
        env_blob_versioned_hashes api e, env_authorization_list api e,
        env_is_dynamic_fee api e, env_effective_gas_price api e, env_is_create api e))"
proof (intro conjI allI impI)
  show "is_ok (try_into_pooled e) \<longleftrightarrow> \<not> env_is_l1_message e"
    by (cases e) (simp_all add: env_is_l1_message_def)
  show "try_into_pooled e = Inr p \<longleftrightarrow> e = into_scroll_envelope p" for p
    by (cases e; cases p) auto
  show "pooled_hash p = env_tx_hash e" "Some (pooled_signature p) = env_signature e"
    if "e = into_scroll_envelope p" for p
    using that by (cases p; simp)+
next
  fix p
  assume e: "e = into_scroll_envelope p"
  have "al_to api tx = (case al_kind api tx of Call a \<Rightarrow> Some a | Create \<Rightarrow> None)" for tx
    using laws by (simp add: alloy_tx_laws_def)
  then show "(pooled_ty api p, pooled_chain_id api p, pooled_nonce api p, pooled_gas_limit api p,
        pooled_gas_price api p, pooled_max_fee_per_gas api p,
        pooled_max_priority_fee_per_gas api p, pooled_max_fee_per_blob_gas api p,
        pooled_priority_fee_or_price api p, pooled_to api p, pooled_kind api p,
        pooled_value api p, pooled_input api p, pooled_access_list api p,
        pooled_blob_versioned_hashes api p, pooled_authorization_list api p,
        pooled_is_dynamic_fee api p, pooled_effective_gas_price api p, pooled_is_create api p) =
       (env_ty api e, env_chain_id api e, env_nonce api e, env_gas_limit api e,
        env_gas_price api e, env_max_fee_per_gas api e, env_max_priority_fee_per_gas api e,
        env_max_fee_per_blob_gas api e, env_priority_fee_or_price api e, env_to api e,
        env_kind api e, env_value api e, env_input api e, env_access_list api e,
        env_blob_versioned_hashes api e, env_authorization_list api e,
        env_is_dynamic_fee api e, env_effective_gas_price api e, env_is_create api e)"
    unfolding e by (cases p) (simp_all add: pooled_method_defs env_method_defs)
qed

theorem pooled_conversion_faithful_witness:
  "try_into_pooled (Legacy sample_legacy) = Inr (PLegacy sample_legacy) \<and>
   \<not> is_ok (try_into_pooled (L1Message sample_l1_message)) \<and>
   pooled_nonce sample_alloy_tx_api (PLegacy sample_legacy) = 7"
  using pooled_conversion_faithful [OF sample_alloy_tx_laws, of "Legacy sample_legacy"]
    pooled_conversion_faithful [OF sample_alloy_tx_laws, of "L1Message sample_l1_message"]
  by (simp add: env_is_l1_message_def pooled_nonce_def sample_alloy_tx_api_def sample_legacy_def)

text \<open>Signing and stripping are inverse: an envelope built from a signed unsigned transaction
  keeps its body, hash and type, and every accessor answers the same before and after stripping
  the signature; only an L1 message drops the (empty) signature.\<close>

theorem typed_conversion_faithful:
  assumes laws: "alloy_tx_laws api" and e: "e = env_from_signed_typed s"
  shows "typed_from_env e = signed_tx s \<and> env_tx_hash e = signed_hash s \<and>
    env_tx_type e = typed_tx_type (signed_tx s) \<and>
    env_signature e = (if env_is_l1_message e then None else Some (signed_signature s)) \<and>
    (let t = signed_tx s in
     (typed_ty t, typed_chain_id api t, typed_nonce api t, typed_gas_limit api t,
      typed_gas_price api t, typed_max_fee_per_gas api t, typed_max_priority_fee_per_gas api t,
      typed_max_fee_per_blob_gas api t, typed_priority_fee_or_price api t, typed_to api t,
      typed_kind api t, typed_value api t, typed_input api t, typed_access_list api t,
      typed_blob_versioned_hashes api t, typed_authorization_list api t,
      typed_is_dynamic_fee api t, typed_effective_gas_price api t, typed_is_create api t)) =
     (env_ty api e, env_chain_id api e, env_nonce api e, env_gas_limit api e,
      env_gas_price api e, env_max_fee_per_gas api e, env_max_priority_fee_per_gas api e,
      env_max_fee_per_blob_gas api e, env_priority_fee_or_price api e, env_to api e,
      env_kind api e, env_value api e, env_input api e, env_access_list api e,
      env_blob_versioned_hashes api e, env_authorization_list api e,
      env_is_dynamic_fee api e, env_effective_gas_price api e, env_is_create api e)"
proof -
  have ty: "al_ty api (ALegacy a) = 0" "al_ty api (A2930 b) = 1"
    "al_ty api (A1559 c) = 2" "al_ty api (A7702 d) = 4" for a b c d
    using alloy_ty_laws [OF laws, of a b c d] by simp_all
  show ?thesis
    unfolding e
    by (cases "signed_tx s")
      (simp_all add: ty typed_method_defs env_method_defs l1_ty_def env_is_l1_message_def Let_def)
qed

theorem typed_conversion_faithful_witness:
  "typed_from_env (env_from_signed_typed \<lparr>signed_tx = TL1Message (sealed_inner sample_l1_message),
      signed_signature = l1_signature, signed_hash = 77\<rparr>)
     = TL1Message (sealed_inner sample_l1_message)"
  using typed_conversion_faithful [OF sample_alloy_tx_laws refl, of
    "\<lparr>signed_tx = TL1Message (sealed_inner sample_l1_message),
      signed_signature = l1_signature, signed_hash = 77\<rparr>"]
  by simp

end
