(* ===== verification/Tx_Codec.thy ===== *)
theory Tx_Codec
  imports Transactions
begin

text \<open>
  Encodings of transactions: the RLP and EIP-2718 codec of the L1 message
  (\<open>transaction/l1_message.rs\<close>), the EIP-2718 codec, hashes, signer recovery and database codec
  of the envelope (\<open>transaction/envelope.rs\<close>), of the unsigned transaction
  (\<open>transaction/typed.rs\<close>) and of the pool form (\<open>transaction/pooled.rs\<close>).

  Parameters: the primitive RLP codecs of \<open>alloy_rlp\<close> (\<open>rlp_api\<close>, laws \<open>rlp_laws\<close>), the codecs,
  hashes and signature recovery of the four Ethereum transactions of \<open>alloy_consensus\<close>
  (\<open>alloy_codec\<close>, laws \<open>alloy_codec_laws\<close>), the \<open>Compact\<close> codecs derived by \<open>reth_codecs\<close>
  (\<open>compact_api\<close>, laws \<open>compact_laws\<close>) and \<open>keccak256\<close>. A decoder takes the buffer and returns
  the value with the rest of the buffer.
\<close>

section \<open>RLP of an L1 message\<close>

datatype rlp_error =
    UnexpectedString
  | ListLengthMismatch nat nat
  | CustomRlp string
  | OtherRlp

type_synonym 'a decoder = "bytes \<Rightarrow> rlp_error + 'a \<times> bytes"

record rlp_api =
  rlp_enc_u64 :: "u64 \<Rightarrow> bytes"
  rlp_dec_u64 :: "u64 decoder"
  rlp_len_u64 :: "u64 \<Rightarrow> nat"
  rlp_enc_address :: "address \<Rightarrow> bytes"
  rlp_dec_address :: "address decoder"
  rlp_len_address :: "address \<Rightarrow> nat"
  rlp_enc_u256 :: "u256 \<Rightarrow> bytes"
  rlp_dec_u256 :: "u256 decoder"
  rlp_len_u256 :: "u256 \<Rightarrow> nat"
  rlp_enc_bytes :: "bytes \<Rightarrow> bytes"
  rlp_dec_bytes :: "bytes decoder"
  rlp_len_bytes :: "bytes \<Rightarrow> nat"
  rlp_enc_header :: "bool \<times> nat \<Rightarrow> bytes"
  rlp_dec_header :: "(bool \<times> nat) decoder"
  rlp_len_header :: "bool \<times> nat \<Rightarrow> nat"

definition codec_ok :: "('a \<Rightarrow> bytes) \<Rightarrow> 'a decoder \<Rightarrow> ('a \<Rightarrow> nat) \<Rightarrow> bool" where
  "codec_ok enc dec len \<longleftrightarrow>
     (\<forall>x rest. dec (enc x @ rest) = Inr (x, rest)) \<and> (\<forall>x. len x = length (enc x))"

text \<open>A header is decoded only when the buffer still holds its payload.\<close>

definition rlp_laws :: "rlp_api \<Rightarrow> bool" where
  "rlp_laws r \<longleftrightarrow>
     codec_ok (rlp_enc_u64 r) (rlp_dec_u64 r) (rlp_len_u64 r) \<and>
     codec_ok (rlp_enc_address r) (rlp_dec_address r) (rlp_len_address r) \<and>
     codec_ok (rlp_enc_u256 r) (rlp_dec_u256 r) (rlp_len_u256 r) \<and>
     codec_ok (rlp_enc_bytes r) (rlp_dec_bytes r) (rlp_len_bytes r) \<and>
     (\<forall>l n rest. n \<le> length rest \<longrightarrow>
        rlp_dec_header r (rlp_enc_header r (l, n) @ rest) = Inr ((l, n), rest)) \<and>
     (\<forall>h. rlp_len_header r h = length (rlp_enc_header r h))"

definition l1_rlp_decode_fields :: "rlp_api \<Rightarrow> TxL1Message decoder" where
  "l1_rlp_decode_fields r buf =
     rbind (rlp_dec_u64 r buf) (\<lambda>(queue_index, buf).
     rbind (rlp_dec_u64 r buf) (\<lambda>(gas_limit, buf).
     rbind (rlp_dec_address r buf) (\<lambda>(to, buf).
     rbind (rlp_dec_u256 r buf) (\<lambda>(value, buf).
     rbind (rlp_dec_bytes r buf) (\<lambda>(input, buf).
     rbind (rlp_dec_address r buf) (\<lambda>(sender, buf).
       Inr (\<lparr>l1m_queue_index = queue_index, l1m_gas_limit = gas_limit, l1m_to = to,
             l1m_value = value, l1m_sender = sender, l1m_input = input\<rparr>, buf)))))))"

definition l1_rlp_decode :: "rlp_api \<Rightarrow> TxL1Message decoder" where
  "l1_rlp_decode r buf =
     rbind (rlp_dec_header r buf) (\<lambda>((is_list, payload_length), buf).
       if \<not> is_list then Inl UnexpectedString
       else
         let remaining = length buf in
         rbind (l1_rlp_decode_fields r buf) (\<lambda>(this, buf).
           if length buf + payload_length \<noteq> remaining
           then Inl (ListLengthMismatch payload_length (remaining - length buf))
           else Inr (this, buf)))"

definition l1_rlp_encoded_fields_length :: "rlp_api \<Rightarrow> TxL1Message \<Rightarrow> nat" where
  "l1_rlp_encoded_fields_length r tx =
     rlp_len_u64 r (l1m_queue_index tx) + rlp_len_u64 r (l1m_gas_limit tx) +
     rlp_len_address r (l1m_to tx) + rlp_len_u256 r (l1m_value tx) +
     rlp_len_bytes r (l1m_input tx) + rlp_len_address r (l1m_sender tx)"

definition l1_rlp_encode_fields :: "rlp_api \<Rightarrow> TxL1Message \<Rightarrow> bytes" where
  "l1_rlp_encode_fields r tx =
     rlp_enc_u64 r (l1m_queue_index tx) @ rlp_enc_u64 r (l1m_gas_limit tx) @
     rlp_enc_address r (l1m_to tx) @ rlp_enc_u256 r (l1m_value tx) @
     rlp_enc_bytes r (l1m_input tx) @ rlp_enc_address r (l1m_sender tx)"

definition l1_tx_type :: "TxL1Message \<Rightarrow> u8" where
  "l1_tx_type tx = L1_MESSAGE_TRANSACTION_TYPE"

definition l1_rlp_header :: "rlp_api \<Rightarrow> TxL1Message \<Rightarrow> bool \<times> nat" where
  "l1_rlp_header r tx = (True, l1_rlp_encoded_fields_length r tx)"

definition l1_rlp_encode :: "rlp_api \<Rightarrow> TxL1Message \<Rightarrow> bytes" where
  "l1_rlp_encode r tx = rlp_enc_header r (l1_rlp_header r tx) @ l1_rlp_encode_fields r tx"

definition l1_rlp_encoded_length :: "rlp_api \<Rightarrow> TxL1Message \<Rightarrow> nat" where
  "l1_rlp_encoded_length r tx =
     rlp_len_header r (l1_rlp_header r tx) + snd (l1_rlp_header r tx)"

definition l1_eip2718_encoded_length :: "rlp_api \<Rightarrow> TxL1Message \<Rightarrow> nat" where
  "l1_eip2718_encoded_length r tx = l1_rlp_encoded_length r tx + 1"

definition l1_eip2718_encode :: "rlp_api \<Rightarrow> TxL1Message \<Rightarrow> bytes" where
  "l1_eip2718_encode r tx = L1_MESSAGE_TRANSACTION_TYPE # l1_rlp_encode r tx"

definition l1_encode_2718 :: "rlp_api \<Rightarrow> TxL1Message \<Rightarrow> bytes" where
  "l1_encode_2718 r tx = l1_tx_type tx # l1_rlp_encode r tx"

definition l1_tx_hash :: "rlp_api \<Rightarrow> (bytes \<Rightarrow> b256) \<Rightarrow> TxL1Message \<Rightarrow> b256" where
  "l1_tx_hash r keccak256 tx = keccak256 (l1_eip2718_encode r tx)"

definition rlp_to_eip2718 :: "rlp_error \<Rightarrow> eip2718_error" where
  "rlp_to_eip2718 e = RlpError (case e of CustomRlp m \<Rightarrow> m | _ \<Rightarrow> ''rlp'')"

definition l1_typed_decode :: "rlp_api \<Rightarrow> u8 \<Rightarrow> bytes \<Rightarrow> eip2718_error + TxL1Message \<times> bytes" where
  "l1_typed_decode r ty buf =
     (if ty \<noteq> L1_MESSAGE_TRANSACTION_TYPE then Inl (UnexpectedType ty)
      else map_err rlp_to_eip2718 (l1_rlp_decode r buf))"

definition l1_fallback_decode :: "rlp_api \<Rightarrow> bytes \<Rightarrow> eip2718_error + TxL1Message \<times> bytes" where
  "l1_fallback_decode r buf = map_err rlp_to_eip2718 (l1_rlp_decode r buf)"

section \<open>EIP-2718 codec of the envelope\<close>

record alloy_codec =
  ac_encode :: "alloy_tx \<Rightarrow> Signature \<Rightarrow> bytes"
  ac_encoded_length :: "alloy_tx \<Rightarrow> Signature \<Rightarrow> nat"
  ac_decode_legacy :: "TxLegacy Signed decoder"
  ac_decode_2930 :: "TxEip2930 Signed decoder"
  ac_decode_1559 :: "TxEip1559 Signed decoder"
  ac_decode_7702 :: "TxEip7702 Signed decoder"
  ac_tx_hash :: "alloy_tx \<Rightarrow> Signature \<Rightarrow> b256"
  ac_signature_hash :: "alloy_tx \<Rightarrow> b256"
  ac_recover :: "Signature \<Rightarrow> b256 \<Rightarrow> string + address"
  ac_recover_unchecked :: "Signature \<Rightarrow> b256 \<Rightarrow> string + address"

definition new_unhashed ::
  "alloy_codec \<Rightarrow> ('t \<Rightarrow> alloy_tx) \<Rightarrow> 't \<Rightarrow> Signature \<Rightarrow> 't Signed" where
  "new_unhashed ac con tx sg =
     \<lparr>signed_tx = tx, signed_signature = sg, signed_hash = ac_tx_hash ac (con tx) sg\<rparr>"

definition seal_slow ::
  "rlp_api \<Rightarrow> (bytes \<Rightarrow> b256) \<Rightarrow> TxL1Message \<Rightarrow> TxL1Message Sealed" where
  "seal_slow r keccak256 tx = \<lparr>sealed_inner = tx, sealed_hash = l1_tx_hash r keccak256 tx\<rparr>"

definition env_from_l1_message ::
  "rlp_api \<Rightarrow> (bytes \<Rightarrow> b256) \<Rightarrow> TxL1Message \<Rightarrow> ScrollTxEnvelope" where
  "env_from_l1_message r keccak256 v = L1Message (seal_slow r keccak256 v)"

definition env_encode_2718 :: "rlp_api \<Rightarrow> alloy_codec \<Rightarrow> ScrollTxEnvelope \<Rightarrow> bytes" where
  "env_encode_2718 r ac e =
     (case e of
        Legacy tx \<Rightarrow> ac_encode ac (ALegacy (signed_tx tx)) (signed_signature tx)
      | Eip2930 tx \<Rightarrow> ac_encode ac (A2930 (signed_tx tx)) (signed_signature tx)
      | Eip1559 tx \<Rightarrow> ac_encode ac (A1559 (signed_tx tx)) (signed_signature tx)
      | Eip7702 tx \<Rightarrow> ac_encode ac (A7702 (signed_tx tx)) (signed_signature tx)
      | L1Message tx \<Rightarrow> l1_eip2718_encode r (sealed_inner tx))"

definition env_eip2718_encoded_length :: "rlp_api \<Rightarrow> alloy_codec \<Rightarrow> ScrollTxEnvelope \<Rightarrow> nat" where
  "env_eip2718_encoded_length r ac e =
     (case e of
        Legacy tx \<Rightarrow> ac_encoded_length ac (ALegacy (signed_tx tx)) (signed_signature tx)
      | Eip2930 tx \<Rightarrow> ac_encoded_length ac (A2930 (signed_tx tx)) (signed_signature tx)
      | Eip1559 tx \<Rightarrow> ac_encoded_length ac (A1559 (signed_tx tx)) (signed_signature tx)
      | Eip7702 tx \<Rightarrow> ac_encoded_length ac (A7702 (signed_tx tx)) (signed_signature tx)
      | L1Message tx \<Rightarrow> l1_eip2718_encoded_length r (sealed_inner tx))"

fun env_type_flag :: "ScrollTxEnvelope \<Rightarrow> u8 option" where
  "env_type_flag (Legacy _) = None"
| "env_type_flag (Eip2930 _) = Some (tx_type_to_u8 TyEip2930)"
| "env_type_flag (Eip1559 _) = Some (tx_type_to_u8 TyEip1559)"
| "env_type_flag (Eip7702 _) = Some (tx_type_to_u8 TyEip7702)"
| "env_type_flag (L1Message _) = Some (tx_type_to_u8 TyL1Message)"

definition env_is_type :: "u8 \<Rightarrow> bool" where
  "env_is_type type_id \<longleftrightarrow>
     type_id = 1 \<or> type_id = 2 \<or> type_id = 4 \<or> type_id = L1_MESSAGE_TX_TYPE_ID"

definition env_typed_decode ::
  "rlp_api \<Rightarrow> alloy_codec \<Rightarrow> (bytes \<Rightarrow> b256) \<Rightarrow> u8 \<Rightarrow> bytes \<Rightarrow>
   eip2718_error + ScrollTxEnvelope \<times> bytes" where
  "env_typed_decode r ac keccak256 ty buf =
     rbind (map_err (\<lambda>_. UnexpectedType ty) (tx_type_try_from_u8 ty)) (\<lambda>t.
       map_err rlp_to_eip2718
        (case t of
           TyEip2930 \<Rightarrow> rbind (ac_decode_2930 ac buf) (\<lambda>(tx, buf). Inr (Eip2930 tx, buf))
         | TyEip1559 \<Rightarrow> rbind (ac_decode_1559 ac buf) (\<lambda>(tx, buf). Inr (Eip1559 tx, buf))
         | TyEip7702 \<Rightarrow> rbind (ac_decode_7702 ac buf) (\<lambda>(tx, buf). Inr (Eip7702 tx, buf))
         | TyL1Message \<Rightarrow> rbind (l1_rlp_decode r buf)
             (\<lambda>(tx, buf). Inr (L1Message (seal_slow r keccak256 tx), buf))
         | TyLegacy \<Rightarrow> Inl (CustomRlp ''type-0 eip2718 transactions are not supported'')))"

definition env_fallback_decode ::
  "alloy_codec \<Rightarrow> bytes \<Rightarrow> eip2718_error + ScrollTxEnvelope \<times> bytes" where
  "env_fallback_decode ac buf =
     map_err rlp_to_eip2718
       (rbind (ac_decode_legacy ac buf) (\<lambda>(tx, buf). Inr (Legacy tx, buf)))"

fun env_trie_hash :: "ScrollTxEnvelope \<Rightarrow> b256" where
  "env_trie_hash (Legacy tx) = signed_hash tx"
| "env_trie_hash (Eip2930 tx) = signed_hash tx"
| "env_trie_hash (Eip1559 tx) = signed_hash tx"
| "env_trie_hash (Eip7702 tx) = signed_hash tx"
| "env_trie_hash (L1Message tx) = sealed_hash tx"

text \<open>The \<open>expect\<close> on the signature after the match cannot fail: the match has returned.\<close>

definition env_recover_signer :: "alloy_codec \<Rightarrow> ScrollTxEnvelope \<Rightarrow> string + address" where
  "env_recover_signer ac e =
     (case e of
        Legacy tx \<Rightarrow> ac_recover ac (signed_signature tx) (ac_signature_hash ac (ALegacy (signed_tx tx)))
      | Eip2930 tx \<Rightarrow> ac_recover ac (signed_signature tx) (ac_signature_hash ac (A2930 (signed_tx tx)))
      | Eip1559 tx \<Rightarrow> ac_recover ac (signed_signature tx) (ac_signature_hash ac (A1559 (signed_tx tx)))
      | Eip7702 tx \<Rightarrow> ac_recover ac (signed_signature tx) (ac_signature_hash ac (A7702 (signed_tx tx)))
      | L1Message tx \<Rightarrow> Inr (l1m_sender (sealed_inner tx)))"

definition env_recover_signer_unchecked ::
  "alloy_codec \<Rightarrow> ScrollTxEnvelope \<Rightarrow> string + address" where
  "env_recover_signer_unchecked ac e =
     (case e of
        Legacy tx \<Rightarrow>
          ac_recover_unchecked ac (signed_signature tx) (ac_signature_hash ac (ALegacy (signed_tx tx)))
      | Eip2930 tx \<Rightarrow>
          ac_recover_unchecked ac (signed_signature tx) (ac_signature_hash ac (A2930 (signed_tx tx)))
      | Eip1559 tx \<Rightarrow>
          ac_recover_unchecked ac (signed_signature tx) (ac_signature_hash ac (A1559 (signed_tx tx)))
      | Eip7702 tx \<Rightarrow>
          ac_recover_unchecked ac (signed_signature tx) (ac_signature_hash ac (A7702 (signed_tx tx)))
      | L1Message tx \<Rightarrow> Inr (l1m_sender (sealed_inner tx)))"

section \<open>Pool form\<close>

fun pooled_type_flag :: "ScrollPooledTransaction \<Rightarrow> u8 option" where
  "pooled_type_flag (PLegacy _) = None"
| "pooled_type_flag (PEip2930 _) = Some 0x01"
| "pooled_type_flag (PEip1559 _) = Some 0x02"
| "pooled_type_flag (PEip7702 _) = Some 0x04"

definition pooled_is_type :: "u8 \<Rightarrow> bool" where
  "pooled_is_type type_id \<longleftrightarrow> type_id = 1 \<or> type_id = 2 \<or> type_id = 4"

definition pooled_encode_2718 :: "alloy_codec \<Rightarrow> ScrollPooledTransaction \<Rightarrow> bytes" where
  "pooled_encode_2718 ac p =
     (case p of
        PLegacy tx \<Rightarrow> ac_encode ac (ALegacy (signed_tx tx)) (signed_signature tx)
      | PEip2930 tx \<Rightarrow> ac_encode ac (A2930 (signed_tx tx)) (signed_signature tx)
      | PEip1559 tx \<Rightarrow> ac_encode ac (A1559 (signed_tx tx)) (signed_signature tx)
      | PEip7702 tx \<Rightarrow> ac_encode ac (A7702 (signed_tx tx)) (signed_signature tx))"

definition pooled_encode_2718_len :: "alloy_codec \<Rightarrow> ScrollPooledTransaction \<Rightarrow> nat" where
  "pooled_encode_2718_len ac p =
     (case p of
        PLegacy tx \<Rightarrow> ac_encoded_length ac (ALegacy (signed_tx tx)) (signed_signature tx)
      | PEip2930 tx \<Rightarrow> ac_encoded_length ac (A2930 (signed_tx tx)) (signed_signature tx)
      | PEip1559 tx \<Rightarrow> ac_encoded_length ac (A1559 (signed_tx tx)) (signed_signature tx)
      | PEip7702 tx \<Rightarrow> ac_encoded_length ac (A7702 (signed_tx tx)) (signed_signature tx))"

definition pooled_network_len :: "rlp_api \<Rightarrow> alloy_codec \<Rightarrow> ScrollPooledTransaction \<Rightarrow> nat" where
  "pooled_network_len r ac p =
     (let payload_length = pooled_encode_2718_len ac p in
      case p of
        PLegacy _ \<Rightarrow> payload_length
      | _ \<Rightarrow> payload_length + rlp_len_header r (False, payload_length))"

text \<open>
  The type conversion error is an RLP error here (\<open>map_err\<close> to \<open>alloy_rlp::Error::Custom\<close>), unlike
  in the envelope's decoder.
\<close>

definition pooled_typed_decode ::
  "alloy_codec \<Rightarrow> u8 \<Rightarrow> bytes \<Rightarrow> eip2718_error + ScrollPooledTransaction \<times> bytes" where
  "pooled_typed_decode ac ty buf =
     rbind (map_err (\<lambda>_. rlp_to_eip2718 (CustomRlp ''unexpected tx type'')) (tx_type_try_from_u8 ty))
      (\<lambda>t. case t of
         TyEip2930 \<Rightarrow> map_err rlp_to_eip2718
           (rbind (ac_decode_2930 ac buf) (\<lambda>(tx, buf). Inr (PEip2930 tx, buf)))
       | TyEip1559 \<Rightarrow> map_err rlp_to_eip2718
           (rbind (ac_decode_1559 ac buf) (\<lambda>(tx, buf). Inr (PEip1559 tx, buf)))
       | TyEip7702 \<Rightarrow> map_err rlp_to_eip2718
           (rbind (ac_decode_7702 ac buf) (\<lambda>(tx, buf). Inr (PEip7702 tx, buf)))
       | TyLegacy \<Rightarrow> Inl (UnexpectedType (tx_type_to_u8 TyLegacy))
       | TyL1Message \<Rightarrow> Inl (UnexpectedType (tx_type_to_u8 TyL1Message)))"

definition pooled_fallback_decode ::
  "alloy_codec \<Rightarrow> bytes \<Rightarrow> eip2718_error + ScrollPooledTransaction \<times> bytes" where
  "pooled_fallback_decode ac buf =
     map_err rlp_to_eip2718
       (rbind (ac_decode_legacy ac buf) (\<lambda>(tx, buf). Inr (PLegacy tx, buf)))"

definition pooled_signature_hash :: "alloy_codec \<Rightarrow> ScrollPooledTransaction \<Rightarrow> b256" where
  "pooled_signature_hash ac p =
     (case p of
        PLegacy tx \<Rightarrow> ac_signature_hash ac (ALegacy (signed_tx tx))
      | PEip2930 tx \<Rightarrow> ac_signature_hash ac (A2930 (signed_tx tx))
      | PEip1559 tx \<Rightarrow> ac_signature_hash ac (A1559 (signed_tx tx))
      | PEip7702 tx \<Rightarrow> ac_signature_hash ac (A7702 (signed_tx tx)))"

definition pooled_recover_signer :: "alloy_codec \<Rightarrow> ScrollPooledTransaction \<Rightarrow> string + address" where
  "pooled_recover_signer ac p = ac_recover ac (pooled_signature p) (pooled_signature_hash ac p)"

definition pooled_recover_signer_unchecked ::
  "alloy_codec \<Rightarrow> ScrollPooledTransaction \<Rightarrow> string + address" where
  "pooled_recover_signer_unchecked ac p =
     ac_recover_unchecked ac (pooled_signature p) (pooled_signature_hash ac p)"

section \<open>Unsigned transaction\<close>

definition typed_signature_hash :: "alloy_codec \<Rightarrow> ScrollTypedTransaction \<Rightarrow> b256" where
  "typed_signature_hash ac t =
     (case t of
        TLegacy tx \<Rightarrow> ac_signature_hash ac (ALegacy tx)
      | TEip2930 tx \<Rightarrow> ac_signature_hash ac (A2930 tx)
      | TEip1559 tx \<Rightarrow> ac_signature_hash ac (A1559 tx)
      | TEip7702 tx \<Rightarrow> ac_signature_hash ac (A7702 tx)
      | TL1Message _ \<Rightarrow> 0)"

definition typed_eip2718_encode ::
  "rlp_api \<Rightarrow> alloy_codec \<Rightarrow> ScrollTypedTransaction \<Rightarrow> Signature \<Rightarrow> bytes" where
  "typed_eip2718_encode r ac t sg =
     (case t of
        TLegacy tx \<Rightarrow> ac_encode ac (ALegacy tx) sg
      | TEip2930 tx \<Rightarrow> ac_encode ac (A2930 tx) sg
      | TEip1559 tx \<Rightarrow> ac_encode ac (A1559 tx) sg
      | TEip7702 tx \<Rightarrow> ac_encode ac (A7702 tx) sg
      | TL1Message tx \<Rightarrow> l1_encode_2718 r tx)"

definition typed_tx_hash ::
  "rlp_api \<Rightarrow> alloy_codec \<Rightarrow> (bytes \<Rightarrow> b256) \<Rightarrow> ScrollTypedTransaction \<Rightarrow> Signature \<Rightarrow> b256" where
  "typed_tx_hash r ac keccak256 t sg =
     (case t of
        TLegacy tx \<Rightarrow> ac_tx_hash ac (ALegacy tx) sg
      | TEip2930 tx \<Rightarrow> ac_tx_hash ac (A2930 tx) sg
      | TEip1559 tx \<Rightarrow> ac_tx_hash ac (A1559 tx) sg
      | TEip7702 tx \<Rightarrow> ac_tx_hash ac (A7702 tx) sg
      | TL1Message tx \<Rightarrow> l1_tx_hash r keccak256 tx)"

definition typed_into_signed ::
  "rlp_api \<Rightarrow> alloy_codec \<Rightarrow> (bytes \<Rightarrow> b256) \<Rightarrow> ScrollTypedTransaction \<Rightarrow> Signature \<Rightarrow>
   ScrollTypedTransaction Signed" where
  "typed_into_signed r ac keccak256 t sg =
     \<lparr>signed_tx = t, signed_signature = sg, signed_hash = typed_tx_hash r ac keccak256 t sg\<rparr>"

section \<open>Database codec\<close>

text \<open>
  \<open>to_compact\<close> appends to the buffer, \<open>from_compact\<close> consumes from it; both are derived code for
  the five transaction structs. The last field of each struct takes the whole rest of the buffer,
  so the law reads back a buffer that holds exactly one transaction.
\<close>

record compact_api =
  cp_ids :: compact_ids
  cp_enc_legacy :: "TxLegacy \<Rightarrow> bytes"
  cp_dec_legacy :: "bytes \<Rightarrow> TxLegacy \<times> bytes"
  cp_enc_2930 :: "TxEip2930 \<Rightarrow> bytes"
  cp_dec_2930 :: "bytes \<Rightarrow> TxEip2930 \<times> bytes"
  cp_enc_1559 :: "TxEip1559 \<Rightarrow> bytes"
  cp_dec_1559 :: "bytes \<Rightarrow> TxEip1559 \<times> bytes"
  cp_enc_7702 :: "TxEip7702 \<Rightarrow> bytes"
  cp_dec_7702 :: "bytes \<Rightarrow> TxEip7702 \<times> bytes"
  cp_enc_l1 :: "TxL1Message \<Rightarrow> bytes"
  cp_dec_l1 :: "bytes \<Rightarrow> TxL1Message \<times> bytes"

definition compact_laws :: "compact_api \<Rightarrow> bool" where
  "compact_laws cp \<longleftrightarrow> compact_ids_distinct (cp_ids cp) \<and>
     (\<forall>t. cp_dec_legacy cp (cp_enc_legacy cp t) = (t, [])) \<and>
     (\<forall>t. cp_dec_2930 cp (cp_enc_2930 cp t) = (t, [])) \<and>
     (\<forall>t. cp_dec_1559 cp (cp_enc_1559 cp t) = (t, [])) \<and>
     (\<forall>t. cp_dec_7702 cp (cp_enc_7702 cp t) = (t, [])) \<and>
     (\<forall>t. cp_dec_l1 cp (cp_enc_l1 cp t) = (t, []))"

definition typed_to_compact :: "compact_api \<Rightarrow> ScrollTypedTransaction \<Rightarrow> bytes \<Rightarrow> nat \<times> bytes" where
  "typed_to_compact cp t out =
     (let (identifier, out) = tx_type_to_compact (cp_ids cp) (typed_tx_type t) out in
      (identifier, out @ (case t of
         TLegacy tx \<Rightarrow> cp_enc_legacy cp tx
       | TEip2930 tx \<Rightarrow> cp_enc_2930 cp tx
       | TEip1559 tx \<Rightarrow> cp_enc_1559 cp tx
       | TEip7702 tx \<Rightarrow> cp_enc_7702 cp tx
       | TL1Message tx \<Rightarrow> cp_enc_l1 cp tx)))"

definition typed_from_compact ::
  "compact_api \<Rightarrow> bytes \<Rightarrow> nat \<Rightarrow> (ScrollTypedTransaction \<times> bytes) option" where
  "typed_from_compact cp buf identifier =
     (case tx_type_from_compact (cp_ids cp) buf identifier of
        None \<Rightarrow> None
      | Some (tx_type, buf) \<Rightarrow> Some (case tx_type of
            TyLegacy \<Rightarrow> (let (tx, buf) = cp_dec_legacy cp buf in (TLegacy tx, buf))
          | TyEip2930 \<Rightarrow> (let (tx, buf) = cp_dec_2930 cp buf in (TEip2930 tx, buf))
          | TyEip1559 \<Rightarrow> (let (tx, buf) = cp_dec_1559 cp buf in (TEip1559 tx, buf))
          | TyEip7702 \<Rightarrow> (let (tx, buf) = cp_dec_7702 cp buf in (TEip7702 tx, buf))
          | TyL1Message \<Rightarrow> (let (tx, buf) = cp_dec_l1 cp buf in (TL1Message tx, buf))))"

definition env_to_tx_compact :: "compact_api \<Rightarrow> ScrollTxEnvelope \<Rightarrow> bytes \<Rightarrow> bytes" where
  "env_to_tx_compact cp e buf = buf @
     (case e of
        Legacy tx \<Rightarrow> cp_enc_legacy cp (signed_tx tx)
      | Eip2930 tx \<Rightarrow> cp_enc_2930 cp (signed_tx tx)
      | Eip1559 tx \<Rightarrow> cp_enc_1559 cp (signed_tx tx)
      | Eip7702 tx \<Rightarrow> cp_enc_7702 cp (signed_tx tx)
      | L1Message tx \<Rightarrow> cp_enc_l1 cp (sealed_inner tx))"

definition env_from_tx_compact ::
  "rlp_api \<Rightarrow> alloy_codec \<Rightarrow> (bytes \<Rightarrow> b256) \<Rightarrow> compact_api \<Rightarrow> bytes \<Rightarrow> ScrollTxType \<Rightarrow>
   Signature \<Rightarrow> ScrollTxEnvelope \<times> bytes" where
  "env_from_tx_compact r ac keccak256 cp buf tx_type sg =
     (case tx_type of
        TyLegacy \<Rightarrow> (let (tx, buf) = cp_dec_legacy cp buf in
          (Legacy (new_unhashed ac ALegacy tx sg), buf))
      | TyEip2930 \<Rightarrow> (let (tx, buf) = cp_dec_2930 cp buf in
          (Eip2930 (new_unhashed ac A2930 tx sg), buf))
      | TyEip1559 \<Rightarrow> (let (tx, buf) = cp_dec_1559 cp buf in
          (Eip1559 (new_unhashed ac A1559 tx sg), buf))
      | TyEip7702 \<Rightarrow> (let (tx, buf) = cp_dec_7702 cp buf in
          (Eip7702 (new_unhashed ac A7702 tx sg), buf))
      | TyL1Message \<Rightarrow> (let (tx, buf) = cp_dec_l1 cp buf in
          (L1Message (seal_slow r keccak256 tx), buf)))"

fun env_compact_signature :: "ScrollTxEnvelope \<Rightarrow> Signature" where
  "env_compact_signature (Legacy tx) = signed_signature tx"
| "env_compact_signature (Eip2930 tx) = signed_signature tx"
| "env_compact_signature (Eip1559 tx) = signed_signature tx"
| "env_compact_signature (Eip7702 tx) = signed_signature tx"
| "env_compact_signature (L1Message _) = \<lparr>sig_r = 0, sig_s = 0, sig_y_parity = False\<rparr>"

section \<open>Laws of the parameters\<close>

definition alloy_codec_laws :: "(bytes \<Rightarrow> b256) \<Rightarrow> alloy_codec \<Rightarrow> bool" where
  "alloy_codec_laws keccak256 ac \<longleftrightarrow>
     (\<forall>t sg rest. ac_decode_legacy ac (ac_encode ac (ALegacy t) sg @ rest) =
        Inr (new_unhashed ac ALegacy t sg, rest)) \<and>
     (\<forall>t sg rest. ac_decode_2930 ac (tl (ac_encode ac (A2930 t) sg) @ rest) =
        Inr (new_unhashed ac A2930 t sg, rest)) \<and>
     (\<forall>t sg rest. ac_decode_1559 ac (tl (ac_encode ac (A1559 t) sg) @ rest) =
        Inr (new_unhashed ac A1559 t sg, rest)) \<and>
     (\<forall>t sg rest. ac_decode_7702 ac (tl (ac_encode ac (A7702 t) sg) @ rest) =
        Inr (new_unhashed ac A7702 t sg, rest)) \<and>
     (\<forall>t sg. ac_encode ac (A2930 t) sg \<noteq> [] \<and> hd (ac_encode ac (A2930 t) sg) = 1) \<and>
     (\<forall>t sg. ac_encode ac (A1559 t) sg \<noteq> [] \<and> hd (ac_encode ac (A1559 t) sg) = 2) \<and>
     (\<forall>t sg. ac_encode ac (A7702 t) sg \<noteq> [] \<and> hd (ac_encode ac (A7702 t) sg) = 4) \<and>
     (\<forall>a sg. ac_encoded_length ac a sg = length (ac_encode ac a sg)) \<and>
     (\<forall>a sg. ac_tx_hash ac a sg = keccak256 (ac_encode ac a sg))"

text \<open>An envelope whose stored hash is the hash of its encoding, as every constructor of the
  library that computes it guarantees.\<close>

definition env_hash_consistent ::
  "rlp_api \<Rightarrow> alloy_codec \<Rightarrow> (bytes \<Rightarrow> b256) \<Rightarrow> ScrollTxEnvelope \<Rightarrow> bool" where
  "env_hash_consistent r ac keccak256 e \<longleftrightarrow>
     env_tx_hash e = keccak256 (env_encode_2718 r ac e)"

section \<open>Lemmas\<close>

lemma codec_okD:
  "codec_ok enc dec len \<Longrightarrow> dec (enc x @ rest) = Inr (x, rest)"
  "codec_ok enc dec len \<Longrightarrow> len x = length (enc x)"
  by (auto simp: codec_ok_def)

lemma rlp_codecs:
  assumes "rlp_laws r"
  shows "codec_ok (rlp_enc_u64 r) (rlp_dec_u64 r) (rlp_len_u64 r)"
    and "codec_ok (rlp_enc_address r) (rlp_dec_address r) (rlp_len_address r)"
    and "codec_ok (rlp_enc_u256 r) (rlp_dec_u256 r) (rlp_len_u256 r)"
    and "codec_ok (rlp_enc_bytes r) (rlp_dec_bytes r) (rlp_len_bytes r)"
  using assms by (auto simp: rlp_laws_def)

lemma rlp_header_law:
  "rlp_laws r \<Longrightarrow> n \<le> length rest \<Longrightarrow>
   rlp_dec_header r (rlp_enc_header r (l, n) @ rest) = Inr ((l, n), rest)"
  by (simp add: rlp_laws_def)

lemma rlp_header_len: "rlp_laws r \<Longrightarrow> rlp_len_header r h = length (rlp_enc_header r h)"
  by (cases h) (simp add: rlp_laws_def)

lemma l1_fields_length:
  "rlp_laws r \<Longrightarrow> l1_rlp_encoded_fields_length r tx = length (l1_rlp_encode_fields r tx)"
  by (simp add: l1_rlp_encoded_fields_length_def l1_rlp_encode_fields_def
      codec_okD(2) [OF rlp_codecs(1)] codec_okD(2) [OF rlp_codecs(2)]
      codec_okD(2) [OF rlp_codecs(3)] codec_okD(2) [OF rlp_codecs(4)])

lemma l1_fields_roundtrip:
  "rlp_laws r \<Longrightarrow> l1_rlp_decode_fields r (l1_rlp_encode_fields r tx @ rest) = Inr (tx, rest)"
  by (simp add: l1_rlp_decode_fields_def l1_rlp_encode_fields_def
      codec_okD(1) [OF rlp_codecs(1)] codec_okD(1) [OF rlp_codecs(2)]
      codec_okD(1) [OF rlp_codecs(3)] codec_okD(1) [OF rlp_codecs(4)])

lemma l1_decode_header:
  assumes "rlp_laws r" and "n \<le> length (l1_rlp_encode_fields r tx @ rest)"
  shows "l1_rlp_decode r (rlp_enc_header r (True, n) @ l1_rlp_encode_fields r tx @ rest) =
    (if n = length (l1_rlp_encode_fields r tx) then Inr (tx, rest)
     else Inl (ListLengthMismatch n (length (l1_rlp_encode_fields r tx))))"
  using rlp_header_law [OF assms] l1_fields_roundtrip [OF assms(1), of tx rest]
  by (simp add: l1_rlp_decode_def Let_def)

lemma l1_rlp_roundtrip:
  "rlp_laws r \<Longrightarrow> l1_rlp_decode r (l1_rlp_encode r tx @ rest) = Inr (tx, rest)"
  using l1_decode_header [of r "length (l1_rlp_encode_fields r tx)" tx rest]
  by (simp add: l1_rlp_encode_def l1_rlp_header_def l1_fields_length)

lemma l1_rlp_encoded_length_ok:
  "rlp_laws r \<Longrightarrow> l1_rlp_encoded_length r tx = length (l1_rlp_encode r tx)"
  by (simp add: l1_rlp_encoded_length_def l1_rlp_encode_def l1_rlp_header_def rlp_header_len
      l1_fields_length)

lemma hash_consistent_cases:
  assumes "alloy_codec_laws keccak256 ac"
  shows "env_hash_consistent r ac keccak256 (Legacy a) \<longleftrightarrow>
      new_unhashed ac ALegacy (signed_tx a) (signed_signature a) = a"
    and "env_hash_consistent r ac keccak256 (Eip2930 b) \<longleftrightarrow>
      new_unhashed ac A2930 (signed_tx b) (signed_signature b) = b"
    and "env_hash_consistent r ac keccak256 (Eip1559 c) \<longleftrightarrow>
      new_unhashed ac A1559 (signed_tx c) (signed_signature c) = c"
    and "env_hash_consistent r ac keccak256 (Eip7702 d) \<longleftrightarrow>
      new_unhashed ac A7702 (signed_tx d) (signed_signature d) = d"
    and "env_hash_consistent r ac keccak256 (L1Message m) \<longleftrightarrow>
      seal_slow r keccak256 (sealed_inner m) = m"
proof -
  have h: "ac_tx_hash ac x sg = keccak256 (ac_encode ac x sg)" for x sg
    using assms by (simp add: alloy_codec_laws_def)
  show "env_hash_consistent r ac keccak256 (Legacy a) \<longleftrightarrow>
      new_unhashed ac ALegacy (signed_tx a) (signed_signature a) = a"
    by (cases a) (auto simp: env_hash_consistent_def env_encode_2718_def new_unhashed_def h)
  show "env_hash_consistent r ac keccak256 (Eip2930 b) \<longleftrightarrow>
      new_unhashed ac A2930 (signed_tx b) (signed_signature b) = b"
    by (cases b) (auto simp: env_hash_consistent_def env_encode_2718_def new_unhashed_def h)
  show "env_hash_consistent r ac keccak256 (Eip1559 c) \<longleftrightarrow>
      new_unhashed ac A1559 (signed_tx c) (signed_signature c) = c"
    by (cases c) (auto simp: env_hash_consistent_def env_encode_2718_def new_unhashed_def h)
  show "env_hash_consistent r ac keccak256 (Eip7702 d) \<longleftrightarrow>
      new_unhashed ac A7702 (signed_tx d) (signed_signature d) = d"
    by (cases d) (auto simp: env_hash_consistent_def env_encode_2718_def new_unhashed_def h)
  show "env_hash_consistent r ac keccak256 (L1Message m) \<longleftrightarrow>
      seal_slow r keccak256 (sealed_inner m) = m"
    by (cases m) (auto simp: env_hash_consistent_def env_encode_2718_def seal_slow_def
        l1_tx_hash_def)
qed

lemma alloy_encode_cons:
  assumes "alloy_codec_laws keccak256 ac"
  shows "ac_encode ac (A2930 b) sg = 1 # tl (ac_encode ac (A2930 b) sg)"
    and "ac_encode ac (A1559 c) sg = 2 # tl (ac_encode ac (A1559 c) sg)"
    and "ac_encode ac (A7702 d) sg = 4 # tl (ac_encode ac (A7702 d) sg)"
  using assms by (simp_all add: alloy_codec_laws_def list.expand)

section \<open>Concrete codecs\<close>

text \<open>
  Instances that satisfy the laws: words as their bits, naturals in unary, lists and byte strings
  with their length in front, records through pairs. Used by the witnesses only.
\<close>

definition enc_word :: "'a::len word \<Rightarrow> bytes" where
  "enc_word x = map (\<lambda>i. of_bool (bit x i)) [0..<LENGTH('a)]"

definition dec_word :: "'a::len word decoder" where
  "dec_word buf =
     (if length buf < LENGTH('a) then Inl OtherRlp
      else Inr (horner_sum of_bool 2 (map (\<lambda>b. b = 1) (take LENGTH('a) buf)), drop LENGTH('a) buf))"

definition enc_nat :: "nat \<Rightarrow> bytes" where
  "enc_nat n = replicate n 1 @ [0]"

fun dec_nat :: "nat decoder" where
  "dec_nat [] = Inl OtherRlp"
| "dec_nat (b # buf) =
     (if b = 1 then rbind (dec_nat buf) (\<lambda>(n, buf). Inr (Suc n, buf)) else Inr (0, buf))"

definition enc_pair :: "('a \<Rightarrow> bytes) \<Rightarrow> ('b \<Rightarrow> bytes) \<Rightarrow> 'a \<times> 'b \<Rightarrow> bytes" where
  "enc_pair e f p = e (fst p) @ f (snd p)"

definition dec_pair :: "'a decoder \<Rightarrow> 'b decoder \<Rightarrow> ('a \<times> 'b) decoder" where
  "dec_pair d g buf = rbind (d buf) (\<lambda>(x, buf). rbind (g buf) (\<lambda>(y, buf). Inr ((x, y), buf)))"

fun dec_times :: "'a decoder \<Rightarrow> nat \<Rightarrow> 'a list decoder" where
  "dec_times d 0 buf = Inr ([], buf)"
| "dec_times d (Suc n) buf =
     rbind (d buf) (\<lambda>(x, buf). rbind (dec_times d n buf) (\<lambda>(xs, buf). Inr (x # xs, buf)))"

definition enc_seq :: "('a \<Rightarrow> bytes) \<Rightarrow> 'a list \<Rightarrow> bytes" where
  "enc_seq e xs = enc_nat (length xs) @ concat (map e xs)"

definition dec_seq :: "'a decoder \<Rightarrow> 'a list decoder" where
  "dec_seq d buf = rbind (dec_nat buf) (\<lambda>(n, buf). dec_times d n buf)"

definition dec_map :: "('a \<Rightarrow> 'b) \<Rightarrow> 'a decoder \<Rightarrow> 'b decoder" where
  "dec_map f d buf = rbind (d buf) (\<lambda>(x, buf). Inr (f x, buf))"

definition decodes :: "('a \<Rightarrow> bytes) \<Rightarrow> 'a decoder \<Rightarrow> bool" where
  "decodes enc dec \<longleftrightarrow> (\<forall>x rest. dec (enc x @ rest) = Inr (x, rest))"

lemma decodesD: "decodes enc dec \<Longrightarrow> dec (enc x @ rest) = Inr (x, rest)"
  by (simp add: decodes_def)

lemma decodes_word [simp]: "decodes enc_word dec_word"
  by (simp add: decodes_def enc_word_def dec_word_def comp_def horner_sum_bit_eq_take_bit)

lemma decodes_nat [simp]: "decodes enc_nat dec_nat"
proof -
  have "dec_nat (replicate n 1 @ 0 # rest) = Inr (n, rest)" for n and rest :: bytes
    by (induction n) simp_all
  then show ?thesis by (simp add: decodes_def enc_nat_def)
qed

lemma decodes_pair [simp]:
  "decodes e d \<Longrightarrow> decodes f g \<Longrightarrow> decodes (enc_pair e f) (dec_pair d g)"
  by (simp add: decodes_def enc_pair_def dec_pair_def)

lemma decodes_seq [simp]:
  assumes "decodes e d"
  shows "decodes (enc_seq e) (dec_seq d)"
proof -
  have "dec_times d (length xs) (concat (map e xs) @ rest) = Inr (xs, rest)" for xs rest
    by (induction xs) (simp_all add: decodesD [OF assms])
  then show ?thesis
    using decodesD [OF decodes_nat] by (simp add: decodes_def enc_seq_def dec_seq_def)
qed

lemma decodes_map:
  "decodes e d \<Longrightarrow> (\<And>x. f (g x) = x) \<Longrightarrow> decodes (\<lambda>x. e (g x)) (dec_map f d)"
  by (simp add: decodes_def dec_map_def)

definition sample_rlp :: rlp_api where
  "sample_rlp = \<lparr>
     rlp_enc_u64 = enc_word, rlp_dec_u64 = dec_word, rlp_len_u64 = (\<lambda>x. length (enc_word x)),
     rlp_enc_address = enc_word, rlp_dec_address = dec_word,
     rlp_len_address = (\<lambda>x. length (enc_word x)),
     rlp_enc_u256 = enc_word, rlp_dec_u256 = dec_word, rlp_len_u256 = (\<lambda>x. length (enc_word x)),
     rlp_enc_bytes = enc_seq (\<lambda>b. [b]),
     rlp_dec_bytes = dec_seq (\<lambda>buf. case buf of [] \<Rightarrow> Inl OtherRlp | b # rest \<Rightarrow> Inr (b, rest)),
     rlp_len_bytes = (\<lambda>x. length (enc_seq (\<lambda>b. [b]) x)),
     rlp_enc_header = (\<lambda>(l, n). of_bool l # enc_nat n),
     rlp_dec_header = (\<lambda>buf. case buf of
         [] \<Rightarrow> Inl OtherRlp
       | b # buf \<Rightarrow> rbind (dec_nat buf) (\<lambda>(n, buf).
           if n \<le> length buf then Inr ((b = 1, n), buf) else Inl OtherRlp)),
     rlp_len_header = (\<lambda>(l, n). length (of_bool l # enc_nat n :: bytes))\<rparr>"

lemma sample_rlp_laws [simp]: "rlp_laws sample_rlp"
proof -
  have byte: "decodes (\<lambda>b. [b :: u8]) (\<lambda>buf. case buf of [] \<Rightarrow> Inl OtherRlp | b # rest \<Rightarrow> Inr (b, rest))"
    by (simp add: decodes_def)
  show ?thesis
    using decodesD [OF decodes_nat] decodesD [OF decodes_seq [OF byte]]
    by (auto simp: rlp_laws_def sample_rlp_def codec_ok_def decodesD [OF decodes_word])
qed

type_synonym sig_tuple = "u256 \<times> u256 \<times> nat"

definition sig_tuple :: "Signature \<Rightarrow> sig_tuple" where
  "sig_tuple s = (sig_r s, sig_s s, of_bool (sig_y_parity s))"

definition tuple_sig :: "sig_tuple \<Rightarrow> Signature" where
  "tuple_sig p = (case p of (r, s, b) \<Rightarrow> \<lparr>sig_r = r, sig_s = s, sig_y_parity = (b = 1)\<rparr>)"

lemma tuple_sig_inverse [simp]: "tuple_sig (sig_tuple s) = s"
  by (simp add: tuple_sig_def sig_tuple_def)

definition enc_sig :: "Signature \<Rightarrow> bytes" where
  "enc_sig s = enc_pair enc_word (enc_pair enc_word enc_nat) (sig_tuple s)"

definition dec_sig :: "Signature decoder" where
  "dec_sig = dec_map tuple_sig (dec_pair dec_word (dec_pair dec_word dec_nat))"

lemma decodes_sig [simp]: "decodes enc_sig dec_sig"
  unfolding enc_sig_def dec_sig_def by (rule decodes_map) simp_all

definition enc_kind :: "TxKind \<Rightarrow> bytes" where
  "enc_kind k = enc_seq enc_word (case k of Create \<Rightarrow> [] | Call a \<Rightarrow> [a])"

definition dec_kind :: "TxKind decoder" where
  "dec_kind = dec_map (\<lambda>l. case l of [] \<Rightarrow> Create | a # _ \<Rightarrow> Call a) (dec_seq dec_word)"

lemma decodes_kind [simp]: "decodes enc_kind dec_kind"
  unfolding enc_kind_def dec_kind_def by (rule decodes_map) (simp_all split: TxKind.split)

definition enc_opt :: "u64 option \<Rightarrow> bytes" where
  "enc_opt m = enc_seq enc_word (case m of None \<Rightarrow> [] | Some a \<Rightarrow> [a])"

definition dec_opt :: "u64 option decoder" where
  "dec_opt = dec_map (\<lambda>l. case l of [] \<Rightarrow> None | a # _ \<Rightarrow> Some a) (dec_seq dec_word)"

lemma decodes_opt [simp]: "decodes enc_opt dec_opt"
  unfolding enc_opt_def dec_opt_def by (rule decodes_map) (simp_all split: option.split)

definition enc_access :: "access_list \<Rightarrow> bytes" where
  "enc_access = enc_seq (enc_pair enc_word (enc_seq enc_word))"

definition dec_access :: "access_list decoder" where
  "dec_access = dec_seq (dec_pair dec_word (dec_seq dec_word))"

lemma decodes_access [simp]: "decodes enc_access dec_access"
  by (simp add: enc_access_def dec_access_def)

definition enc_auth :: "SignedAuthorization \<Rightarrow> bytes" where
  "enc_auth a = enc_pair enc_word (enc_pair enc_word (enc_pair enc_word enc_sig))
     (auth_chain_id a, auth_address a, auth_nonce a, auth_signature a)"

definition dec_auth :: "SignedAuthorization decoder" where
  "dec_auth = dec_map (\<lambda>(c, a, n, s). \<lparr>auth_chain_id = c, auth_address = a, auth_nonce = n,
      auth_signature = s\<rparr>)
     (dec_pair dec_word (dec_pair dec_word (dec_pair dec_word dec_sig)))"

lemma decodes_auth [simp]: "decodes enc_auth dec_auth"
  unfolding enc_auth_def dec_auth_def by (rule decodes_map) simp_all

definition enc_legacy :: "TxLegacy \<Rightarrow> bytes" where
  "enc_legacy t = enc_pair enc_opt (enc_pair enc_word (enc_pair enc_word (enc_pair enc_word
     (enc_pair enc_kind (enc_pair enc_word (enc_seq enc_word))))))
     (lg_chain_id t, lg_nonce t, lg_gas_price t, lg_gas_limit t, lg_to t, lg_value t, lg_input t)"

definition dec_legacy :: "TxLegacy decoder" where
  "dec_legacy = dec_map (\<lambda>(c, n, p, g, k, v, i). \<lparr>lg_chain_id = c, lg_nonce = n, lg_gas_price = p,
      lg_gas_limit = g, lg_to = k, lg_value = v, lg_input = i\<rparr>)
     (dec_pair dec_opt (dec_pair dec_word (dec_pair dec_word (dec_pair dec_word
       (dec_pair dec_kind (dec_pair dec_word (dec_seq dec_word)))))))"

lemma decodes_legacy [simp]: "decodes enc_legacy dec_legacy"
  unfolding enc_legacy_def dec_legacy_def by (rule decodes_map) simp_all

definition enc_2930 :: "TxEip2930 \<Rightarrow> bytes" where
  "enc_2930 t = enc_pair enc_word (enc_pair enc_word (enc_pair enc_word (enc_pair enc_word
     (enc_pair enc_kind (enc_pair enc_word (enc_pair enc_access (enc_seq enc_word)))))))
     (t2930_chain_id t, t2930_nonce t, t2930_gas_price t, t2930_gas_limit t, t2930_to t,
      t2930_value t, t2930_access_list t, t2930_input t)"

definition dec_2930 :: "TxEip2930 decoder" where
  "dec_2930 = dec_map (\<lambda>(c, n, p, g, k, v, a, i). \<lparr>t2930_chain_id = c, t2930_nonce = n,
      t2930_gas_price = p, t2930_gas_limit = g, t2930_to = k, t2930_value = v,
      t2930_access_list = a, t2930_input = i\<rparr>)
     (dec_pair dec_word (dec_pair dec_word (dec_pair dec_word (dec_pair dec_word
       (dec_pair dec_kind (dec_pair dec_word (dec_pair dec_access (dec_seq dec_word))))))))"

lemma decodes_2930 [simp]: "decodes enc_2930 dec_2930"
  unfolding enc_2930_def dec_2930_def by (rule decodes_map) simp_all

definition enc_1559 :: "TxEip1559 \<Rightarrow> bytes" where
  "enc_1559 t = enc_pair enc_word (enc_pair enc_word (enc_pair enc_word (enc_pair enc_word
     (enc_pair enc_word (enc_pair enc_kind (enc_pair enc_word
       (enc_pair enc_access (enc_seq enc_word))))))))
     (t1559_chain_id t, t1559_nonce t, t1559_gas_limit t, t1559_max_fee_per_gas t,
      t1559_max_priority_fee_per_gas t, t1559_to t, t1559_value t, t1559_access_list t,
      t1559_input t)"

definition dec_1559 :: "TxEip1559 decoder" where
  "dec_1559 = dec_map (\<lambda>(c, n, g, m, p, k, v, a, i). \<lparr>t1559_chain_id = c, t1559_nonce = n,
      t1559_gas_limit = g, t1559_max_fee_per_gas = m, t1559_max_priority_fee_per_gas = p,
      t1559_to = k, t1559_value = v, t1559_access_list = a, t1559_input = i\<rparr>)
     (dec_pair dec_word (dec_pair dec_word (dec_pair dec_word (dec_pair dec_word
       (dec_pair dec_word (dec_pair dec_kind (dec_pair dec_word
         (dec_pair dec_access (dec_seq dec_word)))))))))"

lemma decodes_1559 [simp]: "decodes enc_1559 dec_1559"
  unfolding enc_1559_def dec_1559_def by (rule decodes_map) simp_all

definition enc_7702 :: "TxEip7702 \<Rightarrow> bytes" where
  "enc_7702 t = enc_pair enc_word (enc_pair enc_word (enc_pair enc_word (enc_pair enc_word
     (enc_pair enc_word (enc_pair enc_word (enc_pair enc_word
       (enc_pair enc_access (enc_pair (enc_seq enc_auth) (enc_seq enc_word)))))))))
     (t7702_chain_id t, t7702_nonce t, t7702_gas_limit t, t7702_max_fee_per_gas t,
      t7702_max_priority_fee_per_gas t, t7702_to t, t7702_value t, t7702_access_list t,
      t7702_authorization_list t, t7702_input t)"

definition dec_7702 :: "TxEip7702 decoder" where
  "dec_7702 = dec_map (\<lambda>(c, n, g, m, p, k, v, a, l, i). \<lparr>t7702_chain_id = c, t7702_nonce = n,
      t7702_gas_limit = g, t7702_max_fee_per_gas = m, t7702_max_priority_fee_per_gas = p,
      t7702_to = k, t7702_value = v, t7702_access_list = a, t7702_authorization_list = l,
      t7702_input = i\<rparr>)
     (dec_pair dec_word (dec_pair dec_word (dec_pair dec_word (dec_pair dec_word
       (dec_pair dec_word (dec_pair dec_word (dec_pair dec_word
         (dec_pair dec_access (dec_pair (dec_seq dec_auth) (dec_seq dec_word))))))))))"

lemma decodes_7702 [simp]: "decodes enc_7702 dec_7702"
  unfolding enc_7702_def dec_7702_def by (rule decodes_map) simp_all

definition enc_l1 :: "TxL1Message \<Rightarrow> bytes" where
  "enc_l1 t = enc_pair enc_word (enc_pair enc_word (enc_pair enc_word (enc_pair enc_word
     (enc_pair enc_word (enc_seq enc_word)))))
     (l1m_queue_index t, l1m_gas_limit t, l1m_to t, l1m_value t, l1m_sender t, l1m_input t)"

definition dec_l1 :: "TxL1Message decoder" where
  "dec_l1 = dec_map (\<lambda>(q, g, k, v, s, i). \<lparr>l1m_queue_index = q, l1m_gas_limit = g, l1m_to = k,
      l1m_value = v, l1m_sender = s, l1m_input = i\<rparr>)
     (dec_pair dec_word (dec_pair dec_word (dec_pair dec_word (dec_pair dec_word
       (dec_pair dec_word (dec_seq dec_word))))))"

lemma decodes_l1 [simp]: "decodes enc_l1 dec_l1"
  unfolding enc_l1_def dec_l1_def by (rule decodes_map) simp_all

definition sample_keccak :: "bytes \<Rightarrow> b256" where
  "sample_keccak bs = of_nat (length bs)"

fun sample_encode :: "alloy_tx \<Rightarrow> Signature \<Rightarrow> bytes" where
  "sample_encode (ALegacy t) sg = 0xc0 # enc_pair enc_legacy enc_sig (t, sg)"
| "sample_encode (A2930 t) sg = 1 # enc_pair enc_2930 enc_sig (t, sg)"
| "sample_encode (A1559 t) sg = 2 # enc_pair enc_1559 enc_sig (t, sg)"
| "sample_encode (A7702 t) sg = 4 # enc_pair enc_7702 enc_sig (t, sg)"

definition sample_sign :: "('t \<Rightarrow> alloy_tx) \<Rightarrow> 't \<times> Signature \<Rightarrow> 't Signed" where
  "sample_sign con p = \<lparr>signed_tx = fst p, signed_signature = snd p,
     signed_hash = sample_keccak (sample_encode (con (fst p)) (snd p))\<rparr>"

definition sample_alloy_codec :: alloy_codec where
  "sample_alloy_codec = \<lparr>
     ac_encode = sample_encode,
     ac_encoded_length = (\<lambda>a sg. length (sample_encode a sg)),
     ac_decode_legacy = (\<lambda>buf. dec_map (sample_sign ALegacy) (dec_pair dec_legacy dec_sig) (tl buf)),
     ac_decode_2930 = dec_map (sample_sign A2930) (dec_pair dec_2930 dec_sig),
     ac_decode_1559 = dec_map (sample_sign A1559) (dec_pair dec_1559 dec_sig),
     ac_decode_7702 = dec_map (sample_sign A7702) (dec_pair dec_7702 dec_sig),
     ac_tx_hash = (\<lambda>a sg. sample_keccak (sample_encode a sg)),
     ac_signature_hash = (\<lambda>a. 0),
     ac_recover = (\<lambda>sg h. Inr (ucast (sig_r sg))),
     ac_recover_unchecked = (\<lambda>sg h. Inr (ucast (sig_r sg)))\<rparr>"

lemma sample_alloy_codec_laws [simp]: "alloy_codec_laws sample_keccak sample_alloy_codec"
  using decodesD [OF decodes_pair [OF decodes_legacy decodes_sig]]
    decodesD [OF decodes_pair [OF decodes_2930 decodes_sig]]
    decodesD [OF decodes_pair [OF decodes_1559 decodes_sig]]
    decodesD [OF decodes_pair [OF decodes_7702 decodes_sig]]
  by (simp add: alloy_codec_laws_def sample_alloy_codec_def dec_map_def sample_sign_def
      new_unhashed_def)

lemma length_enc_word: "length (enc_word (x :: 'a::len word)) = LENGTH('a)"
  by (simp add: enc_word_def)

lemma sample_legacy_codec:
  "length (ac_encode sample_alloy_codec (ALegacy (signed_tx sample_legacy)) (signed_signature sample_legacy)) = 1256"
  "ac_encoded_length sample_alloy_codec (ALegacy (signed_tx sample_legacy)) (signed_signature sample_legacy) = 1256"
  "env_hash_consistent r sample_alloy_codec sample_keccak (Legacy sample_legacy)"
  "env_recover_signer sample_alloy_codec (Legacy sample_legacy) = Inr 9"
  by (simp_all add: sample_alloy_codec_def sample_legacy_def enc_pair_def enc_legacy_def enc_sig_def sig_tuple_def
      enc_opt_def enc_seq_def enc_nat_def enc_kind_def env_hash_consistent_def env_encode_2718_def
      sample_keccak_def env_recover_signer_def length_enc_word)

definition take_one :: "'a decoder \<Rightarrow> bytes \<Rightarrow> 'a \<times> bytes" where
  "take_one d buf = projr (d buf)"

definition sample_compact :: compact_api where
  "sample_compact = \<lparr>
     cp_ids = \<lparr>ci_legacy = 0, ci_eip2930 = 1, ci_eip1559 = 2, ci_extended = 3\<rparr>,
     cp_enc_legacy = enc_legacy, cp_dec_legacy = take_one dec_legacy,
     cp_enc_2930 = enc_2930, cp_dec_2930 = take_one dec_2930,
     cp_enc_1559 = enc_1559, cp_dec_1559 = take_one dec_1559,
     cp_enc_7702 = enc_7702, cp_dec_7702 = take_one dec_7702,
     cp_enc_l1 = enc_l1, cp_dec_l1 = take_one dec_l1\<rparr>"

lemma decodes_take_one: "decodes e d \<Longrightarrow> take_one d (e x) = (x, [])"
  using decodesD [of e d x "[]"] by (simp add: take_one_def)

lemma sample_compact_laws [simp]: "compact_laws sample_compact"
  by (simp add: compact_laws_def sample_compact_def compact_ids_distinct_def decodes_take_one)

section \<open>Properties\<close>

text \<open>The RLP codec of an L1 message is exact: decoding an encoded message gives it back and
  leaves the following bytes unread, the announced lengths are the lengths written, and a list
  header that claims another payload length, or that is not a list, is an error.\<close>

theorem l1_message_rlp_exact:
  assumes "rlp_laws r"
  shows "l1_rlp_decode r (l1_rlp_encode r tx @ rest) = Inr (tx, rest) \<and>
    l1_typed_decode r 126 (tl (l1_eip2718_encode r tx) @ rest) = Inr (tx, rest) \<and>
    l1_rlp_encoded_length r tx = length (l1_rlp_encode r tx) \<and>
    l1_eip2718_encoded_length r tx = length (l1_eip2718_encode r tx) \<and>
    l1_encode_2718 r tx = l1_eip2718_encode r tx \<and>
    (\<forall>n. n \<le> length (l1_rlp_encode_fields r tx @ rest) \<and> n \<noteq> l1_rlp_encoded_fields_length r tx \<longrightarrow>
       l1_rlp_decode r (rlp_enc_header r (True, n) @ l1_rlp_encode_fields r tx @ rest) =
         Inl (ListLengthMismatch n (l1_rlp_encoded_fields_length r tx))) \<and>
    (\<forall>n. n \<le> length rest \<longrightarrow>
       l1_rlp_decode r (rlp_enc_header r (False, n) @ rest) = Inl UnexpectedString)"
  using l1_rlp_roundtrip [OF assms, of tx rest] l1_rlp_encoded_length_ok [OF assms, of tx]
    l1_decode_header [OF assms, of _ tx rest] rlp_header_law [OF assms, of _ rest False]
    l1_fields_length [OF assms, of tx]
  by (auto simp: l1_typed_decode_def l1_eip2718_encode_def l1_eip2718_encoded_length_def
      l1_encode_2718_def l1_tx_type_def L1_MESSAGE_TRANSACTION_TYPE_def
      l1_rlp_decode_def [of r "rlp_enc_header r (False, _) @ rest"])

theorem l1_message_rlp_exact_witness:
  "l1_rlp_decode sample_rlp (l1_rlp_encode sample_rlp (sealed_inner sample_l1_message) @ [9])
     = Inr (sealed_inner sample_l1_message, [9]) \<and>
   l1_rlp_decode sample_rlp (rlp_enc_header sample_rlp (False, 1) @ [9]) = Inl UnexpectedString"
  using l1_message_rlp_exact [OF sample_rlp_laws, of "sealed_inner sample_l1_message" "[9]"]
  by simp

lemma alloy_decode_laws:
  assumes "alloy_codec_laws keccak256 ac"
  shows "ac_decode_legacy ac (ac_encode ac (ALegacy a) sg @ rest) = Inr (new_unhashed ac ALegacy a sg, rest)"
    "ac_decode_2930 ac (tl (ac_encode ac (A2930 b) sg) @ rest) = Inr (new_unhashed ac A2930 b sg, rest)"
    "ac_decode_1559 ac (tl (ac_encode ac (A1559 c) sg) @ rest) = Inr (new_unhashed ac A1559 c sg, rest)"
    "ac_decode_7702 ac (tl (ac_encode ac (A7702 d) sg) @ rest) = Inr (new_unhashed ac A7702 d sg, rest)"
    "ac_encoded_length ac t sg = length (ac_encode ac t sg)"
  using assms by (simp_all add: alloy_codec_laws_def)

lemma envelope_decode_ok:
  assumes r: "rlp_laws r" and ac: "alloy_codec_laws keccak256 ac"
    and hash: "env_hash_consistent r ac keccak256 e"
  shows "case env_type_flag e of
       None \<Rightarrow> env_fallback_decode ac (env_encode_2718 r ac e @ rest) = Inr (e, rest)
     | Some ty \<Rightarrow> env_encode_2718 r ac e = ty # tl (env_encode_2718 r ac e) \<and> env_is_type ty \<and>
         env_typed_decode r ac keccak256 ty (tl (env_encode_2718 r ac e) @ rest) = Inr (e, rest)"
proof -
  note con = hash_consistent_cases [OF ac, of r]
  note cons = alloy_encode_cons [OF ac]
  show ?thesis
    using hash l1_rlp_roundtrip [OF r] alloy_decode_laws [OF ac]
    by (cases e)
      (auto simp: con env_encode_2718_def env_fallback_decode_def env_typed_decode_def env_is_type_def
        l1_eip2718_encode_def tx_type_try_from_u8_def L1_MESSAGE_TX_TYPE_ID_def
        L1_MESSAGE_TRANSACTION_TYPE_def intro: cons)
qed

text \<open>C13. The EIP-2718 encoding of every transaction is read back: a legacy envelope by the
  fallback decoder, a typed one by the typed decoder under the type byte it starts with; the
  announced length is the length written. The pool decoders read the same bytes into the same
  transaction and refuse those of an L1 message.\<close>

theorem envelope_2718_roundtrip:
  assumes r: "rlp_laws r" and ac: "alloy_codec_laws keccak256 ac"
    and hash: "env_hash_consistent r ac keccak256 e"
  shows "env_eip2718_encoded_length r ac e = length (env_encode_2718 r ac e) \<and>
    (case env_type_flag e of
       None \<Rightarrow> env_fallback_decode ac (env_encode_2718 r ac e @ rest) = Inr (e, rest) \<and>
         (\<forall>p. e = into_scroll_envelope p \<longrightarrow>
            pooled_fallback_decode ac (pooled_encode_2718 ac p @ rest) = Inr (p, rest))
     | Some ty \<Rightarrow> env_encode_2718 r ac e = ty # tl (env_encode_2718 r ac e) \<and> env_is_type ty \<and>
         env_typed_decode r ac keccak256 ty (tl (env_encode_2718 r ac e) @ rest) = Inr (e, rest) \<and>
         (\<forall>p. e = into_scroll_envelope p \<longrightarrow>
            pooled_typed_decode ac ty (tl (pooled_encode_2718 ac p) @ rest) = Inr (p, rest)) \<and>
         (env_is_l1_message e \<longrightarrow>
            pooled_typed_decode ac ty (tl (env_encode_2718 r ac e) @ rest) =
              Inl (UnexpectedType 126)))"
proof -
  note con = hash_consistent_cases [OF ac, of r]
  have pooled: "e = into_scroll_envelope p \<longleftrightarrow> try_into_pooled e = Inr p" for p
    by (cases e; cases p) auto
  show ?thesis
    using hash l1_rlp_encoded_length_ok [OF r] envelope_decode_ok [OF r ac hash, of rest]
    unfolding pooled
    by (cases e)
      (auto simp: con alloy_decode_laws [OF ac] env_encode_2718_def env_eip2718_encoded_length_def
        env_fallback_decode_def pooled_fallback_decode_def pooled_encode_2718_def
        env_typed_decode_def pooled_typed_decode_def env_is_type_def env_is_l1_message_def
        l1_eip2718_encode_def l1_eip2718_encoded_length_def tx_type_try_from_u8_def
        L1_MESSAGE_TX_TYPE_ID_def L1_MESSAGE_TRANSACTION_TYPE_def)
qed

theorem envelope_2718_roundtrip_witness:
  "let e = env_from_l1_message sample_rlp sample_keccak (sealed_inner sample_l1_message) in
   env_typed_decode sample_rlp sample_alloy_codec sample_keccak 126
     (tl (env_encode_2718 sample_rlp sample_alloy_codec e) @ []) = Inr (e, [])"
proof -
  have "env_hash_consistent sample_rlp sample_alloy_codec sample_keccak
      (env_from_l1_message sample_rlp sample_keccak (sealed_inner sample_l1_message))"
    by (simp add: env_from_l1_message_def hash_consistent_cases(5) [OF sample_alloy_codec_laws]
        seal_slow_def)
  from envelope_2718_roundtrip [OF sample_rlp_laws sample_alloy_codec_laws this, of "[]"]
  show ?thesis
    by (simp add: env_from_l1_message_def Let_def L1_MESSAGE_TX_TYPE_ID_def)
qed

text \<open>C35. The database keeps transactions intact: an unsigned transaction written by \<open>to_compact\<close>
  is read back under the identifier it returned, and an envelope is rebuilt from its body, its
  type and the signature stored beside it (zero for an L1 message), with the hash recomputed.\<close>

theorem compact_roundtrip:
  assumes cp: "compact_laws cp" and ac: "alloy_codec_laws keccak256 ac"
    and hash: "env_hash_consistent r ac keccak256 e"
  shows "(case typed_to_compact cp t [] of (identifier, buf) \<Rightarrow>
       typed_from_compact cp buf identifier = Some (t, [])) \<and>
    env_from_tx_compact r ac keccak256 cp (env_to_tx_compact cp e []) (env_tx_type e)
      (env_compact_signature e) = (e, [])"
proof
  have ids: "ci_legacy (cp_ids cp) \<noteq> ci_eip2930 (cp_ids cp)" "ci_legacy (cp_ids cp) \<noteq> ci_eip1559 (cp_ids cp)"
    "ci_legacy (cp_ids cp) \<noteq> ci_extended (cp_ids cp)" "ci_eip2930 (cp_ids cp) \<noteq> ci_eip1559 (cp_ids cp)"
    "ci_eip2930 (cp_ids cp) \<noteq> ci_extended (cp_ids cp)" "ci_eip1559 (cp_ids cp) \<noteq> ci_extended (cp_ids cp)"
    using cp by (auto simp: compact_laws_def compact_ids_distinct_def)
  have dec: "cp_dec_legacy cp (cp_enc_legacy cp a) = (a, [])" "cp_dec_2930 cp (cp_enc_2930 cp b) = (b, [])"
    "cp_dec_1559 cp (cp_enc_1559 cp c) = (c, [])" "cp_dec_7702 cp (cp_enc_7702 cp d) = (d, [])"
    "cp_dec_l1 cp (cp_enc_l1 cp m) = (m, [])" for a b c d m
    using cp by (simp_all add: compact_laws_def)
  show "case typed_to_compact cp t [] of (identifier, buf) \<Rightarrow>
      typed_from_compact cp buf identifier = Some (t, [])"
    using ids by (cases t)
      (auto simp: typed_to_compact_def typed_from_compact_def tx_type_from_compact_def dec
        L1_MESSAGE_TX_TYPE_ID_def)
  show "env_from_tx_compact r ac keccak256 cp (env_to_tx_compact cp e []) (env_tx_type e)
      (env_compact_signature e) = (e, [])"
    using hash by (cases e)
      (simp_all add: env_from_tx_compact_def env_to_tx_compact_def dec
        hash_consistent_cases [OF ac])
qed

theorem compact_roundtrip_witness:
  "let e = env_from_l1_message sample_rlp sample_keccak (sealed_inner sample_l1_message) in
   env_from_tx_compact sample_rlp sample_alloy_codec sample_keccak sample_compact
     (env_to_tx_compact sample_compact e []) TyL1Message l1_signature = (e, []) \<and>
   typed_to_compact sample_compact (TL1Message (sealed_inner sample_l1_message)) [] =
     (3, 126 # enc_l1 (sealed_inner sample_l1_message))"
proof -
  have "env_hash_consistent sample_rlp sample_alloy_codec sample_keccak
      (env_from_l1_message sample_rlp sample_keccak (sealed_inner sample_l1_message))"
    by (simp add: env_from_l1_message_def hash_consistent_cases(5) [OF sample_alloy_codec_laws]
        seal_slow_def)
  from compact_roundtrip [OF sample_compact_laws sample_alloy_codec_laws this,
      of "TL1Message (sealed_inner sample_l1_message)"]
  show ?thesis
    by (simp add: env_from_l1_message_def Let_def l1_signature_def typed_to_compact_def
        sample_compact_def L1_MESSAGE_TX_TYPE_ID_def)
qed

end
