(* ===== verification/Receipts.thy ===== *)
theory Receipts
  imports Tx_Codec Chainspec
begin

text \<open>
  Receipts: \<open>crates/dogeos-protocol-types/src/receipt/receipt.rs\<close> (a receipt with its L1 fee),
  \<open>receipt/envelope.rs\<close> (the RPC envelope) and \<open>crates/dogeos-reth-primitives/src/receipt.rs\<close>
  (the node's receipt and its consensus encodings).

  Parameters: the RLP codecs of the plain receipt of \<open>alloy_consensus\<close> and of its status and logs
  (\<open>receipt_rlp\<close>, laws \<open>receipt_rlp_laws\<close>) and the bloom filter of a list of logs.
\<close>

section \<open>Data\<close>

record Log =
  log_address :: address
  log_topics :: "b256 list"
  log_data :: bytes

datatype Eip658Value = Eip658 bool | PostState b256

record Receipt =
  rc_status :: Eip658Value
  rc_cumulative_gas_used :: u64
  rc_logs :: "Log list"

record ScrollTransactionReceipt =
  str_inner :: Receipt
  str_l1_fee :: u256

datatype ScrollReceipt =
    RLegacy ScrollTransactionReceipt
  | REip2930 ScrollTransactionReceipt
  | REip1559 ScrollTransactionReceipt
  | REip7702 ScrollTransactionReceipt
  | RL1Message Receipt

record 'r ReceiptWithBloom =
  rwb_receipt :: 'r
  rwb_logs_bloom :: bloom

datatype ScrollReceiptEnvelope =
    ELegacy "Receipt ReceiptWithBloom"
  | EEip2930 "Receipt ReceiptWithBloom"
  | EEip1559 "Receipt ReceiptWithBloom"
  | EEip7702 "Receipt ReceiptWithBloom"
  | EL1Message "Receipt ReceiptWithBloom"

fun coerce_status :: "Eip658Value \<Rightarrow> bool" where
  "coerce_status (Eip658 b) = b"
| "coerce_status (PostState _) = True"

section \<open>Parameters\<close>

record receipt_rlp =
  rr_fields_len :: "Receipt \<Rightarrow> bloom \<Rightarrow> nat"
  rr_enc_fields :: "Receipt \<Rightarrow> bloom \<Rightarrow> bytes"
  rr_dec_fields :: "Receipt ReceiptWithBloom decoder"
  rr_dec_with_bloom :: "Receipt ReceiptWithBloom decoder"
  rr_enc_status :: "Eip658Value \<Rightarrow> bytes"
  rr_dec_status :: "Eip658Value decoder"
  rr_len_status :: "Eip658Value \<Rightarrow> nat"
  rr_enc_logs :: "Log list \<Rightarrow> bytes"
  rr_dec_logs :: "Log list decoder"
  rr_len_logs :: "Log list \<Rightarrow> nat"
  rr_dec_u8 :: "u8 decoder"

definition receipt_rlp_laws :: "rlp_api \<Rightarrow> receipt_rlp \<Rightarrow> bool" where
  "receipt_rlp_laws r rr \<longleftrightarrow> rlp_laws r \<and>
     codec_ok (rr_enc_status rr) (rr_dec_status rr) (rr_len_status rr) \<and>
     codec_ok (rr_enc_logs rr) (rr_dec_logs rr) (rr_len_logs rr) \<and>
     (\<forall>rc b. rr_fields_len rr rc b = length (rr_enc_fields rr rc b)) \<and>
     (\<forall>rc b rest. rr_dec_fields rr (rr_enc_fields rr rc b @ rest) =
        Inr (\<lparr>rwb_receipt = rc, rwb_logs_bloom = b\<rparr>, rest)) \<and>
     (\<forall>rc b rest. rr_dec_with_bloom rr (rlp_enc_header r (True, length (rr_enc_fields rr rc b)) @
          rr_enc_fields rr rc b @ rest) =
        Inr (\<lparr>rwb_receipt = rc, rwb_logs_bloom = b\<rparr>, rest)) \<and>
     (\<forall>b rest. b \<noteq> 0 \<and> b < 0x80 \<longrightarrow> rr_dec_u8 rr (b # rest) = Inr (b, rest))"

section \<open>Receipt with L1 fee\<close>

definition scroll_receipt_new :: "Receipt \<Rightarrow> u256 \<Rightarrow> ScrollTransactionReceipt" where
  "scroll_receipt_new inner l1_fee = \<lparr>str_inner = inner, str_l1_fee = l1_fee\<rparr>"

definition str_fields_length :: "receipt_rlp \<Rightarrow> ScrollTransactionReceipt \<Rightarrow> bloom \<Rightarrow> nat" where
  "str_fields_length rr s b = rr_fields_len rr (str_inner s) b"

definition str_encode_fields :: "receipt_rlp \<Rightarrow> ScrollTransactionReceipt \<Rightarrow> bloom \<Rightarrow> bytes" where
  "str_encode_fields rr s b = rr_enc_fields rr (str_inner s) b"

definition str_header :: "receipt_rlp \<Rightarrow> ScrollTransactionReceipt \<Rightarrow> bloom \<Rightarrow> bool \<times> nat" where
  "str_header rr s b = (True, str_fields_length rr s b)"

definition str_decode_fields ::
  "receipt_rlp \<Rightarrow> ScrollTransactionReceipt ReceiptWithBloom decoder" where
  "str_decode_fields rr buf =
     rbind (rr_dec_fields rr buf) (\<lambda>(w, buf).
       Inr (\<lparr>rwb_receipt = \<lparr>str_inner = rwb_receipt w, str_l1_fee = 0\<rparr>,
             rwb_logs_bloom = rwb_logs_bloom w\<rparr>, buf))"

definition str_encoded_length_with_bloom ::
  "rlp_api \<Rightarrow> receipt_rlp \<Rightarrow> ScrollTransactionReceipt \<Rightarrow> bloom \<Rightarrow> nat" where
  "str_encoded_length_with_bloom r rr s b =
     rlp_len_header r (str_header rr s b) + snd (str_header rr s b)"

definition str_encode_with_bloom ::
  "rlp_api \<Rightarrow> receipt_rlp \<Rightarrow> ScrollTransactionReceipt \<Rightarrow> bloom \<Rightarrow> bytes" where
  "str_encode_with_bloom r rr s b =
     rlp_enc_header r (str_header rr s b) @ str_encode_fields rr s b"

definition str_decode_with_bloom ::
  "rlp_api \<Rightarrow> receipt_rlp \<Rightarrow> ScrollTransactionReceipt ReceiptWithBloom decoder" where
  "str_decode_with_bloom r rr buf =
     rbind (rlp_dec_header r buf) (\<lambda>((is_list, payload_length), buf).
       if \<not> is_list then Inl UnexpectedString
       else if length buf < payload_length then Inl (CustomRlp ''input too short'')
       else
         rbind (str_decode_fields rr (take payload_length buf)) (\<lambda>(this, fields_buf).
           if fields_buf \<noteq> [] then Inl (CustomRlp ''unexpected length'')
           else Inr (this, drop payload_length buf)))"

section \<open>The node's receipt\<close>

fun receipt_tx_type :: "ScrollReceipt \<Rightarrow> ScrollTxType" where
  "receipt_tx_type (RLegacy _) = TyLegacy"
| "receipt_tx_type (REip2930 _) = TyEip2930"
| "receipt_tx_type (REip1559 _) = TyEip1559"
| "receipt_tx_type (REip7702 _) = TyEip7702"
| "receipt_tx_type (RL1Message _) = TyL1Message"

fun as_receipt :: "ScrollReceipt \<Rightarrow> Receipt" where
  "as_receipt (RLegacy s) = str_inner s"
| "as_receipt (REip2930 s) = str_inner s"
| "as_receipt (REip1559 s) = str_inner s"
| "as_receipt (REip7702 s) = str_inner s"
| "as_receipt (RL1Message rc) = rc"

fun receipt_l1_fee :: "ScrollReceipt \<Rightarrow> u256" where
  "receipt_l1_fee (RLegacy s) = str_l1_fee s"
| "receipt_l1_fee (REip2930 s) = str_l1_fee s"
| "receipt_l1_fee (REip1559 s) = str_l1_fee s"
| "receipt_l1_fee (REip7702 s) = str_l1_fee s"
| "receipt_l1_fee (RL1Message _) = 0"

fun receipt_fields_length :: "receipt_rlp \<Rightarrow> ScrollReceipt \<Rightarrow> bloom \<Rightarrow> nat" where
  "receipt_fields_length rr (RLegacy s) b = str_fields_length rr s b"
| "receipt_fields_length rr (REip2930 s) b = str_fields_length rr s b"
| "receipt_fields_length rr (REip1559 s) b = str_fields_length rr s b"
| "receipt_fields_length rr (REip7702 s) b = str_fields_length rr s b"
| "receipt_fields_length rr (RL1Message rc) b = rr_fields_len rr rc b"

fun receipt_encode_fields :: "receipt_rlp \<Rightarrow> ScrollReceipt \<Rightarrow> bloom \<Rightarrow> bytes" where
  "receipt_encode_fields rr (RLegacy s) b = str_encode_fields rr s b"
| "receipt_encode_fields rr (REip2930 s) b = str_encode_fields rr s b"
| "receipt_encode_fields rr (REip1559 s) b = str_encode_fields rr s b"
| "receipt_encode_fields rr (REip7702 s) b = str_encode_fields rr s b"
| "receipt_encode_fields rr (RL1Message rc) b = rr_enc_fields rr rc b"

definition receipt_header_inner :: "receipt_rlp \<Rightarrow> ScrollReceipt \<Rightarrow> bloom \<Rightarrow> bool \<times> nat" where
  "receipt_header_inner rr s b = (True, receipt_fields_length rr s b)"

definition receipt_decode_inner ::
  "rlp_api \<Rightarrow> receipt_rlp \<Rightarrow> bytes \<Rightarrow> ScrollTxType \<Rightarrow>
   rlp_error + ScrollReceipt ReceiptWithBloom \<times> bytes" where
  "receipt_decode_inner r rr buf tx_type =
     (case tx_type of
        TyLegacy \<Rightarrow> rbind (str_decode_with_bloom r rr buf) (\<lambda>(w, buf).
          Inr (\<lparr>rwb_receipt = RLegacy (rwb_receipt w), rwb_logs_bloom = rwb_logs_bloom w\<rparr>, buf))
      | TyEip2930 \<Rightarrow> rbind (str_decode_with_bloom r rr buf) (\<lambda>(w, buf).
          Inr (\<lparr>rwb_receipt = REip2930 (rwb_receipt w), rwb_logs_bloom = rwb_logs_bloom w\<rparr>, buf))
      | TyEip1559 \<Rightarrow> rbind (str_decode_with_bloom r rr buf) (\<lambda>(w, buf).
          Inr (\<lparr>rwb_receipt = REip1559 (rwb_receipt w), rwb_logs_bloom = rwb_logs_bloom w\<rparr>, buf))
      | TyEip7702 \<Rightarrow> rbind (str_decode_with_bloom r rr buf) (\<lambda>(w, buf).
          Inr (\<lparr>rwb_receipt = REip7702 (rwb_receipt w), rwb_logs_bloom = rwb_logs_bloom w\<rparr>, buf))
      | TyL1Message \<Rightarrow> rbind (rr_dec_with_bloom rr buf) (\<lambda>(w, buf).
          Inr (\<lparr>rwb_receipt = RL1Message (rwb_receipt w), rwb_logs_bloom = rwb_logs_bloom w\<rparr>, buf)))"

definition receipt_encode_fields_no_bloom ::
  "rlp_api \<Rightarrow> receipt_rlp \<Rightarrow> ScrollReceipt \<Rightarrow> bytes" where
  "receipt_encode_fields_no_bloom r rr s =
     (let rc = as_receipt s in
      rr_enc_status rr (rc_status rc) @ rlp_enc_u64 r (rc_cumulative_gas_used rc) @
      rr_enc_logs rr (rc_logs rc))"

definition receipt_fields_length_no_bloom :: "rlp_api \<Rightarrow> receipt_rlp \<Rightarrow> ScrollReceipt \<Rightarrow> nat" where
  "receipt_fields_length_no_bloom r rr s =
     (let rc = as_receipt s in
      rr_len_status rr (rc_status rc) + rlp_len_u64 r (rc_cumulative_gas_used rc) +
      rr_len_logs rr (rc_logs rc))"

definition receipt_header_inner_no_bloom ::
  "rlp_api \<Rightarrow> receipt_rlp \<Rightarrow> ScrollReceipt \<Rightarrow> bool \<times> nat" where
  "receipt_header_inner_no_bloom r rr s = (True, receipt_fields_length_no_bloom r rr s)"

definition receipt_of_type :: "ScrollTxType \<Rightarrow> Receipt \<Rightarrow> ScrollReceipt" where
  "receipt_of_type tx_type inner =
     (let s = \<lparr>str_inner = inner, str_l1_fee = 0\<rparr> in
      case tx_type of
        TyLegacy \<Rightarrow> RLegacy s
      | TyEip2930 \<Rightarrow> REip2930 s
      | TyEip1559 \<Rightarrow> REip1559 s
      | TyEip7702 \<Rightarrow> REip7702 s
      | TyL1Message \<Rightarrow> RL1Message inner)"

definition receipt_decode_inner_no_bloom ::
  "rlp_api \<Rightarrow> receipt_rlp \<Rightarrow> bytes \<Rightarrow> ScrollTxType \<Rightarrow> rlp_error + ScrollReceipt \<times> bytes" where
  "receipt_decode_inner_no_bloom r rr buf tx_type =
     rbind (rlp_dec_header r buf) (\<lambda>((is_list, payload_length), buf).
       if \<not> is_list then Inl UnexpectedString
       else
         let remaining = length buf in
         rbind (rr_dec_status rr buf) (\<lambda>(status, buf).
         rbind (rlp_dec_u64 r buf) (\<lambda>(cumulative_gas_used, buf).
         rbind (rr_dec_logs rr buf) (\<lambda>(logs, buf).
           if length buf + payload_length \<noteq> remaining then Inl (CustomRlp ''unexpected length'')
           else
             Inr (receipt_of_type tx_type
               \<lparr>rc_status = status, rc_cumulative_gas_used = cumulative_gas_used, rc_logs = logs\<rparr>,
               buf)))))"

section \<open>Consensus encodings\<close>

definition receipt_2718_length_with_bloom ::
  "rlp_api \<Rightarrow> receipt_rlp \<Rightarrow> ScrollReceipt \<Rightarrow> bloom \<Rightarrow> nat" where
  "receipt_2718_length_with_bloom r rr s b =
     (if receipt_tx_type s = TyLegacy then 0 else 1) +
     (rlp_len_header r (receipt_header_inner rr s b) + snd (receipt_header_inner rr s b))"

definition receipt_2718_encode_with_bloom ::
  "rlp_api \<Rightarrow> receipt_rlp \<Rightarrow> ScrollReceipt \<Rightarrow> bloom \<Rightarrow> bytes" where
  "receipt_2718_encode_with_bloom r rr s b =
     (if receipt_tx_type s = TyLegacy then [] else [tx_type_to_u8 (receipt_tx_type s)]) @
     rlp_enc_header r (receipt_header_inner rr s b) @ receipt_encode_fields rr s b"

definition receipt_encoded_length_with_bloom ::
  "rlp_api \<Rightarrow> receipt_rlp \<Rightarrow> ScrollReceipt \<Rightarrow> bloom \<Rightarrow> nat" where
  "receipt_encoded_length_with_bloom r rr s b =
     (let len = receipt_2718_length_with_bloom r rr s b in
      if receipt_tx_type s = TyLegacy then len else len + rlp_len_header r (False, len))"

definition receipt_encode_with_bloom ::
  "rlp_api \<Rightarrow> receipt_rlp \<Rightarrow> ScrollReceipt \<Rightarrow> bloom \<Rightarrow> bytes" where
  "receipt_encode_with_bloom r rr s b =
     (if receipt_tx_type s = TyLegacy then []
      else rlp_enc_header r (False, receipt_2718_length_with_bloom r rr s b)) @
     receipt_2718_encode_with_bloom r rr s b"

text \<open>\<open>ScrollTxType::decode\<close>.\<close>

definition tx_type_decode :: "receipt_rlp \<Rightarrow> ScrollTxType decoder" where
  "tx_type_decode rr buf =
     rbind (rr_dec_u8 rr buf) (\<lambda>(ty, buf).
       rbind (map_err (\<lambda>_. CustomRlp ''invalid transaction type'') (tx_type_try_from_u8 ty))
         (\<lambda>t. Inr (t, buf)))"

definition receipt_decode_with_bloom ::
  "rlp_api \<Rightarrow> receipt_rlp \<Rightarrow> ScrollReceipt ReceiptWithBloom decoder" where
  "receipt_decode_with_bloom r rr buf =
     rbind (rlp_dec_header r buf) (\<lambda>((is_list, payload_length), header_buf).
       if is_list then receipt_decode_inner r rr buf TyLegacy
       else
         let remaining = length header_buf in
         rbind (tx_type_decode rr header_buf) (\<lambda>(tx_type, buf).
         rbind (receipt_decode_inner r rr buf tx_type) (\<lambda>(this, buf).
           if length buf + payload_length \<noteq> remaining then Inl (CustomRlp ''unexpected length'')
           else Inr (this, buf))))"

definition receipt_encode_2718_len :: "rlp_api \<Rightarrow> receipt_rlp \<Rightarrow> ScrollReceipt \<Rightarrow> nat" where
  "receipt_encode_2718_len r rr s =
     (if receipt_tx_type s = TyLegacy then 0 else 1) +
     (rlp_len_header r (receipt_header_inner_no_bloom r rr s) +
      snd (receipt_header_inner_no_bloom r rr s))"

definition receipt_encode_2718 :: "rlp_api \<Rightarrow> receipt_rlp \<Rightarrow> ScrollReceipt \<Rightarrow> bytes" where
  "receipt_encode_2718 r rr s =
     (if receipt_tx_type s = TyLegacy then [] else [tx_type_to_u8 (receipt_tx_type s)]) @
     rlp_enc_header r (receipt_header_inner_no_bloom r rr s) @ receipt_encode_fields_no_bloom r rr s"

definition receipt_typed_decode ::
  "rlp_api \<Rightarrow> receipt_rlp \<Rightarrow> u8 \<Rightarrow> bytes \<Rightarrow> eip2718_error + ScrollReceipt \<times> bytes" where
  "receipt_typed_decode r rr ty buf =
     rbind (tx_type_try_from_u8 ty) (\<lambda>t.
       map_err rlp_to_eip2718 (receipt_decode_inner_no_bloom r rr buf t))"

definition receipt_fallback_decode ::
  "rlp_api \<Rightarrow> receipt_rlp \<Rightarrow> bytes \<Rightarrow> eip2718_error + ScrollReceipt \<times> bytes" where
  "receipt_fallback_decode r rr buf =
     map_err rlp_to_eip2718 (receipt_decode_inner_no_bloom r rr buf TyLegacy)"

section \<open>The RPC envelope\<close>

definition receipt_envelope_from_parts ::
  "(Log list \<Rightarrow> bloom) \<Rightarrow> bool \<Rightarrow> u64 \<Rightarrow> Log list \<Rightarrow> ScrollTxType \<Rightarrow> ScrollReceiptEnvelope" where
  "receipt_envelope_from_parts logs_bloom status cumulative_gas_used logs tx_type =
     (let w = \<lparr>rwb_receipt = \<lparr>rc_status = Eip658 status,
                rc_cumulative_gas_used = cumulative_gas_used, rc_logs = logs\<rparr>,
              rwb_logs_bloom = logs_bloom logs\<rparr> in
      case tx_type of
        TyLegacy \<Rightarrow> ELegacy w
      | TyEip2930 \<Rightarrow> EEip2930 w
      | TyEip1559 \<Rightarrow> EEip1559 w
      | TyEip7702 \<Rightarrow> EEip7702 w
      | TyL1Message \<Rightarrow> EL1Message w)"

fun envelope_tx_type :: "ScrollReceiptEnvelope \<Rightarrow> ScrollTxType" where
  "envelope_tx_type (ELegacy _) = TyLegacy"
| "envelope_tx_type (EEip2930 _) = TyEip2930"
| "envelope_tx_type (EEip1559 _) = TyEip1559"
| "envelope_tx_type (EEip7702 _) = TyEip7702"
| "envelope_tx_type (EL1Message _) = TyL1Message"

fun envelope_with_bloom :: "ScrollReceiptEnvelope \<Rightarrow> Receipt ReceiptWithBloom" where
  "envelope_with_bloom (ELegacy t) = t"
| "envelope_with_bloom (EEip2930 t) = t"
| "envelope_with_bloom (EEip1559 t) = t"
| "envelope_with_bloom (EEip7702 t) = t"
| "envelope_with_bloom (EL1Message t) = t"

definition envelope_as_receipt :: "ScrollReceiptEnvelope \<Rightarrow> Receipt option" where
  "envelope_as_receipt e = Some (rwb_receipt (envelope_with_bloom e))"

definition envelope_status :: "ScrollReceiptEnvelope \<Rightarrow> bool option" where
  "envelope_status e = map_option (\<lambda>rc. coerce_status (rc_status rc)) (envelope_as_receipt e)"

definition envelope_cumulative_gas_used :: "ScrollReceiptEnvelope \<Rightarrow> u64 option" where
  "envelope_cumulative_gas_used e = map_option rc_cumulative_gas_used (envelope_as_receipt e)"

definition envelope_logs :: "ScrollReceiptEnvelope \<Rightarrow> Log list option" where
  "envelope_logs e = map_option rc_logs (envelope_as_receipt e)"

definition envelope_logs_bloom :: "ScrollReceiptEnvelope \<Rightarrow> bloom" where
  "envelope_logs_bloom e = rwb_logs_bloom (envelope_with_bloom e)"

section \<open>Database form\<close>

text \<open>The stored form drops a zero L1 fee and keeps only the success flag of the status.\<close>

record CompactScrollReceipt =
  cr_tx_type :: ScrollTxType
  cr_success :: bool
  cr_cumulative_gas_used :: u64
  cr_logs :: "Log list"
  cr_l1_fee :: "u256 option"

definition receipt_status :: "ScrollReceipt \<Rightarrow> bool" where
  "receipt_status s = coerce_status (rc_status (as_receipt s))"

definition receipt_cumulative_gas_used :: "ScrollReceipt \<Rightarrow> u64" where
  "receipt_cumulative_gas_used s = rc_cumulative_gas_used (as_receipt s)"

definition compact_from_receipt :: "ScrollReceipt \<Rightarrow> CompactScrollReceipt" where
  "compact_from_receipt s = \<lparr>
     cr_tx_type = receipt_tx_type s,
     cr_success = receipt_status s,
     cr_cumulative_gas_used = receipt_cumulative_gas_used s,
     cr_logs = rc_logs (as_receipt s),
     cr_l1_fee = (if receipt_l1_fee s \<noteq> 0 then Some (receipt_l1_fee s) else None)\<rparr>"

definition receipt_from_compact :: "CompactScrollReceipt \<Rightarrow> ScrollReceipt" where
  "receipt_from_compact c =
     (let inner = \<lparr>rc_status = Eip658 (cr_success c),
            rc_cumulative_gas_used = cr_cumulative_gas_used c, rc_logs = cr_logs c\<rparr>;
          fee = (case cr_l1_fee c of Some f \<Rightarrow> f | None \<Rightarrow> 0) in
      case cr_tx_type c of
        TyLegacy \<Rightarrow> RLegacy (scroll_receipt_new inner fee)
      | TyEip2930 \<Rightarrow> REip2930 (scroll_receipt_new inner fee)
      | TyEip1559 \<Rightarrow> REip1559 (scroll_receipt_new inner fee)
      | TyEip7702 \<Rightarrow> REip7702 (scroll_receipt_new inner fee)
      | TyL1Message \<Rightarrow> RL1Message inner)"

section \<open>Lemmas\<close>

text \<open>The receipt as the consensus encodings carry it: without its L1 fee.\<close>

definition without_l1_fee :: "ScrollReceipt \<Rightarrow> ScrollReceipt" where
  "without_l1_fee s = receipt_of_type (receipt_tx_type s) (as_receipt s)"

lemma receipt_eta [simp]:
  "\<lparr>rc_status = rc_status i, rc_cumulative_gas_used = rc_cumulative_gas_used i, rc_logs = rc_logs i\<rparr> = i"
  by simp

lemma receipt_restatus:
  "\<lparr>rc_status = v, rc_cumulative_gas_used = rc_cumulative_gas_used i, rc_logs = rc_logs i\<rparr> = i \<longleftrightarrow>
   v = rc_status i"
  by (cases i) simp

lemma scroll_receipt_new_iff: "scroll_receipt_new i f = s \<longleftrightarrow> i = str_inner s \<and> f = str_l1_fee s"
  by (cases s) (simp add: scroll_receipt_new_def)

lemma coerce_status_iff: "Eip658 (coerce_status v) = v \<longleftrightarrow> (\<exists>ok. v = Eip658 ok)"
  by (cases v) simp_all

lemma receipt_fields_by_receipt:
  "receipt_encode_fields rr s b = rr_enc_fields rr (as_receipt s) b"
  "receipt_fields_length rr s b = rr_fields_len rr (as_receipt s) b"
  by (cases s; simp add: str_encode_fields_def str_fields_length_def)+

lemma receipt_lawsD:
  assumes "receipt_rlp_laws r rr"
  shows "rlp_laws r" "rr_fields_len rr rc b = length (rr_enc_fields rr rc b)"
    "rr_dec_fields rr (rr_enc_fields rr rc b @ rest) =
       Inr (\<lparr>rwb_receipt = rc, rwb_logs_bloom = b\<rparr>, rest)"
    "rr_dec_with_bloom rr (rlp_enc_header r (True, length (rr_enc_fields rr rc b)) @
       rr_enc_fields rr rc b @ rest) = Inr (\<lparr>rwb_receipt = rc, rwb_logs_bloom = b\<rparr>, rest)"
    "x \<noteq> 0 \<Longrightarrow> x < 0x80 \<Longrightarrow> rr_dec_u8 rr (x # rest) = Inr (x, rest)"
    "codec_ok (rr_enc_status rr) (rr_dec_status rr) (rr_len_status rr)"
    "codec_ok (rr_enc_logs rr) (rr_dec_logs rr) (rr_len_logs rr)"
  using assms by (auto simp: receipt_rlp_laws_def)

lemma str_decode_with_bloom_ok:
  assumes "receipt_rlp_laws r rr"
  shows "str_decode_with_bloom r rr (rlp_enc_header r (True, length (rr_enc_fields rr rc b)) @
      rr_enc_fields rr rc b @ rest) =
    Inr (\<lparr>rwb_receipt = \<lparr>str_inner = rc, str_l1_fee = 0\<rparr>, rwb_logs_bloom = b\<rparr>, rest)"
  using receipt_lawsD(3) [OF assms, of rc b "[]"]
    rlp_header_law [OF receipt_lawsD(1) [OF assms], of "length (rr_enc_fields rr rc b)"
      "rr_enc_fields rr rc b @ rest" True]
  by (simp add: str_decode_with_bloom_def str_decode_fields_def)

lemma receipt_decode_inner_ok:
  assumes "receipt_rlp_laws r rr"
  shows "receipt_decode_inner r rr (rlp_enc_header r (True, length (rr_enc_fields rr (as_receipt s) b)) @
      rr_enc_fields rr (as_receipt s) b @ rest) (receipt_tx_type s) =
    Inr (\<lparr>rwb_receipt = without_l1_fee s, rwb_logs_bloom = b\<rparr>, rest)"
  using str_decode_with_bloom_ok [OF assms] receipt_lawsD(4) [OF assms]
  by (cases s) (simp_all add: receipt_decode_inner_def without_l1_fee_def receipt_of_type_def)

lemma receipt_2718_length_ok:
  "receipt_rlp_laws r rr \<Longrightarrow>
   receipt_2718_length_with_bloom r rr s b = length (receipt_2718_encode_with_bloom r rr s b)"
  by (simp add: receipt_2718_length_with_bloom_def receipt_2718_encode_with_bloom_def
      receipt_header_inner_def receipt_fields_by_receipt receipt_lawsD(2)
      rlp_header_len [OF receipt_lawsD(1)])

lemma tx_type_decode_ok:
  assumes "receipt_rlp_laws r rr" and "t \<noteq> TyLegacy"
  shows "tx_type_decode rr (tx_type_to_u8 t # rest) = Inr (t, rest)"
  using assms(2) receipt_lawsD(5) [OF assms(1), of "tx_type_to_u8 t" rest]
  by (cases t) (simp_all add: tx_type_decode_def tx_type_try_from_u8_def L1_MESSAGE_TX_TYPE_ID_def)

lemma receipt_no_bloom_ok:
  assumes "receipt_rlp_laws r rr"
  shows "receipt_decode_inner_no_bloom r rr
      (rlp_enc_header r (receipt_header_inner_no_bloom r rr s) @
       receipt_encode_fields_no_bloom r rr s @ rest) t = Inr (receipt_of_type t (as_receipt s), rest)"
proof -
  note l = receipt_lawsD [OF assms]
  have len: "receipt_fields_length_no_bloom r rr s = length (receipt_encode_fields_no_bloom r rr s)"
    by (simp add: receipt_fields_length_no_bloom_def receipt_encode_fields_no_bloom_def Let_def
        codec_okD(2) [OF l(6)] codec_okD(2) [OF l(7)] codec_okD(2) [OF rlp_codecs(1) [OF l(1)]])
  show ?thesis
    using rlp_header_law [OF l(1), of "length (receipt_encode_fields_no_bloom r rr s)"
        "receipt_encode_fields_no_bloom r rr s @ rest" True]
    by (simp add: receipt_decode_inner_no_bloom_def receipt_header_inner_no_bloom_def len)
      (simp add: receipt_encode_fields_no_bloom_def Let_def codec_okD(1) [OF l(6)]
        codec_okD(1) [OF l(7)] codec_okD(1) [OF rlp_codecs(1) [OF l(1)]])
qed

section \<open>A concrete codec\<close>

fun status_tuple :: "Eip658Value \<Rightarrow> nat \<times> b256" where
  "status_tuple (Eip658 b) = (of_bool b, 0)"
| "status_tuple (PostState h) = (2, h)"

definition tuple_status :: "nat \<times> b256 \<Rightarrow> Eip658Value" where
  "tuple_status p = (if fst p = 2 then PostState (snd p) else Eip658 (fst p = 1))"

definition enc_status :: "Eip658Value \<Rightarrow> bytes" where
  "enc_status v = enc_pair enc_nat enc_word (status_tuple v)"

definition dec_status :: "Eip658Value decoder" where
  "dec_status = dec_map tuple_status (dec_pair dec_nat dec_word)"

lemma tuple_status_inverse [simp]: "tuple_status (status_tuple v) = v"
  by (cases v) (simp_all add: tuple_status_def)

lemma decodes_status [simp]: "decodes enc_status dec_status"
  unfolding enc_status_def dec_status_def by (rule decodes_map) simp_all

definition enc_log :: "Log \<Rightarrow> bytes" where
  "enc_log l = enc_pair enc_word (enc_pair (enc_seq enc_word) (enc_seq enc_word))
     (log_address l, log_topics l, log_data l)"

definition dec_log :: "Log decoder" where
  "dec_log = dec_map (\<lambda>(a, t, d). \<lparr>log_address = a, log_topics = t, log_data = d\<rparr>)
     (dec_pair dec_word (dec_pair (dec_seq dec_word) (dec_seq dec_word)))"

lemma decodes_log [simp]: "decodes enc_log dec_log"
  unfolding enc_log_def dec_log_def by (rule decodes_map) simp_all

definition enc_fields :: "Receipt \<times> bloom \<Rightarrow> bytes" where
  "enc_fields p = enc_pair enc_status (enc_pair enc_word (enc_pair (enc_seq enc_log) enc_word))
     (rc_status (fst p), rc_cumulative_gas_used (fst p), rc_logs (fst p), snd p)"

definition dec_fields :: "(Receipt \<times> bloom) decoder" where
  "dec_fields = dec_map (\<lambda>(s, g, l, b).
       (\<lparr>rc_status = s, rc_cumulative_gas_used = g, rc_logs = l\<rparr>, b))
     (dec_pair dec_status (dec_pair dec_word (dec_pair (dec_seq dec_log) dec_word)))"

lemma decodes_fields: "decodes enc_fields dec_fields"
  unfolding enc_fields_def dec_fields_def by (rule decodes_map) auto

definition dec_fields_with_bloom :: "Receipt ReceiptWithBloom decoder" where
  "dec_fields_with_bloom =
     dec_map (\<lambda>(rc, b). \<lparr>rwb_receipt = rc, rwb_logs_bloom = b\<rparr>) dec_fields"

definition sample_receipt_rlp :: receipt_rlp where
  "sample_receipt_rlp = \<lparr>
     rr_fields_len = (\<lambda>rc b. length (enc_fields (rc, b))),
     rr_enc_fields = (\<lambda>rc b. enc_fields (rc, b)),
     rr_dec_fields = dec_fields_with_bloom,
     rr_dec_with_bloom = (\<lambda>buf. rbind (rlp_dec_header sample_rlp buf)
       (\<lambda>(h, buf). dec_fields_with_bloom buf)),
     rr_enc_status = enc_status, rr_dec_status = dec_status,
     rr_len_status = (\<lambda>v. length (enc_status v)),
     rr_enc_logs = enc_seq enc_log, rr_dec_logs = dec_seq dec_log,
     rr_len_logs = (\<lambda>l. length (enc_seq enc_log l)),
     rr_dec_u8 = (\<lambda>buf. case buf of [] \<Rightarrow> Inl OtherRlp | b # rest \<Rightarrow> Inr (b, rest))\<rparr>"

lemma sample_receipt_rlp_laws [simp]: "receipt_rlp_laws sample_rlp sample_receipt_rlp"
proof -
  have f: "dec_fields_with_bloom (enc_fields (rc, b) @ rest) =
      Inr (\<lparr>rwb_receipt = rc, rwb_logs_bloom = b\<rparr>, rest)" for rc b rest
    using decodesD [OF decodes_fields, of "(rc, b)" rest]
    by (simp add: dec_fields_with_bloom_def dec_map_def)
  then show ?thesis
    using rlp_header_law [OF sample_rlp_laws]
    by (simp add: receipt_rlp_laws_def sample_receipt_rlp_def codec_ok_def
        decodesD [OF decodes_status] decodesD [OF decodes_seq [OF decodes_log]])
qed

definition sample_receipt :: Receipt where
  "sample_receipt = \<lparr>rc_status = Eip658 True, rc_cumulative_gas_used = 21000,
     rc_logs = [\<lparr>log_address = 5, log_topics = [1], log_data = [2]\<rparr>]\<rparr>"

section \<open>Properties\<close>

text \<open>C37. The consensus encodings of a receipt carry everything but the L1 fee: reading back the
  network encoding with a bloom, or the encoding without one under its type byte, gives the same
  receipt with a zero fee, leaves the following bytes unread, and the announced lengths are the
  lengths written.\<close>

theorem receipt_encodings_drop_only_l1_fee:
  assumes "receipt_rlp_laws r rr"
  shows "receipt_decode_with_bloom r rr (receipt_encode_with_bloom r rr s b @ rest) =
      Inr (\<lparr>rwb_receipt = without_l1_fee s, rwb_logs_bloom = b\<rparr>, rest) \<and>
    receipt_encoded_length_with_bloom r rr s b = length (receipt_encode_with_bloom r rr s b) \<and>
    (if receipt_tx_type s = TyLegacy
     then receipt_fallback_decode r rr (receipt_encode_2718 r rr s @ rest)
     else receipt_typed_decode r rr (hd (receipt_encode_2718 r rr s))
       (tl (receipt_encode_2718 r rr s) @ rest)) = Inr (without_l1_fee s, rest) \<and>
    as_receipt (without_l1_fee s) = as_receipt s \<and> receipt_l1_fee (without_l1_fee s) = 0"
proof (intro conjI)
  note l = receipt_lawsD [OF assms]
  let ?h = "receipt_header_inner rr s b"
  have hdr: "?h = (True, length (rr_enc_fields rr (as_receipt s) b))"
    by (simp add: receipt_header_inner_def receipt_fields_by_receipt l(2))
  note inner = receipt_decode_inner_ok [OF assms, of s b rest]
  show "receipt_decode_with_bloom r rr (receipt_encode_with_bloom r rr s b @ rest) =
      Inr (\<lparr>rwb_receipt = without_l1_fee s, rwb_logs_bloom = b\<rparr>, rest)"
  proof (cases "receipt_tx_type s = TyLegacy")
    case True
    then show ?thesis
      using inner rlp_header_law [OF l(1), of "length (rr_enc_fields rr (as_receipt s) b)"
          "rr_enc_fields rr (as_receipt s) b @ rest" True]
      by (simp add: receipt_decode_with_bloom_def receipt_encode_with_bloom_def
          receipt_2718_encode_with_bloom_def hdr receipt_fields_by_receipt)
  next
    case False
    let ?e = "receipt_2718_encode_with_bloom r rr s b"
    have e: "?e = tx_type_to_u8 (receipt_tx_type s) # rlp_enc_header r ?h @
        rr_enc_fields rr (as_receipt s) b"
      using False by (simp add: receipt_2718_encode_with_bloom_def receipt_fields_by_receipt)
    from rlp_header_law [OF l(1), of "length ?e" "?e @ rest" False]
    have dec: "rlp_dec_header r (receipt_encode_with_bloom r rr s b @ rest) =
        Inr ((False, length ?e), ?e @ rest)"
      using False by (simp add: receipt_encode_with_bloom_def receipt_2718_length_ok [OF assms])
    show ?thesis
      using inner tx_type_decode_ok [OF assms False]
      by (simp add: receipt_decode_with_bloom_def dec Let_def) (simp add: e hdr)
  qed
  show "receipt_encoded_length_with_bloom r rr s b = length (receipt_encode_with_bloom r rr s b)"
    by (simp add: receipt_encoded_length_with_bloom_def receipt_encode_with_bloom_def Let_def
        receipt_2718_length_ok [OF assms] rlp_header_len [OF l(1)])
  show "(if receipt_tx_type s = TyLegacy
     then receipt_fallback_decode r rr (receipt_encode_2718 r rr s @ rest)
     else receipt_typed_decode r rr (hd (receipt_encode_2718 r rr s))
       (tl (receipt_encode_2718 r rr s) @ rest)) = Inr (without_l1_fee s, rest)"
    using receipt_no_bloom_ok [OF assms, of s rest]
    by (simp add: receipt_fallback_decode_def receipt_typed_decode_def receipt_encode_2718_def
        without_l1_fee_def)
  show "as_receipt (without_l1_fee s) = as_receipt s" "receipt_l1_fee (without_l1_fee s) = 0"
    by (cases s; simp add: without_l1_fee_def receipt_of_type_def)+
qed

theorem receipt_encodings_drop_only_l1_fee_witness:
  "receipt_decode_with_bloom sample_rlp sample_receipt_rlp
     (receipt_encode_with_bloom sample_rlp sample_receipt_rlp
        (REip1559 (scroll_receipt_new sample_receipt 17)) 3 @ [8]) =
   Inr (\<lparr>rwb_receipt = REip1559 (scroll_receipt_new sample_receipt 0), rwb_logs_bloom = 3\<rparr>, [8])"
  using receipt_encodings_drop_only_l1_fee [OF sample_receipt_rlp_laws,
    of "REip1559 (scroll_receipt_new sample_receipt 17)" 3 "[8]"]
  by (simp add: without_l1_fee_def receipt_of_type_def scroll_receipt_new_def)

text \<open>The database keeps the whole receipt, its L1 fee included: a receipt whose status is a
  success flag, as the executor builds them, is rebuilt from its stored form unchanged.\<close>

theorem receipt_storage_roundtrip:
  "receipt_from_compact (compact_from_receipt s) = s \<longleftrightarrow>
   (\<exists>ok. rc_status (as_receipt s) = Eip658 ok)"
proof -
  have fee: "(case if f \<noteq> 0 then Some f else None of Some f \<Rightarrow> f | None \<Rightarrow> 0) = f" for f :: u256
    by simp
  show ?thesis
    unfolding coerce_status_iff [symmetric]
    by (cases s)
      (simp_all only: receipt_from_compact_def compact_from_receipt_def receipt_status_def
        receipt_cumulative_gas_used_def Let_def fee CompactScrollReceipt.simps receipt_tx_type.simps
        ScrollTxType.case as_receipt.simps receipt_l1_fee.simps ScrollReceipt.inject
        scroll_receipt_new_iff receipt_restatus simp_thms)
qed

end
