(* ===== verification/Tx_Env.thy ===== *)
theory Tx_Env
  imports Tx_Codec Chainspec
begin

text \<open>
  The EVM transaction environment: \<open>crates/dogeos-reth-evm/src/tx/mod.rs\<close> and
  \<open>tx/compression.rs\<close>. Every transaction is executed with its encoded bytes, its compression
  ratio (of the call data) and its compressed size (of the encoded bytes), which set the L1 data
  fee; an L1 message carries none of the three unless the compression cache supplies them.

  Parameters (\<open>env_api\<close>): the zstd compressor (length of its output), the fee precision of
  \<open>revm-scroll\<close>, \<open>TxEnv::from_recovered_tx\<close> of \<open>alloy-evm\<close> for the four Ethereum
  transactions, and the recovery of the authority of an EIP-7702 authorization.
\<close>

section \<open>Data\<close>

datatype RecoveredAuthority = AuthorityInvalid | AuthorityValid address

record RecoveredAuthorization =
  ra_chain_id :: u256
  ra_address :: address
  ra_nonce :: u64
  ra_authority :: RecoveredAuthority

record TxEnv =
  te_tx_type :: u8
  te_caller :: address
  te_gas_limit :: u64
  te_gas_price :: u128
  te_kind :: TxKind
  te_value :: u256
  te_data :: bytes
  te_nonce :: u64
  te_chain_id :: "u64 option"
  te_access_list :: access_list
  te_gas_priority_fee :: "u128 option"
  te_blob_hashes :: "b256 list"
  te_max_fee_per_blob_gas :: u128
  te_authorization_list :: "RecoveredAuthorization list"

text \<open>\<open>ScrollTransactionIntoTxEnv\<close>, a wrapper around the transaction of \<open>revm-scroll\<close>.\<close>

record ScrollTxEnv =
  ste_base :: TxEnv
  ste_rlp_bytes :: "bytes option"
  ste_compression_ratio :: "u256 option"
  ste_compressed_size :: "nat option"

record env_api =
  ea_zstd_len :: "bytes \<Rightarrow> nat"
  ea_fee_precision :: u256
  ea_from_recovered :: "alloy_tx \<Rightarrow> address \<Rightarrow> TxEnv"
  ea_auth_signature :: "SignedAuthorization \<Rightarrow> Signature option"
  ea_auth_hash :: "SignedAuthorization \<Rightarrow> b256"
  ea_recover :: "Signature \<Rightarrow> b256 \<Rightarrow> address option"

definition tx_env_new ::
  "TxEnv \<Rightarrow> bytes option \<Rightarrow> u256 option \<Rightarrow> nat option \<Rightarrow> ScrollTxEnv" where
  "tx_env_new base rlp_bytes compression_ratio compressed_size = \<lparr>
     ste_base = base, ste_rlp_bytes = rlp_bytes,
     ste_compression_ratio = compression_ratio, ste_compressed_size = compressed_size\<rparr>"

definition tx_env_set_gas_limit :: "u64 \<Rightarrow> ScrollTxEnv \<Rightarrow> ScrollTxEnv" where
  "tx_env_set_gas_limit gas_limit t = t\<lparr>ste_base := (ste_base t)\<lparr>te_gas_limit := gas_limit\<rparr>\<rparr>"

definition tx_env_set_nonce :: "u64 \<Rightarrow> ScrollTxEnv \<Rightarrow> ScrollTxEnv" where
  "tx_env_set_nonce nonce t = t\<lparr>ste_base := (ste_base t)\<lparr>te_nonce := nonce\<rparr>\<rparr>"

definition tx_env_set_access_list :: "access_list \<Rightarrow> ScrollTxEnv \<Rightarrow> ScrollTxEnv" where
  "tx_env_set_access_list al t = t\<lparr>ste_base := (ste_base t)\<lparr>te_access_list := al\<rparr>\<rparr>"

section \<open>Compression\<close>

definition compute_compressed_size :: "env_api \<Rightarrow> bytes \<Rightarrow> nat" where
  "compute_compressed_size ea bs =
     (if bs = [] then 0
      else
        let original_bytes_len = length bs; encoded_bytes_len = ea_zstd_len ea bs in
        if encoded_bytes_len > original_bytes_len then original_bytes_len
        else encoded_bytes_len)"

definition compute_compression_ratio :: "env_api \<Rightarrow> bytes \<Rightarrow> u256" where
  "compute_compression_ratio ea bs =
     (if bs = [] then - 1
      else
        let original_bytes_len = length bs; encoded_bytes_len = compute_compressed_size ea bs in
        if encoded_bytes_len = original_bytes_len then ea_fee_precision ea
        else saturating_mul (of_nat original_bytes_len) (ea_fee_precision ea)
               div of_nat encoded_bytes_len)"

section \<open>Building the environment\<close>

text \<open>The environment of an L1 message: no fee, no nonce, no chain, no lists.\<close>

definition l1_tx_env :: "u8 \<Rightarrow> TxL1Message \<Rightarrow> address \<Rightarrow> TxEnv" where
  "l1_tx_env ty tx caller = \<lparr>
     te_tx_type = ty, te_caller = caller, te_gas_limit = l1m_gas_limit tx, te_gas_price = 0,
     te_kind = Call (l1m_to tx), te_value = l1m_value tx, te_data = l1m_input tx, te_nonce = 0,
     te_chain_id = None, te_access_list = [], te_gas_priority_fee = None, te_blob_hashes = [],
     te_max_fee_per_blob_gas = 0, te_authorization_list = []\<rparr>"

text \<open>The \<open>base\<close> of \<open>from_encoded_tx\<close> and of \<open>from_tx_with_compression_info\<close>, written out twice
  in the source.\<close>

definition encoded_base :: "env_api \<Rightarrow> ScrollTxEnvelope \<Rightarrow> address \<Rightarrow> TxEnv" where
  "encoded_base ea tx caller =
     (case tx of
        Legacy t \<Rightarrow> ea_from_recovered ea (ALegacy (signed_tx t)) caller
      | Eip2930 t \<Rightarrow> ea_from_recovered ea (A2930 (signed_tx t)) caller
      | Eip1559 t \<Rightarrow> ea_from_recovered ea (A1559 (signed_tx t)) caller
      | Eip7702 t \<Rightarrow> ea_from_recovered ea (A7702 (signed_tx t)) caller
      | L1Message t \<Rightarrow> l1_tx_env (l1_ty (sealed_inner t)) (sealed_inner t) caller)"

definition from_encoded_tx ::
  "env_api \<Rightarrow> ScrollTxEnvelope \<Rightarrow> address \<Rightarrow> bytes \<Rightarrow> ScrollTxEnv" where
  "from_encoded_tx ea tx caller encoded =
     (let base = encoded_base ea tx caller in
      case tx of
        L1Message _ \<Rightarrow> tx_env_new base None None None
      | _ \<Rightarrow> tx_env_new base (Some encoded)
               (Some (compute_compression_ratio ea (te_data base)))
               (Some (compute_compressed_size ea encoded)))"

definition recovered_authorization ::
  "env_api \<Rightarrow> SignedAuthorization \<Rightarrow> RecoveredAuthorization" where
  "recovered_authorization ea auth = \<lparr>
     ra_chain_id = auth_chain_id auth, ra_address = auth_address auth, ra_nonce = auth_nonce auth,
     ra_authority =
       (case Option.bind (ea_auth_signature ea auth) (\<lambda>sg. ea_recover ea sg (ea_auth_hash ea auth)) of
          None \<Rightarrow> AuthorityInvalid
        | Some a \<Rightarrow> AuthorityValid a)\<rparr>"

definition recovered_base :: "env_api \<Rightarrow> ScrollTxEnvelope \<Rightarrow> address \<Rightarrow> TxEnv" where
  "recovered_base ea tx sender =
     (case tx of
        Legacy s \<Rightarrow> (let t = signed_tx s in \<lparr>
          te_tx_type = 0, te_caller = sender, te_gas_limit = lg_gas_limit t,
          te_gas_price = lg_gas_price t, te_kind = lg_to t, te_value = lg_value t,
          te_data = lg_input t, te_nonce = lg_nonce t, te_chain_id = lg_chain_id t,
          te_access_list = [], te_gas_priority_fee = None, te_blob_hashes = [],
          te_max_fee_per_blob_gas = 0, te_authorization_list = []\<rparr>)
      | Eip2930 s \<Rightarrow> (let t = signed_tx s in \<lparr>
          te_tx_type = 1, te_caller = sender, te_gas_limit = t2930_gas_limit t,
          te_gas_price = t2930_gas_price t, te_kind = t2930_to t, te_value = t2930_value t,
          te_data = t2930_input t, te_nonce = t2930_nonce t,
          te_chain_id = Some (t2930_chain_id t), te_access_list = t2930_access_list t,
          te_gas_priority_fee = None, te_blob_hashes = [], te_max_fee_per_blob_gas = 0,
          te_authorization_list = []\<rparr>)
      | Eip1559 s \<Rightarrow> (let t = signed_tx s in \<lparr>
          te_tx_type = 2, te_caller = sender, te_gas_limit = t1559_gas_limit t,
          te_gas_price = t1559_max_fee_per_gas t, te_kind = t1559_to t, te_value = t1559_value t,
          te_data = t1559_input t, te_nonce = t1559_nonce t,
          te_chain_id = Some (t1559_chain_id t), te_access_list = t1559_access_list t,
          te_gas_priority_fee = Some (t1559_max_priority_fee_per_gas t), te_blob_hashes = [],
          te_max_fee_per_blob_gas = 0, te_authorization_list = []\<rparr>)
      | Eip7702 s \<Rightarrow> (let t = signed_tx s in \<lparr>
          te_tx_type = 4, te_caller = sender, te_gas_limit = t7702_gas_limit t,
          te_gas_price = t7702_max_fee_per_gas t, te_kind = Call (t7702_to t),
          te_value = t7702_value t, te_data = t7702_input t, te_nonce = t7702_nonce t,
          te_chain_id = Some (t7702_chain_id t), te_access_list = t7702_access_list t,
          te_gas_priority_fee = Some (t7702_max_priority_fee_per_gas t), te_blob_hashes = [],
          te_max_fee_per_blob_gas = 0,
          te_authorization_list = map (recovered_authorization ea) (t7702_authorization_list t)\<rparr>)
      | L1Message s \<Rightarrow> l1_tx_env L1_MESSAGE_TRANSACTION_TYPE (sealed_inner s) sender)"

definition from_recovered_tx ::
  "rlp_api \<Rightarrow> alloy_codec \<Rightarrow> env_api \<Rightarrow> ScrollTxEnvelope \<Rightarrow> address \<Rightarrow> ScrollTxEnv" where
  "from_recovered_tx r ac ea tx sender =
     (let envelope = env_encode_2718 r ac tx; base = recovered_base ea tx sender in
      case tx of
        L1Message _ \<Rightarrow> tx_env_new base None None None
      | _ \<Rightarrow> tx_env_new base (Some envelope)
               (Some (compute_compression_ratio ea (te_data base)))
               (Some (compute_compressed_size ea envelope)))"

section \<open>Transactions with cached compression information\<close>

record WithCompressionInfo =
  wci_tx :: ScrollTxEnvelope
  wci_signer :: address
  wci_compression_ratio :: u256
  wci_compressed_size :: nat
  wci_encoded_bytes :: bytes

definition with_compression_info ::
  "rlp_api \<Rightarrow> alloy_codec \<Rightarrow> ScrollTxEnvelope \<times> address \<Rightarrow> u256 \<Rightarrow> nat \<Rightarrow>
   WithCompressionInfo" where
  "with_compression_info r ac recovered compression_ratio compressed_size = \<lparr>
     wci_tx = fst recovered, wci_signer = snd recovered,
     wci_compression_ratio = compression_ratio, wci_compressed_size = compressed_size,
     wci_encoded_bytes = env_encode_2718 r ac (fst recovered)\<rparr>"

definition from_tx_with_compression_info ::
  "env_api \<Rightarrow> ScrollTxEnvelope \<Rightarrow> address \<Rightarrow> bytes \<Rightarrow> u256 option \<Rightarrow> nat option \<Rightarrow>
   ScrollTxEnv" where
  "from_tx_with_compression_info ea tx caller encoded compression_ratio compressed_size =
     tx_env_new (encoded_base ea tx caller) (Some encoded) compression_ratio compressed_size"

definition wci_to_tx_env :: "env_api \<Rightarrow> WithCompressionInfo \<Rightarrow> ScrollTxEnv" where
  "wci_to_tx_env ea w =
     from_tx_with_compression_info ea (wci_tx w) (wci_signer w) (wci_encoded_bytes w)
       (Some (wci_compression_ratio w)) (Some (wci_compressed_size w))"

section \<open>Lemmas\<close>

lemma compressed_size_le: "compute_compressed_size ea bs \<le> length bs"
  by (simp add: compute_compressed_size_def Let_def)

lemma word_of_nat_small:
  "n < 2 ^ LENGTH('a) \<Longrightarrow> unat (of_nat n :: 'a::len word) = n"
  by (simp add: unsigned_of_nat take_bit_nat_eq_self)

lemma word_of_nat_mul_small:
  fixes p :: u256
  assumes "n < 2 ^ 64" and "unat p < 2 ^ 192"
  shows "unat (saturating_mul (of_nat n) p) = n * unat p"
proof -
  have "n * unat p < 2 ^ 64 * 2 ^ 192"
    using assms by (intro mult_strict_mono') simp_all
  moreover have "unat (of_nat n :: u256) = n"
    using assms(1) by (intro word_of_nat_small) simp
  ultimately show ?thesis by (simp add: sat_simps)
qed

lemma compression_ratio_value:
  assumes "bs \<noteq> []" and "0 < ea_zstd_len ea bs" and "length bs < 2 ^ 64"
    and "unat (ea_fee_precision ea) < 2 ^ 192"
  shows "unat (compute_compression_ratio ea bs) =
    length bs * unat (ea_fee_precision ea) div compute_compressed_size ea bs"
proof -
  let ?c = "compute_compressed_size ea bs"
  have "unat (of_nat ?c :: u256) = ?c"
    using compressed_size_le [of ea bs] assms(3) by (intro word_of_nat_small) simp
  then show ?thesis
    using assms(1) word_of_nat_mul_small [OF assms(3,4)]
    by (simp add: compute_compression_ratio_def Let_def unat_div)
qed

section \<open>Properties\<close>

text \<open>Compression never charges more than the raw bytes: the compressed size is positive and at
  most the size of the data, and the ratio is the exact quotient of the two scaled by the fee
  precision, hence at least the precision (a ratio of one).\<close>

theorem compression_bounds:
  assumes "bs \<noteq> []" and "0 < ea_zstd_len ea bs" and "length bs < 2 ^ 64"
    and "unat (ea_fee_precision ea) < 2 ^ 192"
  shows "0 < compute_compressed_size ea bs \<and> compute_compressed_size ea bs \<le> length bs \<and>
    unat (compute_compression_ratio ea bs) =
      length bs * unat (ea_fee_precision ea) div compute_compressed_size ea bs \<and>
    ea_fee_precision ea \<le> compute_compression_ratio ea bs"
proof -
  let ?c = "compute_compressed_size ea bs"
  have pos: "0 < ?c" using assms(1,2) by (simp add: compute_compressed_size_def Let_def)
  note le = compressed_size_le [of ea bs] and v = compression_ratio_value [OF assms]
  have "unat (ea_fee_precision ea) = ?c * unat (ea_fee_precision ea) div ?c" using pos by simp
  also have "\<dots> \<le> length bs * unat (ea_fee_precision ea) div ?c"
    using le by (intro div_le_mono mult_le_mono) simp_all
  finally show ?thesis using pos le v by (simp add: word_le_nat_alt)
qed

definition sample_env_api :: env_api where
  "sample_env_api = \<lparr>
     ea_zstd_len = (\<lambda>bs. Suc (length bs div 2)), ea_fee_precision = 1000000000,
     ea_from_recovered = (\<lambda>a caller. l1_tx_env (al_ty sample_alloy_tx_api a)
       \<lparr>l1m_queue_index = 0, l1m_gas_limit = al_gas_limit sample_alloy_tx_api a, l1m_to = 0,
        l1m_value = al_value sample_alloy_tx_api a, l1m_sender = 0,
        l1m_input = al_input sample_alloy_tx_api a\<rparr> caller),
     ea_auth_signature = (\<lambda>auth. Some (auth_signature auth)), ea_auth_hash = auth_chain_id,
     ea_recover = (\<lambda>sg h. Some (ucast (sig_r sg)))\<rparr>"

theorem compression_bounds_witness:
  "compute_compressed_size sample_env_api [1, 2, 3, 4, 5, 6] = 4 \<and>
   1000000000 \<le> compute_compression_ratio sample_env_api [1, 2, 3, 4, 5, 6]"
  using compression_bounds [of "[1, 2, 3, 4, 5, 6]" sample_env_api]
  by (simp add: sample_env_api_def compute_compressed_size_def)

text \<open>The compression cache changes nothing for a priced transaction: an environment built from
  cached values that were computed on the transaction's data and encoding is the environment
  built without the cache. For an L1 message the two differ, and only in that the cached one
  carries bytes and sizes; the EVM transaction inside is the same.\<close>

theorem compression_cache_equivalent:
  "let encoded = env_encode_2718 r ac tx;
       cached = wci_to_tx_env ea (with_compression_info r ac (tx, signer)
         (compute_compression_ratio ea (te_data (encoded_base ea tx signer)))
         (compute_compressed_size ea encoded));
       direct = from_encoded_tx ea tx signer encoded in
   (cached = direct \<longleftrightarrow> \<not> env_is_l1_message tx) \<and> ste_base cached = ste_base direct \<and>
   ste_rlp_bytes cached = Some encoded \<and>
   (ste_rlp_bytes direct = None \<longleftrightarrow> env_is_l1_message tx)"
  by (cases tx)
    (simp_all add: Let_def wci_to_tx_env_def with_compression_info_def tx_env_new_def
      from_tx_with_compression_info_def from_encoded_tx_def env_is_l1_message_def)

text \<open>However an L1 message reaches the EVM, from its recovered or its encoded form, the
  environment is the same and charges nothing: price, nonce, chain and lists are empty, the
  target, value, data and gas are the message's, and there are no bytes to charge a data fee on.\<close>

theorem l1_message_env_charges_nothing:
  "let env = from_recovered_tx r ac ea (L1Message m) sender; base = ste_base env in
   env = from_encoded_tx ea (L1Message m) sender encoded \<and>
   ste_rlp_bytes env = None \<and> ste_compression_ratio env = None \<and> ste_compressed_size env = None \<and>
   te_gas_price base = 0 \<and> te_gas_priority_fee base = None \<and> te_max_fee_per_blob_gas base = 0 \<and>
   te_nonce base = 0 \<and> te_chain_id base = None \<and> te_access_list base = [] \<and>
   te_authorization_list base = [] \<and> te_tx_type base = 126 \<and> te_caller base = sender \<and>
   te_kind base = Call (l1m_to (sealed_inner m)) \<and> te_value base = l1m_value (sealed_inner m) \<and>
   te_data base = l1m_input (sealed_inner m) \<and> te_gas_limit base = l1m_gas_limit (sealed_inner m)"
  by (simp add: Let_def from_recovered_tx_def from_encoded_tx_def recovered_base_def
      encoded_base_def l1_tx_env_def tx_env_new_def l1_ty_def L1_MESSAGE_TX_TYPE_ID_def
      L1_MESSAGE_TRANSACTION_TYPE_def)

end
