(* ===== verification/Executor.thy ===== *)
theory Executor
  imports Transitions Receipts Tx_Env
begin

text \<open>
  Block execution: \<open>crates/dogeos-reth-evm/src/block/mod.rs\<close> (the executor),
  \<open>block/receipt_builder.rs\<close> and \<open>receipt.rs\<close> (receipts), the system call of
  \<open>system_caller.rs\<close>, the dispatch of \<open>lib.rs\<close> between plain and inspected execution and the
  data-fee entry point of \<open>l1.rs\<close>.

  Parameters: \<open>evm_api\<close>, the interpreter of \<open>revm-scroll\<close> (transactions and system calls, plain
  and inspected) and its data-fee formula. The laws \<open>evm_laws\<close> state what the executor relies
  on: executing a transaction leaves the block environment, the configuration and the spec alone,
  stores the transaction in the context, and never uses more gas than the transaction's limit.
\<close>

section \<open>The EVM\<close>

record BlockEnv =
  be_number :: u256
  be_beneficiary :: address
  be_timestamp :: u256
  be_gas_limit :: u64
  be_basefee :: u64
  be_difficulty :: u256
  be_prevrandao :: "b256 option"
  be_blob_excess_gas_and_price :: "(u64 \<times> u128) option"
  be_slot_num :: u64

record ('db, 'l1) scroll_evm =
  ev_db :: 'db
  ev_block :: BlockEnv
  ev_chain_id :: u64
  ev_disable_base_fee :: bool
  ev_disable_nonce_check :: bool
  ev_spec :: ScrollSpecId
  ev_tx :: ScrollTxEnv
  ev_l1_block_info :: 'l1
  ev_inspect :: bool

record ExecutionResult =
  er_success :: bool
  er_gas_used :: u64
  er_logs :: "Log list"

type_synonym ResultAndState = "ExecutionResult \<times> EvmState"

record ('db, 'l1, 'x) evm_api =
  api_transact ::
    "ScrollTxEnv \<Rightarrow> ('db, 'l1) scroll_evm \<Rightarrow> ('x + ResultAndState) \<times> ('db, 'l1) scroll_evm"
  api_inspect_tx ::
    "ScrollTxEnv \<Rightarrow> ('db, 'l1) scroll_evm \<Rightarrow> ('x + ResultAndState) \<times> ('db, 'l1) scroll_evm"
  api_system_call ::
    "address \<Rightarrow> address \<Rightarrow> bytes \<Rightarrow> ('db, 'l1) scroll_evm \<Rightarrow>
     ('x + ResultAndState) \<times> ('db, 'l1) scroll_evm"
  api_inspect_system_call ::
    "address \<Rightarrow> address \<Rightarrow> bytes \<Rightarrow> ('db, 'l1) scroll_evm \<Rightarrow>
     ('x + ResultAndState) \<times> ('db, 'l1) scroll_evm"
  api_l1_cost :: "'l1 \<Rightarrow> bytes \<Rightarrow> ScrollSpecId \<Rightarrow> u256 option \<Rightarrow> nat option \<Rightarrow> u256"

definition evm_frame :: "('db, 'l1) scroll_evm \<Rightarrow> ('db, 'l1) scroll_evm \<Rightarrow> bool" where
  "evm_frame evm evm' \<longleftrightarrow>
     ev_block evm' = ev_block evm \<and> ev_chain_id evm' = ev_chain_id evm \<and>
     ev_disable_base_fee evm' = ev_disable_base_fee evm \<and>
     ev_disable_nonce_check evm' = ev_disable_nonce_check evm \<and>
     ev_spec evm' = ev_spec evm \<and> ev_inspect evm' = ev_inspect evm"

definition evm_laws :: "('db, 'l1, 'x) evm_api \<Rightarrow> bool" where
  "evm_laws api \<longleftrightarrow>
     (\<forall>t \<in> {api_transact api, api_inspect_tx api}. \<forall>tx evm res evm'. t tx evm = (res, evm') \<longrightarrow>
        evm_frame evm evm' \<and> ev_tx evm' = tx \<and>
        (\<forall>r st. res = Inr (r, st) \<longrightarrow> er_gas_used r \<le> te_gas_limit (ste_base tx))) \<and>
     (\<forall>t \<in> {api_system_call api, api_inspect_system_call api}. \<forall>a b d evm res evm'.
        t a b d evm = (res, evm') \<longrightarrow> evm_frame evm evm')"

definition transact_raw ::
  "('db, 'l1, 'x) evm_api \<Rightarrow> ScrollTxEnv \<Rightarrow> ('db, 'l1) scroll_evm \<Rightarrow>
   ('x + ResultAndState) \<times> ('db, 'l1) scroll_evm" where
  "transact_raw api tx evm =
     (if ev_inspect evm then api_inspect_tx api tx evm else api_transact api tx evm)"

definition transact_system_call ::
  "('db, 'l1, 'x) evm_api \<Rightarrow> address \<Rightarrow> address \<Rightarrow> bytes \<Rightarrow> ('db, 'l1) scroll_evm \<Rightarrow>
   ('x + ResultAndState) \<times> ('db, 'l1) scroll_evm" where
  "transact_system_call api caller contract data evm =
     (if ev_inspect evm then api_inspect_system_call api caller contract data evm
      else api_system_call api caller contract data evm)"

definition with_base_fee_check :: "bool \<Rightarrow> ('db, 'l1) scroll_evm \<Rightarrow> ('db, 'l1) scroll_evm" where
  "with_base_fee_check enabled evm = evm\<lparr>ev_disable_base_fee := \<not> enabled\<rparr>"

definition with_nonce_check :: "bool \<Rightarrow> ('db, 'l1) scroll_evm \<Rightarrow> ('db, 'l1) scroll_evm" where
  "with_nonce_check enabled evm = evm\<lparr>ev_disable_nonce_check := \<not> enabled\<rparr>"

definition evm_l1_fee :: "('db, 'l1, 'x) evm_api \<Rightarrow> ('db, 'l1) scroll_evm \<Rightarrow> u256 option" where
  "evm_l1_fee api evm =
     (case ste_rlp_bytes (ev_tx evm) of
        None \<Rightarrow> None
      | Some transaction_rlp_bytes \<Rightarrow>
          Some (api_l1_cost api (ev_l1_block_info evm) transaction_rlp_bytes (ev_spec evm)
            (ste_compression_ratio (ev_tx evm)) (ste_compressed_size (ev_tx evm))))"

text \<open>\<open>RethL1BlockInfo::l1_tx_data_fee\<close>; it never fails.\<close>

definition l1_tx_data_fee ::
  "fork_api \<Rightarrow> ('db, 'l1, 'x) evm_api \<Rightarrow> (DogeosHardfork \<Rightarrow> ForkCondition) \<Rightarrow> 'l1 \<Rightarrow> u64 \<Rightarrow> u64 \<Rightarrow>
   bytes \<Rightarrow> (u256 \<times> nat) option \<Rightarrow> bool \<Rightarrow> u256" where
  "l1_tx_data_fee fa api activation info timestamp block_number input compression_info is_l1_message =
     (if is_l1_message then 0
      else
        let (compression_ratio, compressed_size) =
              (case compression_info of
                 Some (ratio, sz) \<Rightarrow> (Some ratio, Some sz)
               | None \<Rightarrow> (None, None));
            spec = spec_id_at_timestamp_and_number fa timestamp block_number activation in
        api_l1_cost api info input spec compression_ratio compressed_size)"

section \<open>Receipts of executed transactions\<close>

record ReceiptBuilderCtx =
  rb_tx_type :: u8
  rb_result :: ExecutionResult
  rb_cumulative_gas_used :: u64
  rb_l1_fee :: u256

text \<open>\<open>None\<close> is the panic on an unknown transaction type.\<close>

definition build_receipt :: "ReceiptBuilderCtx \<Rightarrow> ScrollReceipt option" where
  "build_receipt ctx =
     (let inner = \<lparr>rc_status = Eip658 (er_success (rb_result ctx)),
            rc_cumulative_gas_used = rb_cumulative_gas_used ctx,
            rc_logs = er_logs (rb_result ctx)\<rparr>;
          with_l1_fee = (\<lambda>inner. scroll_receipt_new inner (rb_l1_fee ctx)) in
      case tx_type_try_from_u8 (rb_tx_type ctx) of
        Inl _ \<Rightarrow> None
      | Inr TyLegacy \<Rightarrow> Some (RLegacy (with_l1_fee inner))
      | Inr TyEip2930 \<Rightarrow> Some (REip2930 (with_l1_fee inner))
      | Inr TyEip1559 \<Rightarrow> Some (REip1559 (with_l1_fee inner))
      | Inr TyEip7702 \<Rightarrow> Some (REip7702 (with_l1_fee inner))
      | Inr TyL1Message \<Rightarrow> Some (RL1Message inner))"

section \<open>The executor\<close>

datatype ('d, 'x) BlockExecutionError =
    OverheadReadFailed 'd
  | ForkTransitionFailed DogeosHardfork 'd
  | BlockHashContractCall 'x
  | TransactionGasLimitMoreThanAvailableBlockGas u64 u64
  | Eip4844NotSupported b256
  | EvmError 'x b256
  | FewerCompressionInfos
  | MoreCompressionInfos

record ScrollTxResult =
  tr_result :: ResultAndState
  tr_l1_fee :: u256
  tr_tx_type :: u8

record ('db, 'l1) executor =
  ex_parent_hash :: b256
  ex_evm :: "('db, 'l1) scroll_evm"
  ex_receipts :: "ScrollReceipt list"
  ex_gas_used :: u64
  ex_system_caller :: ScrollSystemCaller

definition executor_new :: "('db, 'l1) scroll_evm \<Rightarrow> b256 \<Rightarrow> ('db, 'l1) executor" where
  "executor_new evm parent_hash = \<lparr>
     ex_parent_hash = parent_hash, ex_evm = evm, ex_receipts = [], ex_gas_used = 0,
     ex_system_caller = system_caller_new\<rparr>"

type_synonym ('db, 'l1, 'd, 'x, 'a) exec =
  "(('db, 'l1) executor, ('d, 'x) BlockExecutionError, 'a) run"

text \<open>What the execution of a block is given: schedule and configuration, database, predeploys,
  interpreter, the accessors of Ethereum transactions and the two system addresses of
  \<open>alloy_eips\<close>.\<close>

record ('db, 'l1, 'd, 'x) exec_env =
  ee_fork_api :: fork_api
  ee_spec :: spec_view
  ee_ops :: "('db, 'd) db_ops"
  ee_predeploys :: predeploys
  ee_evm :: "('db, 'l1, 'x) evm_api"
  ee_tx :: alloy_tx_api
  ee_system_address :: address
  ee_history_storage_address :: address

text \<open>\<open>U256::to\<close> panics when the value does not fit.\<close>

definition u256_to_u64 :: "u256 \<Rightarrow> u64 option" where
  "u256_to_u64 x = (if unat x < 2 ^ 64 then Some (ucast x) else None)"

definition set_db :: "'db \<Rightarrow> ('db, 'l1) executor \<Rightarrow> ('db, 'l1) executor" where
  "set_db db ex = ex\<lparr>ex_evm := (ex_evm ex)\<lparr>ev_db := db\<rparr>\<rparr>"

definition ex_db :: "('db, 'l1) executor \<Rightarrow> 'db" where
  "ex_db ex = ev_db (ex_evm ex)"

text \<open>One fork block of \<open>apply_pre_execution_changes\<close>: apply the transition when the fork is active
  at the block's timestamp and report the committed state to the hook.\<close>

definition fork_step ::
  "('db, 'l1, 'd, 'x) exec_env \<Rightarrow> DogeosHardfork \<Rightarrow>
   (('db, 'd) db_ops \<Rightarrow> predeploys \<Rightarrow> 'db \<Rightarrow> 'd + EvmState \<times> 'db) \<Rightarrow> ('db, 'l1, 'd, 'x, unit) exec" where
  "fork_step ee fork transition ex =
     (case u256_to_u64 (be_timestamp (ev_block (ex_evm ex))) of
        None \<Rightarrow> (None, ex)
      | Some timestamp \<Rightarrow>
          if active_at_timestamp (ee_fork_api ee) (sv_activation (ee_spec ee) fork) timestamp then
            (case transition (ee_ops ee) (ee_predeploys ee) (ex_db ex) of
               Inl e \<Rightarrow> (Some (Inl (ForkTransitionFailed fork e)), ex)
             | Inr (state, db) \<Rightarrow>
                 (Some (Inr ()), (set_db db ex)\<lparr>ex_system_caller :=
                    on_pre_block_state state (ex_system_caller ex)\<rparr>))
          else (Some (Inr ()), ex))"

text \<open>The 32 big-endian bytes of a hash.\<close>

definition b256_bytes :: "b256 \<Rightarrow> bytes" where
  "b256_bytes h = map (\<lambda>i. ucast (drop_bit (8 * (31 - i)) h)) [0..<32]"

definition transact_blockhashes_contract_call ::
  "('db, 'l1, 'd, 'x) exec_env \<Rightarrow> b256 \<Rightarrow> ('db, 'l1, 'd, 'x, ResultAndState option) exec" where
  "transact_blockhashes_contract_call ee parent_block_hash ex =
     (case u256_to_u64 (be_timestamp (ev_block (ex_evm ex))) of
        None \<Rightarrow> (None, ex)
      | Some timestamp \<Rightarrow>
          if \<not> is_feynman_active_at_timestamp (ee_fork_api ee) (sv_activation (ee_spec ee)) timestamp
          then (Some (Inr None), ex)
          else
            (case u256_to_u64 (be_number (ev_block (ex_evm ex))) of
               None \<Rightarrow> (None, ex)
             | Some number \<Rightarrow>
                 if number = 0 then (Some (Inr None), ex)
                 else
                   let (res, evm) = transact_system_call (ee_evm ee) (ee_system_address ee)
                         (ee_history_storage_address ee) (b256_bytes parent_block_hash) (ex_evm ex);
                       ex = ex\<lparr>ex_evm := evm\<rparr> in
                   (case res of
                      Inl e \<Rightarrow> (Some (Inl (BlockHashContractCall e)), ex)
                    | Inr r \<Rightarrow> (Some (Inr (Some r)), ex))))"

definition apply_blockhashes_contract_call ::
  "('db, 'l1, 'd, 'x) exec_env \<Rightarrow> ('db, 'l1, 'd, 'x, unit) exec" where
  "apply_blockhashes_contract_call ee ex =
     run_bind (transact_blockhashes_contract_call ee (ex_parent_hash ex)) (\<lambda>result.
       case result of
         None \<Rightarrow> run_return ()
       | Some (_, state) \<Rightarrow> run_modify (\<lambda>ex.
           (set_db (db_commit (ee_ops ee) (ex_db ex) state) ex)\<lparr>ex_system_caller :=
              on_state PreBlockBlockHashes state (ex_system_caller ex)\<rparr>)) ex"

definition apply_pre_execution_changes ::
  "('db, 'l1, 'd, 'x) exec_env \<Rightarrow> ('db, 'l1, 'd, 'x, unit) exec" where
  "apply_pre_execution_changes ee =
     run_bind (\<lambda>ex. run_result
        (map_err OverheadReadFailed (base_fee_overhead (ee_ops ee) (ee_spec ee) (ex_db ex))) ex)
     (\<lambda>_. run_bind (fork_step ee Feynman apply_feynman_hard_fork)
     (\<lambda>_. run_bind (fork_step ee GalileoV2 apply_galileo_v2_hard_fork)
     (\<lambda>_. run_bind (fork_step ee Tsuki apply_tsuki_hard_fork)
     (\<lambda>_. apply_blockhashes_contract_call ee))))"

definition execute_transaction_without_commit ::
  "('db, 'l1, 'd, 'x) exec_env \<Rightarrow> ScrollTxEnv \<times> ScrollTxEnvelope \<Rightarrow>
   ('db, 'l1, 'd, 'x, ScrollTxResult) exec" where
  "execute_transaction_without_commit ee executable ex =
     (let (tx_env, tx) = executable;
          is_l1_message = (env_ty (ee_tx ee) tx = L1_MESSAGE_TRANSACTION_TYPE);
          block_available_gas = be_gas_limit (ev_block (ex_evm ex)) - ex_gas_used ex in
      if env_gas_limit (ee_tx ee) tx > block_available_gas
      then (Some (Inl (TransactionGasLimitMoreThanAvailableBlockGas
              (env_gas_limit (ee_tx ee) tx) block_available_gas)), ex)
      else
        let hash = env_trie_hash tx; tx_type = env_ty (ee_tx ee) tx in
        if env_ty (ee_tx ee) tx = 3 then (Some (Inl (Eip4844NotSupported hash)), ex)
        else
          let evm = with_nonce_check (\<not> is_l1_message)
                (with_base_fee_check (\<not> is_l1_message) (ex_evm ex));
              (res, evm) = transact_raw (ee_evm ee) tx_env evm;
              ex = ex\<lparr>ex_evm := evm\<rparr> in
          (case res of
             Inl err \<Rightarrow> (Some (Inl (EvmError err hash)), ex)
           | Inr result \<Rightarrow>
               if is_l1_message
               then (Some (Inr \<lparr>tr_result = result, tr_l1_fee = 0, tr_tx_type = tx_type\<rparr>), ex)
               else
                 (case evm_l1_fee (ee_evm ee) evm of
                    None \<Rightarrow> (None, ex)
                  | Some l1_fee \<Rightarrow>
                      (Some (Inr \<lparr>tr_result = result, tr_l1_fee = l1_fee,
                         tr_tx_type = tx_type\<rparr>), ex))))"

definition commit_transaction ::
  "('db, 'l1, 'd, 'x) exec_env \<Rightarrow> ScrollTxResult \<Rightarrow> ('db, 'l1, 'd, 'x, u64) exec" where
  "commit_transaction ee output ex =
     (let (result, state) = tr_result output;
          ex = ex\<lparr>ex_system_caller :=
            on_state (SourceTransaction (length (ex_receipts ex))) state (ex_system_caller ex)\<rparr>;
          gas_used = er_gas_used result;
          ex = ex\<lparr>ex_gas_used := ex_gas_used ex + gas_used\<rparr>;
          ctx = \<lparr>rb_tx_type = tr_tx_type output, rb_result = result,
                 rb_cumulative_gas_used = ex_gas_used ex, rb_l1_fee = tr_l1_fee output\<rparr> in
      (case build_receipt ctx of
         None \<Rightarrow> (None, ex)
       | Some receipt \<Rightarrow>
           (Some (Inr gas_used),
            set_db (db_commit (ee_ops ee) (ex_db ex) state)
              (ex\<lparr>ex_receipts := ex_receipts ex @ [receipt]\<rparr>))))"

text \<open>The provided method of the trait: execute, then commit.\<close>

definition execute_transaction ::
  "('db, 'l1, 'd, 'x) exec_env \<Rightarrow> ScrollTxEnv \<times> ScrollTxEnvelope \<Rightarrow> ('db, 'l1, 'd, 'x, u64) exec" where
  "execute_transaction ee executable =
     run_bind (execute_transaction_without_commit ee executable) (commit_transaction ee)"

fun execute_transactions ::
  "('db, 'l1, 'd, 'x) exec_env \<Rightarrow> (ScrollTxEnv \<times> ScrollTxEnvelope) list \<Rightarrow>
   ('db, 'l1, 'd, 'x, u64 list) exec" where
  "execute_transactions ee [] = run_return []"
| "execute_transactions ee (t # ts) =
     run_bind (execute_transaction ee t) (\<lambda>g.
     run_bind (execute_transactions ee ts) (\<lambda>gs. run_return (g # gs)))"

record BlockExecutionResult =
  br_receipts :: "ScrollReceipt list"
  br_gas_used :: u64
  br_blob_gas_used :: u64

definition executor_finish :: "('db, 'l1) executor \<Rightarrow> BlockExecutionResult" where
  "executor_finish ex = \<lparr>
     br_receipts = ex_receipts ex, br_gas_used = ex_gas_used ex, br_blob_gas_used = 0\<rparr>"

definition executor_set_state_hook ::
  "(StateChangeSource \<times> EvmState) list option \<Rightarrow> ('db, 'l1) executor \<Rightarrow> ('db, 'l1) executor" where
  "executor_set_state_hook hook ex =
     ex\<lparr>ex_system_caller := set_state_hook hook (ex_system_caller ex)\<rparr>"

text \<open>The loop of \<open>execute_block_with_compression_cache\<close>: one information per transaction, taken in
  order; too few end it at the transaction that misses its information, too many after it.\<close>

definition cached_executable ::
  "rlp_api \<Rightarrow> alloy_codec \<Rightarrow> env_api \<Rightarrow> ScrollTxEnvelope \<times> address \<Rightarrow> u256 \<times> nat \<Rightarrow>
   ScrollTxEnv \<times> ScrollTxEnvelope" where
  "cached_executable r ac ea tx info =
     (wci_to_tx_env ea (with_compression_info r ac tx (fst info) (snd info)), fst tx)"

fun compression_cache_loop ::
  "rlp_api \<Rightarrow> alloy_codec \<Rightarrow> env_api \<Rightarrow> ('db, 'l1, 'd, 'x) exec_env \<Rightarrow>
   (ScrollTxEnvelope \<times> address) list \<Rightarrow> (u256 \<times> nat) list \<Rightarrow> ('db, 'l1, 'd, 'x, unit) exec" where
  "compression_cache_loop r ac ea ee [] infos =
     (if infos \<noteq> [] then run_fail MoreCompressionInfos else run_return ())"
| "compression_cache_loop r ac ea ee (tx # txs) [] = run_fail FewerCompressionInfos"
| "compression_cache_loop r ac ea ee (tx # txs) (info # infos) =
     run_bind (execute_transaction ee (cached_executable r ac ea tx info))
     (\<lambda>_. compression_cache_loop r ac ea ee txs infos)"

definition execute_block_with_compression_cache ::
  "rlp_api \<Rightarrow> alloy_codec \<Rightarrow> env_api \<Rightarrow> ('db, 'l1, 'd, 'x) exec_env \<Rightarrow>
   (ScrollTxEnvelope \<times> address) list \<Rightarrow> (u256 \<times> nat) list \<Rightarrow>
   ('db, 'l1, 'd, 'x, BlockExecutionResult) exec" where
  "execute_block_with_compression_cache r ac ea ee transactions compression_infos =
     run_bind (apply_pre_execution_changes ee) (\<lambda>_.
     run_bind (compression_cache_loop r ac ea ee transactions compression_infos) (\<lambda>_ ex.
       run_return (executor_finish ex) ex))"

section \<open>Lemmas\<close>

lemma evm_frame_refl [simp]: "evm_frame e e"
  by (simp add: evm_frame_def)

lemma transact_raw_law:
  assumes "evm_laws api" and "transact_raw api tx evm = (res, evm')"
  shows "evm_frame evm evm'" "ev_tx evm' = tx"
    "res = Inr (r, st) \<Longrightarrow> er_gas_used r \<le> te_gas_limit (ste_base tx)"
proof -
  have "\<forall>t \<in> {api_transact api, api_inspect_tx api}. \<forall>tx evm res evm'. t tx evm = (res, evm') \<longrightarrow>
        evm_frame evm evm' \<and> ev_tx evm' = tx \<and>
        (\<forall>r st. res = Inr (r, st) \<longrightarrow> er_gas_used r \<le> te_gas_limit (ste_base tx))"
    using assms(1) unfolding evm_laws_def by (rule conjunct1)
  with assms(2) show "evm_frame evm evm'" "ev_tx evm' = tx"
      "res = Inr (r, st) \<Longrightarrow> er_gas_used r \<le> te_gas_limit (ste_base tx)"
    by (fastforce simp: transact_raw_def split: if_splits)+
qed

lemma set_db_fields [simp]:
  "ex_receipts (set_db db ex) = ex_receipts ex" "ex_gas_used (set_db db ex) = ex_gas_used ex"
  "ex_system_caller (set_db db ex) = ex_system_caller ex"
  "ev_block (ex_evm (set_db db ex)) = ev_block (ex_evm ex)"
  "ex_db (set_db db ex) = db" "ex_parent_hash (set_db db ex) = ex_parent_hash ex"
  by (simp_all add: set_db_def ex_db_def)

text \<open>What a successful execution without commit establishes.\<close>

lemma execute_without_commit_ok:
  assumes laws: "evm_laws (ee_evm ee)"
    and run: "execute_transaction_without_commit ee (env, tx) ex = (Some (Inr out), ex')"
  shows "env_gas_limit (ee_tx ee) tx \<le> be_gas_limit (ev_block (ex_evm ex)) - ex_gas_used ex"
    and "er_gas_used (fst (tr_result out)) \<le> te_gas_limit (ste_base env)"
    and "tr_tx_type out = env_ty (ee_tx ee) tx"
    and "ex_gas_used ex' = ex_gas_used ex" and "ex_receipts ex' = ex_receipts ex"
    and "ex_system_caller ex' = ex_system_caller ex"
    and "ev_block (ex_evm ex') = ev_block (ex_evm ex)"
proof -
  let ?evm = "with_nonce_check (env_ty (ee_tx ee) tx \<noteq> L1_MESSAGE_TRANSACTION_TYPE)
      (with_base_fee_check (env_ty (ee_tx ee) tx \<noteq> L1_MESSAGE_TRANSACTION_TYPE) (ex_evm ex))"
  obtain res evm' where t: "transact_raw (ee_evm ee) env ?evm = (res, evm')" by fastforce
  note frame = transact_raw_law [OF laws t]
  from run t show "env_gas_limit (ee_tx ee) tx \<le> be_gas_limit (ev_block (ex_evm ex)) - ex_gas_used ex"
    by (auto simp: execute_transaction_without_commit_def Let_def split: if_splits)
  from run t have r: "res = Inr (tr_result out)" and "ex' = ex\<lparr>ex_evm := evm'\<rparr>"
    and ty: "tr_tx_type out = env_ty (ee_tx ee) tx"
    by (auto simp: execute_transaction_without_commit_def Let_def
        split: if_splits sum.splits option.splits)
  then show "ex_gas_used ex' = ex_gas_used ex" "ex_receipts ex' = ex_receipts ex"
    "ex_system_caller ex' = ex_system_caller ex" "ev_block (ex_evm ex') = ev_block (ex_evm ex)"
    "tr_tx_type out = env_ty (ee_tx ee) tx"
    using frame(1) by (simp_all add: evm_frame_def with_nonce_check_def with_base_fee_check_def)
  show "er_gas_used (fst (tr_result out)) \<le> te_gas_limit (ste_base env)"
    using frame(3) [of "fst (tr_result out)" "snd (tr_result out)"] r by simp
qed

lemma build_receipt_fields:
  assumes "build_receipt ctx = Some rc"
  shows "receipt_cumulative_gas_used rc = rb_cumulative_gas_used ctx"
    and "tx_type_to_u8 (receipt_tx_type rc) = rb_tx_type ctx"
    and "receipt_status rc = er_success (rb_result ctx)"
    and "rc_logs (as_receipt rc) = er_logs (rb_result ctx)"
    and "receipt_l1_fee rc = (if rb_tx_type ctx = L1_MESSAGE_TX_TYPE_ID then 0 else rb_l1_fee ctx)"
proof -
  obtain t where t: "tx_type_try_from_u8 (rb_tx_type ctx) = Inr t"
    using assms by (cases "tx_type_try_from_u8 (rb_tx_type ctx)") (auto simp: build_receipt_def Let_def)
  then have "rb_tx_type ctx = tx_type_to_u8 t" by (simp add: tx_type_try_from_u8_iff)
  with assms t show "receipt_cumulative_gas_used rc = rb_cumulative_gas_used ctx"
    "tx_type_to_u8 (receipt_tx_type rc) = rb_tx_type ctx"
    "receipt_status rc = er_success (rb_result ctx)"
    "rc_logs (as_receipt rc) = er_logs (rb_result ctx)"
    "receipt_l1_fee rc = (if rb_tx_type ctx = L1_MESSAGE_TX_TYPE_ID then 0 else rb_l1_fee ctx)"
    by (cases t; auto simp: build_receipt_def Let_def receipt_cumulative_gas_used_def
        receipt_status_def scroll_receipt_new_def L1_MESSAGE_TX_TYPE_ID_def)+
qed

lemma commit_transaction_ok:
  assumes "commit_transaction ee out ex = (Some (Inr g), ex')"
  obtains rc where
    "g = er_gas_used (fst (tr_result out))" and "ex_gas_used ex' = ex_gas_used ex + g"
    and "ex_receipts ex' = ex_receipts ex @ [rc]"
    and "receipt_cumulative_gas_used rc = ex_gas_used ex + g"
    and "tx_type_to_u8 (receipt_tx_type rc) = tr_tx_type out"
    and "receipt_l1_fee rc = (if tr_tx_type out = L1_MESSAGE_TX_TYPE_ID then 0 else tr_l1_fee out)"
    and "ev_block (ex_evm ex') = ev_block (ex_evm ex)"
    and "ex_db ex' = db_commit (ee_ops ee) (ex_db ex) (snd (tr_result out))"
proof -
  let ?r = "fst (tr_result out)"
  let ?ctx = "\<lparr>rb_tx_type = tr_tx_type out, rb_result = ?r,
      rb_cumulative_gas_used = ex_gas_used ex + er_gas_used ?r, rb_l1_fee = tr_l1_fee out\<rparr>"
  obtain rc where rc: "build_receipt ?ctx = Some rc"
    using assms by (cases "build_receipt ?ctx") (auto simp: commit_transaction_def Let_def split_def)
  show thesis
  proof (rule that [of rc])
    show "g = er_gas_used ?r" "ex_gas_used ex' = ex_gas_used ex + g"
      "ex_receipts ex' = ex_receipts ex @ [rc]" "ev_block (ex_evm ex') = ev_block (ex_evm ex)"
      "ex_db ex' = db_commit (ee_ops ee) (ex_db ex) (snd (tr_result out))"
      using assms rc by (auto simp: commit_transaction_def Let_def split_def ex_db_def set_db_def)
    then show "receipt_cumulative_gas_used rc = ex_gas_used ex + g"
      "tx_type_to_u8 (receipt_tx_type rc) = tr_tx_type out"
      "receipt_l1_fee rc = (if tr_tx_type out = L1_MESSAGE_TX_TYPE_ID then 0 else tr_l1_fee out)"
      using build_receipt_fields [OF rc] by simp_all
  qed
qed

lemma tx_type_to_u8_inj [simp]: "tx_type_to_u8 s = tx_type_to_u8 t \<longleftrightarrow> s = t"
  by (metis Inr_inject tx_type_try_from_u8_ok)

text \<open>The contract of an executable transaction: its environment has the gas limit of the
  transaction.\<close>

definition gas_limit_agrees :: "alloy_tx_api \<Rightarrow> ScrollTxEnv \<times> ScrollTxEnvelope \<Rightarrow> bool" where
  "gas_limit_agrees api t \<longleftrightarrow> te_gas_limit (ste_base (fst t)) = env_gas_limit api (snd t)"

lemma execute_transaction_step:
  assumes laws: "evm_laws (ee_evm ee)" "alloy_tx_laws (ee_tx ee)"
    and agree: "gas_limit_agrees (ee_tx ee) t"
    and inv: "ex_gas_used ex \<le> be_gas_limit (ev_block (ex_evm ex))"
    and run: "execute_transaction ee t ex = (Some (Inr g), ex')"
  obtains rc where
    "unat (ex_gas_used ex') = unat (ex_gas_used ex) + unat g"
    and "ex_gas_used ex' \<le> be_gas_limit (ev_block (ex_evm ex'))"
    and "ev_block (ex_evm ex') = ev_block (ex_evm ex)"
    and "ex_receipts ex' = ex_receipts ex @ [rc]"
    and "receipt_cumulative_gas_used rc = ex_gas_used ex'"
    and "receipt_tx_type rc = env_tx_type (snd t)"
    and "g \<le> env_gas_limit (ee_tx ee) (snd t)"
proof -
  obtain env tx where t: "t = (env, tx)" by fastforce
  from run obtain out ex1 where
    wo: "execute_transaction_without_commit ee (env, tx) ex = (Some (Inr out), ex1)"
    and co: "commit_transaction ee out ex1 = (Some (Inr g), ex')"
    by (auto simp: execute_transaction_def t result_elims)
  note w = execute_without_commit_ok [OF laws(1) wo]
  from co show thesis
  proof (rule commit_transaction_ok)
    fix rc
    assume c: "g = er_gas_used (fst (tr_result out))" "ex_gas_used ex' = ex_gas_used ex1 + g"
      "ex_receipts ex' = ex_receipts ex1 @ [rc]"
      "receipt_cumulative_gas_used rc = ex_gas_used ex1 + g"
      "tx_type_to_u8 (receipt_tx_type rc) = tr_tx_type out"
      "ev_block (ex_evm ex') = ev_block (ex_evm ex1)"
    have gle: "g \<le> env_gas_limit (ee_tx ee) tx"
      using w(2) agree by (simp add: c(1) gas_limit_agrees_def t)
    with w(1) have av: "g \<le> be_gas_limit (ev_block (ex_evm ex)) - ex_gas_used ex" by order
    have sum: "unat (ex_gas_used ex + g) = unat (ex_gas_used ex) + unat g"
      using unat_add_le_limit [OF av inv] .
    have le: "unat (ex_gas_used ex) + unat g \<le> unat (be_gas_limit (ev_block (ex_evm ex)))"
      using av inv by (simp add: word_le_nat_alt unat_sub)
    show thesis
      using c w sum le gle env_ty_tx_type [OF laws(2), of tx]
      by (intro that [of rc]) (simp_all add: word_le_nat_alt t)
  qed
qed

fun running_totals :: "nat \<Rightarrow> u64 list \<Rightarrow> nat list" where
  "running_totals t [] = []"
| "running_totals t (g # gs) = (t + unat g) # running_totals (t + unat g) gs"

lemma execute_transactions_accounting:
  assumes laws: "evm_laws (ee_evm ee)" "alloy_tx_laws (ee_tx ee)"
  shows "execute_transactions ee txs ex = (Some (Inr gs), ex') \<Longrightarrow>
    \<forall>t \<in> set txs. gas_limit_agrees (ee_tx ee) t \<Longrightarrow>
    ex_gas_used ex \<le> be_gas_limit (ev_block (ex_evm ex)) \<Longrightarrow>
    unat (ex_gas_used ex') = unat (ex_gas_used ex) + sum_list (map unat gs) \<and>
    ex_gas_used ex' \<le> be_gas_limit (ev_block (ex_evm ex')) \<and>
    ev_block (ex_evm ex') = ev_block (ex_evm ex) \<and> length gs = length txs \<and>
    (\<exists>rs. ex_receipts ex' = ex_receipts ex @ rs \<and>
       map (\<lambda>rc. unat (receipt_cumulative_gas_used rc)) rs = running_totals (unat (ex_gas_used ex)) gs \<and>
       map receipt_tx_type rs = map (\<lambda>t. env_tx_type (snd t)) txs)"
proof (induction txs arbitrary: ex gs)
  case Nil
  then show ?case by auto
next
  case (Cons t txs)
  from Cons.prems(1) obtain g ex1 hs where
    run: "execute_transaction ee t ex = (Some (Inr g), ex1)"
    and rest: "execute_transactions ee txs ex1 = (Some (Inr hs), ex')" and gs: "gs = g # hs"
    by (auto simp: result_elims)
  have agree: "gas_limit_agrees (ee_tx ee) t" using Cons.prems(2) by simp
  from laws agree Cons.prems(3) run show ?case
  proof (rule execute_transaction_step)
    fix rc
    assume s: "unat (ex_gas_used ex1) = unat (ex_gas_used ex) + unat g"
      "ex_gas_used ex1 \<le> be_gas_limit (ev_block (ex_evm ex1))"
      "ev_block (ex_evm ex1) = ev_block (ex_evm ex)"
      "ex_receipts ex1 = ex_receipts ex @ [rc]"
      "receipt_cumulative_gas_used rc = ex_gas_used ex1"
      "receipt_tx_type rc = env_tx_type (snd t)"
    from Cons.IH [OF rest _ s(2)] Cons.prems(2) obtain rs where
      "unat (ex_gas_used ex') = unat (ex_gas_used ex1) + sum_list (map unat hs)"
      "ex_gas_used ex' \<le> be_gas_limit (ev_block (ex_evm ex'))"
      "ev_block (ex_evm ex') = ev_block (ex_evm ex1)" "length hs = length txs"
      "ex_receipts ex' = ex_receipts ex1 @ rs"
      "map (\<lambda>rc. unat (receipt_cumulative_gas_used rc)) rs = running_totals (unat (ex_gas_used ex1)) hs"
      "map receipt_tx_type rs = map (\<lambda>t. env_tx_type (snd t)) txs"
      by auto
    with s show ?thesis by (auto simp: gs intro!: exI [of _ "rc # rs"])
  qed
qed

lemma compression_loop_counts:
  "compression_cache_loop r ac ea ee txs infos ex = (Some (Inr ()), ex') \<Longrightarrow>
   length infos = length txs \<and>
   (\<exists>gs. execute_transactions ee (map2 (cached_executable r ac ea) txs infos) ex =
     (Some (Inr gs), ex'))"
proof (induction r ac ea ee txs infos arbitrary: ex rule: compression_cache_loop.induct)
  case (3 r ac ea ee tx txs info infos)
  from 3(2) obtain g ex1 where
    run: "execute_transaction ee (cached_executable r ac ea tx info) ex
      = (Some (Inr g), ex1)"
    and rest: "compression_cache_loop r ac ea ee txs infos ex1 = (Some (Inr ()), ex')"
    by (auto simp: result_elims)
  from 3(1) [OF rest] run show ?case by (auto simp: result_elims)
qed (auto split: if_splits)

lemma compression_loop_prefix:
  "execute_transactions ee (map2 (cached_executable r ac ea) txs infos) ex =
     (Some (Inr gs), ex') \<Longrightarrow>
   compression_cache_loop r ac ea ee txs infos ex =
     (Some (if length infos < length txs then Inl FewerCompressionInfos
            else if length txs < length infos then Inl MoreCompressionInfos else Inr ()), ex')"
proof (induction r ac ea ee txs infos arbitrary: ex gs rule: compression_cache_loop.induct)
  case (3 r ac ea ee tx txs info infos)
  then show ?case
    by (auto simp: result_elims run_bind_def split: prod.splits option.splits sum.splits)
qed (auto simp: run_fail_def run_return_def split: if_splits)

section \<open>A concrete interpreter\<close>

definition sample_transact ::
  "ScrollTxEnv \<Rightarrow> (map_db, unit) scroll_evm \<Rightarrow> (string + ResultAndState) \<times> (map_db, unit) scroll_evm"
where
  "sample_transact tx evm =
     (Inr (\<lparr>er_success = True, er_gas_used = min 21000 (te_gas_limit (ste_base tx)), er_logs = []\<rparr>,
           Map.empty), evm\<lparr>ev_tx := tx\<rparr>)"

definition sample_system_call ::
  "address \<Rightarrow> address \<Rightarrow> bytes \<Rightarrow> (map_db, unit) scroll_evm \<Rightarrow>
   (string + ResultAndState) \<times> (map_db, unit) scroll_evm" where
  "sample_system_call caller contract data evm =
     (Inr (\<lparr>er_success = True, er_gas_used = 0, er_logs = []\<rparr>, Map.empty), evm)"

definition sample_evm_api :: "(map_db, unit, string) evm_api" where
  "sample_evm_api = \<lparr>
     api_transact = sample_transact, api_inspect_tx = sample_transact,
     api_system_call = sample_system_call, api_inspect_system_call = sample_system_call,
     api_l1_cost = (\<lambda>_ bs _ _ _. of_nat (length bs))\<rparr>"

lemma sample_evm_laws [simp]: "evm_laws sample_evm_api"
  by (auto simp: evm_laws_def sample_evm_api_def sample_transact_def sample_system_call_def
      evm_frame_def)

definition sample_exec_env :: "(map_db, unit, string, string) exec_env" where
  "sample_exec_env = \<lparr>
     ee_fork_api = sample_fork_api, ee_spec = sample_view, ee_ops = map_db_ops,
     ee_predeploys = sample_predeploys, ee_evm = sample_evm_api, ee_tx = sample_alloy_tx_api,
     ee_system_address = 1, ee_history_storage_address = 2\<rparr>"

definition sample_tx_env :: ScrollTxEnv where
  "sample_tx_env = tx_env_new (l1_tx_env 0 (sealed_inner sample_l1_message) 3) (Some [1, 2, 3])
     (Some 7) (Some 3)"

definition sample_evm :: "(map_db, unit) scroll_evm" where
  "sample_evm = \<lparr>
     ev_db = empty_map_db,
     ev_block = \<lparr>be_number = 5, be_beneficiary = 0, be_timestamp = 10, be_gas_limit = 130000,
       be_basefee = 7, be_difficulty = 0, be_prevrandao = None,
       be_blob_excess_gas_and_price = None, be_slot_num = 0\<rparr>,
     ev_chain_id = 1122005, ev_disable_base_fee = False, ev_disable_nonce_check = False,
     ev_spec = TSUKI_V2, ev_tx = sample_tx_env, ev_l1_block_info = (), ev_inspect = False\<rparr>"

definition sample_block_txs :: "(ScrollTxEnv \<times> ScrollTxEnvelope) list" where
  "sample_block_txs =
     [(from_recovered_tx sample_rlp sample_alloy_codec sample_env_api (L1Message sample_l1_message) 8,
       L1Message sample_l1_message),
      (from_recovered_tx sample_rlp sample_alloy_codec sample_env_api (Legacy sample_legacy) 9,
       Legacy sample_legacy)]"

section \<open>Properties\<close>

text \<open>C3. Gas accounting of a block is exact: executing a list of transactions from a fresh executor
  never exceeds the block gas limit and never wraps around; the gas of the block is the sum of
  the gas of its transactions, there is one receipt per transaction, of its type, and the
  receipts carry the running totals.\<close>

theorem block_gas_accounting:
  assumes "evm_laws (ee_evm ee)" and "alloy_tx_laws (ee_tx ee)"
    and "\<forall>t \<in> set txs. gas_limit_agrees (ee_tx ee) t"
    and run: "execute_transactions ee txs (executor_new evm parent_hash) = (Some (Inr gs), ex)"
  shows "let result = executor_finish ex in
    unat (br_gas_used result) = sum_list (map unat gs) \<and>
    br_gas_used result \<le> be_gas_limit (ev_block evm) \<and>
    map (\<lambda>rc. unat (receipt_cumulative_gas_used rc)) (br_receipts result) = running_totals 0 gs \<and>
    map receipt_tx_type (br_receipts result) = map (\<lambda>t. env_tx_type (snd t)) txs"
  using execute_transactions_accounting [OF assms(1,2) run assms(3)]
  by (auto simp: executor_new_def executor_finish_def Let_def)

lemma sample_block_run:
  "\<exists>ex. execute_transactions sample_exec_env sample_block_txs (executor_new sample_evm 0) =
     (Some (Inr [21000, 21000]), ex)"
  by (simp add: sample_block_txs_def sample_exec_env_def executor_new_def execute_transaction_def
      execute_transaction_without_commit_def commit_transaction_def run_bind_def run_return_def
      Let_def transact_raw_def sample_evm_api_def sample_transact_def evm_l1_fee_def
      build_receipt_def from_recovered_tx_def recovered_base_def l1_tx_env_def tx_env_new_def
      sample_evm_def with_nonce_check_def with_base_fee_check_def env_ty_def env_gas_limit_def
      sample_alloy_tx_api_def l1_ty_def l1_gas_limit_def sample_l1_message_def sample_legacy_def
      L1_MESSAGE_TX_TYPE_ID_def L1_MESSAGE_TRANSACTION_TYPE_def tx_type_try_from_u8_def
      on_state_def system_caller_new_def set_db_def)

lemma sample_block_agrees:
  "\<forall>t \<in> set sample_block_txs. gas_limit_agrees (ee_tx sample_exec_env) t"
  by (simp add: sample_block_txs_def sample_exec_env_def gas_limit_agrees_def from_recovered_tx_def
      recovered_base_def l1_tx_env_def tx_env_new_def env_gas_limit_def sample_alloy_tx_api_def
      l1_gas_limit_def Let_def)

theorem block_gas_accounting_witness:
  "\<exists>ex. execute_transactions sample_exec_env sample_block_txs (executor_new sample_evm 0) =
      (Some (Inr [21000, 21000]), ex) \<and>
    unat (br_gas_used (executor_finish ex)) = 42000 \<and>
    map receipt_tx_type (br_receipts (executor_finish ex)) = [TyL1Message, TyLegacy]"
proof -
  from sample_block_run obtain ex where
    run: "execute_transactions sample_exec_env sample_block_txs (executor_new sample_evm 0) =
      (Some (Inr [21000, 21000]), ex)" by blast
  have "evm_laws (ee_evm sample_exec_env)" "alloy_tx_laws (ee_tx sample_exec_env)"
    by (simp_all add: sample_exec_env_def)
  from block_gas_accounting [OF this sample_block_agrees run] run show ?thesis
    by (intro exI [of _ ex]) (simp add: Let_def sample_block_txs_def)
qed

text \<open>The outcome of running a transaction, by its kind: data fee zero for an L1 message, the fee of
  the carried bytes otherwise.\<close>

definition priced_outcome ::
  "('db, 'l1, 'd, 'x) exec_env \<Rightarrow> ScrollTxEnv \<Rightarrow> ScrollTxEnvelope \<Rightarrow> ScrollSpecId \<Rightarrow> 'l1 \<Rightarrow>
   'x + ResultAndState \<Rightarrow> (('d, 'x) BlockExecutionError + ScrollTxResult) option" where
  "priced_outcome ee env tx spec info res =
     (case res of
        Inl e \<Rightarrow> Some (Inl (EvmError e (env_trie_hash tx)))
      | Inr r \<Rightarrow>
          if env_is_l1_message tx then Some (Inr \<lparr>tr_result = r, tr_l1_fee = 0, tr_tx_type = 126\<rparr>)
          else (case ste_rlp_bytes env of
             None \<Rightarrow> None
           | Some bs \<Rightarrow> Some (Inr \<lparr>tr_result = r,
               tr_l1_fee = api_l1_cost (ee_evm ee) info bs spec
                 (ste_compression_ratio env) (ste_compressed_size env),
               tr_tx_type = env_ty (ee_tx ee) tx\<rparr>)))"

text \<open>C32. Executing one transaction, branch by branch: one whose gas limit exceeds what the block has
  left is refused with both amounts and the executor is untouched; otherwise the EVM runs it with
  the base-fee and nonce checks disabled exactly for L1 messages, an L1 message is charged no
  data fee, any other transaction the data fee of its bytes, and there is no panic as long as
  such a transaction carries its bytes.\<close>

theorem execute_without_commit_branches:
  fixes ee :: "('db, 'l1, 'd, 'x) exec_env" and ex :: "('db, 'l1) executor"
  assumes laws: "evm_laws (ee_evm ee)" "alloy_tx_laws (ee_tx ee)"
    and l1: "is_l1 \<longleftrightarrow> env_is_l1_message tx"
    and avail: "avail = be_gas_limit (ev_block (ex_evm ex)) - ex_gas_used ex"
  shows "if avail < env_gas_limit (ee_tx ee) tx
    then execute_transaction_without_commit ee (env, tx) ex =
      (Some (Inl (TransactionGasLimitMoreThanAvailableBlockGas (env_gas_limit (ee_tx ee) tx) avail)), ex)
    else \<exists>res evm'. transact_raw (ee_evm ee) env
          ((ex_evm ex)\<lparr>ev_disable_base_fee := is_l1, ev_disable_nonce_check := is_l1\<rparr>) = (res, evm') \<and>
        ev_disable_base_fee evm' = is_l1 \<and> ev_disable_nonce_check evm' = is_l1 \<and>
        execute_transaction_without_commit ee (env, tx) ex =
          (priced_outcome ee env tx (ev_spec (ex_evm ex)) (ev_l1_block_info evm') res,
           ex\<lparr>ex_evm := evm'\<rparr>)"
proof (cases "avail < env_gas_limit (ee_tx ee) tx")
  case True
  then show ?thesis by (simp add: execute_transaction_without_commit_def Let_def avail)
next
  case room: False
  have ty: "env_ty (ee_tx ee) tx = tx_type_to_u8 (env_tx_type tx)"
    by (rule env_ty_tx_type [OF laws(2)])
  have type126: "env_ty (ee_tx ee) tx = L1_MESSAGE_TRANSACTION_TYPE \<longleftrightarrow> is_l1"
    unfolding ty l1 is_l1_message_iff
    by (cases tx) (simp_all add: L1_MESSAGE_TX_TYPE_ID_def L1_MESSAGE_TRANSACTION_TYPE_def)
  then have eq126: "is_l1 \<Longrightarrow> env_ty (ee_tx ee) tx = 126"
    by (simp add: L1_MESSAGE_TRANSACTION_TYPE_def)
  have not_blob: "env_ty (ee_tx ee) tx \<noteq> 3"
    unfolding ty by (cases tx) (simp_all add: L1_MESSAGE_TX_TYPE_ID_def)
  have cfg: "with_nonce_check (\<not> is_l1) (with_base_fee_check (\<not> is_l1) (ex_evm ex)) =
      (ex_evm ex)\<lparr>ev_disable_base_fee := is_l1, ev_disable_nonce_check := is_l1\<rparr>"
    by (simp add: with_nonce_check_def with_base_fee_check_def)
  obtain res evm' where t: "transact_raw (ee_evm ee) env
      ((ex_evm ex)\<lparr>ev_disable_base_fee := is_l1, ev_disable_nonce_check := is_l1\<rparr>) = (res, evm')"
    by fastforce
  note frame = transact_raw_law [OF laws(1) t]
  have "execute_transaction_without_commit ee (env, tx) ex =
      (priced_outcome ee env tx (ev_spec (ex_evm ex)) (ev_l1_block_info evm') res,
       ex\<lparr>ex_evm := evm'\<rparr>)"
    using frame(1,2) room not_blob eq126
    by (simp add: execute_transaction_without_commit_def Let_def type126 cfg t avail
        evm_l1_fee_def evm_frame_def priced_outcome_def l1 [symmetric] split: sum.split option.split)
  with frame(1) room t show ?thesis by (auto simp: evm_frame_def)
qed

theorem execute_without_commit_branches_witness:
  "execute_transaction_without_commit sample_exec_env
     (sample_tx_env, L1Message sample_l1_message)
     ((executor_new sample_evm 0)\<lparr>ex_gas_used := 129999\<rparr>) =
   (Some (Inl (TransactionGasLimitMoreThanAvailableBlockGas 100000 1)),
    (executor_new sample_evm 0)\<lparr>ex_gas_used := 129999\<rparr>)"
proof -
  have laws: "evm_laws (ee_evm sample_exec_env)" "alloy_tx_laws (ee_tx sample_exec_env)"
    by (simp_all add: sample_exec_env_def)
  from execute_without_commit_branches [OF this, of True "L1Message sample_l1_message" 1
      "(executor_new sample_evm 0)\<lparr>ex_gas_used := 129999\<rparr>" sample_tx_env]
  show ?thesis
    by (simp add: env_is_l1_message_def executor_new_def sample_evm_def env_gas_limit_def
        l1_gas_limit_def sample_l1_message_def)
qed

text \<open>The compression cache must match the block: with as many informations as transactions the
  block is executed as the list of its transactions with those informations; with fewer or more
  the block is refused, with the matching error once the covered transactions have executed, and
  it is never accepted.\<close>

theorem compression_cache_counts:
  assumes pre: "apply_pre_execution_changes ee ex = (Some (Inr ()), ex1)"
  shows "(\<forall>result ex'. execute_block_with_compression_cache r ac ea ee txs infos ex =
        (Some (Inr result), ex') \<longrightarrow>
      length infos = length txs \<and> result = executor_finish ex' \<and>
      (\<exists>gs. execute_transactions ee (map2 (cached_executable r ac ea) txs infos) ex1 = (Some (Inr gs), ex'))) \<and>
    (\<forall>gs ex'. execute_transactions ee (map2 (cached_executable r ac ea) txs infos) ex1 = (Some (Inr gs), ex') \<longrightarrow>
      execute_block_with_compression_cache r ac ea ee txs infos ex =
        (Some (if length infos < length txs then Inl FewerCompressionInfos
               else if length txs < length infos then Inl MoreCompressionInfos
               else Inr (executor_finish ex')), ex'))"
proof (intro conjI allI impI)
  fix result ex'
  assume "execute_block_with_compression_cache r ac ea ee txs infos ex = (Some (Inr result), ex')"
  then have loop: "compression_cache_loop r ac ea ee txs infos ex1 = (Some (Inr ()), ex')"
    and res: "result = executor_finish ex'"
    using pre by (auto simp: execute_block_with_compression_cache_def result_elims)
  from compression_loop_counts [OF loop] res
  show "length infos = length txs" "result = executor_finish ex'"
    "\<exists>gs. execute_transactions ee (map2 (cached_executable r ac ea) txs infos) ex1 = (Some (Inr gs), ex')"
    by simp_all
next
  fix gs ex'
  assume "execute_transactions ee (map2 (cached_executable r ac ea) txs infos) ex1 = (Some (Inr gs), ex')"
  from compression_loop_prefix [OF this] pre
  show "execute_block_with_compression_cache r ac ea ee txs infos ex =
        (Some (if length infos < length txs then Inl FewerCompressionInfos
               else if length txs < length infos then Inl MoreCompressionInfos
               else Inr (executor_finish ex')), ex')"
    by (simp add: execute_block_with_compression_cache_def run_bind_def run_return_def)
qed

text \<open>Before Feynman the pre-execution phase is a pure read: when neither Feynman, GalileoV2 nor
  Tsuki is active at the block's timestamp, it reads the base-fee overhead (failing when that
  read fails) and changes neither the state nor the hook nor the executor.\<close>

theorem pre_execution_inactive:
  assumes ts: "u256_to_u64 (be_timestamp (ev_block (ex_evm ex))) = Some ts"
    and inactive: "\<not> active_at_timestamp (ee_fork_api ee) (sv_activation (ee_spec ee) Feynman) ts"
      "\<not> active_at_timestamp (ee_fork_api ee) (sv_activation (ee_spec ee) GalileoV2) ts"
      "\<not> active_at_timestamp (ee_fork_api ee) (sv_activation (ee_spec ee) Tsuki) ts"
  shows "apply_pre_execution_changes ee ex =
    (case base_fee_overhead (ee_ops ee) (ee_spec ee) (ex_db ex) of
       Inl e \<Rightarrow> (Some (Inl (OverheadReadFailed e)), ex)
     | Inr _ \<Rightarrow> (Some (Inr ()), ex))"
  using assms
  by (cases "base_fee_overhead (ee_ops ee) (ee_spec ee) (ex_db ex)")
    (simp_all add: apply_pre_execution_changes_def run_bind_def fork_step_def run_result_def
      apply_blockhashes_contract_call_def transact_blockhashes_contract_call_def
      is_feynman_active_at_timestamp_def run_return_def)

definition sample_exec_env_inactive :: "(map_db, unit, string, string) exec_env" where
  "sample_exec_env_inactive =
     sample_exec_env\<lparr>ee_spec := sample_view\<lparr>sv_activation := (\<lambda>_. Never)\<rparr>\<rparr>"

theorem pre_execution_inactive_witness:
  "apply_pre_execution_changes sample_exec_env_inactive (executor_new sample_evm 0) =
     (Some (Inr ()), executor_new sample_evm 0)"
  by (subst pre_execution_inactive [where ts = 10])
    (simp_all add: sample_exec_env_inactive_def sample_exec_env_def executor_new_def sample_evm_def
      u256_to_u64_def base_fee_overhead_def map_db_ops_def ex_db_def empty_map_db_def
      sample_fork_api_def)

theorem compression_cache_counts_witness:
  "execute_block_with_compression_cache sample_rlp sample_alloy_codec sample_env_api
     sample_exec_env_inactive [] [(1, 1)] (executor_new sample_evm 0) =
   (Some (Inl MoreCompressionInfos), executor_new sample_evm 0)"
proof -
  have "apply_pre_execution_changes sample_exec_env_inactive (executor_new sample_evm 0) =
     (Some (Inr ()), executor_new sample_evm 0)"
    by (simp add: apply_pre_execution_changes_def run_bind_def fork_step_def run_result_def
      apply_blockhashes_contract_call_def transact_blockhashes_contract_call_def
      is_feynman_active_at_timestamp_def run_return_def sample_exec_env_inactive_def
      sample_exec_env_def executor_new_def sample_evm_def u256_to_u64_def base_fee_overhead_def
      map_db_ops_def ex_db_def empty_map_db_def sample_fork_api_def)
  from compression_cache_counts [OF this, of sample_rlp sample_alloy_codec sample_env_api "[]"
      "[(1, 1)]"]
  show ?thesis by (simp add: run_return_def)
qed

end
