(* ===== verification/Evm_Config.thy ===== *)
theory Evm_Config
  imports Executor
begin

text \<open>
  Block environments and block assembly: \<open>crates/dogeos-reth-evm/src/config.rs\<close> (the environment
  of a header, of the next block and of an engine payload, and the base-fee check of a block
  before its execution), \<open>lib.rs\<close> (the EVM of an environment) and \<open>build.rs\<close> (the assembler of a
  built block).

  Parameters (\<open>assembler_api\<close>): the roots and bloom computed by \<open>alloy_consensus\<close>, the hash of
  an empty ommers list and the header nonce after the merge, which \<open>alloy_eips\<close> documents as zero.
\<close>

section \<open>Environments\<close>

text \<open>The configuration of an environment (\<open>CfgEnv\<close>) is its specification, its chain and the two checks the
  executor switches; its other switches have their defaults in every environment of the program, and
  the gas parameters and transaction limits, which \<open>set_scroll_spec\<close> derives again from the
  specification, are those of \<open>env_spec_id\<close>.\<close>

record EvmEnv =
  env_spec_id :: ScrollSpecId
  env_chain :: u64
  env_disable_base_fee :: bool
  env_disable_nonce_check :: bool
  env_block :: BlockEnv

record SealedHeader =
  sh_header :: header
  sh_hash :: b256

record ScrollNextBlockEnvAttributes =
  nb_timestamp :: u64
  nb_suggested_fee_recipient :: address
  nb_gas_limit :: u64
  nb_base_fee :: u64

text \<open>The fields of an engine payload that the environment reads.\<close>

record ExecutionPayload =
  ep_parent_hash :: b256
  ep_fee_recipient :: address
  ep_number :: u64
  ep_gas_limit :: u64
  ep_timestamp :: u64
  ep_base_fee_per_gas :: u256
  ep_transactions :: "bytes list"

definition evm_env_for_payload :: "fork_api \<Rightarrow> spec_view \<Rightarrow> ExecutionPayload \<Rightarrow> EvmEnv" where
  "evm_env_for_payload fa spec payload =
     (let timestamp = ep_timestamp payload; block_number = ep_number payload in \<lparr>
        env_spec_id = spec_id_at_timestamp_and_number fa timestamp block_number (sv_activation spec),
        env_chain = sv_chain_id spec, env_disable_base_fee = False, env_disable_nonce_check = False,
        env_block = \<lparr>
          be_number = ucast block_number,
          be_beneficiary = (case fee_vault_address (sv_config spec) of
             Some vault \<Rightarrow> vault | None \<Rightarrow> ep_fee_recipient payload),
          be_timestamp = ucast timestamp,
          be_gas_limit = ep_gas_limit payload,
          be_basefee = saturating_to_u64 (ep_base_fee_per_gas payload),
          be_difficulty = 1, be_prevrandao = Some 0,
          be_blob_excess_gas_and_price = None, be_slot_num = 0\<rparr>\<rparr>)"

definition evm_env :: "fork_api \<Rightarrow> spec_view \<Rightarrow> header \<Rightarrow> EvmEnv" where
  "evm_env fa spec h = \<lparr>
     env_spec_id =
       spec_id_at_timestamp_and_number fa (h_timestamp h) (h_number h) (sv_activation spec),
     env_chain = sv_chain_id spec, env_disable_base_fee = False, env_disable_nonce_check = False,
     env_block = \<lparr>
       be_number = ucast (h_number h),
       be_beneficiary = (case fee_vault_address (sv_config spec) of
          Some vault \<Rightarrow> vault | None \<Rightarrow> h_beneficiary h),
       be_timestamp = ucast (h_timestamp h),
       be_gas_limit = h_gas_limit h,
       be_basefee = (case h_base_fee_per_gas h of Some fee \<Rightarrow> fee | None \<Rightarrow> 0),
       be_difficulty = h_difficulty h, be_prevrandao = Some (h_mix_hash h),
       be_blob_excess_gas_and_price = None, be_slot_num = 0\<rparr>\<rparr>"

definition next_evm_env ::
  "fork_api \<Rightarrow> spec_view \<Rightarrow> header \<Rightarrow> ScrollNextBlockEnvAttributes \<Rightarrow> EvmEnv" where
  "next_evm_env fa spec parent attributes =
     (let number = h_number parent + 1 in \<lparr>
        env_spec_id =
          spec_id_at_timestamp_and_number fa (nb_timestamp attributes) number (sv_activation spec),
        env_chain = sv_chain_id spec, env_disable_base_fee = False, env_disable_nonce_check = False,
        env_block = \<lparr>
          be_number = ucast number,
          be_beneficiary = (case fee_vault_address (sv_config spec) of
             Some vault \<Rightarrow> vault | None \<Rightarrow> nb_suggested_fee_recipient attributes),
          be_timestamp = ucast (nb_timestamp attributes),
          be_gas_limit = nb_gas_limit attributes,
          be_basefee = nb_base_fee attributes,
          be_difficulty = 1, be_prevrandao = Some 0,
          be_blob_excess_gas_and_price = None, be_slot_num = 0\<rparr>\<rparr>)"

definition context_for_payload :: "ExecutionPayload \<Rightarrow> b256" where
  "context_for_payload payload = ep_parent_hash payload"

definition context_for_block :: "header \<Rightarrow> b256" where
  "context_for_block h = h_parent_hash h"

definition context_for_next_block :: "SealedHeader \<Rightarrow> b256" where
  "context_for_next_block parent = sh_hash parent"

section \<open>The base-fee check before execution\<close>

datatype 'd pre_execution_error =
    InvalidParentHeader
  | OverheadRead 'd
  | InvalidBaseFee u64 u64

text \<open>\<open>None\<close> is a panic of \<open>U256::to\<close>.\<close>

definition validate_block_pre_execution ::
  "fork_api \<Rightarrow> base_fee_calc \<Rightarrow> ('db, 'd) db_ops \<Rightarrow> spec_view \<Rightarrow> 'db \<Rightarrow> EvmEnv \<Rightarrow> b256 \<Rightarrow>
   SealedHeader \<Rightarrow> ('d pre_execution_error + unit) option" where
  "validate_block_pre_execution fa calc ops spec db env parent_hash parent =
     (case u256_to_u64 (be_timestamp (env_block env)) of
        None \<Rightarrow> None
      | Some timestamp \<Rightarrow>
     (case u256_to_u64 (be_number (env_block env)) of
        None \<Rightarrow> None
      | Some number \<Rightarrow> Some (
          if \<not> active_at_timestamp_or_number fa (sv_activation spec Feynman) timestamp number
          then Inr ()
          else
            rbind (ok_or InvalidParentHeader
              (case base_fee_parent_from_header (sh_header parent) of
                 None \<Rightarrow> None
               | Some inputs \<Rightarrow> if sh_hash parent = parent_hash then Some inputs else None))
            (\<lambda>parent_inputs.
            rbind (map_err OverheadRead
              (next_block_base_fee_for_parent fa calc ops spec db parent_inputs timestamp))
            (\<lambda>expected.
            let got = be_basefee (env_block env) in
            if got \<noteq> expected then Inl (InvalidBaseFee got expected) else Inr ())))))"

section \<open>The EVM of an environment\<close>

text \<open>\<open>ScrollEvmFactory\<close>: the context of the library (\<open>Context::scroll()\<close>, its default transaction and
  L1 block information) with the database and the environment, whose specification selects the gas
  parameters, limits and precompiles; only an EVM created with an inspector
  runs it. \<open>evm_finish\<close> gives both back.\<close>

definition create_evm ::
  "ScrollTxEnv \<times> 'l1 \<Rightarrow> 'db \<Rightarrow> EvmEnv \<Rightarrow> ('db, 'l1) scroll_evm" where
  "create_evm context db input = \<lparr>
     ev_db = db, ev_block = env_block input, ev_chain_id = env_chain input,
     ev_disable_base_fee = env_disable_base_fee input, ev_disable_nonce_check = env_disable_nonce_check input,
     ev_spec = env_spec_id input,
     ev_tx = fst context, ev_l1_block_info = snd context, ev_inspect = False\<rparr>"

definition create_evm_with_inspector ::
  "ScrollTxEnv \<times> 'l1 \<Rightarrow> 'db \<Rightarrow> EvmEnv \<Rightarrow> ('db, 'l1) scroll_evm" where
  "create_evm_with_inspector context db input = \<lparr>
     ev_db = db, ev_block = env_block input, ev_chain_id = env_chain input,
     ev_disable_base_fee = env_disable_base_fee input, ev_disable_nonce_check = env_disable_nonce_check input,
     ev_spec = env_spec_id input,
     ev_tx = fst context, ev_l1_block_info = snd context, ev_inspect = True\<rparr>"

definition evm_finish :: "('db, 'l1) scroll_evm \<Rightarrow> 'db \<times> EvmEnv" where
  "evm_finish evm =
     (ev_db evm, \<lparr>env_spec_id = ev_spec evm, env_chain = ev_chain_id evm,
        env_disable_base_fee = ev_disable_base_fee evm, env_disable_nonce_check = ev_disable_nonce_check evm,
        env_block = ev_block evm\<rparr>)"

section \<open>Block assembly\<close>

record Block =
  b_header :: header
  b_transactions :: "ScrollTxEnvelope list"
  b_ommers :: "header list"
  b_withdrawals :: "unit list option"

record assembler_api =
  as_empty_ommer_root :: b256
  as_beacon_nonce :: u64
  as_transaction_root :: "ScrollTxEnvelope list \<Rightarrow> b256"
  as_receipt_root :: "ScrollReceipt list \<Rightarrow> b256"
  as_logs_bloom :: "Log list \<Rightarrow> bloom"

datatype assemble_error = InvalidPrevrandao "b256 option" | InvalidDifficulty u256

definition assemble_block ::
  "assembler_api \<Rightarrow> EvmEnv \<Rightarrow> b256 \<Rightarrow> ScrollTxEnvelope list \<Rightarrow> BlockExecutionResult \<Rightarrow> b256 \<Rightarrow>
   assemble_error + Block" where
  "assemble_block aa env parent_hash transactions output state_root =
     (let prevrandao = be_prevrandao (env_block env);
          difficulty = be_difficulty (env_block env);
          receipts = br_receipts output in
      if prevrandao \<noteq> Some 0 then Inl (InvalidPrevrandao prevrandao)
      else if difficulty \<noteq> 1 then Inl (InvalidDifficulty difficulty)
      else Inr \<lparr>
        b_header = \<lparr>
          h_parent_hash = parent_hash,
          h_ommers_hash = as_empty_ommer_root aa,
          h_beneficiary = 0,
          h_state_root = state_root,
          h_transactions_root = as_transaction_root aa transactions,
          h_receipts_root = as_receipt_root aa receipts,
          h_logs_bloom = as_logs_bloom aa (concat (map (\<lambda>rc. rc_logs (as_receipt rc)) receipts)),
          h_difficulty = difficulty,
          h_number = saturating_to_u64 (be_number (env_block env)),
          h_gas_limit = be_gas_limit (env_block env),
          h_gas_used = br_gas_used output,
          h_timestamp = saturating_to_u64 (be_timestamp (env_block env)),
          h_extra_data = [],
          h_mix_hash = 0,
          h_nonce = as_beacon_nonce aa,
          h_base_fee_per_gas = Some (be_basefee (env_block env)),
          h_withdrawals_root = None,
          h_blob_gas_used = None,
          h_excess_blob_gas = None,
          h_parent_beacon_block_root = None,
          h_requests_hash = None\<rparr>,
        b_transactions = transactions, b_ommers = [], b_withdrawals = None\<rparr>)"

section \<open>Lemmas\<close>

lemma unat_u64_less: "unat (x :: u64) < 2 ^ 64"
  using unat_le_max [of x] by simp

lemma unat_ucast_u256 [simp]: "unat (ucast (x :: u64) :: u256) = unat x"
proof -
  have "unat x < 2 ^ 256" by (rule less_trans [OF unat_u64_less]) simp
  then show ?thesis by (simp add: unsigned_ucast_eq take_bit_nat_eq_self)
qed

lemma saturating_to_u64_ucast [simp]: "saturating_to_u64 (ucast (x :: u64) :: u256) = x"
  using unat_u64_less [of x] by (intro word_eq_unatI) (simp add: sat_simps)

lemma u256_to_u64_ucast [simp]: "u256_to_u64 (ucast (x :: u64) :: u256) = Some x"
  using saturating_to_u64_ucast [of x] unat_u64_less [of x]
  by (simp add: u256_to_u64_def saturating_to_u64_def)

lemma next_env_block_fields:
  "be_prevrandao (env_block (next_evm_env fa spec parent a)) = Some 0"
  "be_difficulty (env_block (next_evm_env fa spec parent a)) = 1"
  "be_number (env_block (next_evm_env fa spec parent a)) = ucast (h_number parent + 1)"
  "be_timestamp (env_block (next_evm_env fa spec parent a)) = ucast (nb_timestamp a)"
  "be_gas_limit (env_block (next_evm_env fa spec parent a)) = nb_gas_limit a"
  "be_basefee (env_block (next_evm_env fa spec parent a)) = nb_base_fee a"
  by (simp_all add: next_evm_env_def Let_def)

lemma assemble_next_env:
  "assemble_block aa (next_evm_env fa spec parent a) ph txs out root = Inr \<lparr>
     b_header = \<lparr>
       h_parent_hash = ph, h_ommers_hash = as_empty_ommer_root aa, h_beneficiary = 0,
       h_state_root = root, h_transactions_root = as_transaction_root aa txs,
       h_receipts_root = as_receipt_root aa (br_receipts out),
       h_logs_bloom =
         as_logs_bloom aa (concat (map (\<lambda>rc. rc_logs (as_receipt rc)) (br_receipts out))),
       h_difficulty = 1, h_number = h_number parent + 1, h_gas_limit = nb_gas_limit a,
       h_gas_used = br_gas_used out, h_timestamp = nb_timestamp a, h_extra_data = [],
       h_mix_hash = 0, h_nonce = as_beacon_nonce aa, h_base_fee_per_gas = Some (nb_base_fee a),
       h_withdrawals_root = None, h_blob_gas_used = None, h_excess_blob_gas = None,
       h_parent_beacon_block_root = None, h_requests_hash = None\<rparr>,
     b_transactions = txs, b_ommers = [], b_withdrawals = None\<rparr>"
  by (simp add: assemble_block_def next_env_block_fields Let_def)

text \<open>Creating an EVM, with or without an inspector, loses nothing of its input, and executing in it
  keeps the environment.\<close>

lemma evm_finish_create:
  "evm_finish (create_evm context db env) = (db, env)"
  "evm_finish (create_evm_with_inspector context db env) = (db, env)"
  by (simp_all add: evm_finish_def create_evm_def create_evm_with_inspector_def)

lemma evm_finish_transact:
  assumes "evm_laws api" and "transact_raw api tx evm = (res, evm')"
  shows "snd (evm_finish evm') = snd (evm_finish evm)"
  using transact_raw_law(1) [OF assms] by (simp add: evm_finish_def evm_frame_def)

definition sample_assembler :: assembler_api where
  "sample_assembler = \<lparr>
     as_empty_ommer_root = 29, as_beacon_nonce = 0,
     as_transaction_root = (\<lambda>txs. of_nat (length txs)),
     as_receipt_root = (\<lambda>rs. of_nat (length rs)),
     as_logs_bloom = (\<lambda>logs. of_nat (length logs))\<rparr>"

definition sample_attributes :: ScrollNextBlockEnvAttributes where
  "sample_attributes = \<lparr>nb_timestamp = 12, nb_suggested_fee_recipient = 3,
     nb_gas_limit = 30000000, nb_base_fee = 15680000\<rparr>"

section \<open>Properties\<close>

text \<open>The import check of the base fee is exact: from Feynman on, with a parent that carries a
  base fee and whose hash is the one announced, a block passes exactly when its base fee is the
  one computed from the parent and the overhead in the state before the block; without such a
  parent it is refused. A block built with that fee therefore passes.\<close>

theorem base_fee_import_check_exact:
  assumes feynman: "active_at_timestamp_or_number fa (sv_activation spec Feynman)
      (nb_timestamp a) (h_number (sh_header parent) + 1)"
    and fee: "h_base_fee_per_gas (sh_header parent) = Some parent_fee"
    and expected: "next_block_base_fee_for_parent fa calc ops spec db
      \<lparr>bfp_base_fee_per_gas = parent_fee, bfp_gas_used = h_gas_used (sh_header parent),
       bfp_gas_limit = h_gas_limit (sh_header parent)\<rparr> (nb_timestamp a) = Inr expected"
  shows "validate_block_pre_execution fa calc ops spec db
      (next_evm_env fa spec (sh_header parent) a) parent_hash parent =
    Some (if sh_hash parent \<noteq> parent_hash then Inl InvalidParentHeader
          else if nb_base_fee a = expected then Inr ()
          else Inl (InvalidBaseFee (nb_base_fee a) expected))"
  using assms
  by (simp add: validate_block_pre_execution_def next_env_block_fields
      base_fee_parent_from_header_def Let_def)

theorem base_fee_import_check_exact_witness:
  "validate_block_pre_execution sample_fork_api (\<lambda>used limit fee params. fee)
     (map_db_ops :: (map_db, string) db_ops) sample_view empty_map_db
     (next_evm_env sample_fork_api sample_view (sample_header\<lparr>h_base_fee_per_gas := Some 2\<rparr>)
        sample_attributes) 5
     \<lparr>sh_header = sample_header\<lparr>h_base_fee_per_gas := Some 2\<rparr>, sh_hash = 5\<rparr> = Some (Inr ())"
proof -
  let ?p = "\<lparr>sh_header = sample_header\<lparr>h_base_fee_per_gas := Some 2\<rparr>, sh_hash = 5\<rparr>"
  have a: "active_at_timestamp_or_number sample_fork_api (sv_activation sample_view Feynman)
      (nb_timestamp sample_attributes) (h_number (sh_header ?p) + 1)"
    by (simp add: sample_fork_api_def sample_view_def)
  have b: "h_base_fee_per_gas (sh_header ?p) = Some 2" by simp
  have c: "next_block_base_fee_for_parent sample_fork_api (\<lambda>used limit fee params. fee)
      (map_db_ops :: (map_db, string) db_ops) sample_view empty_map_db
      \<lparr>bfp_base_fee_per_gas = 2, bfp_gas_used = h_gas_used (sh_header ?p),
       bfp_gas_limit = h_gas_limit (sh_header ?p)\<rparr> (nb_timestamp sample_attributes) = Inr 15680000"
    by (simp add: next_block_base_fee_for_parent_def next_block_base_fee_with_overhead_def
        base_fee_overhead_def map_db_ops_def empty_map_db_def DEFAULT_BASE_FEE_OVERHEAD_def
        saturating_to_u64_def saturating_sub_def saturating_add_def max_l2_base_fee_at_timestamp_def
        is_tsuki_v2_active_at_timestamp_def sample_fork_api_def sample_view_def
        MAX_L2_BASE_FEE_def min_def Let_def)
  show ?thesis
    using base_fee_import_check_exact [OF a b c, of 5] by (simp add: sample_attributes_def)
qed

text \<open>A built block is replayed in the environment it was built in exactly when a fee vault is
  configured or the suggested fee recipient is zero: assembly always succeeds on the environment
  of the next block, the header records a zero beneficiary, and the environments of the header
  and of the engine payload with its fields agree with each other in every case.\<close>

theorem replay_environment:
  assumes blk: "assemble_block aa (next_evm_env fa spec parent a) ph txs out root = Inr blk"
    and h: "h = b_header blk"
    and payload: "payload = \<lparr>ep_parent_hash = h_parent_hash h, ep_fee_recipient = h_beneficiary h,
      ep_number = h_number h, ep_gas_limit = h_gas_limit h, ep_timestamp = h_timestamp h,
      ep_base_fee_per_gas = ucast (nb_base_fee a), ep_transactions = encoded\<rparr>"
  shows "(evm_env fa spec h = next_evm_env fa spec parent a \<longleftrightarrow>
      fee_vault_address (sv_config spec) \<noteq> None \<or> nb_suggested_fee_recipient a = 0) \<and>
    evm_env_for_payload fa spec payload = evm_env fa spec h"
proof -
  from blk have "h = b_header (the (Some blk))" "blk = projr (Inr blk)" using h by simp_all
  with blk [unfolded assemble_next_env] have h': "h_number h = h_number parent + 1"
    "h_timestamp h = nb_timestamp a" "h_gas_limit h = nb_gas_limit a" "h_beneficiary h = 0"
    "h_base_fee_per_gas h = Some (nb_base_fee a)" "h_difficulty h = 1" "h_mix_hash h = 0"
    using h by auto
  show ?thesis
    by (cases "fee_vault_address (sv_config spec)")
      (auto simp: evm_env_def next_evm_env_def evm_env_for_payload_def payload h' Let_def)
qed

theorem replay_environment_witness:
  "let a = sample_attributes; env = next_evm_env sample_fork_api sample_view sample_header a in
   \<exists>blk. assemble_block sample_assembler env 7 [] \<lparr>br_receipts = [], br_gas_used = 0,
       br_blob_gas_used = 0\<rparr> 9 = Inr blk \<and> evm_env sample_fork_api sample_view (b_header blk) = env"
  using replay_environment [OF assemble_next_env refl refl, where fa = sample_fork_api
    and spec = sample_view and parent = sample_header and a = sample_attributes
    and aa = sample_assembler and ph = 7 and txs = "[]" and root = 9 and encoded = "[]"
    and out = "\<lparr>br_receipts = [], br_gas_used = 0, br_blob_gas_used = 0\<rparr>"]
  by (simp add: Let_def assemble_next_env sample_view_def scroll_chain_config_mainnet_def
      scroll_chain_config_new_def)

end
