(* ===== verification/Consensus.thy ===== *)
theory Consensus
  imports Evm_Config
begin

text \<open>
  Consensus rules: \<open>crates/dogeos-reth-consensus/src/lib.rs\<close>.

  Parameters (\<open>consensus_api\<close>): the checks of \<open>reth_consensus_common\<close> (hash and number against
  the parent, gas of a header, body against header), the constants of \<open>alloy\<close> and \<open>reth\<close>, the
  transaction root check of a sealed block and the receipt root. The documented behaviour that
  the properties use is \<open>consensus_laws\<close>. The wall clock is an argument.
\<close>

section \<open>Errors and parameters\<close>

datatype ConsensusError =
    InvalidL1MessageOrder
  | MixHashNotZero "b256 option"
  | CoinbaseNotZero address
  | NonceNotZero "b64 option"
  | DifficultyNotOne u256
  | ExtraDataNotEmpty
  | BaseFeeMissing
  | BaseFeeOverLimit
  | WithdrawalsPresent
  | BlobFieldsPresent
  | TheMergeOmmerRootIsNotEmpty
  | UnclesNotAllowed
  | BodyTransactionRootDiff
  | BlockGasUsed u64 u64
  | BodyReceiptRootDiff b256 b256
  | BodyBloomLogDiff bloom bloom
  | TimestampIsInPast u64 u64
  | GasLimitInvalidIncrease u64 u64
  | GasLimitInvalidDecrease u64 u64
  | GasLimitInvalidMinimum u64
  | OtherConsensus string

record consensus_api =
  ca_empty_ommer_root :: b256
  ca_gas_limit_bound_divisor :: u64
  ca_minimum_gas_limit :: u64
  ca_against_parent_hash_number :: "header \<Rightarrow> SealedHeader \<Rightarrow> ConsensusError + unit"
  ca_header_gas :: "header \<Rightarrow> ConsensusError + unit"
  ca_body_against_header :: "Block \<Rightarrow> header \<Rightarrow> ConsensusError + unit"
  ca_transaction_root_valid :: "Block \<Rightarrow> bool"
  ca_receipt_root :: "ScrollReceipt list \<Rightarrow> b256"
  ca_bloom :: "ScrollReceipt \<Rightarrow> bloom"

definition consensus_laws :: "consensus_api \<Rightarrow> bool" where
  "consensus_laws ca \<longleftrightarrow>
     (\<forall>h p. h_parent_hash h = sh_hash p \<and> h_number h = h_number (sh_header p) + 1 \<longrightarrow>
        ca_against_parent_hash_number ca h p = Inr ()) \<and>
     (\<forall>h. h_gas_used h \<le> h_gas_limit h \<and> h_gas_limit h \<le> 0x7fffffffffffffff \<longrightarrow>
        ca_header_gas ca h = Inr ()) \<and>
     0 < ca_gas_limit_bound_divisor ca"

definition DOGEOS_BLOCK_DIFFICULTY :: u256 where
  "DOGEOS_BLOCK_DIFFICULTY = 1"

definition DOGEOS_MAXIMUM_BASE_FEE :: u64 where
  "DOGEOS_MAXIMUM_BASE_FEE = MAX_L2_BASE_FEE"

section \<open>After execution\<close>

definition last_cumulative_gas :: "ScrollReceipt list \<Rightarrow> u64" where
  "last_cumulative_gas rs = (case rev rs of [] \<Rightarrow> 0 | rc # _ \<Rightarrow> receipt_cumulative_gas_used rc)"

definition validate_block_post_execution ::
  "consensus_api \<Rightarrow> header \<Rightarrow> BlockExecutionResult \<Rightarrow> (b256 \<times> bloom) option \<Rightarrow>
   ConsensusError + unit" where
  "validate_block_post_execution ca block result receipt_root_bloom =
     (let cumulative_gas_used = last_cumulative_gas (br_receipts result) in
      if h_gas_used block \<noteq> cumulative_gas_used
      then Inl (BlockGasUsed cumulative_gas_used (h_gas_used block))
      else
        let (receipts_root, logs_bloom) =
              (case receipt_root_bloom of
                 Some value \<Rightarrow> value
               | None \<Rightarrow>
                   (ca_receipt_root ca (br_receipts result),
                    fold (\<lambda>rc bloom. or bloom (ca_bloom ca rc)) (br_receipts result) 0)) in
        if receipts_root \<noteq> h_receipts_root block
        then Inl (BodyReceiptRootDiff receipts_root (h_receipts_root block))
        else if logs_bloom \<noteq> h_logs_bloom block
        then Inl (BodyBloomLogDiff logs_bloom (h_logs_bloom block))
        else Inr ())"

text \<open>
  What these checks and the assembler have to agree on: the constants, the roots and the logs bloom
  of receipts.
\<close>

definition roots_agree :: "consensus_api \<Rightarrow> assembler_api \<Rightarrow> bool" where
  "roots_agree ca aa \<longleftrightarrow>
     ca_empty_ommer_root ca = as_empty_ommer_root aa \<and> as_beacon_nonce aa = 0 \<and>
     (\<forall>b. ca_transaction_root_valid ca b \<longleftrightarrow>
        h_transactions_root (b_header b) = as_transaction_root aa (b_transactions b)) \<and>
     ca_receipt_root ca = as_receipt_root aa \<and>
     (\<forall>rs. fold (\<lambda>rc bloom. or bloom (ca_bloom ca rc)) rs 0 =
        as_logs_bloom aa (concat (map (\<lambda>rc. rc_logs (as_receipt rc)) rs)))"

section \<open>L1 messages\<close>

text \<open>The loop with its two variables; \<open>queue_index + 1\<close> wraps around. The \<open>expect\<close> on the queue
  index cannot fail on an L1 message.\<close>

fun validate_l1_messages_loop ::
  "bool \<Rightarrow> u64 option \<Rightarrow> ScrollTxEnvelope list \<Rightarrow> ConsensusError + unit" where
  "validate_l1_messages_loop saw_l2 next_queue_index [] = Inr ()"
| "validate_l1_messages_loop saw_l2 next_queue_index (tx # txs) =
     (case queue_index tx of
        Some qi \<Rightarrow>
          if saw_l2 then Inl InvalidL1MessageOrder
          else if next_queue_index \<noteq> None \<and> next_queue_index \<noteq> Some qi
          then Inl InvalidL1MessageOrder
          else validate_l1_messages_loop saw_l2 (Some (qi + 1)) txs
      | None \<Rightarrow> validate_l1_messages_loop True next_queue_index txs)"

definition validate_l1_messages :: "ScrollTxEnvelope list \<Rightarrow> ConsensusError + unit" where
  "validate_l1_messages transactions = validate_l1_messages_loop False None transactions"

section \<open>Before execution\<close>

definition cons_validate_block_pre_execution ::
  "consensus_api \<Rightarrow> Block \<Rightarrow> ConsensusError + unit" where
  "cons_validate_block_pre_execution ca block =
     (if b_ommers block \<noteq> [] then Inl UnclesNotAllowed
      else if h_ommers_hash (b_header block) \<noteq> ca_empty_ommer_root ca
      then Inl TheMergeOmmerRootIsNotEmpty
      else if \<not> ca_transaction_root_valid ca block then Inl BodyTransactionRootDiff
      else if b_withdrawals block \<noteq> None then Inl WithdrawalsPresent
      else validate_l1_messages (b_transactions block))"

section \<open>Headers\<close>

definition validate_header_timestamp :: "u64 \<Rightarrow> header \<Rightarrow> ConsensusError + unit" where
  "validate_header_timestamp now h =
     (if now < h_timestamp h then Inl (TimestampIsInPast now (h_timestamp h)) else Inr ())"

definition validate_header :: "consensus_api \<Rightarrow> u64 \<Rightarrow> header \<Rightarrow> ConsensusError + unit" where
  "validate_header ca now h =
     (if h_ommers_hash h \<noteq> ca_empty_ommer_root ca then Inl TheMergeOmmerRootIsNotEmpty
      else if h_mix_hash h \<noteq> 0 then Inl (MixHashNotZero (Some (h_mix_hash h)))
      else if h_beneficiary h \<noteq> 0 then Inl (CoinbaseNotZero (h_beneficiary h))
      else if h_nonce h \<noteq> 0 then Inl (NonceNotZero (Some (h_nonce h)))
      else if h_difficulty h \<noteq> DOGEOS_BLOCK_DIFFICULTY then Inl (DifficultyNotOne (h_difficulty h))
      else if h_extra_data h \<noteq> [] then Inl ExtraDataNotEmpty
      else (case h_base_fee_per_gas h of
         None \<Rightarrow> Inl BaseFeeMissing
       | Some base_fee \<Rightarrow>
           if DOGEOS_MAXIMUM_BASE_FEE < base_fee then Inl BaseFeeOverLimit
           else if h_withdrawals_root h \<noteq> None \<or> h_blob_gas_used h \<noteq> None \<or>
             h_excess_blob_gas h \<noteq> None \<or> h_parent_beacon_block_root h \<noteq> None \<or>
             h_requests_hash h \<noteq> None
           then Inl BlobFieldsPresent
           else
             rbind (validate_header_timestamp now h) (\<lambda>_.
             rbind (ca_header_gas ca h) (\<lambda>_. Inr ()))))"

definition validate_gas_limit_against_parent ::
  "consensus_api \<Rightarrow> u64 \<Rightarrow> u64 \<Rightarrow> ConsensusError + unit" where
  "validate_gas_limit_against_parent ca gas_limit parent_gas_limit =
     (let diff = abs_diff gas_limit parent_gas_limit;
          limit = parent_gas_limit div ca_gas_limit_bound_divisor ca in
      if limit < diff
      then (if parent_gas_limit < gas_limit
            then Inl (GasLimitInvalidIncrease parent_gas_limit gas_limit)
            else Inl (GasLimitInvalidDecrease parent_gas_limit gas_limit))
      else if gas_limit < ca_minimum_gas_limit ca then Inl (GasLimitInvalidMinimum gas_limit)
      else Inr ())"

definition validate_header_against_parent ::
  "consensus_api \<Rightarrow> header \<Rightarrow> SealedHeader \<Rightarrow> ConsensusError + unit" where
  "validate_header_against_parent ca h parent =
     rbind (ca_against_parent_hash_number ca h parent) (\<lambda>_.
       if h_timestamp h < h_timestamp (sh_header parent)
       then Inl (TimestampIsInPast (h_timestamp (sh_header parent)) (h_timestamp h))
       else validate_gas_limit_against_parent ca (h_gas_limit h) (h_gas_limit (sh_header parent)))"

section \<open>Lemmas\<close>

text \<open>The specification of the order of L1 messages: a prefix of the block, with consecutive queue
  indices (modulo the width of the index).\<close>

definition l1_prefix_consecutive :: "ScrollTxEnvelope list \<Rightarrow> bool" where
  "l1_prefix_consecutive txs \<longleftrightarrow>
     (let l1 = takeWhile env_is_l1_message txs in
      (\<forall>tx \<in> set (dropWhile env_is_l1_message txs). \<not> env_is_l1_message tx) \<and>
      (\<forall>i. Suc i < length l1 \<longrightarrow>
         queue_index (l1 ! Suc i) = map_option (\<lambda>q. q + 1) (queue_index (l1 ! i))))"

lemma queue_index_None_iff: "queue_index tx = None \<longleftrightarrow> \<not> env_is_l1_message tx"
  by (cases tx) (simp_all add: env_is_l1_message_def)

lemma l1_loop_after_l2:
  "validate_l1_messages_loop True nq txs = Inr () \<longleftrightarrow> (\<forall>tx \<in> set txs. \<not> env_is_l1_message tx)"
  by (induction txs arbitrary: nq) (auto simp: queue_index_None_iff [symmetric] split: option.split)

lemma all_nat_Suc: "(\<forall>i::nat. Q i) \<longleftrightarrow> Q 0 \<and> (\<forall>j. Q (Suc j))"
  by (metis nat.exhaust)

lemma l1_loop_prefix:
  "validate_l1_messages_loop False nq txs = Inr () \<longleftrightarrow>
   (\<forall>tx \<in> set (dropWhile env_is_l1_message txs). \<not> env_is_l1_message tx) \<and>
   (let l1 = takeWhile env_is_l1_message txs in
    (nq \<noteq> None \<and> l1 \<noteq> [] \<longrightarrow> queue_index (hd l1) = nq) \<and>
    (\<forall>i. Suc i < length l1 \<longrightarrow>
       queue_index (l1 ! Suc i) = map_option (\<lambda>q. q + 1) (queue_index (l1 ! i))))"
proof (induction txs arbitrary: nq)
  case Nil
  then show ?case by simp
next
  case (Cons tx txs)
  show ?case
  proof (cases "queue_index tx")
    case None
    then have "\<not> env_is_l1_message tx" by (simp add: queue_index_None_iff [symmetric])
    with None show ?thesis by (simp add: l1_loop_after_l2)
  next
    case (Some qi)
    then have l1: "env_is_l1_message tx" using queue_index_None_iff [of tx] by auto
    have step: "(\<forall>i. Suc i < Suc (length l) \<longrightarrow>
          queue_index ((tx # l) ! Suc i) = map_option (\<lambda>q. q + 1) (queue_index ((tx # l) ! i))) \<longleftrightarrow>
        (l \<noteq> [] \<longrightarrow> queue_index (hd l) = Some (qi + 1)) \<and>
        (\<forall>i. Suc i < length l \<longrightarrow>
          queue_index (l ! Suc i) = map_option (\<lambda>q. q + 1) (queue_index (l ! i)))" for l
      using Some by (subst all_nat_Suc) (auto simp: hd_conv_nth)
    have head: "(nq \<noteq> None \<longrightarrow> queue_index tx = nq) \<longleftrightarrow> \<not> (nq \<noteq> None \<and> nq \<noteq> Some qi)"
      using Some by auto
    have loop: "validate_l1_messages_loop False nq (tx # txs) = Inr () \<longleftrightarrow>
        \<not> (nq \<noteq> None \<and> nq \<noteq> Some qi) \<and>
        validate_l1_messages_loop False (Some (qi + 1)) txs = Inr ()"
      using Some by simp
    have tw: "takeWhile env_is_l1_message (tx # txs) = tx # takeWhile env_is_l1_message txs"
      and dw: "dropWhile env_is_l1_message (tx # txs) = dropWhile env_is_l1_message txs"
      using l1 by simp_all
    show ?thesis
      unfolding loop Cons.IH [of "Some (qi + 1)"] Let_def tw dw length_Cons step head [symmetric]
        list.sel
      by blast
  qed
qed

lemma gas_limit_ok_iff:
  "validate_gas_limit_against_parent ca g p = Inr () \<longleftrightarrow>
   abs_diff g p \<le> p div ca_gas_limit_bound_divisor ca \<and> ca_minimum_gas_limit ca \<le> g"
  by (auto simp: validate_gas_limit_against_parent_def Let_def not_less)

lemma validate_header_ok:
  assumes "consensus_laws ca" and "h_ommers_hash h = ca_empty_ommer_root ca" and "h_mix_hash h = 0"
    and "h_beneficiary h = 0" and "h_nonce h = 0" and "h_difficulty h = 1" and "h_extra_data h = []"
    and "h_base_fee_per_gas h = Some fee" and "fee \<le> MAX_L2_BASE_FEE"
    and "h_withdrawals_root h = None" and "h_blob_gas_used h = None" and "h_excess_blob_gas h = None"
    and "h_parent_beacon_block_root h = None" and "h_requests_hash h = None"
    and "h_timestamp h \<le> now" and "h_gas_used h \<le> h_gas_limit h"
    and "h_gas_limit h \<le> 0x7fffffffffffffff"
  shows "validate_header ca now h = Inr ()"
  using assms
  by (simp add: validate_header_def DOGEOS_BLOCK_DIFFICULTY_def DOGEOS_MAXIMUM_BASE_FEE_def
      validate_header_timestamp_def consensus_laws_def not_less)

lemma last_cumulative_gas_snoc [simp]:
  "last_cumulative_gas [] = 0" "last_cumulative_gas (rs @ [rc]) = receipt_cumulative_gas_used rc"
  by (simp_all add: last_cumulative_gas_def)

section \<open>Properties\<close>

text \<open>C11. The order rule of L1 messages: a block's transactions are accepted exactly when its L1
  messages form a prefix of the block and each queue index is the successor of the one before it
  (as 64-bit integers).\<close>

theorem l1_message_order_exact:
  "validate_l1_messages txs = Inr () \<longleftrightarrow> l1_prefix_consecutive txs"
  by (simp add: validate_l1_messages_def l1_loop_prefix l1_prefix_consecutive_def Let_def)

text \<open>The successor wraps around: index zero is accepted after the largest index.\<close>

lemma l1_queue_index_wraps:
  "validate_l1_messages
     [L1Message (sample_l1_message\<lparr>sealed_inner := (sealed_inner sample_l1_message)\<lparr>l1m_queue_index := - 1\<rparr>\<rparr>),
      L1Message (sample_l1_message\<lparr>sealed_inner := (sealed_inner sample_l1_message)\<lparr>l1m_queue_index := 0\<rparr>\<rparr>)]
   = Inr ()"
  by (simp add: validate_l1_messages_def)

text \<open>What an accepted header guarantees: no ommers, zero mix hash, coinbase and nonce,
  difficulty one, no extra data, a base fee within the protocol limit, none of the Ethereum
  fields the chain does not have, and a timestamp that is not ahead of the clock.\<close>

theorem accepted_header_shape:
  assumes "validate_header ca now h = Inr ()"
  shows "h_ommers_hash h = ca_empty_ommer_root ca \<and> h_mix_hash h = 0 \<and> h_beneficiary h = 0 \<and>
    h_nonce h = 0 \<and> h_difficulty h = 1 \<and> h_extra_data h = [] \<and>
    (\<exists>fee. h_base_fee_per_gas h = Some fee \<and> fee \<le> MAX_L2_BASE_FEE) \<and>
    h_withdrawals_root h = None \<and> h_blob_gas_used h = None \<and> h_excess_blob_gas h = None \<and>
    h_parent_beacon_block_root h = None \<and> h_requests_hash h = None \<and> h_timestamp h \<le> now \<and>
    ca_header_gas ca h = Inr ()"
  using assms
  by (auto simp: validate_header_def DOGEOS_BLOCK_DIFFICULTY_def DOGEOS_MAXIMUM_BASE_FEE_def
      validate_header_timestamp_def result_elims split: if_splits option.splits)

definition sample_consensus :: consensus_api where
  "sample_consensus = \<lparr>
     ca_empty_ommer_root = 29, ca_gas_limit_bound_divisor = 1024, ca_minimum_gas_limit = 5000,
     ca_against_parent_hash_number = (\<lambda>h p.
       ensure (h_parent_hash h = sh_hash p \<and> h_number h = h_number (sh_header p) + 1)
         (OtherConsensus ''parent'')),
     ca_header_gas = (\<lambda>h. ensure (h_gas_used h \<le> h_gas_limit h) (OtherConsensus ''gas'')),
     ca_body_against_header = (\<lambda>_ _. Inr ()),
     ca_transaction_root_valid = (\<lambda>b. h_transactions_root (b_header b) =
       of_nat (length (b_transactions b))),
     ca_receipt_root = (\<lambda>rs. of_nat (length rs)),
     ca_bloom = (\<lambda>rc. of_nat (length (rc_logs (as_receipt rc))))\<rparr>"

lemma sample_consensus_laws [simp]: "consensus_laws sample_consensus"
  by (simp add: consensus_laws_def sample_consensus_def)

definition sample_valid_header :: header where
  "sample_valid_header = sample_header\<lparr>
     h_parent_hash := 7, h_ommers_hash := 29, h_number := 1, h_timestamp := 12,
     h_gas_limit := 30000000, h_gas_used := 0, h_difficulty := 1, h_mix_hash := 0, h_nonce := 0,
     h_beneficiary := 0, h_extra_data := [], h_base_fee_per_gas := Some 15680000,
     h_withdrawals_root := None, h_blob_gas_used := None, h_excess_blob_gas := None,
     h_parent_beacon_block_root := None, h_requests_hash := None\<rparr>"

lemma sample_valid_header_ok: "validate_header sample_consensus 20 sample_valid_header = Inr ()"
  by (rule validate_header_ok [where fee = 15680000])
    (simp_all add: sample_valid_header_def sample_consensus_def MAX_L2_BASE_FEE_def
      consensus_laws_def)

theorem accepted_header_shape_witness:
  "validate_header sample_consensus 20 sample_valid_header = Inr () \<and>
   h_timestamp sample_valid_header \<le> 20"
  using accepted_header_shape [OF sample_valid_header_ok] sample_valid_header_ok by simp

text \<open>C12. The gas limit moves slowly: a child is accepted against its parent exactly when hash and
  number fit, its timestamp is not before the parent's (the same second is allowed), its gas
  limit differs by at most the parent's divided by the bound divisor, and it is at least the
  minimum; a refusal of the gas limit names its direction.\<close>

theorem header_against_parent_exact:
  "validate_header_against_parent ca h parent = Inr () \<longleftrightarrow>
     ca_against_parent_hash_number ca h parent = Inr () \<and>
     h_timestamp (sh_header parent) \<le> h_timestamp h \<and>
     (unat (h_gas_limit h) - unat (h_gas_limit (sh_header parent))) +
       (unat (h_gas_limit (sh_header parent)) - unat (h_gas_limit h))
       \<le> unat (h_gas_limit (sh_header parent)) div unat (ca_gas_limit_bound_divisor ca) \<and>
     ca_minimum_gas_limit ca \<le> h_gas_limit h"
proof -
  have "unat (p div d) = unat p div unat d" for p d :: u64 by (rule unat_div)
  then show ?thesis
    by (auto simp: validate_header_against_parent_def gas_limit_ok_iff word_le_nat_alt
        word_less_nat_alt sat_simps result_elims not_less)
qed

end
