(* ===== verification/Engine.thy ===== *)
theory Engine
  imports Consensus
begin

text \<open>
  The engine boundary (\<open>crates/dogeos-reth-engine\<close>): payload attributes and their identifier
  (\<open>attributes.rs\<close>), the validator of engine messages (\<open>validator.rs\<close>), the built payload
  (\<open>built.rs\<close>) and the conversion of a block into an engine payload (\<open>lib.rs\<close>).

  Parameters: the two hash functions, the RLP encoding of withdrawals, and the conversions of
  \<open>alloy_rpc_types_engine\<close> between blocks and engine payloads (\<open>engine_api\<close>). The law
  \<open>engine_laws\<close> is their documented behaviour on blocks without ommers whose transactions store their
  own hash: an engine payload keeps the block except its difficulty, which decoding sets to zero.
\<close>

section \<open>Payload attributes\<close>

definition DOGEOS_PAYLOAD_VERSION :: u8 where
  "DOGEOS_PAYLOAD_VERSION = 1"

record Withdrawal =
  wd_index :: u64
  wd_validator_index :: u64
  wd_address :: address
  wd_amount :: u64

record PayloadAttributes =
  pa_timestamp :: u64
  pa_prev_randao :: b256
  pa_suggested_fee_recipient :: address
  pa_withdrawals :: "Withdrawal list option"
  pa_parent_beacon_block_root :: "b256 option"

record BlockDataHint =
  bh_extra_data :: "bytes option"
  bh_state_root :: "b256 option"
  bh_coinbase :: "address option"
  bh_nonce :: "u64 option"
  bh_difficulty :: "u256 option"

record ScrollPayloadAttributes =
  sa_payload_attributes :: PayloadAttributes
  sa_transactions :: "bytes list option"
  sa_no_tx_pool :: bool
  sa_block_data_hint :: BlockDataHint
  sa_gas_limit :: "u64 option"

definition hint_is_empty :: "BlockDataHint \<Rightarrow> bool" where
  "hint_is_empty h \<longleftrightarrow> bh_extra_data h = None \<and> bh_state_root h = None \<and> bh_coinbase h = None \<and>
     bh_nonce h = None \<and> bh_difficulty h = None"

text \<open>\<open>to_be_bytes\<close> of a word of \<open>k\<close> bytes.\<close>

definition be_bytes :: "nat \<Rightarrow> 'a::len word \<Rightarrow> bytes" where
  "be_bytes k x = map (\<lambda>i. ucast (drop_bit (8 * (k - 1 - i)) x)) [0..<k]"

text \<open>What the hasher of \<open>payload_id_scroll\<close> is fed, update after update.\<close>

definition opt_bytes :: "('a \<Rightarrow> bytes) \<Rightarrow> 'a option \<Rightarrow> bytes" where
  "opt_bytes f v = (case v of Some x \<Rightarrow> f x | None \<Rightarrow> [])"

definition forced_bytes :: "(bytes \<Rightarrow> b256) \<Rightarrow> ScrollPayloadAttributes \<Rightarrow> bytes" where
  "forced_bytes keccak256 attributes =
     (if sa_no_tx_pool attributes \<or>
         (case sa_transactions attributes of Some txs \<Rightarrow> txs \<noteq> [] | None \<Rightarrow> False)
      then [if sa_no_tx_pool attributes then 1 else 0] @
        be_bytes 8 (of_nat (case sa_transactions attributes of Some txs \<Rightarrow> length txs | None \<Rightarrow> 0) :: u64) @
        opt_bytes (\<lambda>txs. concat (map (\<lambda>tx. be_bytes 32 (keccak256 tx)) txs)) (sa_transactions attributes)
      else [])"

definition payload_id_preimage ::
  "(bytes \<Rightarrow> b256) \<Rightarrow> (Withdrawal list \<Rightarrow> bytes) \<Rightarrow> b256 \<Rightarrow> ScrollPayloadAttributes \<Rightarrow> bytes" where
  "payload_id_preimage keccak256 encode parent attributes =
     (let pa = sa_payload_attributes attributes; hint = sa_block_data_hint attributes in
      be_bytes 32 parent @
      be_bytes 8 (pa_timestamp pa) @
      be_bytes 32 (pa_prev_randao pa) @
      be_bytes 20 (pa_suggested_fee_recipient pa) @
      opt_bytes encode (pa_withdrawals pa) @
      opt_bytes (be_bytes 32) (pa_parent_beacon_block_root pa) @
      forced_bytes keccak256 attributes @
      opt_bytes id (bh_extra_data hint) @
      opt_bytes (be_bytes 32) (bh_state_root hint) @
      opt_bytes (be_bytes 20) (bh_coinbase hint) @
      opt_bytes (be_bytes 8) (bh_nonce hint) @
      opt_bytes (be_bytes 32) (bh_difficulty hint) @
      opt_bytes (be_bytes 8) (sa_gas_limit attributes))"

definition payload_id_scroll ::
  "(bytes \<Rightarrow> bytes) \<Rightarrow> (bytes \<Rightarrow> b256) \<Rightarrow> (Withdrawal list \<Rightarrow> bytes) \<Rightarrow> b256 \<Rightarrow>
   ScrollPayloadAttributes \<Rightarrow> bytes" where
  "payload_id_scroll sha256 keccak256 encode parent attributes =
     take 8 ((sha256 (payload_id_preimage keccak256 encode parent attributes))
       [0 := DOGEOS_PAYLOAD_VERSION])"

section \<open>Engine messages\<close>

datatype engine_field_error = ParentBeaconBlockRootNotSupportedBeforeV3 | HasWithdrawalsPreShanghai

datatype MessageValidationKind = PayloadAttributesKind | PayloadKind

text \<open>The two fields of \<open>PayloadOrAttributes\<close> that are read, and the kind that wraps the error.\<close>

definition validate_dogeos_fields ::
  "b256 option \<Rightarrow> Withdrawal list option \<Rightarrow> MessageValidationKind \<Rightarrow>
   (MessageValidationKind \<times> engine_field_error) + unit" where
  "validate_dogeos_fields parent_beacon_block_root withdrawals kind =
     (if parent_beacon_block_root \<noteq> None then Inl (kind, ParentBeaconBlockRootNotSupportedBeforeV3)
      else if withdrawals \<noteq> None then Inl (kind, HasWithdrawalsPreShanghai)
      else Inr ())"

datatype PayloadOrAttributes =
    ExecutionPayloadFields "b256 option" "Withdrawal list option"
  | PayloadAttributesFields ScrollPayloadAttributes

definition validate_version_specific_fields ::
  "PayloadOrAttributes \<Rightarrow> (MessageValidationKind \<times> engine_field_error) + unit" where
  "validate_version_specific_fields payload_or_attrs =
     (case payload_or_attrs of
        ExecutionPayloadFields root withdrawals \<Rightarrow> validate_dogeos_fields root withdrawals PayloadKind
      | PayloadAttributesFields attributes \<Rightarrow>
          validate_dogeos_fields (pa_parent_beacon_block_root (sa_payload_attributes attributes))
            (pa_withdrawals (sa_payload_attributes attributes)) PayloadAttributesKind)"

definition ensure_well_formed_attributes ::
  "ScrollPayloadAttributes \<Rightarrow> (MessageValidationKind \<times> engine_field_error) + unit" where
  "ensure_well_formed_attributes attributes =
     validate_dogeos_fields (pa_parent_beacon_block_root (sa_payload_attributes attributes))
       (pa_withdrawals (sa_payload_attributes attributes)) PayloadAttributesKind"

definition attributes_against_header :: "ScrollPayloadAttributes \<Rightarrow> header \<Rightarrow> bool" where
  "attributes_against_header attributes h \<longleftrightarrow>
     \<not> pa_timestamp (sa_payload_attributes attributes) < h_timestamp h"

record SealedBlock =
  sb_block :: Block
  sb_hash :: b256

record ('p, 's, 'e) engine_api =
  en_from_block_unchecked :: "b256 \<Rightarrow> Block \<Rightarrow> 'p \<times> 's"
  en_try_into_block_with_sidecar :: "'p \<Rightarrow> 's \<Rightarrow> 'e + Block"
  en_block_hash :: "'p \<Rightarrow> b256"
  en_hash_slow :: "Block \<Rightarrow> b256"
  en_empty_ommer_root :: b256
  en_transaction_root :: "ScrollTxEnvelope list \<Rightarrow> b256"
  en_rlp :: rlp_api
  en_codec :: alloy_codec
  en_keccak256 :: "bytes \<Rightarrow> b256"

datatype 'e new_payload_error = Conversion 'e | BlockHashMismatch b256 b256

definition set_difficulty :: "u256 \<Rightarrow> Block \<Rightarrow> Block" where
  "set_difficulty d block = block\<lparr>b_header := (b_header block)\<lparr>h_difficulty := d\<rparr>\<rparr>"

definition convert_payload_to_block ::
  "('p, 's, 'e) engine_api \<Rightarrow> 'p \<times> 's \<Rightarrow> 'e new_payload_error + SealedBlock" where
  "convert_payload_to_block en data =
     (let (payload, sidecar) = data; expected_hash = en_block_hash en payload in
      rbind (map_err Conversion (en_try_into_block_with_sidecar en payload sidecar)) (\<lambda>block.
        let block = set_difficulty 1 block; block_hash = en_hash_slow en block in
        if block_hash = expected_hash then Inr \<lparr>sb_block = block, sb_hash = block_hash\<rparr>
        else Inl (BlockHashMismatch block_hash expected_hash)))"

section \<open>Built payloads\<close>

record ScrollBuiltPayload =
  bp_block :: SealedBlock
  bp_executed_block :: "BlockExecutionResult option"
  bp_fees :: u256

definition block_to_payload :: "('p, 's, 'e) engine_api \<Rightarrow> SealedBlock \<Rightarrow> 'p \<times> 's" where
  "block_to_payload en block = en_from_block_unchecked en (sb_hash block) (sb_block block)"

definition payload_v1 :: "('p, 's, 'e) engine_api \<Rightarrow> ScrollBuiltPayload \<Rightarrow> 'p" where
  "payload_v1 en value =
     fst (en_from_block_unchecked en (sb_hash (bp_block value)) (sb_block (bp_block value)))"

definition payload_envelope_v2 :: "('p, 's, 'e) engine_api \<Rightarrow> ScrollBuiltPayload \<Rightarrow> u256 \<times> 'p" where
  "payload_envelope_v2 en value = (bp_fees value, payload_v1 en value)"

text \<open>The blocks an engine payload can carry: no ommers, withdrawals, blob or later fields, a base
  fee, nonce zero, the transaction root of the body, and transactions that store the hash of their
  encoding, which decoding computes anew.\<close>

definition engine_representable :: "('p, 's, 'e) engine_api \<Rightarrow> Block \<Rightarrow> bool" where
  "engine_representable en b \<longleftrightarrow>
     (let h = b_header b in
      b_ommers b = [] \<and> b_withdrawals b = None \<and> h_ommers_hash h = en_empty_ommer_root en \<and>
      h_transactions_root h = en_transaction_root en (b_transactions b) \<and> h_nonce h = 0 \<and>
      list_all (env_hash_consistent (en_rlp en) (en_codec en) (en_keccak256 en)) (b_transactions b) \<and>
      length (h_extra_data h) \<le> 32 \<and> h_base_fee_per_gas h \<noteq> None \<and> h_withdrawals_root h = None \<and>
      h_blob_gas_used h = None \<and> h_excess_blob_gas h = None \<and>
      h_parent_beacon_block_root h = None \<and> h_requests_hash h = None)"

definition engine_laws :: "('p, 's, 'e) engine_api \<Rightarrow> bool" where
  "engine_laws en \<longleftrightarrow> (\<forall>h b.
     en_block_hash en (fst (en_from_block_unchecked en h b)) = h \<and>
     (engine_representable en b \<longrightarrow>
       (case en_from_block_unchecked en h b of (p, s) \<Rightarrow>
          en_try_into_block_with_sidecar en p s = Inr (set_difficulty 0 b))))"

section \<open>Big-endian bytes\<close>

lemma length_be_bytes [simp]: "length (be_bytes k x) = k"
  by (simp add: be_bytes_def)

lemma be_bytes_inject:
  fixes x y :: "'a::len word"
  assumes "LENGTH('a) = 8 * k"
  shows "be_bytes k x = be_bytes k y \<longleftrightarrow> x = y"
proof
  assume eq: "be_bytes k x = be_bytes k y"
  show "x = y"
  proof (rule bit_word_eqI)
    fix n assume n: "n < LENGTH('a)"
    let ?j = "n div 8" and ?i = "k - 1 - n div 8"
    have j: "?j < k" using n assms by (simp add: div_less_iff_less_mult mult.commute)
    then have i: "?i < k" "k - 1 - ?i = ?j" by simp_all
    have bit_of: "bit (be_bytes k z ! ?i) (n mod 8) = bit z n" for z :: "'a word"
      using i by (simp add: be_bytes_def bit_simps)
    show "bit x n = bit y n" using bit_of [of x] bit_of [of y] eq by simp
  qed
qed simp

lemma be_bytes_8 [simp]: "be_bytes 8 x = be_bytes 8 y \<longleftrightarrow> x = y" for x y :: u64
  by (rule be_bytes_inject) simp

lemma be_bytes_20 [simp]: "be_bytes 20 x = be_bytes 20 y \<longleftrightarrow> x = y" for x y :: address
  by (rule be_bytes_inject) simp

lemma be_bytes_32 [simp]: "be_bytes 32 x = be_bytes 32 y \<longleftrightarrow> x = y" for x y :: u256
  by (rule be_bytes_inject) simp

lemma concat_be_bytes_inject:
  "concat (map (be_bytes 32) xs) = concat (map (be_bytes 32) ys) \<longleftrightarrow> xs = ys" for xs ys :: "u256 list"
proof (induction xs arbitrary: ys)
  case Nil
  have "be_bytes 32 (y :: u256) \<noteq> []" for y by (simp add: be_bytes_def)
  then show ?case by (cases ys) auto
next
  case (Cons x xs)
  have "be_bytes 32 (z :: u256) \<noteq> []" for z by (simp add: be_bytes_def)
  then show ?case using Cons by (cases ys) auto
qed

section \<open>Properties\<close>

abbreviation forced_list :: "ScrollPayloadAttributes \<Rightarrow> bytes list" where
  "forced_list a \<equiv> (case sa_transactions a of Some txs \<Rightarrow> txs | None \<Rightarrow> [])"

definition forced_image :: "bool \<Rightarrow> b256 list \<Rightarrow> bytes" where
  "forced_image p hs =
     (if p \<or> hs \<noteq> []
      then (if p then 1 else 0) # be_bytes 8 (of_nat (length hs) :: u64) @ concat (map (be_bytes 32) hs)
      else [])"

lemma forced_bytes_image:
  "forced_bytes keccak256 a = forced_image (sa_no_tx_pool a) (map keccak256 (forced_list a))"
  by (cases "sa_transactions a") (simp_all add: forced_bytes_def forced_image_def opt_bytes_def comp_def)

lemma length_concat_be_bytes: "length (concat (map (be_bytes 32) xs)) = 32 * length xs"
  by (induction xs) simp_all

lemma length_forced_image:
  "length (forced_image p hs) = (if p \<or> hs \<noteq> [] then 9 + 32 * length hs else 0)"
  by (simp add: forced_image_def length_concat_be_bytes)

lemma forced_image_inject: "forced_image p hs = forced_image q ks \<longleftrightarrow> p = q \<and> hs = ks"
proof
  assume eq: "forced_image p hs = forced_image q ks"
  from arg_cong [OF eq, of length] have "length hs = length ks"
    by (auto simp: length_forced_image split: if_splits)
  then show "p = q \<and> hs = ks"
    using eq concat_be_bytes_inject [of hs ks] by (auto simp: forced_image_def split: if_splits)
qed simp

lemma tail_lengths:
  fixes x y :: nat
  assumes "x mod 32 = 0 \<or> x mod 32 = 9" and "y mod 32 = 0 \<or> y mod 32 = 9"
    and "x + (if c then 0 else 8) = y + (if d then 0 else 8)"
  shows "x = y \<and> (c \<longleftrightarrow> d)"
proof -
  have m: "(z + 8) mod 32 = 8 \<or> (z + 8) mod 32 = 17" if "z mod 32 = 0 \<or> z mod 32 = 9" for z :: nat
    using that by (auto simp: mod_add_left_eq [of z 32 8, symmetric])
  show ?thesis using assms m [of x] m [of y] by (cases c; cases d) auto
qed

text \<open>The forced section has 0 or 9 modulo 32 bytes and the gas limit 0 or 8, so the two are told
  apart by their lengths.\<close>

lemma forced_tail_inject:
  fixes g g' :: "u64 option"
  shows "forced_image p hs @ opt_bytes (be_bytes 8) g = forced_image q ks @ opt_bytes (be_bytes 8) g' \<longleftrightarrow>
    p = q \<and> hs = ks \<and> g = g'"
proof
  assume eq: "forced_image p hs @ opt_bytes (be_bytes 8) g = forced_image q ks @ opt_bytes (be_bytes 8) g'"
  have len: "length (opt_bytes (be_bytes 8) x) = (if x = None then 0 else 8)" for x :: "u64 option"
    by (cases x) (simp_all add: opt_bytes_def)
  have "length (forced_image p hs) + (if g = None then 0 else 8) =
      length (forced_image q ks) + (if g' = None then 0 else 8)"
    using arg_cong [OF eq, of length] by (simp only: length_append len)
  then have "length (forced_image p hs) = length (forced_image q ks) \<and> (g = None \<longleftrightarrow> g' = None)"
    by (rule tail_lengths [rotated 2]) (simp_all add: length_forced_image)
  then show "p = q \<and> hs = ks \<and> g = g'"
    using eq forced_image_inject [of p hs q ks]
    by (cases g; cases g') (simp_all add: opt_bytes_def)
qed simp

text \<open>C33. The payload identifier binds what the engine may ask for. For well-formed attributes without
  the legacy hint, two requests feed the hasher the same bytes exactly when they have the same
  parent, timestamp, randomness, fee recipient, pool switch, forced transaction hashes in order
  and gas limit.\<close>

theorem payload_id_preimage_exact:
  assumes "ensure_well_formed_attributes a = Inr ()" and "ensure_well_formed_attributes b = Inr ()"
    and "hint_is_empty (sa_block_data_hint a)" and "hint_is_empty (sa_block_data_hint b)"
  shows "payload_id_preimage keccak256 encode p a = payload_id_preimage keccak256 encode q b \<longleftrightarrow>
    p = q \<and>
    pa_timestamp (sa_payload_attributes a) = pa_timestamp (sa_payload_attributes b) \<and>
    pa_prev_randao (sa_payload_attributes a) = pa_prev_randao (sa_payload_attributes b) \<and>
    pa_suggested_fee_recipient (sa_payload_attributes a) = pa_suggested_fee_recipient (sa_payload_attributes b) \<and>
    sa_no_tx_pool a = sa_no_tx_pool b \<and>
    map keccak256 (forced_list a) = map keccak256 (forced_list b) \<and>
    sa_gas_limit a = sa_gas_limit b"
proof -
  have none: "opt_bytes f None = []" for f :: "'z \<Rightarrow> bytes" by (simp add: opt_bytes_def)
  have fields: "pa_withdrawals (sa_payload_attributes x) = None \<and>
      pa_parent_beacon_block_root (sa_payload_attributes x) = None"
    if "ensure_well_formed_attributes x = Inr ()" for x
    using that by (auto simp: ensure_well_formed_attributes_def validate_dogeos_fields_def split: if_splits)
  show ?thesis
    using fields [OF assms(1)] fields [OF assms(2)] assms(3,4)
      forced_tail_inject [of "sa_no_tx_pool a" "map keccak256 (forced_list a)" "sa_gas_limit a"
        "sa_no_tx_pool b" "map keccak256 (forced_list b)" "sa_gas_limit b"]
    unfolding payload_id_preimage_def hint_is_empty_def Let_def forced_bytes_image
    by (simp add: none)
qed

definition sample_payload_attributes :: ScrollPayloadAttributes where
  "sample_payload_attributes = \<lparr>
     sa_payload_attributes = \<lparr>pa_timestamp = 12, pa_prev_randao = 0, pa_suggested_fee_recipient = 3,
       pa_withdrawals = None, pa_parent_beacon_block_root = None\<rparr>,
     sa_transactions = Some [[1, 2], [3]], sa_no_tx_pool = False,
     sa_block_data_hint = \<lparr>bh_extra_data = None, bh_state_root = None, bh_coinbase = None,
       bh_nonce = None, bh_difficulty = None\<rparr>,
     sa_gas_limit = None\<rparr>"

theorem payload_id_preimage_exact_witness:
  "payload_id_preimage (\<lambda>tx. of_nat (length tx)) (\<lambda>_. []) 5 sample_payload_attributes \<noteq>
   payload_id_preimage (\<lambda>tx. of_nat (length tx)) (\<lambda>_. []) 5
     (sample_payload_attributes\<lparr>sa_transactions := Some [[3], [1, 2]]\<rparr>)"
  by (subst payload_id_preimage_exact)
    (simp_all add: sample_payload_attributes_def ensure_well_formed_attributes_def
      validate_dogeos_fields_def hint_is_empty_def)

text \<open>The legacy hint is not separated: a hinted nonce and a gas limit of the same value give the
  same identifier, whatever the hash functions.\<close>

lemma payload_id_hint_collision:
  "payload_id_scroll sha256 keccak256 encode p (a\<lparr>sa_gas_limit := Some n,
      sa_block_data_hint := (sa_block_data_hint a)\<lparr>bh_nonce := None, bh_difficulty := None\<rparr>\<rparr>) =
   payload_id_scroll sha256 keccak256 encode p (a\<lparr>sa_gas_limit := None,
      sa_block_data_hint := (sa_block_data_hint a)\<lparr>bh_nonce := Some n, bh_difficulty := None\<rparr>\<rparr>)"
  by (simp add: payload_id_scroll_def payload_id_preimage_def forced_bytes_def opt_bytes_def Let_def)

text \<open>C34. The engine boundary keeps blocks. A sealed block that an engine payload can carry and whose
  difficulty is one, converted to a payload and back, is the same sealed block; and whatever payload
  is converted, the result has difficulty one, its hash is recomputed from the block and is the hash
  the payload announced.\<close>

theorem engine_block_roundtrip:
  assumes laws: "engine_laws en"
    and blk: "engine_representable en b" "h_difficulty (b_header b) = 1"
  shows "convert_payload_to_block en (block_to_payload en \<lparr>sb_block = b, sb_hash = en_hash_slow en b\<rparr>) =
      Inr \<lparr>sb_block = b, sb_hash = en_hash_slow en b\<rparr> \<and>
    (\<forall>data s. convert_payload_to_block en data = Inr s \<longrightarrow>
      h_difficulty (b_header (sb_block s)) = 1 \<and> sb_hash s = en_hash_slow en (sb_block s) \<and>
      sb_hash s = en_block_hash en (fst data))"
proof (intro conjI allI impI)
  obtain p s where ps: "en_from_block_unchecked en (en_hash_slow en b) b = (p, s)" by fastforce
  have same: "set_difficulty 1 (set_difficulty 0 b) = b" using blk(2) by (simp add: set_difficulty_def)
  have "en_block_hash en (fst (en_from_block_unchecked en h c)) = h \<and>
     (engine_representable en c \<longrightarrow> (case en_from_block_unchecked en h c of (p, s) \<Rightarrow>
        en_try_into_block_with_sidecar en p s = Inr (set_difficulty 0 c)))" for h c
    using laws unfolding engine_laws_def by (elim allE)
  from this [of "en_hash_slow en b" b] ps blk(1)
  have hash: "en_block_hash en (fst (p, s)) = en_hash_slow en b"
    and conv: "en_try_into_block_with_sidecar en p s = Inr (set_difficulty 0 b)"
    by simp_all
  show "convert_payload_to_block en (block_to_payload en \<lparr>sb_block = b, sb_hash = en_hash_slow en b\<rparr>) =
      Inr \<lparr>sb_block = b, sb_hash = en_hash_slow en b\<rparr>"
    using hash by (simp add: convert_payload_to_block_def block_to_payload_def ps conv same Let_def)
next
  fix data s assume "convert_payload_to_block en data = Inr s"
  then show "h_difficulty (b_header (sb_block s)) = 1" "sb_hash s = en_hash_slow en (sb_block s)"
    "sb_hash s = en_block_hash en (fst data)"
    by (auto simp: convert_payload_to_block_def set_difficulty_def Let_def result_elims
        split: prod.splits if_splits)
qed

definition sample_engine :: "(Block \<times> b256, unit, string) engine_api" where
  "sample_engine = \<lparr>
     en_from_block_unchecked = (\<lambda>h b. ((set_difficulty 0 b, h), ())),
     en_try_into_block_with_sidecar = (\<lambda>p _. Inr (fst p)),
     en_block_hash = snd,
     en_hash_slow = (\<lambda>b. h_state_root (b_header b)),
     en_empty_ommer_root = 29,
     en_transaction_root = (\<lambda>txs. of_nat (length txs)),
     en_rlp = sample_rlp, en_codec = sample_alloy_codec, en_keccak256 = sample_keccak\<rparr>"

lemma sample_engine_laws: "engine_laws sample_engine"
  by (simp add: engine_laws_def sample_engine_def)

definition sample_block :: Block where
  "sample_block = \<lparr>b_header = sample_valid_header\<lparr>h_transactions_root := 0, h_state_root := 77\<rparr>,
     b_transactions = [], b_ommers = [], b_withdrawals = None\<rparr>"

theorem engine_block_roundtrip_witness:
  "convert_payload_to_block sample_engine
     (block_to_payload sample_engine \<lparr>sb_block = sample_block, sb_hash = 77\<rparr>) =
   Inr \<lparr>sb_block = sample_block, sb_hash = 77\<rparr>"
proof -
  have "engine_representable sample_engine sample_block" "h_difficulty (b_header sample_block) = 1"
    "en_hash_slow sample_engine sample_block = 77"
    by (simp_all add: engine_representable_def sample_block_def sample_engine_def sample_valid_header_def)
  with engine_block_roundtrip [OF sample_engine_laws, of sample_block] show ?thesis by simp
qed

end
