(* ===== verification/Code_Witness.thy ===== *)
theory Code_Witness
  imports Prelude
begin

text \<open>
  The code witness meter (\<open>dogeos-reth-evm/src/code_witness.rs\<close>): the policy that bounds the
  distinct contract bytecode a block needs.

  The \<open>Meter\<close> behind the shared \<open>CodeWitnessHandle\<close> is a record that every operation takes and
  returns; the mutex only serialises them, and no operation panics while it holds the lock. The
  inspector hooks are definitions on the inspector (the meter and its pending access). The
  interpreter of revm is a parameter (\<open>interp_api\<close>), as are the journal and the transaction a
  hook sees (\<open>code_ctx\<close>, with the journal's accounts in the order the hash map yields them).

  The meaning of a transaction's observations is given by \<open>event\<close>s. The hooks are shown to
  perform exactly the events \<open>hook_events\<close>, and the meter's verdict is characterised on events
  with unbounded arithmetic. The locale \<open>code_budget\<close> is the interface that the payload builder
  and the pool use.
\<close>

section \<open>The meter\<close>

definition DEFAULT_MAX_CODE_WITNESS_BYTES :: u64 where
  "DEFAULT_MAX_CODE_WITNESS_BYTES = 32 * 1024 * 1024"

datatype CodeWitnessLimit = CodeBytes | ExecutionSteps

record Meter =
  mt_max_code_bytes :: u64
  mt_max_steps :: u64
  mt_accepted :: "b256 \<rightharpoonup> u64"
  mt_pending :: "b256 \<rightharpoonup> u64"
  mt_accepted_bytes :: u64
  mt_pending_bytes :: u64
  mt_transaction_bytes :: u64
  mt_steps :: u64
  mt_exceeded :: "CodeWitnessLimit option"
  mt_initialized :: bool

text \<open>\<open>Option::get_or_insert\<close> on the limit: the first reason is kept.\<close>

definition exceed :: "CodeWitnessLimit \<Rightarrow> Meter \<Rightarrow> Meter" where
  "exceed l m = m\<lparr>mt_exceeded := Some (case mt_exceeded m of Some l' \<Rightarrow> l' | None \<Rightarrow> l)\<rparr>"

definition meter_reserve :: "u64 \<Rightarrow> Meter \<Rightarrow> Meter" where
  "meter_reserve bytes m =
     (let m = m\<lparr>mt_pending_bytes := saturating_add (mt_pending_bytes m) bytes,
                mt_transaction_bytes := saturating_add (mt_transaction_bytes m) bytes\<rparr> in
      if mt_max_code_bytes m < saturating_add (mt_accepted_bytes m) (mt_pending_bytes m)
      then exceed CodeBytes m else m)"

definition meter_record :: "b256 \<Rightarrow> u64 \<Rightarrow> Meter \<Rightarrow> Meter" where
  "meter_record hash bytes m =
     (if bytes = 0 \<or> mt_pending m hash \<noteq> None then m
      else
        let m = m\<lparr>mt_pending := (mt_pending m)(hash \<mapsto> bytes),
                  mt_transaction_bytes := saturating_add (mt_transaction_bytes m) bytes\<rparr>;
            m = (if mt_accepted m hash = None
                 then m\<lparr>mt_pending_bytes := saturating_add (mt_pending_bytes m) bytes\<rparr> else m)
        in if mt_max_code_bytes m < saturating_add (mt_accepted_bytes m) (mt_pending_bytes m)
           then exceed CodeBytes m else m)"

definition reset_transaction :: "Meter \<Rightarrow> Meter" where
  "reset_transaction m =
     m\<lparr>mt_pending := Map.empty, mt_pending_bytes := 0, mt_transaction_bytes := 0, mt_steps := 0,
       mt_exceeded := None, mt_initialized := False\<rparr>"

section \<open>The handle\<close>

definition code_witness_new :: "u64 \<Rightarrow> u64 \<Rightarrow> Meter" where
  "code_witness_new max_code_bytes max_steps = \<lparr>
     mt_max_code_bytes = max_code_bytes, mt_max_steps = max_steps,
     mt_accepted = Map.empty, mt_pending = Map.empty,
     mt_accepted_bytes = 0, mt_pending_bytes = 0, mt_transaction_bytes = 0, mt_steps = 0,
     mt_exceeded = None, mt_initialized = False\<rparr>"

definition begin_transaction :: "Meter \<Rightarrow> Meter" where
  "begin_transaction m = reset_transaction m"

definition accept_transaction :: "Meter \<Rightarrow> bool \<times> Meter" where
  "accept_transaction m =
     (if mt_exceeded m \<noteq> None then (False, m)
      else (True,
        m\<lparr>mt_pending := Map.empty,
          mt_accepted := mt_accepted m ++ mt_pending m,
          mt_accepted_bytes := saturating_add (mt_accepted_bytes m) (mt_pending_bytes m),
          mt_pending_bytes := 0\<rparr>))"

definition reject_transaction :: "Meter \<Rightarrow> Meter" where
  "reject_transaction m = reset_transaction m"

definition code_exceeded :: "Meter \<Rightarrow> CodeWitnessLimit option" where
  "code_exceeded m = mt_exceeded m"

definition transaction_code_bytes :: "Meter \<Rightarrow> u64" where
  "transaction_code_bytes m = mt_transaction_bytes m"

definition block_code_bytes :: "Meter \<Rightarrow> u64" where
  "block_code_bytes m = mt_accepted_bytes m"

definition candidate_code_bytes :: "Meter \<Rightarrow> u64" where
  "candidate_code_bytes m = saturating_add (mt_accepted_bytes m) (mt_pending_bytes m)"

definition code_steps :: "Meter \<Rightarrow> u64" where
  "code_steps m = mt_steps m"

section \<open>The inspector\<close>

record bytecode =
  bc_original :: bytes
  bc_eip7702_address :: "address option"

record journal_account =
  ja_code_hash :: b256
  ja_code :: "bytecode option"

record code_ctx =
  cx_authorization_list_len :: nat
  cx_state :: "(address \<times> journal_account) list"

record 'i interp_api =
  ia_bytecode_address :: "'i \<Rightarrow> address option"
  ia_get_or_calculate_hash :: "'i \<Rightarrow> b256 \<times> 'i"
  ia_original_byte_slice :: "'i \<Rightarrow> bytes"
  ia_opcode :: "'i \<Rightarrow> u8"
  ia_peek :: "'i \<Rightarrow> nat \<Rightarrow> u256 option"
  ia_clear_action :: "'i \<Rightarrow> 'i"
  ia_reset_action :: "'i \<Rightarrow> 'i"
  ia_halt_out_of_gas :: "'i \<Rightarrow> 'i"
  op_EXTCODESIZE :: u8
  op_EXTCODECOPY :: u8
  op_CALL :: u8
  op_CALLCODE :: u8
  op_DELEGATECALL :: u8
  op_STATICCALL :: u8

record CodeWitnessInspector =
  ci_meter :: Meter
  ci_pending_access :: "(address \<times> bool) option"

definition code_inspector :: "Meter \<Rightarrow> CodeWitnessInspector" where
  "code_inspector m = \<lparr>ci_meter = m, ci_pending_access = None\<rparr>"

definition code_len :: "bytecode \<Rightarrow> u64" where
  "code_len code = of_nat (length (bc_original code))"

definition record_account :: "journal_account \<Rightarrow> Meter \<Rightarrow> Meter" where
  "record_account account m =
     (case ja_code account of None \<Rightarrow> m
      | Some code \<Rightarrow> meter_record (ja_code_hash account) (code_len code) m)"

definition initial_codes :: "code_ctx \<Rightarrow> Meter \<Rightarrow> Meter" where
  "initial_codes context m =
     (if mt_initialized m then m
      else
        let m = m\<lparr>mt_initialized := True\<rparr>;
            m = meter_reserve (saturating_mul (of_nat (cx_authorization_list_len context)) 23) m
        in fold record_account (map snd (cx_state context)) m)"

definition account_code :: "code_ctx \<Rightarrow> address \<Rightarrow> bool \<Rightarrow> Meter \<Rightarrow> Meter" where
  "account_code context addr delegated m =
     (case map_of (cx_state context) addr of None \<Rightarrow> m
      | Some account \<Rightarrow>
          (case ja_code account of None \<Rightarrow> m
           | Some code \<Rightarrow>
               let m = meter_record (ja_code_hash account) (code_len code) m in
               if delegated then
                 (case Option.bind (bc_eip7702_address code) (map_of (cx_state context)) of
                    None \<Rightarrow> m
                  | Some account' \<Rightarrow>
                      (case ja_code account' of None \<Rightarrow> m
                       | Some code' \<Rightarrow> meter_record (ja_code_hash account') (code_len code') m))
               else m))"

definition stop :: "'i interp_api \<Rightarrow> 'i \<Rightarrow> 'i" where
  "stop ia interp = ia_halt_out_of_gas ia (ia_reset_action ia (ia_clear_action ia interp))"

definition stop_if_exceeded :: "'i interp_api \<Rightarrow> Meter \<Rightarrow> 'i \<Rightarrow> 'i" where
  "stop_if_exceeded ia m interp = (if code_exceeded m \<noteq> None then stop ia interp else interp)"

definition initialize_interp ::
  "'i interp_api \<Rightarrow> code_ctx \<Rightarrow> CodeWitnessInspector \<times> 'i \<Rightarrow> CodeWitnessInspector \<times> 'i" where
  "initialize_interp ia context = (\<lambda>(insp, interp).
     let m = initial_codes context (ci_meter insp);
         (m, interp) =
           (case ia_bytecode_address ia interp of None \<Rightarrow> (m, interp)
            | Some addr \<Rightarrow>
                let m = account_code context addr True m;
                    (hash, interp) = ia_get_or_calculate_hash ia interp
                in (meter_record hash (of_nat (length (ia_original_byte_slice ia interp))) m, interp))
     in (insp\<lparr>ci_meter := m\<rparr>, stop_if_exceeded ia m interp))"

definition access_of_opcode :: "'i interp_api \<Rightarrow> 'i \<Rightarrow> (address \<times> bool) option" where
  "access_of_opcode ia interp =
     (let op = ia_opcode ia interp in
      if op = op_EXTCODESIZE ia \<or> op = op_EXTCODECOPY ia
      then map_option (\<lambda>v. (ucast v, False)) (ia_peek ia interp 0)
      else if op = op_CALL ia \<or> op = op_CALLCODE ia \<or> op = op_DELEGATECALL ia \<or> op = op_STATICCALL ia
      then map_option (\<lambda>v. (ucast v, True)) (ia_peek ia interp 1)
      else None)"

definition inspector_step ::
  "'i interp_api \<Rightarrow> CodeWitnessInspector \<times> 'i \<Rightarrow> CodeWitnessInspector \<times> 'i" where
  "inspector_step ia = (\<lambda>(insp, interp).
     let m = ci_meter insp;
         m = (if mt_max_steps m \<le> mt_steps m then exceed ExecutionSteps m else m)
     in if mt_exceeded m \<noteq> None then (insp\<lparr>ci_meter := m\<rparr>, stop ia interp)
        else (insp\<lparr>ci_meter := m\<lparr>mt_steps := saturating_add (mt_steps m) 1\<rparr>,
                   ci_pending_access := access_of_opcode ia interp\<rparr>, interp))"

definition inspector_step_end ::
  "'i interp_api \<Rightarrow> code_ctx \<Rightarrow> CodeWitnessInspector \<times> 'i \<Rightarrow> CodeWitnessInspector \<times> 'i" where
  "inspector_step_end ia context = (\<lambda>(insp, interp).
     let m = (case ci_pending_access insp of None \<Rightarrow> ci_meter insp
              | Some (addr, delegated) \<Rightarrow> account_code context addr delegated (ci_meter insp))
     in (insp\<lparr>ci_meter := m, ci_pending_access := None\<rparr>, stop_if_exceeded ia m interp))"

definition inspector_call :: "code_ctx \<Rightarrow> address \<Rightarrow> CodeWitnessInspector \<Rightarrow> CodeWitnessInspector" where
  "inspector_call context bytecode_address insp =
     insp\<lparr>ci_meter := account_code context bytecode_address True (initial_codes context (ci_meter insp))\<rparr>"

definition inspector_call_end ::
  "code_ctx \<Rightarrow> address \<Rightarrow> CodeWitnessInspector \<Rightarrow> CodeWitnessInspector" where
  "inspector_call_end context bytecode_address insp =
     insp\<lparr>ci_meter := account_code context bytecode_address True (ci_meter insp)\<rparr>"

definition inspector_create :: "code_ctx \<Rightarrow> CodeWitnessInspector \<Rightarrow> CodeWitnessInspector" where
  "inspector_create context insp = insp\<lparr>ci_meter := initial_codes context (ci_meter insp)\<rparr>"

definition inspector_create_end ::
  "code_ctx \<Rightarrow> bool \<Rightarrow> address option \<Rightarrow> CodeWitnessInspector \<Rightarrow> CodeWitnessInspector" where
  "inspector_create_end context is_success created insp =
     (case created of
        Some addr \<Rightarrow>
          if is_success then insp\<lparr>ci_meter := account_code context addr False (ci_meter insp)\<rparr>
          else insp
      | None \<Rightarrow> insp)"

text \<open>One call of the EVM into the inspector, with what it passes.\<close>

datatype 'i hook =
    Initialize_interp code_ctx 'i
  | Step 'i
  | Step_end code_ctx 'i
  | Call_hook code_ctx address
  | Call_end code_ctx address
  | Create_hook code_ctx
  | Create_end code_ctx bool "address option"

fun run_hook :: "'i interp_api \<Rightarrow> 'i hook \<Rightarrow> CodeWitnessInspector \<Rightarrow> CodeWitnessInspector" where
  "run_hook ia (Initialize_interp context interp) insp = fst (initialize_interp ia context (insp, interp))"
| "run_hook ia (Step interp) insp = fst (inspector_step ia (insp, interp))"
| "run_hook ia (Step_end context interp) insp = fst (inspector_step_end ia context (insp, interp))"
| "run_hook ia (Call_hook context addr) insp = inspector_call context addr insp"
| "run_hook ia (Call_end context addr) insp = inspector_call_end context addr insp"
| "run_hook ia (Create_hook context) insp = inspector_create context insp"
| "run_hook ia (Create_end context success created) insp =
     inspector_create_end context success created insp"

definition run_hooks :: "'i interp_api \<Rightarrow> 'i hook list \<Rightarrow> CodeWitnessInspector \<Rightarrow> CodeWitnessInspector" where
  "run_hooks ia hs insp = fold (run_hook ia) hs insp"

section \<open>Observations as events\<close>

datatype event = Ev_init | Ev_reserve u64 | Ev_record b256 u64 | Ev_step

fun apply_event :: "event \<Rightarrow> Meter \<Rightarrow> Meter" where
  "apply_event Ev_init m = m\<lparr>mt_initialized := True\<rparr>"
| "apply_event (Ev_reserve n) m = meter_reserve n m"
| "apply_event (Ev_record h n) m = meter_record h n m"
| "apply_event Ev_step m =
     (let m = (if mt_max_steps m \<le> mt_steps m then exceed ExecutionSteps m else m) in
      if mt_exceeded m \<noteq> None then m else m\<lparr>mt_steps := saturating_add (mt_steps m) 1\<rparr>)"

abbreviation apply_events :: "event list \<Rightarrow> Meter \<Rightarrow> Meter" where
  "apply_events es m \<equiv> fold apply_event es m"

definition account_event :: "journal_account \<Rightarrow> event list" where
  "account_event account =
     (case ja_code account of None \<Rightarrow> []
      | Some code \<Rightarrow> [Ev_record (ja_code_hash account) (code_len code)])"

definition account_events :: "code_ctx \<Rightarrow> address \<Rightarrow> bool \<Rightarrow> event list" where
  "account_events context addr delegated =
     (case map_of (cx_state context) addr of None \<Rightarrow> []
      | Some account \<Rightarrow>
          (case ja_code account of None \<Rightarrow> []
           | Some code \<Rightarrow>
               account_event account @
               (if delegated
                then (case Option.bind (bc_eip7702_address code) (map_of (cx_state context)) of
                        None \<Rightarrow> [] | Some account' \<Rightarrow> account_event account')
                else [])))"

definition initial_events :: "code_ctx \<Rightarrow> Meter \<Rightarrow> event list" where
  "initial_events context m =
     (if mt_initialized m then []
      else Ev_init # Ev_reserve (saturating_mul (of_nat (cx_authorization_list_len context)) 23)
        # concat (map (account_event \<circ> snd) (cx_state context)))"

fun hook_events :: "'i interp_api \<Rightarrow> 'i hook \<Rightarrow> CodeWitnessInspector \<Rightarrow> event list" where
  "hook_events ia (Initialize_interp context interp) insp =
     initial_events context (ci_meter insp) @
     (case ia_bytecode_address ia interp of None \<Rightarrow> []
      | Some addr \<Rightarrow> account_events context addr True @
          [let (hash, interp) = ia_get_or_calculate_hash ia interp in
           Ev_record hash (of_nat (length (ia_original_byte_slice ia interp)))])"
| "hook_events ia (Step interp) insp = [Ev_step]"
| "hook_events ia (Step_end context interp) insp =
     (case ci_pending_access insp of None \<Rightarrow> []
      | Some (addr, delegated) \<Rightarrow> account_events context addr delegated)"
| "hook_events ia (Call_hook context addr) insp =
     initial_events context (ci_meter insp) @ account_events context addr True"
| "hook_events ia (Call_end context addr) insp = account_events context addr True"
| "hook_events ia (Create_hook context) insp = initial_events context (ci_meter insp)"
| "hook_events ia (Create_end context success created) insp =
     (case created of None \<Rightarrow> [] | Some addr \<Rightarrow> if success then account_events context addr False else [])"

fun hooks_events :: "'i interp_api \<Rightarrow> 'i hook list \<Rightarrow> CodeWitnessInspector \<Rightarrow> event list" where
  "hooks_events ia [] insp = []"
| "hooks_events ia (h # hs) insp = hook_events ia h insp @ hooks_events ia hs (run_hook ia h insp)"

lemma record_account_events: "record_account account m = apply_events (account_event account) m"
  by (simp add: record_account_def account_event_def split: option.split)

lemma account_code_events:
  "account_code context addr delegated m = apply_events (account_events context addr delegated) m"
  by (simp add: account_code_def account_events_def account_event_def Let_def split: option.split)

lemma record_accounts_events:
  "fold record_account as m = apply_events (concat (map account_event as)) m"
  by (induction as arbitrary: m) (simp_all add: record_account_events)

lemma initial_codes_events: "initial_codes context m = apply_events (initial_events context m) m"
  by (simp add: initial_codes_def initial_events_def record_accounts_events Let_def)

lemmas inspector_defs = initialize_interp_def inspector_step_def inspector_step_end_def
  inspector_call_def inspector_call_end_def inspector_create_def inspector_create_end_def

lemma run_hook_events:
  "ci_meter (run_hook ia h insp) = apply_events (hook_events ia h insp) (ci_meter insp)"
  by (cases h)
    (auto simp: inspector_defs account_code_events initial_codes_events Let_def
      split: option.split prod.split)

lemma run_hooks_events:
  "ci_meter (run_hooks ia hs insp) = apply_events (hooks_events ia hs insp) (ci_meter insp)"
  by (induction hs arbitrary: insp) (simp_all add: run_hooks_def run_hook_events)

section \<open>What a transaction needs\<close>

text \<open>
  The unbounded reading of a list of observations: the codes it loads (each hash once, empty code
  not at all), the bytes it reserves, the steps it takes, and the bytes it needs on top of a set
  of hashes already in the block.
\<close>

definition code_sum :: "(b256 \<rightharpoonup> u64) \<Rightarrow> b256 set \<Rightarrow> nat" where
  "code_sum f A = (\<Sum>h \<in> A. unat (the (f h)))"

fun load_event :: "event \<Rightarrow> (b256 \<rightharpoonup> u64) \<Rightarrow> (b256 \<rightharpoonup> u64)" where
  "load_event (Ev_record h n) p = (if n = 0 \<or> p h \<noteq> None then p else p(h \<mapsto> n))"
| "load_event _ p = p"

definition loaded :: "event list \<Rightarrow> (b256 \<rightharpoonup> u64)" where
  "loaded es = fold load_event es Map.empty"

definition reserved :: "event list \<Rightarrow> nat" where
  "reserved es = (\<Sum>e\<leftarrow>es. case e of Ev_reserve n \<Rightarrow> unat n | _ \<Rightarrow> 0)"

definition step_count :: "event list \<Rightarrow> nat" where
  "step_count es = length (filter (\<lambda>e. e = Ev_step) es)"

definition needed :: "b256 set \<Rightarrow> event list \<Rightarrow> nat" where
  "needed A es = reserved es + code_sum (loaded es) (dom (loaded es) - A)"

definition fits :: "Meter \<Rightarrow> event list \<Rightarrow> bool" where
  "fits m es \<longleftrightarrow>
     unat (mt_accepted_bytes m) + needed (dom (mt_accepted m)) es \<le> unat (mt_max_code_bytes m) \<and>
     step_count es \<le> unat (mt_max_steps m)"

lemma loaded_simps [simp]:
  "loaded [] = Map.empty" "loaded (es @ [e]) = load_event e (loaded es)"
  by (simp_all add: loaded_def)

lemma needed_Nil [simp]: "needed A [] = 0"
  by (simp add: needed_def reserved_def code_sum_def)

lemma finite_loaded: "finite (dom (loaded es))"
proof (induction es rule: rev_induct)
  case (snoc e es)
  then show ?case by (cases e) auto
qed simp

lemma loaded_nonzero: "loaded es h = Some n \<Longrightarrow> n \<noteq> 0"
proof (induction es rule: rev_induct)
  case (snoc e es)
  then show ?case by (cases e) (auto split: if_splits)
qed simp

lemma needed_snoc [simp]:
  "needed A (es @ [Ev_init]) = needed A es"
  "needed A (es @ [Ev_step]) = needed A es"
  "needed A (es @ [Ev_reserve n]) = needed A es + unat n"
  "needed A (es @ [Ev_record h n]) =
     needed A es + (if n = 0 \<or> loaded es h \<noteq> None \<or> h \<in> A then 0 else unat n)"
proof -
  have upd: "code_sum (p(h \<mapsto> n)) (insert h (dom p) - A) =
      code_sum p (dom p - A) + (if h \<in> A then 0 else unat n)"
    if fresh: "p h = None" and fin: "finite (dom p)" for p
  proof -
    have keep: "(\<Sum>k \<in> dom p - A. unat (the ((p(h \<mapsto> n)) k))) = (\<Sum>k \<in> dom p - A. unat (the (p k)))"
      using fresh by (intro sum.cong) auto
    show ?thesis
    proof (cases "h \<in> A")
      case True
      then show ?thesis using keep by (simp add: code_sum_def insert_Diff_if)
    next
      case False
      moreover have "h \<notin> dom p" using fresh by auto
      ultimately show ?thesis using keep fin by (simp add: code_sum_def insert_Diff_if)
    qed
  qed
  show "needed A (es @ [Ev_record h n]) =
      needed A es + (if n = 0 \<or> loaded es h \<noteq> None \<or> h \<in> A then 0 else unat n)"
    using upd [of "loaded es"] finite_loaded
    by (cases "loaded es h"; cases "h \<in> A") (simp_all add: needed_def reserved_def insert_Diff_if)
qed (simp_all add: needed_def reserved_def)

lemma step_count_snoc [simp]:
  "step_count (es @ [e]) = step_count es + (if e = Ev_step then 1 else 0)" "step_count [] = 0"
  by (simp_all add: step_count_def)

section \<open>The verdict of the meter is exact\<close>

text \<open>What the meter holds after the observations \<open>es\<close> of a transaction begun on \<open>m0\<close>.\<close>

definition tracks :: "Meter \<Rightarrow> event list \<Rightarrow> Meter \<Rightarrow> bool" where
  "tracks m0 es m \<longleftrightarrow>
     mt_max_code_bytes m = mt_max_code_bytes m0 \<and> mt_max_steps m = mt_max_steps m0 \<and>
     mt_accepted m = mt_accepted m0 \<and> mt_accepted_bytes m = mt_accepted_bytes m0 \<and>
     mt_pending m = loaded es \<and>
     unat (mt_pending_bytes m) = min (needed (dom (mt_accepted m0)) es) (2 ^ 64 - 1) \<and>
     unat (mt_transaction_bytes m) = min (needed {} es) (2 ^ 64 - 1) \<and>
     (mt_exceeded m = None \<longrightarrow> unat (mt_steps m) = step_count es) \<and>
     (mt_exceeded m = None \<longleftrightarrow> fits m0 es)"

lemma exceed_fields [simp]:
  "mt_max_code_bytes (exceed l m) = mt_max_code_bytes m" "mt_max_steps (exceed l m) = mt_max_steps m"
  "mt_accepted (exceed l m) = mt_accepted m" "mt_accepted_bytes (exceed l m) = mt_accepted_bytes m"
  "mt_pending (exceed l m) = mt_pending m" "mt_pending_bytes (exceed l m) = mt_pending_bytes m"
  "mt_transaction_bytes (exceed l m) = mt_transaction_bytes m" "mt_steps (exceed l m) = mt_steps m"
  "mt_exceeded (exceed l m) = None \<longleftrightarrow> False"
  by (simp_all add: exceed_def)

lemma over_budget_iff:
  assumes "unat (mx :: u64) < 2 ^ 64 - 1" and "unat p = min n (2 ^ 64 - 1)"
  shows "mx < saturating_add a p \<longleftrightarrow> unat mx < unat a + n"
  using assms by (auto simp: word_less_nat_alt sat_simps min_def split: if_splits)

lemma min_add_cap: "min (min a c + b) c = min (a + b) (c :: nat)"
  by (simp add: min_def)

lemma tracks_event:
  assumes t: "tracks m0 es m" and cap: "unat (mt_max_code_bytes m0) < 2 ^ 64 - 1"
  shows "tracks m0 (es @ [e]) (apply_event e m)"
proof (cases e)
  case Ev_init
  then show ?thesis using t by (simp add: tracks_def fits_def)
next
  case (Ev_reserve n)
  have p: "unat (saturating_add (mt_pending_bytes m) n) =
      min (needed (dom (mt_accepted m0)) es + unat n) (2 ^ 64 - 1)"
    using t by (simp add: tracks_def sat_simps min_add_cap)
  show ?thesis
    using t p over_budget_iff [OF cap p]
    by (auto simp: Ev_reserve tracks_def fits_def meter_reserve_def Let_def sat_simps min_add_cap)
next
  case (Ev_record h n)
  let ?k = "if mt_accepted m0 h = None then n else 0"
  have p: "unat (saturating_add (mt_pending_bytes m) ?k) =
      min (needed (dom (mt_accepted m0)) es + unat ?k) (2 ^ 64 - 1)"
    using t by (simp add: tracks_def sat_simps min_add_cap)
  show ?thesis
    using t p over_budget_iff [OF cap p]
    by (auto simp: Ev_record tracks_def fits_def meter_record_def Let_def sat_simps min_add_cap
        domIff split: if_splits)
next
  case Ev_step
  have "unat (saturating_add (mt_steps m) 1) = step_count es + 1"
    if "mt_exceeded m = None" "\<not> mt_max_steps m \<le> mt_steps m"
    using t that unat_le_max [of "mt_max_steps m"]
    by (simp add: tracks_def sat_simps word_le_nat_alt)
  then show ?thesis
    using t by (auto simp: Ev_step tracks_def fits_def Let_def word_le_nat_alt)
qed

text \<open>The meter between transactions, and while one is observed.\<close>

definition meter_wf :: "Meter \<Rightarrow> bool" where
  "meter_wf m \<longleftrightarrow> finite (dom (mt_accepted m)) \<and> mt_accepted_bytes m \<le> mt_max_code_bytes m"

lemma tracks_begin: "meter_wf m \<Longrightarrow> tracks m [] (begin_transaction m)"
  by (simp add: tracks_def fits_def meter_wf_def begin_transaction_def reset_transaction_def
      word_le_nat_alt)

lemma tracks_events:
  assumes "meter_wf m" and "unat (mt_max_code_bytes m) < 2 ^ 64 - 1"
  shows "tracks m es (apply_events es (begin_transaction m))"
proof (induction es rule: rev_induct)
  case Nil
  show ?case using tracks_begin [OF assms(1)] by simp
next
  case (snoc e es)
  then show ?case using tracks_event [OF snoc assms(2)] by simp
qed

section \<open>The budget interface\<close>

text \<open>
  What a client that admits transactions into a block relies on: observations of a candidate only
  touch the candidate's part of the meter, a rejected candidate leaves the block part as it was,
  and an accepted one keeps the block within its budget.
\<close>

locale code_budget =
  fixes idle :: "'m \<Rightarrow> bool"
    and start :: "'m \<Rightarrow> 'm"
    and observe :: "'e list \<Rightarrow> 'm \<Rightarrow> 'm"
    and accept :: "'m \<Rightarrow> bool \<times> 'm"
    and reject :: "'m \<Rightarrow> 'm"
    and over :: "'m \<Rightarrow> bool"
    and spent :: "'m \<Rightarrow> u64"
    and budget :: "'m \<Rightarrow> u64"
  assumes spent_le: "idle m \<Longrightarrow> spent m \<le> budget m"
    and reject_keeps: "idle m \<Longrightarrow> m' = reject (observe es (start m)) \<Longrightarrow>
      idle m' \<and> spent m' = spent m \<and> budget m' = budget m"
    and accept_over: "fst (accept m) \<longleftrightarrow> \<not> over m"
    and accept_keeps: "idle m \<Longrightarrow> m' = snd (accept (observe es (start m))) \<Longrightarrow>
      idle m' \<and> spent m \<le> spent m' \<and> budget m' = budget m"
begin

lemma settled:
  assumes "idle m" and "m1 = observe es (start m)"
    and "m' = (if committed then snd (accept m1) else reject m1)"
  shows "idle m' \<and> budget m' = budget m \<and> spent m \<le> spent m' \<and> spent m' \<le> budget m \<and>
    (\<not> committed \<longrightarrow> spent m' = spent m)"
proof (cases committed)
  case True
  then show ?thesis using accept_keeps [OF assms(1)] spent_le assms(2,3) by metis
next
  case False
  then show ?thesis using reject_keeps [OF assms(1)] spent_le assms by simp
qed

end

lemma apply_event_limits:
  "mt_max_code_bytes (apply_event e m) = mt_max_code_bytes m \<and> mt_accepted (apply_event e m) = mt_accepted m \<and>
   mt_accepted_bytes (apply_event e m) = mt_accepted_bytes m"
  by (cases e) (simp_all add: meter_reserve_def meter_record_def Let_def)

lemma apply_events_limits [simp]:
  "mt_max_code_bytes (apply_events es m) = mt_max_code_bytes m"
  "mt_accepted (apply_events es m) = mt_accepted m"
  "mt_accepted_bytes (apply_events es m) = mt_accepted_bytes m"
  by (induction es arbitrary: m) (simp_all add: apply_event_limits)

lemma begin_limits [simp]:
  "mt_max_code_bytes (begin_transaction m) = mt_max_code_bytes m"
  "mt_accepted (begin_transaction m) = mt_accepted m"
  "mt_accepted_bytes (begin_transaction m) = mt_accepted_bytes m"
  "reject_transaction m = begin_transaction m"
  by (simp_all add: begin_transaction_def reset_transaction_def reject_transaction_def)

lemma meter_wf_cong:
  "mt_max_code_bytes m = mt_max_code_bytes m' \<Longrightarrow> mt_accepted m = mt_accepted m' \<Longrightarrow>
   mt_accepted_bytes m = mt_accepted_bytes m' \<Longrightarrow> meter_wf m = meter_wf m'"
  by (simp add: meter_wf_def)

lemma meter_wf_new [simp]: "meter_wf (code_witness_new max_code max_steps)"
  by (simp add: meter_wf_def code_witness_new_def code_sum_def)

text \<open>The pending codes that are new to the block are charged once.\<close>

lemma pending_finite: "finite (dom (mt_pending (apply_events es (begin_transaction m))))"
proof (induction es rule: rev_induct)
  case Nil
  show ?case by (simp add: begin_transaction_def reset_transaction_def)
next
  case (snoc e es)
  then show ?case
    by (cases e) (auto simp: meter_reserve_def meter_record_def Let_def)
qed

lemma code_sum_union:
  assumes "finite (dom f)" and "finite (dom g)" and "\<And>h. h \<in> dom f \<Longrightarrow> h \<in> dom g \<Longrightarrow> f h = g h"
  shows "code_sum (f ++ g) (dom (f ++ g)) = code_sum f (dom f) + code_sum g (dom g - dom f)"
proof -
  have dom: "dom (f ++ g) = dom f \<union> (dom g - dom f)" by auto
  have "code_sum (f ++ g) (dom f) = code_sum f (dom f)"
    unfolding code_sum_def
  proof (intro sum.cong refl)
    fix h assume "h \<in> dom f"
    then show "unat (the ((f ++ g) h)) = unat (the (f h))"
      using assms(3) [of h] by (cases "g h") (auto simp: map_add_def dom_def)
  qed
  moreover have "code_sum (f ++ g) (dom g - dom f) = code_sum g (dom g - dom f)"
    unfolding code_sum_def by (intro sum.cong) (auto simp: map_add_def)
  ultimately show ?thesis
    using assms(1,2) unfolding dom code_sum_def by (subst sum.union_disjoint) auto
qed

lemma accepted_within:
  assumes "meter_wf m" and "mt_exceeded m' = None" and "m' = apply_events es (begin_transaction m)"
  shows "saturating_add (mt_accepted_bytes m') (mt_pending_bytes m') \<le> mt_max_code_bytes m"
proof (cases "unat (mt_max_code_bytes m) < 2 ^ 64 - 1")
  case True
  have t: "tracks m es m'" using tracks_events [OF assms(1) True, of es] assms(3) by simp
  then have "unat (mt_pending_bytes m') = min (needed (dom (mt_accepted m)) es) (2 ^ 64 - 1)"
    by (simp add: tracks_def)
  from over_budget_iff [OF True this] t assms(2) show ?thesis
    by (simp add: tracks_def fits_def not_less [symmetric])
next
  case False
  then show ?thesis using unat_le_max [of "saturating_add (mt_accepted_bytes m') (mt_pending_bytes m')"]
    by (simp add: word_le_nat_alt)
qed

interpretation meter: code_budget meter_wf begin_transaction apply_events accept_transaction
  reject_transaction "\<lambda>m. code_exceeded m \<noteq> None" block_code_bytes mt_max_code_bytes
proof unfold_locales
  fix m m' :: Meter and es
  assume wf: "meter_wf m"
  show "block_code_bytes m \<le> mt_max_code_bytes m"
    using wf by (simp add: meter_wf_def block_code_bytes_def)
  show "meter_wf m' \<and> block_code_bytes m' = block_code_bytes m \<and> mt_max_code_bytes m' = mt_max_code_bytes m"
    if "m' = reject_transaction (apply_events es (begin_transaction m))"
    using wf that by (simp add: meter_wf_def block_code_bytes_def)
  show "meter_wf m' \<and> block_code_bytes m \<le> block_code_bytes m' \<and> mt_max_code_bytes m' = mt_max_code_bytes m"
    if "m' = snd (accept_transaction (apply_events es (begin_transaction m)))"
    using wf that accepted_within [OF wf _ refl, of es] pending_finite [of es m]
    by (auto simp: accept_transaction_def meter_wf_def block_code_bytes_def saturating_add_ge)
next
  fix m :: Meter
  show "fst (accept_transaction m) \<longleftrightarrow> \<not> code_exceeded m \<noteq> None"
    by (simp add: accept_transaction_def code_exceeded_def)
qed

text \<open>C5. The verdict on a transaction is exact. Whatever hooks the EVM calls after
  \<open>begin_transaction\<close>, \<open>accept_transaction\<close> succeeds exactly when the bytes already in the block,
  plus the bytes of the distinct codes the transaction loads that the block does not have, plus
  its authorization reserves, are within the budget and its steps are within the allowance. Then
  the block's counter grows by exactly that need and the loaded codes join the block; otherwise
  accepting changes nothing.\<close>

theorem code_witness_verdict_exact:
  assumes wf: "meter_wf m" and cap: "unat (mt_max_code_bytes m) < 2 ^ 64 - 1"
    and start: "ci_meter insp = begin_transaction m"
    and es: "es = hooks_events ia hs insp"
    and m': "m' = ci_meter (run_hooks ia hs insp)"
    and acc: "accept_transaction m' = (ok, m'')"
  shows "(ok \<longleftrightarrow> fits m es) \<and>
    (if ok
     then unat (block_code_bytes m'') = unat (block_code_bytes m) + needed (dom (mt_accepted m)) es \<and>
       mt_accepted m'' = mt_accepted m ++ loaded es \<and> meter_wf m''
     else m'' = m' \<and> mt_accepted m' = mt_accepted m \<and> block_code_bytes m' = block_code_bytes m)"
proof -
  have run: "m' = apply_events es (begin_transaction m)"
    using m' es start by (simp add: run_hooks_events)
  have t: "tracks m es m'" using tracks_events [OF wf cap, of es] run by simp
  have "needed (dom (mt_accepted m)) es < 2 ^ 64 - 1" if "fits m es"
    using that cap by (simp add: fits_def)
  moreover have "meter_wf (snd (accept_transaction m'))"
    using meter.accept_keeps [OF wf refl, of es] run by simp
  ultimately show ?thesis
    using acc t cap unat_le_max [of "mt_max_code_bytes m"]
    by (auto simp: accept_transaction_def tracks_def fits_def block_code_bytes_def sat_simps
        split: if_splits)
qed

definition sample_interp :: "unit interp_api" where
  "sample_interp = \<lparr>
     ia_bytecode_address = (\<lambda>_. Some 7), ia_get_or_calculate_hash = (\<lambda>i. (70, i)),
     ia_original_byte_slice = (\<lambda>_. [96, 0, 0]), ia_opcode = (\<lambda>_. 241),
     ia_peek = (\<lambda>_ _. Some 8), ia_clear_action = id, ia_reset_action = id,
     ia_halt_out_of_gas = id, op_EXTCODESIZE = 59, op_EXTCODECOPY = 60, op_CALL = 241,
     op_CALLCODE = 242, op_DELEGATECALL = 244, op_STATICCALL = 250\<rparr>"

definition sample_code_ctx :: code_ctx where
  "sample_code_ctx = \<lparr>
     cx_authorization_list_len = 1,
     cx_state =
       [(7, \<lparr>ja_code_hash = 70, ja_code = Some \<lparr>bc_original = [96, 0, 0], bc_eip7702_address = None\<rparr>\<rparr>),
        (8, \<lparr>ja_code_hash = 80, ja_code = Some \<lparr>bc_original = [96, 1], bc_eip7702_address = Some 7\<rparr>\<rparr>),
        (9, \<lparr>ja_code_hash = 90, ja_code = None\<rparr>)]\<rparr>"

definition sample_hooks :: "unit hook list" where
  "sample_hooks = [Call_hook sample_code_ctx 8, Initialize_interp sample_code_ctx (), Step (),
     Step_end sample_code_ctx (), Call_end sample_code_ctx 8]"

lemmas sample_meter_defs = sample_hooks_def sample_interp_def sample_code_ctx_def code_inspector_def
  code_witness_new_def begin_transaction_def reset_transaction_def run_hooks_def inspector_defs
  initial_codes_def account_code_def record_account_def code_len_def meter_record_def
  meter_reserve_def exceed_def stop_if_exceeded_def code_exceeded_def access_of_opcode_def stop_def
  saturating_add_def saturating_mul_def accept_transaction_def

text \<open>One delegated call: one authorization and two distinct codes, 28 bytes in all.\<close>

lemma sample_meter_accepts:
  "\<exists>m''. accept_transaction (ci_meter (run_hooks sample_interp sample_hooks
      (code_inspector (begin_transaction (code_witness_new 100 5))))) = (True, m'') \<and>
    block_code_bytes m'' = 28"
  by (simp add: sample_meter_defs block_code_bytes_def Let_def)

theorem code_witness_verdict_exact_witness:
  "let m = code_witness_new 100 5; insp = code_inspector (begin_transaction m) in
   fits m (hooks_events sample_interp sample_hooks insp) \<and>
   needed {} (hooks_events sample_interp sample_hooks insp) = 28"
proof -
  let ?m = "code_witness_new 100 5"
  let ?insp = "code_inspector (begin_transaction ?m)"
  obtain m'' where acc: "accept_transaction (ci_meter (run_hooks sample_interp sample_hooks ?insp)) = (True, m'')"
    and bytes: "block_code_bytes m'' = 28"
    using sample_meter_accepts by blast
  have "unat (mt_max_code_bytes ?m) < 2 ^ 64 - 1" "ci_meter ?insp = begin_transaction ?m"
    "mt_accepted ?m = Map.empty" "block_code_bytes ?m = 0"
    by (simp_all add: code_witness_new_def code_inspector_def block_code_bytes_def)
  with code_witness_verdict_exact [OF meter_wf_new [of 100 5] _ _ refl refl acc] bytes show ?thesis
    by simp
qed

text \<open>
  When a hash stands for one length (no two codes collide), the distinct codes of the block stay
  below its counter, so an accepted block needs no more code bytes than its budget.
\<close>

definition meter_sound :: "(b256 \<Rightarrow> u64) \<Rightarrow> Meter \<Rightarrow> bool" where
  "meter_sound len m \<longleftrightarrow> meter_wf m \<and> (\<forall>h n. mt_accepted m h = Some n \<longrightarrow> n = len h) \<and>
     code_sum (mt_accepted m) (dom (mt_accepted m)) \<le> unat (mt_accepted_bytes m)"

definition lengths_agree :: "(b256 \<Rightarrow> u64) \<Rightarrow> event list \<Rightarrow> bool" where
  "lengths_agree len es \<longleftrightarrow> (\<forall>h n. Ev_record h n \<in> set es \<longrightarrow> n = len h)"

lemma loaded_agree: "lengths_agree len es \<Longrightarrow> loaded es h = Some n \<Longrightarrow> n = len h"
proof (induction es arbitrary: n rule: rev_induct)
  case (snoc e es)
  then show ?case by (cases e) (auto simp: lengths_agree_def split: if_splits)
qed simp

lemma meter_sound_new: "meter_sound len (code_witness_new max_code max_steps)"
  by (simp add: meter_sound_def code_sum_def) (simp add: code_witness_new_def)

lemma meter_sound_settled:
  assumes s: "meter_sound len m" and cap: "unat (mt_max_code_bytes m) < 2 ^ 64 - 1"
    and es: "lengths_agree len es" and m1: "m1 = apply_events es (begin_transaction m)"
    and m': "m' = snd (accept_transaction m1)"
  shows "meter_sound len m'"
proof (cases "mt_exceeded m1")
  case None
  have t: "tracks m es m1" using tracks_events [OF _ cap, of es] s m1 by (simp add: meter_sound_def)
  have wf: "meter_wf m'" using meter.accept_keeps [of m m' es] s m1 m' by (simp add: meter_sound_def)
  have acc: "mt_accepted m' = mt_accepted m ++ loaded es"
    using t None m' by (simp add: accept_transaction_def tracks_def)
  have agree: "mt_accepted m h = loaded es h" if "h \<in> dom (mt_accepted m)" "h \<in> dom (loaded es)" for h
    using that s loaded_agree [OF es, of h] by (fastforce simp: meter_sound_def)
  have "code_sum (mt_accepted m') (dom (mt_accepted m')) =
      code_sum (mt_accepted m) (dom (mt_accepted m)) + code_sum (loaded es) (dom (loaded es) - dom (mt_accepted m))"
    unfolding acc using s by (intro code_sum_union finite_loaded agree) (auto simp: meter_sound_def meter_wf_def)
  moreover have "unat (mt_accepted_bytes m') = unat (mt_accepted_bytes m) + needed (dom (mt_accepted m)) es"
    using t None m' cap by (simp add: accept_transaction_def tracks_def fits_def sat_simps)
  ultimately show ?thesis
    using s wf loaded_agree [OF es] unfolding meter_sound_def acc needed_def
    by (simp add: map_add_Some_iff)
next
  case Some
  then show ?thesis using s m1 m' by (auto simp: accept_transaction_def meter_sound_def meter_wf_def)
qed

lemma meter_sound_cong:
  "mt_max_code_bytes m = mt_max_code_bytes m' \<Longrightarrow> mt_accepted m = mt_accepted m' \<Longrightarrow>
   mt_accepted_bytes m = mt_accepted_bytes m' \<Longrightarrow> meter_sound len m = meter_sound len m'"
  by (simp add: meter_sound_def meter_wf_def)

end
