(* ===== verification/Payload.thy ===== *)
theory Payload
  imports Engine Code_Witness
begin

text \<open>
  Payload-building policy (\<open>crates/dogeos-reth-payload\<close>): the limits of one build attempt
  (\<open>config.rs\<close>), the running resources (\<open>lib.rs\<close>), the forced transactions of the engine
  (\<open>forced.rs\<close>) and the selection of the gas limit (\<open>builder.rs\<close>).

  The clock is an argument, durations are counted in nanoseconds. The constants
  \<open>MIN_TRANSACTION_GAS\<close> and \<open>GAS_LIMIT_BOUND_DIVISOR\<close> of reth, and the choice of alloy between a
  typed and a legacy encoding (\<open>extract_type_byte\<close>), are arguments.
\<close>

section \<open>Limits\<close>

definition MIN_TRANSACTION_DATA_SIZE :: u64 where
  "MIN_TRANSACTION_DATA_SIZE = 115"

record ScrollBuilderConfig =
  cf_gas_limit :: "u64 option"
  cf_time_limit :: nat
  cf_max_da_block_size :: "u64 option"
  cf_max_code_witness_bytes :: u64

definition builder_config_new :: "u64 option \<Rightarrow> nat \<Rightarrow> u64 option \<Rightarrow> ScrollBuilderConfig" where
  "builder_config_new gas_limit time_limit max_da_block_size = \<lparr>
     cf_gas_limit = gas_limit, cf_time_limit = time_limit, cf_max_da_block_size = max_da_block_size,
     cf_max_code_witness_bytes = DEFAULT_MAX_CODE_WITNESS_BYTES\<rparr>"

definition with_max_code_witness_bytes :: "u64 \<Rightarrow> ScrollBuilderConfig \<Rightarrow> ScrollBuilderConfig" where
  "with_max_code_witness_bytes limit c = c\<lparr>cf_max_code_witness_bytes := limit\<rparr>"

record PayloadBuildingBreaker =
  bk_start :: nat
  bk_time_limit :: nat
  bk_gas_limit :: "u64 option"
  bk_max_da_block_size :: "u64 option"

definition breaker_new :: "nat \<Rightarrow> nat \<Rightarrow> u64 option \<Rightarrow> u64 option \<Rightarrow> PayloadBuildingBreaker" where
  "breaker_new now time_limit gas_limit max_da_block_size = \<lparr>
     bk_start = now, bk_time_limit = time_limit, bk_gas_limit = gas_limit,
     bk_max_da_block_size = max_da_block_size\<rparr>"

definition config_breaker :: "nat \<Rightarrow> ScrollBuilderConfig \<Rightarrow> PayloadBuildingBreaker" where
  "config_breaker now c = breaker_new now (cf_time_limit c) (cf_gas_limit c) (cf_max_da_block_size c)"

definition should_break :: "u64 \<Rightarrow> PayloadBuildingBreaker \<Rightarrow> nat \<Rightarrow> u64 \<Rightarrow> u64 \<Rightarrow> bool" where
  "should_break min_transaction_gas bk now cumulative_gas_used cumulative_da_size_used \<longleftrightarrow>
     bk_time_limit bk \<le> now - bk_start bk \<or>
     (case bk_gas_limit bk of None \<Rightarrow> False
      | Some limit \<Rightarrow> saturating_sub limit min_transaction_gas < cumulative_gas_used) \<or>
     (case bk_max_da_block_size bk of None \<Rightarrow> False
      | Some limit \<Rightarrow> saturating_sub limit MIN_TRANSACTION_DATA_SIZE < cumulative_da_size_used)"

section \<open>Running resources\<close>

record ExecutionInfo =
  xi_cumulative_gas_used :: u64
  xi_cumulative_da_bytes_used :: u64
  xi_total_fees :: u256

definition execution_info_new :: ExecutionInfo where
  "execution_info_new = \<lparr>xi_cumulative_gas_used = 0, xi_cumulative_da_bytes_used = 0, xi_total_fees = 0\<rparr>"

definition record_tx ::
  "rlp_api \<Rightarrow> alloy_codec \<Rightarrow> ScrollTxEnvelope \<Rightarrow> u64 \<Rightarrow> ExecutionInfo \<Rightarrow> ExecutionInfo" where
  "record_tx r ac tx gas_used info =
     info\<lparr>xi_cumulative_gas_used := xi_cumulative_gas_used info + gas_used,
          xi_cumulative_da_bytes_used := xi_cumulative_da_bytes_used info +
            of_nat (env_eip2718_encoded_length r ac tx)\<rparr>"

definition is_tx_over_limits ::
  "rlp_api \<Rightarrow> alloy_codec \<Rightarrow> alloy_tx_api \<Rightarrow> ScrollTxEnvelope \<Rightarrow> u64 \<Rightarrow> u64 option \<Rightarrow> ExecutionInfo \<Rightarrow> bool"
where
  "is_tx_over_limits r ac api tx block_gas_limit block_data_limit info \<longleftrightarrow>
     (case block_data_limit of None \<Rightarrow> False
      | Some limit \<Rightarrow> limit < saturating_add (xi_cumulative_da_bytes_used info)
          (of_nat (env_eip2718_encoded_length r ac tx))) \<or>
     block_gas_limit < saturating_add (xi_cumulative_gas_used info) (env_gas_limit api tx)"

section \<open>Forced transactions\<close>

datatype forced_error = Eip2718Error eip2718_error | UnexpectedLength

text \<open>\<open>Decodable2718::decode_2718\<close>: the type byte selects the decoder.\<close>

definition decode_2718 ::
  "rlp_api \<Rightarrow> alloy_codec \<Rightarrow> (bytes \<Rightarrow> b256) \<Rightarrow> (bytes \<Rightarrow> u8 option) \<Rightarrow> bytes \<Rightarrow>
   eip2718_error + ScrollTxEnvelope \<times> bytes" where
  "decode_2718 r ac keccak256 extract_type_byte buf =
     (case extract_type_byte buf of
        Some ty \<Rightarrow> env_typed_decode r ac keccak256 ty (tl buf)
      | None \<Rightarrow> env_fallback_decode ac buf)"

definition decode_forced ::
  "(bytes \<Rightarrow> eip2718_error + ScrollTxEnvelope \<times> bytes) \<Rightarrow> bytes \<Rightarrow>
   forced_error + bytes \<times> ScrollTxEnvelope" where
  "decode_forced decode encoded =
     rbind (map_err Eip2718Error (decode encoded)) (\<lambda>(transaction, input).
       if input \<noteq> [] then Inl UnexpectedLength else Inr (encoded, transaction))"

definition decode_forced_transactions ::
  "(bytes \<Rightarrow> eip2718_error + ScrollTxEnvelope \<times> bytes) \<Rightarrow> ScrollPayloadAttributes \<Rightarrow>
   forced_error + (bytes \<times> ScrollTxEnvelope) list" where
  "decode_forced_transactions decode attributes =
     collect_results (map (decode_forced decode) (forced_list attributes))"

definition forced_transactions_da_bytes :: "(bytes \<times> ScrollTxEnvelope) list \<Rightarrow> u64" where
  "forced_transactions_da_bytes transactions =
     fold (\<lambda>t total. saturating_add total (of_nat (length (fst t)))) transactions 0"

section \<open>Gas limit\<close>

definition next_block_gas_limit :: "u64 \<Rightarrow> u64 option \<Rightarrow> u64 option \<Rightarrow> u64 \<Rightarrow> u64" where
  "next_block_gas_limit gas_limit_bound_divisor attributes target parent =
     (case attributes of
        Some gas_limit \<Rightarrow> gas_limit
      | None \<Rightarrow>
          (case target of
             None \<Rightarrow> parent
           | Some target \<Rightarrow>
               let step = parent div gas_limit_bound_divisor in
               clamp target (saturating_sub parent step) (saturating_add parent step)))"

section \<open>Lemmas\<close>

lemma unat_of_nat_small: "n < 2 ^ LENGTH('a) \<Longrightarrow> unat (of_nat n :: 'a::len word) = n"
  by (simp add: unsigned_of_nat take_bit_nat_eq_self)

lemma forced_da_fold:
  assumes "\<forall>t \<in> set ts. length (fst t) < 2 ^ 64"
  shows "unat (fold (\<lambda>t total. saturating_add total (of_nat (length (fst t)))) ts (acc :: u64)) =
    min (unat acc + (\<Sum>t\<leftarrow>ts. length (fst t))) (2 ^ 64 - 1)"
  using assms
proof (induction ts arbitrary: acc)
  case Nil
  show ?case using unat_le_max [of acc] by simp
next
  case (Cons t ts)
  then have "unat (of_nat (length (fst t)) :: u64) = length (fst t)" by (simp add: unat_of_nat_small)
  with Cons show ?case by (simp add: sat_simps min_def)
qed

lemma forced_da_bytes_sum:
  "\<forall>t \<in> set ts. length (fst t) < 2 ^ 64 \<Longrightarrow>
   unat (forced_transactions_da_bytes ts) = min (\<Sum>t\<leftarrow>ts. length (fst t)) (2 ^ 64 - 1)"
  using forced_da_fold [of ts 0] by (simp add: forced_transactions_da_bytes_def)

lemma decode_forced_ok:
  "decode_forced decode enc = Inr f \<longleftrightarrow> fst f = enc \<and> decode enc = Inr (snd f, [])"
  by (cases f) (auto simp: decode_forced_def result_elims split: prod.splits if_splits)

lemma decode_forced_list:
  "decode_forced_transactions decode a = Inr fs \<longleftrightarrow>
   map fst fs = forced_list a \<and> (\<forall>f \<in> set fs. decode (fst f) = Inr (snd f, []))"
proof -
  have "map (decode_forced decode) es = map Inr fs \<longleftrightarrow>
      map fst fs = es \<and> (\<forall>f \<in> set fs. decode (fst f) = Inr (snd f, []))" for es
  proof (induction es arbitrary: fs)
    case (Cons e es)
    then show ?case by (cases fs) (auto simp: decode_forced_ok)
  qed auto
  then show ?thesis by (simp add: decode_forced_transactions_def collect_results_Inr_iff)
qed

lemma gas_limit_step:
  assumes "0 < d"
  shows "abs_diff (next_block_gas_limit d None target parent) parent \<le> parent div d"
proof (cases target)
  case None
  then show ?thesis by (simp add: next_block_gas_limit_def abs_diff_def)
next
  case (Some t)
  have "unat (saturating_sub parent (parent div d)) = unat parent - unat (parent div d)"
    "unat (saturating_add parent (parent div d)) \<le> unat parent + unat (parent div d)"
    by (simp_all add: sat_simps)
  then show ?thesis
    using unat_le_max [of parent]
    by (auto simp: min_def Some next_block_gas_limit_def clamp_def Let_def word_le_nat_alt word_less_nat_alt
        sat_simps split: if_splits)
qed

section \<open>Properties\<close>

text \<open>Forced transactions cross the engine boundary unchanged: decoding succeeds exactly when each
  entry decodes with nothing left over, and then keeps every entry, in order, with its original
  bytes. The data budget it is charged is the total of those bytes, cut at the largest integer.\<close>

theorem forced_transactions_exact:
  assumes "\<forall>enc \<in> set (forced_list a). length enc < 2 ^ 64"
  shows "(decode_forced_transactions decode a = Inr fs \<longleftrightarrow>
      map fst fs = forced_list a \<and> (\<forall>f \<in> set fs. decode (fst f) = Inr (snd f, []))) \<and>
    (decode_forced_transactions decode a = Inr fs \<longrightarrow>
      unat (forced_transactions_da_bytes fs) = min (\<Sum>enc\<leftarrow>forced_list a. length enc) (2 ^ 64 - 1))"
proof (intro conjI impI)
  show "decode_forced_transactions decode a = Inr fs \<longleftrightarrow>
      map fst fs = forced_list a \<and> (\<forall>f \<in> set fs. decode (fst f) = Inr (snd f, []))"
    by (rule decode_forced_list)
  assume "decode_forced_transactions decode a = Inr fs"
  then have fs: "map fst fs = forced_list a" by (simp add: decode_forced_list)
  then have "(\<Sum>t\<leftarrow>fs. length (fst t)) = (\<Sum>enc\<leftarrow>forced_list a. length enc)"
    by (metis (no_types) comp_def list.map_comp map_eq_conv)
  moreover have "\<forall>t \<in> set fs. length (fst t) < 2 ^ 64"
    using assms fs by (metis (no_types) image_eqI list.set_map)
  ultimately show "unat (forced_transactions_da_bytes fs) =
      min (\<Sum>enc\<leftarrow>forced_list a. length enc) (2 ^ 64 - 1)"
    by (simp add: forced_da_bytes_sum)
qed

theorem forced_transactions_exact_witness:
  "decode_forced_transactions (\<lambda>enc. Inr (Legacy sample_legacy, [])) sample_payload_attributes =
     Inr [([1, 2], Legacy sample_legacy), ([3], Legacy sample_legacy)]"
proof -
  have "\<forall>enc \<in> set (forced_list sample_payload_attributes). length enc < 2 ^ 64"
    by (simp add: sample_payload_attributes_def)
  from forced_transactions_exact [OF this, of "\<lambda>enc. Inr (Legacy sample_legacy, [])"
      "[([1, 2], Legacy sample_legacy), ([3], Legacy sample_legacy)]"]
  show ?thesis by (simp add: sample_payload_attributes_def)
qed

text \<open>The gas limit the builder chooses is one its own consensus accepts: without an explicit
  limit in the attributes, whatever the configured target, the step from a parent is within the
  bound, so the check against the parent can only fail on the absolute minimum; and a target
  within the bound is reached exactly.\<close>

theorem built_gas_limit_accepted:
  assumes laws: "consensus_laws ca"
    and g: "g = next_block_gas_limit (ca_gas_limit_bound_divisor ca) None target parent"
  shows "validate_gas_limit_against_parent ca g parent =
      (if g < ca_minimum_gas_limit ca then Inl (GasLimitInvalidMinimum g) else Inr ()) \<and>
    (\<forall>t. target = Some t \<and> abs_diff t parent \<le> parent div ca_gas_limit_bound_divisor ca \<longrightarrow> g = t)"
proof (intro conjI allI impI)
  have "0 < ca_gas_limit_bound_divisor ca" using laws by (simp add: consensus_laws_def)
  then show "validate_gas_limit_against_parent ca g parent =
      (if g < ca_minimum_gas_limit ca then Inl (GasLimitInvalidMinimum g) else Inr ())"
    using gas_limit_step [of "ca_gas_limit_bound_divisor ca" target parent] g
    by (auto simp: validate_gas_limit_against_parent_def Let_def not_less [symmetric])
next
  fix t assume "target = Some t \<and> abs_diff t parent \<le> parent div ca_gas_limit_bound_divisor ca"
  then show "g = t"
    using unat_le_max [of t]
    by (auto simp: g next_block_gas_limit_def clamp_def Let_def word_le_nat_alt word_less_nat_alt
        sat_simps split: if_splits)
qed

theorem built_gas_limit_accepted_witness:
  "next_block_gas_limit 1024 None (Some 60000000) 30000000 = 30029296 \<and>
   validate_gas_limit_against_parent sample_consensus 30029296 30000000 = Inr ()"
proof -
  have g: "next_block_gas_limit 1024 None (Some 60000000) 30000000 = 30029296"
    by (simp add: next_block_gas_limit_def clamp_def saturating_sub_def saturating_add_def Let_def)
  have d: "ca_gas_limit_bound_divisor sample_consensus = 1024" "ca_minimum_gas_limit sample_consensus = 5000"
    by (simp_all add: sample_consensus_def)
  show ?thesis
    using built_gas_limit_accepted [OF sample_consensus_laws refl, of "Some 60000000" 30000000] g d
    by simp
qed

end
