(* ===== verification/Builder.thy ===== *)
theory Builder
  imports Payload
begin

text \<open>
  The payload builder (\<open>crates/dogeos-reth-payload/src/builder.rs\<close>): \<open>build_payload\<close> from the
  parent header and the engine attributes to a built block.

  The state of a build is a record \<open>builder\<close>: the block executor, the code witness inspector
  that its EVM carries, the transactions of the block and the running resources. Every step is a
  \<open>run\<close> on it (an outcome, \<open>None\<close> for a panic, and the state it leaves).

  Parameters (\<open>payload_env\<close>): the EVM with the inspector in a given state (\<open>pe_evm\<close>, as a halt
  of the inspector changes what the EVM does) and the hooks it calls on the inspector
  (\<open>pe_tx_hooks\<close>, \<open>pe_pre_hooks\<close>, \<open>pe_finish_hooks\<close>), the classification of EVM errors, the pool
  iterator (\<open>best_api\<close>), the state root, the comparison of payloads, the accessors and constants
  of alloy and reth. The block builder of reth is its documented contract: execute, ask the
  condition, commit, and append the transaction. The cancellation flag and the clock are
  functions of the number of pool transactions looked at.

  The pool loop has fuel, the number of items it looks at: the iterator of the pool may receive new
  transactions while it is read. Running out of it is an outcome of the model of its own
  (\<open>NoFuel\<close>); when it cannot happen, and that fuel does not matter otherwise, is a theorem of
  \<open>Built_Blocks\<close>.
\<close>

section \<open>Parameters and state\<close>

datatype ScrollPayloadBuilderError =
    TransactionEcRecoverFailed
  | BlobTransactionRejected
  | BlockGasLimitExceededByForcedTransactions "u64 list" u64
  | BlockDaLimitExceededByForcedTransactions u64 u64
  | BlockCodeLimitExceededByForcedTransactions u64
  | BlockCodeLimitExceededBySystemExecution u64

datatype ('d, 'x) PayloadBuilderError =
    BuilderError ScrollPayloadBuilderError
  | BaseFeeReadFailed 'd
  | PreExecutionFailed "('d, 'x) BlockExecutionError"
  | ForcedDecodeFailed forced_error
  | EvmFailed "('d, 'x) BlockExecutionError"
  | FinishFailed string
  | AssembleFailed assemble_error

datatype InvalidKind =
    ExceedsGasLimit u64 u64
  | CodeWitnessBudgetExceeded u64
  | TxTypeNotSupported

record ('b, 'p) best_api =
  bt_next :: "'b \<Rightarrow> ('p \<times> 'b) option"
  bt_mark_invalid :: "'p \<Rightarrow> InvalidKind \<Rightarrow> 'b \<Rightarrow> 'b"
  bt_to_consensus :: "'p \<Rightarrow> ScrollTxEnvelope \<times> address"

record ('db, 'l1, 'd, 'x, 'i, 'b, 'p) payload_env =
  pe_env :: "('db, 'l1, 'd, 'x) exec_env"
  pe_evm :: "CodeWitnessInspector \<Rightarrow> ('db, 'l1, 'x) evm_api"
  pe_interp :: "'i interp_api"
  pe_tx_hooks :: "CodeWitnessInspector \<Rightarrow> ScrollTxEnv \<times> ScrollTxEnvelope \<Rightarrow> ('db, 'l1) executor \<Rightarrow> 'i hook list"
  pe_pre_hooks :: "CodeWitnessInspector \<Rightarrow> ('db, 'l1) executor \<Rightarrow> 'i hook list"
  pe_finish_hooks :: "CodeWitnessInspector \<Rightarrow> ('db, 'l1) executor \<Rightarrow> 'i hook list"
  pe_invalid_tx :: "'x \<Rightarrow> bool"
  pe_nonce_too_low :: "'x \<Rightarrow> bool"
  pe_calc :: base_fee_calc
  pe_rlp :: rlp_api
  pe_codec :: alloy_codec
  pe_txenv :: env_api
  pe_keccak256 :: "bytes \<Rightarrow> b256"
  pe_extract_type_byte :: "bytes \<Rightarrow> u8 option"
  pe_effective_tip_per_gas :: "ScrollTxEnvelope \<Rightarrow> u64 \<Rightarrow> u128 option"
  pe_min_transaction_gas :: u64
  pe_gas_limit_bound_divisor :: u64
  pe_assembler :: assembler_api
  pe_hash_slow :: "Block \<Rightarrow> b256"
  pe_state_root :: "('db, 'l1) executor \<Rightarrow> string + b256"
  pe_context :: "ScrollTxEnv \<times> 'l1"
  pe_best :: "('b, 'p) best_api"
  pe_best_transactions :: "u64 \<Rightarrow> 'b"
  pe_is_better_payload :: "u256 option \<Rightarrow> u256 \<Rightarrow> bool"
  pe_cancelled :: "nat \<Rightarrow> bool"
  pe_clock :: "nat \<Rightarrow> nat"
  pe_fuel :: nat

record ('db, 'l1) builder =
  bu_exec :: "('db, 'l1) executor"
  bu_insp :: CodeWitnessInspector
  bu_txs :: "(ScrollTxEnvelope \<times> address) list"
  bu_info :: ExecutionInfo

type_synonym ('db, 'l1, 'e, 'a) build = "(('db, 'l1) builder, 'e, 'a) run"

text \<open>The execution environment while the inspector is in the state of the builder.\<close>

definition metered_env ::
  "('db, 'l1, 'd, 'x, 'i, 'b, 'p) payload_env \<Rightarrow> ('db, 'l1) builder \<Rightarrow> ('db, 'l1, 'd, 'x) exec_env" where
  "metered_env pe b = (pe_env pe)\<lparr>ee_evm := pe_evm pe (bu_insp b)\<rparr>"

definition on_meter :: "(Meter \<Rightarrow> Meter) \<Rightarrow> ('db, 'l1) builder \<Rightarrow> ('db, 'l1) builder" where
  "on_meter f b = b\<lparr>bu_insp := (bu_insp b)\<lparr>ci_meter := f (ci_meter (bu_insp b))\<rparr>\<rparr>"

definition builder_meter :: "('db, 'l1) builder \<Rightarrow> Meter" where
  "builder_meter b = ci_meter (bu_insp b)"

definition executable_of ::
  "('db, 'l1, 'd, 'x, 'i, 'b, 'p) payload_env \<Rightarrow> ScrollTxEnvelope \<times> address \<Rightarrow>
   ScrollTxEnv \<times> ScrollTxEnvelope" where
  "executable_of pe tx = (from_recovered_tx (pe_rlp pe) (pe_codec pe) (pe_txenv pe) (fst tx) (snd tx), fst tx)"

section \<open>The code budget\<close>

definition accept_system_code_budget ::
  "u64 \<Rightarrow> ('db, 'l1, ('d, 'x) PayloadBuilderError, unit) build" where
  "accept_system_code_budget limit b =
     (let (ok, m) = accept_transaction (builder_meter b); b = on_meter (\<lambda>_. m) b in
      (Some (if ok then Inr () else Inl (BuilderError (BlockCodeLimitExceededBySystemExecution limit))), b))"

definition forced_code_budget_result :: "u64 option \<Rightarrow> u64 \<Rightarrow> ScrollPayloadBuilderError + u64" where
  "forced_code_budget_result gas_used limit =
     ok_or (BlockCodeLimitExceededByForcedTransactions limit) gas_used"

definition code_witness_commit :: "Meter \<Rightarrow> bool" where
  "code_witness_commit m = (if code_exceeded m \<noteq> None then False else True)"

text \<open>The provided method of the block builder: execute, ask the condition, commit, and append the
  transaction to the block.\<close>

definition execute_transaction_with_commit_condition ::
  "('db, 'l1, 'd, 'x, 'i, 'b, 'p) payload_env \<Rightarrow> ScrollTxEnvelope \<times> address \<Rightarrow> (Meter \<Rightarrow> bool) \<Rightarrow>
   ('db, 'l1, ('d, 'x) BlockExecutionError, u64 option) build" where
  "execute_transaction_with_commit_condition pe tx commit b =
     (let ee = metered_env pe b; t = executable_of pe tx;
          (res, ex) = execute_transaction_without_commit ee t (bu_exec b);
          insp = run_hooks (pe_interp pe) (pe_tx_hooks pe (bu_insp b) t (bu_exec b)) (bu_insp b);
          b = b\<lparr>bu_exec := ex, bu_insp := insp\<rparr> in
      case res of
        None \<Rightarrow> (None, b)
      | Some (Inl e) \<Rightarrow> (Some (Inl e), b)
      | Some (Inr output) \<Rightarrow>
          if \<not> commit (ci_meter insp) then (Some (Inr None), b)
          else
            (case commit_transaction ee output ex of
               (None, ex) \<Rightarrow> (None, b\<lparr>bu_exec := ex\<rparr>)
             | (Some (Inl e), ex) \<Rightarrow> (Some (Inl e), b\<lparr>bu_exec := ex\<rparr>)
             | (Some (Inr gas_used), ex) \<Rightarrow>
                 (Some (Inr (Some gas_used)), b\<lparr>bu_exec := ex, bu_txs := bu_txs b @ [tx]\<rparr>)))"

definition execute_with_code_budget ::
  "('db, 'l1, 'd, 'x, 'i, 'b, 'p) payload_env \<Rightarrow> ScrollTxEnvelope \<times> address \<Rightarrow>
   ('db, 'l1, ('d, 'x) BlockExecutionError, u64 option) build" where
  "execute_with_code_budget pe tx b =
     (let b = on_meter begin_transaction b;
          (outcome, b) = execute_transaction_with_commit_condition pe tx code_witness_commit b in
      case outcome of
        None \<Rightarrow> (None, b)
      | Some (Inr (Some gas_used)) \<Rightarrow> (outcome, on_meter (\<lambda>m. snd (accept_transaction m)) b)
      | Some _ \<Rightarrow> (outcome, on_meter reject_transaction b))"

section \<open>Forced transactions\<close>

text \<open>\<open>BlockValidationError::InvalidTx\<close>: a blob transaction, or an EVM error about the transaction.\<close>

definition is_invalid_tx ::
  "('db, 'l1, 'd, 'x, 'i, 'b, 'p) payload_env \<Rightarrow> ('d, 'x) BlockExecutionError \<Rightarrow> bool" where
  "is_invalid_tx pe e =
     (case e of Eip4844NotSupported _ \<Rightarrow> True | EvmError err _ \<Rightarrow> pe_invalid_tx pe err | _ \<Rightarrow> False)"

definition is_nonce_too_low ::
  "('db, 'l1, 'd, 'x, 'i, 'b, 'p) payload_env \<Rightarrow> ('d, 'x) BlockExecutionError \<Rightarrow> bool" where
  "is_nonce_too_low pe e = (case e of EvmError err _ \<Rightarrow> pe_nonce_too_low pe err | _ \<Rightarrow> False)"

definition record_forced :: "u64 \<Rightarrow> u64 \<Rightarrow> ('db, 'l1) builder \<Rightarrow> ('db, 'l1) builder" where
  "record_forced gas_used encoded_len b =
     b\<lparr>bu_info := (bu_info b)\<lparr>
        xi_cumulative_gas_used := xi_cumulative_gas_used (bu_info b) + gas_used,
        xi_cumulative_da_bytes_used := xi_cumulative_da_bytes_used (bu_info b) + encoded_len\<rparr>\<rparr>"

fun forced_loop ::
  "('db, 'l1, 'd, 'x, 'i, 'b, 'p) payload_env \<Rightarrow> ScrollBuilderConfig \<Rightarrow> u64 \<Rightarrow>
   (bytes \<times> ScrollTxEnvelope) list \<Rightarrow> u64 list \<Rightarrow>
   ('db, 'l1, ('d, 'x) PayloadBuilderError, unit) build" where
  "forced_loop pe cf block_gas_limit [] forced_gas b = (Some (Inr ()), b)"
| "forced_loop pe cf block_gas_limit (forced # rest) forced_gas b =
     (let encoded_len = of_nat (length (fst forced)) in
      if env_ty (ee_tx (pe_env pe)) (snd forced) = 3
      then (Some (Inl (BuilderError BlobTransactionRejected)), b)
      else
        (case env_recover_signer (pe_codec pe) (snd forced) of
           Inl _ \<Rightarrow> (Some (Inl (BuilderError TransactionEcRecoverFailed)), b)
         | Inr signer \<Rightarrow>
             let tx_gas = env_gas_limit (ee_tx (pe_env pe)) (snd forced) in
             if block_gas_limit < saturating_add (xi_cumulative_gas_used (bu_info b)) tx_gas
             then (Some (Inl (BuilderError (BlockGasLimitExceededByForcedTransactions
                     (forced_gas @ [tx_gas]) block_gas_limit))), b)
             else
               (case execute_with_code_budget pe (snd forced, signer) b of
                  (None, b) \<Rightarrow> (None, b)
                | (Some (Inr gas), b) \<Rightarrow>
                    (case forced_code_budget_result gas (cf_max_code_witness_bytes cf) of
                       Inl e \<Rightarrow> (Some (Inl (BuilderError e)), b)
                     | Inr gas_used \<Rightarrow>
                         forced_loop pe cf block_gas_limit rest (forced_gas @ [gas_used])
                           (record_forced gas_used encoded_len b))
                | (Some (Inl e), b) \<Rightarrow>
                    if is_invalid_tx pe e then forced_loop pe cf block_gas_limit rest forced_gas b
                    else (Some (Inl (EvmFailed e)), b))))"

section \<open>Pool transactions\<close>

datatype pool_end = PoolDone | PoolCancelled | PoolOutOfFuel

definition record_pool ::
  "('db, 'l1, 'd, 'x, 'i, 'b, 'p) payload_env \<Rightarrow> ScrollTxEnvelope \<Rightarrow> u64 \<Rightarrow> u128 \<Rightarrow>
   ('db, 'l1) builder \<Rightarrow> ('db, 'l1) builder" where
  "record_pool pe tx gas_used miner_fee b =
     (let info = record_tx (pe_rlp pe) (pe_codec pe) tx gas_used (bu_info b) in
      b\<lparr>bu_info := info\<lparr>xi_total_fees := xi_total_fees info + ucast miner_fee * ucast gas_used\<rparr>\<rparr>)"

fun pool_loop ::
  "('db, 'l1, 'd, 'x, 'i, 'b, 'p) payload_env \<Rightarrow> ScrollBuilderConfig \<Rightarrow> u64 \<Rightarrow> u64 \<Rightarrow>
   PayloadBuildingBreaker \<Rightarrow> nat \<Rightarrow> nat \<Rightarrow> 'b \<Rightarrow>
   ('db, 'l1, ('d, 'x) PayloadBuilderError, pool_end) build" where
  "pool_loop pe cf block_gas_limit base_fee breaker 0 i best b = (Some (Inr PoolOutOfFuel), b)"
| "pool_loop pe cf block_gas_limit base_fee breaker (Suc fuel) i best b =
     (case bt_next (pe_best pe) best of
        None \<Rightarrow> (Some (Inr PoolDone), b)
      | Some (pool_tx, best) \<Rightarrow>
          let tx = bt_to_consensus (pe_best pe) pool_tx;
              mark = (\<lambda>kind. bt_mark_invalid (pe_best pe) pool_tx kind best);
              continue = (\<lambda>best b. pool_loop pe cf block_gas_limit base_fee breaker fuel (Suc i) best b)
          in
          if is_tx_over_limits (pe_rlp pe) (pe_codec pe) (ee_tx (pe_env pe)) (fst tx) block_gas_limit
               (cf_max_da_block_size cf) (bu_info b) \<or>
             env_ty (ee_tx (pe_env pe)) (fst tx) = 3 \<or> env_is_l1_message (fst tx)
          then continue
            (mark (ExceedsGasLimit (env_gas_limit (ee_tx (pe_env pe)) (fst tx)) block_gas_limit)) b
          else if pe_cancelled pe i then (Some (Inr PoolCancelled), b)
          else if should_break (pe_min_transaction_gas pe) breaker (pe_clock pe (Suc i))
               (xi_cumulative_gas_used (bu_info b)) (xi_cumulative_da_bytes_used (bu_info b))
          then (Some (Inr PoolDone), b)
          else
            (case execute_with_code_budget pe tx b of
               (None, b) \<Rightarrow> (None, b)
             | (Some (Inr (Some gas_used)), b) \<Rightarrow>
                 (case pe_effective_tip_per_gas pe (fst tx) base_fee of
                    None \<Rightarrow> (None, b)
                  | Some miner_fee \<Rightarrow> continue best (record_pool pe (fst tx) gas_used miner_fee b))
             | (Some (Inr None), b) \<Rightarrow>
                 continue (mark (CodeWitnessBudgetExceeded (cf_max_code_witness_bytes cf))) b
             | (Some (Inl e), b) \<Rightarrow>
                 if is_invalid_tx pe e
                 then continue (if is_nonce_too_low pe e then best else mark TxTypeNotSupported) b
                 else (Some (Inl (EvmFailed e)), b)))"

section \<open>Building a payload\<close>

record BuildArguments =
  ba_parent_header :: SealedHeader
  ba_attributes :: ScrollPayloadAttributes
  ba_best_payload :: "u256 option"
  ba_trie_root :: "(string + b256) option"

datatype BuildOutcome =
    Freeze ScrollBuiltPayload
  | Better ScrollBuiltPayload
  | Aborted u256
  | Cancelled
  | NoFuel

definition pre_execution ::
  "('db, 'l1, 'd, 'x, 'i, 'b, 'p) payload_env \<Rightarrow> ('db, 'l1, ('d, 'x) PayloadBuilderError, unit) build" where
  "pre_execution pe b =
     (let b = on_meter begin_transaction b;
          (res, ex) = apply_pre_execution_changes (metered_env pe b) (bu_exec b);
          insp = run_hooks (pe_interp pe) (pe_pre_hooks pe (bu_insp b) (bu_exec b)) (bu_insp b)
      in (map_option (map_err PreExecutionFailed) res, b\<lparr>bu_exec := ex, bu_insp := insp\<rparr>))"

text \<open>The data limit of the forced transactions, then their execution.\<close>

definition forced_phase ::
  "('db, 'l1, 'd, 'x, 'i, 'b, 'p) payload_env \<Rightarrow> ScrollBuilderConfig \<Rightarrow> ScrollPayloadAttributes \<Rightarrow>
   u64 \<Rightarrow> ('db, 'l1, ('d, 'x) PayloadBuilderError, unit) build" where
  "forced_phase pe cf attributes block_gas_limit =
     run_bind (run_result (map_err ForcedDecodeFailed (decode_forced_transactions
        (decode_2718 (pe_rlp pe) (pe_codec pe) (pe_keccak256 pe) (pe_extract_type_byte pe)) attributes)))
     (\<lambda>forced_transactions.
        let forced_da_bytes = forced_transactions_da_bytes forced_transactions;
            run = forced_loop pe cf block_gas_limit forced_transactions [] in
        case cf_max_da_block_size cf of
          Some limit \<Rightarrow>
            if limit < forced_da_bytes
            then run_fail (BuilderError (BlockDaLimitExceededByForcedTransactions forced_da_bytes limit))
            else run
        | None \<Rightarrow> run)"

definition pool_phase ::
  "('db, 'l1, 'd, 'x, 'i, 'b, 'p) payload_env \<Rightarrow> ScrollBuilderConfig \<Rightarrow> ScrollPayloadAttributes \<Rightarrow>
   u64 \<Rightarrow> ('db, 'l1, ('d, 'x) PayloadBuilderError, pool_end) build" where
  "pool_phase pe cf attributes block_gas_limit b =
     (if sa_no_tx_pool attributes then (Some (Inr PoolDone), b)
      else
        let breaker = config_breaker (pe_clock pe 0) cf;
            base_fee = be_basefee (ev_block (ex_evm (bu_exec b))) in
        pool_loop pe cf block_gas_limit base_fee breaker (pe_fuel pe) 0
          (pe_best_transactions pe base_fee) b)"

text \<open>Finishing a block: drop the state hook, take the root of the sparse trie or compute it, and
  assemble. The system code of the finalisation is accepted after it.\<close>

definition finish_block ::
  "('db, 'l1, 'd, 'x, 'i, 'b, 'p) payload_env \<Rightarrow> ScrollBuilderConfig \<Rightarrow> (string + b256) option \<Rightarrow> EvmEnv \<Rightarrow>
   ('db, 'l1, ('d, 'x) PayloadBuilderError, SealedBlock \<times> BlockExecutionResult) build" where
  "finish_block pe cf trie_root env b =
     (let b = on_meter begin_transaction b;
          ex = (if trie_root = None then bu_exec b else executor_set_state_hook None (bu_exec b));
          root = (case trie_root of Some (Inr root) \<Rightarrow> Inr root | _ \<Rightarrow> pe_state_root pe ex);
          insp = run_hooks (pe_interp pe) (pe_finish_hooks pe (bu_insp b) ex) (bu_insp b);
          b = b\<lparr>bu_exec := ex, bu_insp := insp\<rparr>;
          result = executor_finish ex in
      run_bind (run_result (map_err FinishFailed root)) (\<lambda>state_root.
      run_bind (run_result (map_err AssembleFailed (assemble_block (pe_assembler pe) env
        (ex_parent_hash ex) (map fst (bu_txs b)) result state_root))) (\<lambda>block.
      run_bind (accept_system_code_budget (cf_max_code_witness_bytes cf)) (\<lambda>_.
      run_return (\<lparr>sb_block = block, sb_hash = pe_hash_slow pe block\<rparr>, result)))) b)"

definition next_attributes_of ::
  "('db, 'l1, 'd, 'x, 'i, 'b, 'p) payload_env \<Rightarrow> ScrollBuilderConfig \<Rightarrow> BuildArguments \<Rightarrow> u64 \<Rightarrow>
   ScrollNextBlockEnvAttributes" where
  "next_attributes_of pe cf args base_fee =
     (let pa = sa_payload_attributes (ba_attributes args) in \<lparr>
        nb_timestamp = pa_timestamp pa,
        nb_suggested_fee_recipient = pa_suggested_fee_recipient pa,
        nb_gas_limit = next_block_gas_limit (pe_gas_limit_bound_divisor pe)
          (sa_gas_limit (ba_attributes args)) (cf_gas_limit cf)
          (h_gas_limit (sh_header (ba_parent_header args))),
        nb_base_fee = base_fee\<rparr>)"

definition builder_start ::
  "('db, 'l1, 'd, 'x, 'i, 'b, 'p) payload_env \<Rightarrow> ScrollBuilderConfig \<Rightarrow> BuildArguments \<Rightarrow> 'db \<Rightarrow> EvmEnv \<Rightarrow>
   ('db, 'l1) builder" where
  "builder_start pe cf args db env =
     (let ex = executor_new (create_evm_with_inspector (pe_context pe) db env)
           (context_for_next_block (ba_parent_header args)) in \<lparr>
        bu_exec = (if ba_trie_root args = None then ex else executor_set_state_hook (Some []) ex),
        bu_insp = code_inspector (code_witness_new (cf_max_code_witness_bytes cf) (- 1)),
        bu_txs = [], bu_info = execution_info_new\<rparr>)"

definition build_block ::
  "('db, 'l1, 'd, 'x, 'i, 'b, 'p) payload_env \<Rightarrow> ScrollBuilderConfig \<Rightarrow> BuildArguments \<Rightarrow> EvmEnv \<Rightarrow>
   ('db, 'l1, ('d, 'x) PayloadBuilderError, BuildOutcome) build" where
  "build_block pe cf args env =
     run_bind (pre_execution pe) (\<lambda>_.
     run_bind (accept_system_code_budget (cf_max_code_witness_bytes cf)) (\<lambda>_ b.
       let block_gas_limit = be_gas_limit (ev_block (ex_evm (bu_exec b)));
           attributes = ba_attributes args in
       run_bind (forced_phase pe cf attributes block_gas_limit) (\<lambda>_.
       run_bind (pool_phase pe cf attributes block_gas_limit) (\<lambda>pool b.
         let total_fees = xi_total_fees (bu_info b) in
         if pool = PoolCancelled then (Some (Inr Cancelled), b)
         else if pool = PoolOutOfFuel then (Some (Inr NoFuel), b)
         else if \<not> sa_no_tx_pool attributes \<and> \<not> pe_is_better_payload pe (ba_best_payload args) total_fees
         then (Some (Inr (Aborted total_fees)), b)
         else
           run_bind (finish_block pe cf (ba_trie_root args) env) (\<lambda>(sealed, result) b.
             let payload = \<lparr>bp_block = sealed, bp_executed_block = Some result, bp_fees = total_fees\<rparr> in
             (Some (Inr (if sa_no_tx_pool attributes then Freeze payload else Better payload)), b)) b)) b))"

definition build_payload ::
  "('db, 'l1, 'd, 'x, 'i, 'b, 'p) payload_env \<Rightarrow> ScrollBuilderConfig \<Rightarrow> BuildArguments \<Rightarrow> 'db \<Rightarrow>
   (('d, 'x) PayloadBuilderError + BuildOutcome) option" where
  "build_payload pe cf args db =
     (let ee = pe_env pe; parent = ba_parent_header args;
          timestamp = pa_timestamp (sa_payload_attributes (ba_attributes args)) in
      case next_block_base_fee (ee_fork_api ee) (pe_calc pe) (ee_ops ee) (ee_spec ee) db
             (sh_header parent) timestamp of
        None \<Rightarrow> None
      | Some (Inl e) \<Rightarrow> Some (Inl (BaseFeeReadFailed e))
      | Some (Inr base_fee) \<Rightarrow>
          let env = next_evm_env (ee_fork_api ee) (ee_spec ee) (sh_header parent)
                (next_attributes_of pe cf args base_fee)
          in fst (build_block pe cf args env (builder_start pe cf args db env)))"

text \<open>\<open>build_empty_payload\<close>: the same without pool transactions, best payload, trie task or
  cancellation; only a built payload is returned.\<close>

definition build_empty_payload ::
  "('db, 'l1, 'd, 'x, 'i, 'b, 'p) payload_env \<Rightarrow> ScrollBuilderConfig \<Rightarrow> BuildArguments \<Rightarrow> 'db \<Rightarrow>
   (('d, 'x) PayloadBuilderError option + ScrollBuiltPayload) option" where
  "build_empty_payload pe cf args db =
     (let pe = pe\<lparr>pe_best := (pe_best pe)\<lparr>bt_next := (\<lambda>_. None)\<rparr>, pe_cancelled := (\<lambda>_. False)\<rparr>;
          args = args\<lparr>ba_best_payload := None, ba_trie_root := None\<rparr> in
      map_option (\<lambda>r. case r of
          Inl e \<Rightarrow> Inl (Some e)
        | Inr (Freeze payload) \<Rightarrow> Inr payload
        | Inr (Better payload) \<Rightarrow> Inr payload
        | Inr _ \<Rightarrow> Inl None)
        (build_payload pe cf args db))"

end
