(* ===== verification/Built_Blocks.thy ===== *)
theory Built_Blocks
  imports Builder "HOL-Library.Sublist"
begin

text \<open>
  Correctness of the payload builder. The invariant \<open>builder_core\<close> links the executor, the
  transaction list and the code witness meter of a build; \<open>gas_linked\<close> says that the builder's
  own gas counter is the executor's. Every phase preserves them, and the properties at the end
  read the contents and the budgets of a built block off the invariant.
\<close>

section \<open>Laws of the parameters\<close>

definition payload_laws :: "('db, 'l1, 'd, 'x, 'i, 'b, 'p) payload_env \<Rightarrow> bool" where
  "payload_laws pe \<longleftrightarrow>
     (\<forall>insp. evm_laws (pe_evm pe insp)) \<and> alloy_tx_laws (ee_tx (pe_env pe)) \<and>
     (\<forall>tx. gas_limit_agrees (ee_tx (pe_env pe)) (executable_of pe tx)) \<and>
     (\<forall>p. env_eip2718_encoded_length (pe_rlp pe) (pe_codec pe)
        (fst (bt_to_consensus (pe_best pe) p)) < 2 ^ 64)"

lemma payload_lawsD:
  assumes "payload_laws pe"
  shows "evm_laws (ee_evm (metered_env pe b))" "alloy_tx_laws (ee_tx (metered_env pe b))"
    "gas_limit_agrees (ee_tx (metered_env pe b)) (executable_of pe tx)"
    "env_eip2718_encoded_length (pe_rlp pe) (pe_codec pe) (fst (bt_to_consensus (pe_best pe) p)) < 2 ^ 64"
  using assms by (cases tx; simp add: payload_laws_def metered_env_def)+

section \<open>The invariant\<close>

definition builder_core :: "BlockEnv \<Rightarrow> b256 \<Rightarrow> u64 \<Rightarrow> ('db, 'l1) builder \<Rightarrow> bool" where
  "builder_core blk ph limit b \<longleftrightarrow>
     (let ex = bu_exec b; m = builder_meter b in
      ev_block (ex_evm ex) = blk \<and> ex_parent_hash ex = ph \<and> ex_gas_used ex \<le> be_gas_limit blk \<and>
      last_cumulative_gas (ex_receipts ex) = ex_gas_used ex \<and>
      map receipt_tx_type (ex_receipts ex) = map (\<lambda>tx. env_tx_type (fst tx)) (bu_txs b) \<and>
      meter_wf m \<and> mt_max_code_bytes m = limit)"

definition gas_linked :: "('db, 'l1) builder \<Rightarrow> bool" where
  "gas_linked b \<longleftrightarrow> xi_cumulative_gas_used (bu_info b) = ex_gas_used (bu_exec b)"

lemma builder_meter_simps [simp]:
  "builder_meter (on_meter f b) = f (builder_meter b)"
  "builder_meter (b\<lparr>bu_exec := ex\<rparr>) = builder_meter b"
  "builder_meter (b\<lparr>bu_txs := txs\<rparr>) = builder_meter b"
  "builder_meter (b\<lparr>bu_info := info\<rparr>) = builder_meter b"
  "builder_meter (b\<lparr>bu_insp := insp\<rparr>) = ci_meter insp"
  by (simp_all add: builder_meter_def on_meter_def)

lemma on_meter_fields [simp]:
  "bu_exec (on_meter f b) = bu_exec b" "bu_txs (on_meter f b) = bu_txs b"
  "bu_info (on_meter f b) = bu_info b"
  by (simp_all add: on_meter_def)

lemma record_simps [simp]:
  "bu_exec (record_forced g n b) = bu_exec b" "bu_txs (record_forced g n b) = bu_txs b"
  "builder_meter (record_forced g n b) = builder_meter b"
  "bu_exec (record_pool pe tx g f b) = bu_exec b" "bu_txs (record_pool pe tx g f b) = bu_txs b"
  "builder_meter (record_pool pe tx g f b) = builder_meter b"
  by (simp_all add: record_forced_def record_pool_def Let_def)

section \<open>One transaction\<close>

lemma execute_without_commit_frame:
  assumes laws: "evm_laws (ee_evm ee)"
    and run: "execute_transaction_without_commit ee t ex = (res, ex')"
  shows "ex_gas_used ex' = ex_gas_used ex" "ex_receipts ex' = ex_receipts ex"
    "ev_block (ex_evm ex') = ev_block (ex_evm ex)" "ex_parent_hash ex' = ex_parent_hash ex"
proof -
  obtain env tx where t: "t = (env, tx)" by fastforce
  let ?evm = "with_nonce_check (env_ty (ee_tx ee) tx \<noteq> L1_MESSAGE_TRANSACTION_TYPE)
      (with_base_fee_check (env_ty (ee_tx ee) tx \<noteq> L1_MESSAGE_TRANSACTION_TYPE) (ex_evm ex))"
  obtain r evm' where r: "transact_raw (ee_evm ee) env ?evm = (r, evm')" by fastforce
  have "ev_block evm' = ev_block (ex_evm ex)"
    using transact_raw_law(1) [OF laws r]
    by (simp add: evm_frame_def with_nonce_check_def with_base_fee_check_def)
  moreover have "ex' = ex \<or> ex' = ex\<lparr>ex_evm := evm'\<rparr>"
    using run r by (auto simp: t execute_transaction_without_commit_def Let_def
        split: if_splits sum.splits option.splits)
  ultimately show "ex_gas_used ex' = ex_gas_used ex" "ex_receipts ex' = ex_receipts ex"
    "ev_block (ex_evm ex') = ev_block (ex_evm ex)" "ex_parent_hash ex' = ex_parent_hash ex"
    by auto
qed

lemma commit_parent_hash:
  "commit_transaction ee out ex = (res, ex') \<Longrightarrow> ex_parent_hash ex' = ex_parent_hash ex"
  by (auto simp: commit_transaction_def Let_def split: prod.splits option.splits)

text \<open>What the conditional execution of a transaction does to the builder.\<close>

lemma execute_condition_cases:
  fixes b b' :: "('db, 'l1) builder"
  assumes laws: "payload_laws pe" and core: "builder_core blk ph limit b"
    and run: "execute_transaction_with_commit_condition pe tx code_witness_commit b = (outcome, b')"
    and ok: "outcome \<noteq> None"
  shows "bu_info b' = bu_info b \<and>
    bu_insp b' = run_hooks (pe_interp pe) (pe_tx_hooks pe (bu_insp b) (executable_of pe tx) (bu_exec b)) (bu_insp b) \<and>
    ev_block (ex_evm (bu_exec b')) = blk \<and> ex_parent_hash (bu_exec b') = ph \<and>
    (case outcome of
       Some (Inr (Some g)) \<Rightarrow>
         code_exceeded (builder_meter b') = None \<and> bu_txs b' = bu_txs b @ [tx] \<and>
         unat (ex_gas_used (bu_exec b')) = unat (ex_gas_used (bu_exec b)) + unat g \<and>
         ex_gas_used (bu_exec b') \<le> be_gas_limit blk \<and>
         last_cumulative_gas (ex_receipts (bu_exec b')) = ex_gas_used (bu_exec b') \<and>
         map receipt_tx_type (ex_receipts (bu_exec b')) =
           map receipt_tx_type (ex_receipts (bu_exec b)) @ [env_tx_type (fst tx)]
     | _ \<Rightarrow> bu_txs b' = bu_txs b \<and> ex_gas_used (bu_exec b') = ex_gas_used (bu_exec b) \<and>
         ex_receipts (bu_exec b') = ex_receipts (bu_exec b))"
proof -
  let ?ee = "metered_env pe b" and ?t = "executable_of pe tx"
  let ?insp = "run_hooks (pe_interp pe) (pe_tx_hooks pe (bu_insp b) ?t (bu_exec b)) (bu_insp b)"
  obtain res ex1 where wo: "execute_transaction_without_commit ?ee ?t (bu_exec b) = (res, ex1)" by fastforce
  note frame = execute_without_commit_frame [OF payload_lawsD(1) [OF laws] wo]
  have blk: "ev_block (ex_evm (bu_exec b)) = blk" "ex_gas_used (bu_exec b) \<le> be_gas_limit blk"
    "ex_parent_hash (bu_exec b) = ph"
    using core by (simp_all add: builder_core_def Let_def)
  show ?thesis
  proof (cases "\<exists>out. res = Some (Inr out) \<and> code_witness_commit (ci_meter ?insp)")
    case False
    then show ?thesis
      using run ok frame blk
      by (cases res) (auto simp: execute_transaction_with_commit_condition_def wo Let_def split: sum.splits)
  next
    case True
    then obtain out where out: "res = Some (Inr out)" and commit: "code_witness_commit (ci_meter ?insp)" by blast
    obtain c ex2 where co: "commit_transaction ?ee out ex1 = (c, ex2)" by fastforce
    have "\<exists>g. c = Some (Inr g)"
      using run ok co out commit wo
      by (auto simp: execute_transaction_with_commit_condition_def commit_transaction_def Let_def
          split: option.splits prod.splits if_splits)
    then obtain g where g: "c = Some (Inr g)" by blast
    have b': "outcome = Some (Inr (Some g))"
      "b' = b\<lparr>bu_insp := ?insp, bu_exec := ex2, bu_txs := bu_txs b @ [tx]\<rparr>"
      using run co out commit wo g
      by (simp_all add: execute_transaction_with_commit_condition_def Let_def)
    have whole: "execute_transaction ?ee ?t (bu_exec b) = (Some (Inr g), ex2)"
      using wo co out g by (simp add: execute_transaction_def run_bind_def)
    have "ex_gas_used (bu_exec b) \<le> be_gas_limit (ev_block (ex_evm (bu_exec b)))"
      using blk by simp
    from payload_lawsD(1,2,3) [OF laws] this whole show ?thesis
    proof (rule execute_transaction_step)
      fix rc
      assume s: "unat (ex_gas_used ex2) = unat (ex_gas_used (bu_exec b)) + unat g"
        "ex_gas_used ex2 \<le> be_gas_limit (ev_block (ex_evm ex2))"
        "ev_block (ex_evm ex2) = ev_block (ex_evm (bu_exec b))"
        "ex_receipts ex2 = ex_receipts (bu_exec b) @ [rc]"
        "receipt_cumulative_gas_used rc = ex_gas_used ex2"
        "receipt_tx_type rc = env_tx_type (snd ?t)"
      then show ?thesis
        using b' commit blk commit_parent_hash [OF co] frame(4)
        by (simp add: executable_of_def code_witness_commit_def builder_meter_def split: if_splits)
    qed
  qed
qed

text \<open>The budgeted execution: a committed transaction extends the block and the meter accepts it, any
  other outcome leaves the block as it was and the meter forgets the candidate.\<close>

lemma execute_budget_step:
  fixes b b' :: "('db, 'l1) builder"
  assumes laws: "payload_laws pe" and core: "builder_core blk ph limit b"
    and run: "execute_with_code_budget pe tx b = (outcome, b')" and ok: "outcome \<noteq> None"
  shows "builder_core blk ph limit b' \<and> bu_info b' = bu_info b \<and>
    (case outcome of
       Some (Inr (Some g)) \<Rightarrow> bu_txs b' = bu_txs b @ [tx] \<and>
         unat (ex_gas_used (bu_exec b')) = unat (ex_gas_used (bu_exec b)) + unat g
     | _ \<Rightarrow> bu_txs b' = bu_txs b \<and> ex_gas_used (bu_exec b') = ex_gas_used (bu_exec b) \<and>
         block_code_bytes (builder_meter b') = block_code_bytes (builder_meter b))"
proof -
  let ?b0 = "on_meter begin_transaction b"
  obtain out b1 where ex: "execute_transaction_with_commit_condition pe tx code_witness_commit ?b0 = (out, b1)"
    by fastforce
  have wf: "meter_wf (builder_meter b)" "mt_max_code_bytes (builder_meter b) = limit"
    using core by (simp_all add: builder_core_def Let_def)
  have core0: "builder_core blk ph limit ?b0"
    using core by (auto simp: builder_core_def Let_def meter_wf_def)
  have out: "out = outcome" and b': "b' = on_meter (if \<exists>g. outcome = Some (Inr (Some g))
        then \<lambda>m. snd (accept_transaction m) else reject_transaction) b1"
    using run ok ex
    by (auto simp: execute_with_code_budget_def Let_def split: option.splits sum.splits)
  note cases = execute_condition_cases [OF laws core0 ex, unfolded out, OF ok]
  obtain es where m1: "builder_meter b1 = apply_events es (begin_transaction (builder_meter b))"
    using cases by (metis builder_meter_def builder_meter_simps(1) run_hooks_events)
  have settled: "meter_wf (builder_meter b') \<and> mt_max_code_bytes (builder_meter b') = limit \<and>
      ((\<nexists>g. outcome = Some (Inr (Some g))) \<longrightarrow>
        block_code_bytes (builder_meter b') = block_code_bytes (builder_meter b))"
    using meter.settled [OF wf(1) m1, of "builder_meter b'" "\<exists>g. outcome = Some (Inr (Some g))"] wf(2)
    by (simp add: b')
  have old: "last_cumulative_gas (ex_receipts (bu_exec b)) = ex_gas_used (bu_exec b)"
    "map receipt_tx_type (ex_receipts (bu_exec b)) = map (\<lambda>tx. env_tx_type (fst tx)) (bu_txs b)"
    "ex_gas_used (bu_exec b) \<le> be_gas_limit blk"
    using core by (simp_all add: builder_core_def Let_def)
  show ?thesis
  proof (cases "\<exists>g. outcome = Some (Inr (Some g))")
    case True
    then show ?thesis
      using cases settled old by (auto simp: builder_core_def Let_def b')
  next
    case False
    then have "bu_txs b' = bu_txs b \<and> ex_gas_used (bu_exec b') = ex_gas_used (bu_exec b) \<and>
        ex_receipts (bu_exec b') = ex_receipts (bu_exec b) \<and> ev_block (ex_evm (bu_exec b')) = blk \<and>
        ex_parent_hash (bu_exec b') = ph \<and> bu_info b' = bu_info b"
      using cases by (auto simp: b' split: option.splits sum.splits)
    then show ?thesis
      using False settled old
      by (auto simp: builder_core_def Let_def split: option.splits sum.splits)
  qed
qed

lemma gas_linked_record:
  assumes "gas_linked b" and "bu_info b' = bu_info b"
    and "unat (ex_gas_used (bu_exec b')) = unat (ex_gas_used (bu_exec b)) + unat g"
  shows "gas_linked (record_forced g n b')" "gas_linked (record_pool pe tx g f b')"
proof -
  have "unat (ex_gas_used (bu_exec b) + g) = unat (ex_gas_used (bu_exec b'))"
    using assms(3) unat_le_max [of "ex_gas_used (bu_exec b')"] by (simp add: unat_add_small)
  then have "ex_gas_used (bu_exec b) + g = ex_gas_used (bu_exec b')" by (rule word_eq_unatI)
  then show "gas_linked (record_forced g n b')" "gas_linked (record_pool pe tx g f b')"
    using assms(1,2)
    by (simp_all add: gas_linked_def record_forced_def record_pool_def record_tx_def Let_def)
qed

lemma gas_linked_cong:
  "gas_linked b \<Longrightarrow> bu_info b' = bu_info b \<Longrightarrow> ex_gas_used (bu_exec b') = ex_gas_used (bu_exec b) \<Longrightarrow>
   gas_linked b'"
  by (simp add: gas_linked_def)

lemma builder_core_record [simp]:
  "builder_core blk ph limit (record_forced g n b) = builder_core blk ph limit b"
  "builder_core blk ph limit (record_pool pe tx g f b) = builder_core blk ph limit b"
  by (simp_all add: builder_core_def Let_def)

section \<open>The loops\<close>

abbreviation da_used :: "('db, 'l1) builder \<Rightarrow> nat" where
  "da_used b \<equiv> unat (xi_cumulative_da_bytes_used (bu_info b))"

definition forced_bytes_of :: "(bytes \<times> ScrollTxEnvelope) list \<Rightarrow> nat" where
  "forced_bytes_of fs = (\<Sum>f\<leftarrow>fs. length (fst f))"

definition pool_bytes_of ::
  "('db, 'l1, 'd, 'x, 'i, 'b, 'p) payload_env \<Rightarrow> (ScrollTxEnvelope \<times> address) list \<Rightarrow> nat" where
  "pool_bytes_of pe ps = (\<Sum>p\<leftarrow>ps. env_eip2718_encoded_length (pe_rlp pe) (pe_codec pe) (fst p))"

lemma bytes_of_simps [simp]:
  "forced_bytes_of [] = 0" "forced_bytes_of (f # fs) = length (fst f) + forced_bytes_of fs"
  "pool_bytes_of pe [] = 0"
  "pool_bytes_of pe (p # ps) =
     env_eip2718_encoded_length (pe_rlp pe) (pe_codec pe) (fst p) + pool_bytes_of pe ps"
  by (simp_all add: forced_bytes_of_def pool_bytes_of_def)

text \<open>One turn of the forced loop that goes on: the transaction is committed or refused by the EVM as
  invalid, and the rest is executed after it.\<close>

definition refused_as_invalid ::
  "('db, 'l1, 'd, 'x, 'i, 'b, 'p) payload_env \<Rightarrow> ('d, 'x) BlockExecutionError \<Rightarrow> bool" where
  "refused_as_invalid pe e \<longleftrightarrow>
     (\<exists>h. e = Eip4844NotSupported h) \<or> (\<exists>err h. e = EvmError err h \<and> pe_invalid_tx pe err)"

lemma forced_loop_turn:
  assumes run: "forced_loop pe cf lim (f # rest) fg b = (Some (Inr ()), b')"
  obtains signer out b1 b2 fg1 where
    "env_ty (ee_tx (pe_env pe)) (snd f) \<noteq> 3" "env_recover_signer (pe_codec pe) (snd f) = Inr signer"
    "execute_with_code_budget pe (snd f, signer) b = (Some out, b1)"
    "(\<exists>g. out = Inr (Some g) \<and> b2 = record_forced g (of_nat (length (fst f))) b1) \<or>
     (\<exists>e. out = Inl e \<and> refused_as_invalid pe e \<and> b2 = b1)"
    "\<forall>xs. forced_loop pe cf lim (f # xs) fg b = forced_loop pe cf lim xs fg1 b2"
proof -
  have ty: "env_ty (ee_tx (pe_env pe)) (snd f) \<noteq> 3" using run by (auto simp: Let_def)
  obtain signer where signer: "env_recover_signer (pe_codec pe) (snd f) = Inr signer"
    using run ty by (auto simp: Let_def split: sum.splits)
  have gas: "\<not> lim < saturating_add (xi_cumulative_gas_used (bu_info b)) (env_gas_limit (ee_tx (pe_env pe)) (snd f))"
    using run ty signer by (auto simp: Let_def)
  obtain out b1 where ex: "execute_with_code_budget pe (snd f, signer) b = (Some out, b1)"
    using run ty signer gas by (auto simp: Let_def split: prod.splits option.splits)
  note turn = ty signer ex
  show thesis
  proof (cases out)
    case (Inl e)
    then have "is_invalid_tx pe e" using run ty signer gas ex by (auto simp: Let_def split: if_splits)
    then show thesis
      using that [OF turn, of b1 fg] Inl ty signer gas ex
      by (auto simp: Let_def is_invalid_tx_def refused_as_invalid_def split: BlockExecutionError.splits)
  next
    case (Inr gas_used)
    then obtain g where "gas_used = Some g"
      using run ty signer gas ex by (cases gas_used) (auto simp: Let_def forced_code_budget_result_def)
    then show thesis
      using that [OF turn, of "record_forced g (of_nat (length (fst f))) b1" "fg @ [g]"] Inr ty signer gas ex
      by (auto simp: Let_def forced_code_budget_result_def)
  qed
qed

text \<open>What happened to the \<open>i\<close>th forced transaction, when the loop started in \<open>b\<close> and the transactions
  with an index in \<open>taken\<close> are in the block: in the state that the transactions before it leave, it was
  committed, or the EVM refused it as invalid.\<close>

definition forced_fate ::
  "('db, 'l1, 'd, 'x, 'i, 'b, 'p) payload_env \<Rightarrow> ScrollBuilderConfig \<Rightarrow> u64 \<Rightarrow> (bytes \<times> ScrollTxEnvelope) list \<Rightarrow>
   u64 list \<Rightarrow> ('db, 'l1) builder \<Rightarrow> nat set \<Rightarrow> nat \<Rightarrow> bool" where
  "forced_fate pe cf lim forced fg b taken i \<longleftrightarrow>
     env_ty (ee_tx (pe_env pe)) (snd (forced ! i)) \<noteq> 3 \<and>
     (\<exists>signer bi. env_recover_signer (pe_codec pe) (snd (forced ! i)) = Inr signer \<and>
        forced_loop pe cf lim (take i forced) fg b = (Some (Inr ()), bi) \<and>
        map fst (bu_txs bi) = map fst (bu_txs b) @ map snd (nths (take i forced) taken) \<and>
        (if i \<in> taken then \<exists>g b'. execute_with_code_budget pe (snd (forced ! i), signer) bi = (Some (Inr (Some g)), b')
         else \<exists>e b'. execute_with_code_budget pe (snd (forced ! i), signer) bi = (Some (Inl e), b') \<and>
           refused_as_invalid pe e))"

lemma forced_loop_contents:
  assumes laws: "payload_laws pe"
  shows "forced_loop pe cf lim rest fg b = (Some (Inr ()), b') \<Longrightarrow>
    builder_core blk ph limit b \<Longrightarrow> gas_linked b \<Longrightarrow> da_used b + forced_bytes_of rest < 2 ^ 64 \<Longrightarrow>
    \<exists>taken. map fst (bu_txs b') = map fst (bu_txs b) @ map snd (nths rest taken) \<and>
      (\<forall>i < length rest. forced_fate pe cf lim rest fg b taken i) \<and>
      builder_core blk ph limit b' \<and> gas_linked b' \<and> da_used b' = da_used b + forced_bytes_of (nths rest taken)"
proof (induction rest arbitrary: fg b)
  case Nil
  then show ?case by simp
next
  case (Cons f rest)
  from Cons.prems(1) obtain signer out b1 b2 fg1 where
    ty: "env_ty (ee_tx (pe_env pe)) (snd f) \<noteq> 3" and signer: "env_recover_signer (pe_codec pe) (snd f) = Inr signer"
    and ex: "execute_with_code_budget pe (snd f, signer) b = (Some out, b1)"
    and cont: "(\<exists>g. out = Inr (Some g) \<and> b2 = record_forced g (of_nat (length (fst f))) b1) \<or>
     (\<exists>e. out = Inl e \<and> refused_as_invalid pe e \<and> b2 = b1)"
    and turn: "\<forall>xs. forced_loop pe cf lim (f # xs) fg b = forced_loop pe cf lim xs fg1 b2"
    by (rule forced_loop_turn)
  note loop = turn [rule_format]
  define c where "c \<longleftrightarrow> (\<exists>g. out = Inr (Some g))"
  note step = execute_budget_step [OF laws Cons.prems(2) ex]
  have "builder_core blk ph limit b2 \<and> gas_linked b2 \<and>
      map fst (bu_txs b2) = map fst (bu_txs b) @ (if c then [snd f] else []) \<and>
      da_used b2 = da_used b + (if c then length (fst f) else 0) \<and>
      (if c then \<exists>g. out = Inr (Some g) else \<exists>e. out = Inl e \<and> refused_as_invalid pe e)"
    using cont
  proof (elim disjE exE conjE)
    fix g
    assume out: "out = Inr (Some g)" and b2: "b2 = record_forced g (of_nat (length (fst f))) b1"
    have "da_used b2 = da_used b + length (fst f)"
      using Cons.prems(4) step out by (simp add: b2 record_forced_def unat_add_small unat_of_nat_small)
    then show ?thesis
      using step out Cons.prems(3) by (simp add: gas_linked_record [of b] b2 c_def)
  next
    fix e
    assume "out = Inl e" "refused_as_invalid pe e" "b2 = b1"
    then show ?thesis
      using step by (simp add: c_def gas_linked_cong [OF Cons.prems(3)])
  qed
  then have st: "builder_core blk ph limit b2" "gas_linked b2"
    and txs: "map fst (bu_txs b2) = map fst (bu_txs b) @ (if c then [snd f] else [])"
    and da: "da_used b2 = da_used b + (if c then length (fst f) else 0)"
    and fate: "if c then \<exists>g. out = Inr (Some g) else \<exists>e. out = Inl e \<and> refused_as_invalid pe e"
    by blast+
  have "da_used b2 + forced_bytes_of rest < 2 ^ 64" using Cons.prems(4) da by (simp split: if_splits)
  from Cons.IH [OF Cons.prems(1) [unfolded loop] st this] obtain taken where
    IH: "map fst (bu_txs b') = map fst (bu_txs b2) @ map snd (nths rest taken)"
      "builder_core blk ph limit b'" "gas_linked b'" "da_used b' = da_used b2 + forced_bytes_of (nths rest taken)"
    and fates: "\<forall>i < length rest. forced_fate pe cf lim rest fg1 b2 taken i" by blast
  define all where "all = Suc ` taken \<union> (if c then {0} else {})"
  have nths: "nths (f # xs) all = (if c then [f] else []) @ nths xs taken" for xs
    by (auto simp: nths_Cons all_def image_iff)
  have "forced_fate pe cf lim (f # rest) fg b all i" if "i < length (f # rest)" for i
  proof (cases i)
    case 0
    have "0 \<in> all \<longleftrightarrow> c" by (auto simp: all_def)
    then show ?thesis using ty signer ex fate by (auto simp: 0 forced_fate_def)
  next
    case (Suc j)
    have "Suc j \<in> all \<longleftrightarrow> j \<in> taken" by (auto simp: all_def)
    moreover have "map snd (nths (f # take j rest) all) = (if c then [snd f] else []) @ map snd (nths (take j rest) taken)"
      by (simp add: nths)
    ultimately show ?thesis
      using fates that txs
      by (simp add: Suc forced_fate_def loop if_bool_eq_conj [of "_ \<in> taken"] del: forced_loop.simps split del: if_split)
  qed
  moreover have "map fst (bu_txs b') = map fst (bu_txs b) @ map snd (nths (f # rest) all)"
    "da_used b' = da_used b + forced_bytes_of (nths (f # rest) all)"
    using IH(1,4) txs da by (simp_all add: nths)
  ultimately show ?case using IH(2,3) by blast
qed

text \<open>One turn of the pool loop: it ends, goes on without the transaction, or goes on with it.\<close>

lemma pool_loop_turn:
  assumes run: "pool_loop pe cf lim fee bk (Suc n) i best b = (Some (Inr e), b')"
  obtains (stop) "b' = b"
    | (skip) best1 i1 where "pool_loop pe cf lim fee bk n i1 best1 b = (Some (Inr e), b')"
    | (reject) tx out b1 best1 i1 where
        "execute_with_code_budget pe tx b = (Some out, b1)" "\<nexists>g. out = Inr (Some g)"
        "pool_loop pe cf lim fee bk n i1 best1 b1 = (Some (Inr e), b')"
    | (commit) p tx g f b1 best1 i1 where
        "tx = bt_to_consensus (pe_best pe) p" "\<not> env_is_l1_message (fst tx)"
        "\<not> is_tx_over_limits (pe_rlp pe) (pe_codec pe) (ee_tx (pe_env pe)) (fst tx) lim
           (cf_max_da_block_size cf) (bu_info b)"
        "execute_with_code_budget pe tx b = (Some (Inr (Some g)), b1)"
        "pool_loop pe cf lim fee bk n i1 best1 (record_pool pe (fst tx) g f b1) = (Some (Inr e), b')"
proof (cases "bt_next (pe_best pe) best")
  case None
  then show ?thesis using run stop by simp
next
  case (Some pb)
  obtain p best1 where pb: "pb = (p, best1)" by fastforce
  let ?tx = "bt_to_consensus (pe_best pe) p"
  obtain res b1 where ex: "execute_with_code_budget pe ?tx b = (res, b1)" by fastforce
  consider "is_tx_over_limits (pe_rlp pe) (pe_codec pe) (ee_tx (pe_env pe)) (fst ?tx) lim
        (cf_max_da_block_size cf) (bu_info b) \<or> env_ty (ee_tx (pe_env pe)) (fst ?tx) = 3 \<or>
        env_is_l1_message (fst ?tx)"
    | "\<not> is_tx_over_limits (pe_rlp pe) (pe_codec pe) (ee_tx (pe_env pe)) (fst ?tx) lim
        (cf_max_da_block_size cf) (bu_info b)" "env_ty (ee_tx (pe_env pe)) (fst ?tx) \<noteq> 3"
        "\<not> env_is_l1_message (fst ?tx)"
    by blast
  then show ?thesis
  proof cases
    case 1
    then show ?thesis using run Some pb skip by (simp add: Let_def)
  next
    case 2
    show ?thesis
      using run 2 commit [OF refl 2(3,1), of _ b1] reject [of ?tx _ b1] stop ex
      by (auto simp: Some pb Let_def split: if_splits option.splits sum.splits)
  qed
qed

definition da_within ::
  "('db, 'l1, 'd, 'x, 'i, 'b, 'p) payload_env \<Rightarrow> u64 option \<Rightarrow> ('db, 'l1) builder \<Rightarrow>
   (ScrollTxEnvelope \<times> address) list \<Rightarrow> ('db, 'l1) builder \<Rightarrow> bool" where
  "da_within pe lim b ps b' \<longleftrightarrow>
     (\<forall>l. lim = Some l \<and> unat l < 2 ^ 64 - 1 \<and> da_used b \<le> unat l \<longrightarrow>
        da_used b' = da_used b + pool_bytes_of pe ps \<and> da_used b' \<le> unat l)"

lemma da_within_include:
  assumes laws: "payload_laws pe" and tx: "tx = bt_to_consensus (pe_best pe) p"
    and fits: "\<not> is_tx_over_limits (pe_rlp pe) (pe_codec pe) (ee_tx (pe_env pe)) (fst tx) lim
      (cf_max_da_block_size cf) (bu_info b)"
    and info: "bu_info b1 = bu_info b"
    and rest: "da_within pe (cf_max_da_block_size cf) (record_pool pe (fst tx) g f b1) ps b'"
  shows "da_within pe (cf_max_da_block_size cf) b (tx # ps) b'"
  unfolding da_within_def
proof (intro allI impI)
  fix l
  assume l: "cf_max_da_block_size cf = Some l \<and> unat l < 2 ^ 64 - 1 \<and> da_used b \<le> unat l"
  let ?n = "env_eip2718_encoded_length (pe_rlp pe) (pe_codec pe) (fst tx)"
  let ?b2 = "record_pool pe (fst tx) g f b1"
  have n: "unat (of_nat ?n :: u64) = ?n"
    using payload_lawsD(4) [OF laws, of p] tx by (simp add: unat_of_nat_small)
  then have le: "da_used b + ?n \<le> unat l"
    using fits l by (simp add: is_tx_over_limits_def word_less_nat_alt sat_simps)
  then have "da_used ?b2 = da_used b + ?n"
    using n l info by (simp add: record_pool_def record_tx_def Let_def unat_add_small)
  then show "da_used b' = da_used b + pool_bytes_of pe (tx # ps) \<and> da_used b' \<le> unat l"
    using rest l le by (simp add: da_within_def)
qed

text \<open>The items an iterator yields while its client, after each one, may mark it invalid.\<close>

inductive yields :: "('b, 'p) best_api \<Rightarrow> 'b \<Rightarrow> 'p list \<Rightarrow> bool" for bt :: "('b, 'p) best_api" where
  yields_nil: "yields bt best []"
| yields_item: "bt_next bt best = Some (p, best0) \<Longrightarrow> yields bt best0 ps \<Longrightarrow> yields bt best (p # ps)"
| yields_marked: "bt_next bt best = Some (p, best0) \<Longrightarrow> yields bt (bt_mark_invalid bt p k best0) ps \<Longrightarrow>
    yields bt best (p # ps)"

text \<open>A candidate the loop passes over without looking at the clock.\<close>

definition filtered ::
  "('db, 'l1, 'd, 'x, 'i, 'b, 'p) payload_env \<Rightarrow> ScrollBuilderConfig \<Rightarrow> u64 \<Rightarrow> ExecutionInfo \<Rightarrow> 'p \<Rightarrow> bool" where
  "filtered pe cf lim info p \<longleftrightarrow>
     (let tx = fst (bt_to_consensus (pe_best pe) p) in
      is_tx_over_limits (pe_rlp pe) (pe_codec pe) (ee_tx (pe_env pe)) tx lim (cf_max_da_block_size cf) info \<or>
      env_ty (ee_tx (pe_env pe)) tx = 3 \<or> env_is_l1_message tx)"

text \<open>One turn of the loop with the item it takes: the loop ends, the item is filtered, or it is executed
  before the deadline and the loop goes on with or without it.\<close>

lemma pool_loop_item:
  assumes run: "pool_loop pe cf lim fee bk (Suc n) i best b = (Some (Inr e), b')"
  obtains (stop) "b' = b" "e \<noteq> PoolOutOfFuel"
    | (filter) p best0 k where "bt_next (pe_best pe) best = Some (p, best0)" "filtered pe cf lim (bu_info b) p"
        "pool_loop pe cf lim fee bk n (Suc i) (bt_mark_invalid (pe_best pe) p k best0) b = (Some (Inr e), b')"
    | (execute) p best0 best1 out b1 b2 where "bt_next (pe_best pe) best = Some (p, best0)"
        "best1 = best0 \<or> (\<exists>k. best1 = bt_mark_invalid (pe_best pe) p k best0)"
        "\<not> filtered pe cf lim (bu_info b) p" "\<not> pe_cancelled pe i"
        "\<not> should_break (pe_min_transaction_gas pe) bk (pe_clock pe (Suc i))
           (xi_cumulative_gas_used (bu_info b)) (xi_cumulative_da_bytes_used (bu_info b))"
        "execute_with_code_budget pe (bt_to_consensus (pe_best pe) p) b = (Some out, b1)"
        "(\<exists>g f. out = Inr (Some g) \<and> b2 = record_pool pe (fst (bt_to_consensus (pe_best pe) p)) g f b1) \<or>
         (\<nexists>g. out = Inr (Some g)) \<and> b2 = b1"
        "pool_loop pe cf lim fee bk n (Suc i) best1 b2 = (Some (Inr e), b')"
proof (cases "bt_next (pe_best pe) best")
  case None
  then show ?thesis using run stop by simp
next
  case (Some pb)
  obtain p best0 where pb: "pb = (p, best0)" by fastforce
  note next_item = Some [unfolded pb]
  let ?tx = "bt_to_consensus (pe_best pe) p"
  obtain res b1 where ex: "execute_with_code_budget pe ?tx b = (res, b1)" by fastforce
  show ?thesis
  proof (cases "filtered pe cf lim (bu_info b) p")
    case True
    then show ?thesis
      using run filter [OF next_item True] by (simp add: next_item filtered_def Let_def)
  next
    case False
    note f = False [unfolded filtered_def Let_def]
    show ?thesis
    proof (cases "pe_cancelled pe i \<or> should_break (pe_min_transaction_gas pe) bk (pe_clock pe (Suc i))
           (xi_cumulative_gas_used (bu_info b)) (xi_cumulative_da_bytes_used (bu_info b))")
      case True
      then show ?thesis using run stop f by (auto simp: next_item Let_def split: if_splits)
    next
      case on: False
      note go = execute [OF next_item _ False]
      from on obtain out where out: "execute_with_code_budget pe ?tx b = (Some out, b1)"
        using run f ex by (cases res) (auto simp: next_item Let_def)
      consider (commit) g where "out = Inr (Some g)" | (over) "out = Inr None" | (error) err where "out = Inl err"
        by (metis not_Some_eq sum.exhaust)
      then show ?thesis
      proof cases
        case commit
        then obtain f where "pool_loop pe cf lim fee bk n (Suc i) best0 (record_pool pe (fst ?tx) g f b1) = (Some (Inr e), b')"
          using run f out on by (auto simp: next_item Let_def split: option.splits)
        then show ?thesis using on out commit by (intro go) auto
      next
        case over
        then show ?thesis using run f out on by (intro go) (auto simp: next_item Let_def)
      next
        case error
        then show ?thesis using run f out on
          by (cases "is_nonce_too_low pe err"; intro go) (auto simp: next_item Let_def split: if_splits)
      qed
    qed
  qed
qed

lemma yields_step:
  assumes "bt_next bt best = Some (p, best0)" and "best1 = best0 \<or> (\<exists>k. best1 = bt_mark_invalid bt p k best0)"
    and "yields bt best1 ps"
  shows "yields bt best (p # ps)"
  using assms yields_item [of bt best p best0 ps] yields_marked [of bt best p best0 _ ps] by blast

lemma pool_loop_contents:
  assumes laws: "payload_laws pe"
  shows "pool_loop pe cf lim fee bk n i best b = (Some (Inr e), b') \<Longrightarrow>
    builder_core blk ph limit b \<Longrightarrow> gas_linked b \<Longrightarrow>
    \<exists>items ps. yields (pe_best pe) best items \<and> subseq ps (map (bt_to_consensus (pe_best pe)) items) \<and>
      bu_txs b' = bu_txs b @ ps \<and>
      (\<forall>p \<in> set ps. env_ty (ee_tx (pe_env pe)) (fst p) \<noteq> 3 \<and> \<not> env_is_l1_message (fst p)) \<and>
      builder_core blk ph limit b' \<and> gas_linked b' \<and> da_within pe (cf_max_da_block_size cf) b ps b'"
proof (induction n arbitrary: i best b)
  case 0
  then show ?case
    by (intro exI [of _ "[]"] conjI) (simp_all add: da_within_def yields_nil)
next
  case (Suc n)
  from Suc.prems(1) show ?case
  proof (cases rule: pool_loop_item)
    case stop
    then show ?thesis using Suc.prems
      by (intro exI [of _ "[]"] conjI) (simp_all add: da_within_def yields_nil)
  next
    case (filter p best0 k)
    from Suc.IH [OF filter(3) Suc.prems(2,3)] obtain items ps where
      "yields (pe_best pe) (bt_mark_invalid (pe_best pe) p k best0) items" "subseq ps (map (bt_to_consensus (pe_best pe)) items)"
      "bu_txs b' = bu_txs b @ ps" "\<forall>p \<in> set ps. env_ty (ee_tx (pe_env pe)) (fst p) \<noteq> 3 \<and> \<not> env_is_l1_message (fst p)"
      "builder_core blk ph limit b'" "gas_linked b'" "da_within pe (cf_max_da_block_size cf) b ps b'"
      by blast
    then show ?thesis
      using yields_marked [OF filter(1), of k items]
      by (intro exI [of _ "p # items"] exI [of _ ps]) (simp add: list_emb_Cons)
  next
    case (execute p best0 best1 out b1 b2)
    let ?tx = "bt_to_consensus (pe_best pe) p"
    note step = execute_budget_step [OF laws Suc.prems(2) execute(6)]
    define new where "new = (if \<exists>g. out = Inr (Some g) then [?tx] else [])"
    have st: "builder_core blk ph limit b2" "gas_linked b2" "bu_txs b2 = bu_txs b @ new"
      using execute(7) step Suc.prems(3) gas_linked_cong [OF Suc.prems(3), of b1]
      by (auto simp: gas_linked_record [of b] new_def split: sum.splits option.splits)
    from Suc.IH [OF execute(8) st(1,2)] obtain items ps where IH:
      "yields (pe_best pe) best1 items" "subseq ps (map (bt_to_consensus (pe_best pe)) items)"
      "bu_txs b' = bu_txs b2 @ ps" "\<forall>p \<in> set ps. env_ty (ee_tx (pe_env pe)) (fst p) \<noteq> 3 \<and> \<not> env_is_l1_message (fst p)"
      "builder_core blk ph limit b'" "gas_linked b'" "da_within pe (cf_max_da_block_size cf) b2 ps b'"
      by blast
    have "da_within pe (cf_max_da_block_size cf) b (new @ ps) b'"
      using execute(7)
    proof (elim disjE exE conjE)
      fix g f
      assume "out = Inr (Some g)" and b2: "b2 = record_pool pe (fst ?tx) g f b1"
      then show ?thesis
        using da_within_include [OF laws refl _ _ IH(7) [unfolded b2], of lim b] execute(3) step
        by (simp add: filtered_def Let_def new_def)
    next
      assume none: "\<nexists>g. out = Inr (Some g)" and b2: "b2 = b1"
      have "bu_info b1 = bu_info b" using step by simp
      then show ?thesis using IH(7) none by (auto simp: b2 new_def da_within_def)
    qed
    moreover have "subseq (new @ ps) (map (bt_to_consensus (pe_best pe)) (p # items))"
      using IH(2) by (simp add: new_def list_emb_Cons)
    moreover have "\<forall>p \<in> set new. env_ty (ee_tx (pe_env pe)) (fst p) \<noteq> 3 \<and> \<not> env_is_l1_message (fst p)"
      using execute(3) by (simp add: new_def filtered_def Let_def)
    ultimately show ?thesis
      using IH st(3) yields_step [OF execute(1,2) IH(1)]
      by (intro exI [of _ "p # items"] exI [of _ "new @ ps"]) auto
  qed
qed

section \<open>System code and the whole build\<close>

lemma fork_step_frame:
  "fork_step ee fork tr ex = (Some (Inr ()), ex') \<Longrightarrow>
   ev_block (ex_evm ex') = ev_block (ex_evm ex) \<and> ex_gas_used ex' = ex_gas_used ex \<and>
   ex_receipts ex' = ex_receipts ex \<and> ex_parent_hash ex' = ex_parent_hash ex"
  by (auto simp: fork_step_def split: option.splits if_splits sum.splits prod.splits)

lemma system_call_frame:
  assumes "evm_laws api" and "transact_system_call api a c d evm = (res, evm')"
  shows "ev_block evm' = ev_block evm"
proof -
  have "\<forall>t \<in> {api_system_call api, api_inspect_system_call api}. \<forall>a b d evm res evm'.
        t a b d evm = (res, evm') \<longrightarrow> evm_frame evm evm'"
    using assms(1) unfolding evm_laws_def by (rule conjunct2)
  then have "evm_frame evm evm'"
    using assms(2) by (auto simp: transact_system_call_def split: if_splits)
  then show ?thesis by (simp add: evm_frame_def)
qed

lemma blockhashes_frame:
  fixes ee :: "('db, 'l1, 'd, 'x) exec_env"
  assumes laws: "evm_laws (ee_evm ee)"
    and run: "apply_blockhashes_contract_call ee ex = (Some (Inr ()), ex')"
  shows "ev_block (ex_evm ex') = ev_block (ex_evm ex) \<and> ex_gas_used ex' = ex_gas_used ex \<and>
    ex_receipts ex' = ex_receipts ex \<and> ex_parent_hash ex' = ex_parent_hash ex"
proof -
  obtain res ex1 where r: "transact_blockhashes_contract_call ee (ex_parent_hash ex) ex = (Some (Inr res), ex1)"
    and rest: "((case res of None \<Rightarrow> run_return () | Some (_, state) \<Rightarrow> run_modify (\<lambda>ex.
           (set_db (db_commit (ee_ops ee) (ex_db ex) state) ex)\<lparr>ex_system_caller :=
              on_state PreBlockBlockHashes state (ex_system_caller ex)\<rparr>))
         :: ('db, 'l1, 'd, 'x, unit) exec) ex1 = (Some (Inr ()), ex')"
    using run by (auto simp: apply_blockhashes_contract_call_def result_elims)
  have "ev_block (ex_evm ex1) = ev_block (ex_evm ex) \<and> ex_gas_used ex1 = ex_gas_used ex \<and>
      ex_receipts ex1 = ex_receipts ex \<and> ex_parent_hash ex1 = ex_parent_hash ex"
    using r system_call_frame [OF laws]
    by (fastforce simp: transact_blockhashes_contract_call_def Let_def
        split: option.splits if_splits sum.splits prod.splits)
  then show ?thesis using rest by (auto split: option.splits prod.splits)
qed

lemma pre_execution_frame:
  assumes laws: "evm_laws (ee_evm ee)"
    and run: "apply_pre_execution_changes ee ex = (Some (Inr ()), ex')"
  shows "ev_block (ex_evm ex') = ev_block (ex_evm ex) \<and> ex_gas_used ex' = ex_gas_used ex \<and>
    ex_receipts ex' = ex_receipts ex \<and> ex_parent_hash ex' = ex_parent_hash ex"
proof -
  from run obtain ex1 ex2 ex3 where
    "fork_step ee Feynman apply_feynman_hard_fork ex = (Some (Inr ()), ex1)"
    "fork_step ee GalileoV2 apply_galileo_v2_hard_fork ex1 = (Some (Inr ()), ex2)"
    "fork_step ee Tsuki apply_tsuki_hard_fork ex2 = (Some (Inr ()), ex3)"
    "apply_blockhashes_contract_call ee ex3 = (Some (Inr ()), ex')"
    by (auto simp: apply_pre_execution_changes_def result_elims)
  then show ?thesis
    using blockhashes_frame [OF laws] by (auto dest!: fork_step_frame)
qed

text \<open>System code is settled like a transaction: it is accepted or the build ends.\<close>

lemma accept_system_core:
  assumes core: "builder_core blk ph limit b0" and m: "builder_meter b = apply_events es (begin_transaction (builder_meter b0))"
    and same: "bu_txs b = bu_txs b0" "ev_block (ex_evm (bu_exec b)) = blk"
      "ex_parent_hash (bu_exec b) = ph"
      "ex_gas_used (bu_exec b) = ex_gas_used (bu_exec b0)" "ex_receipts (bu_exec b) = ex_receipts (bu_exec b0)"
    and run: "accept_system_code_budget lim b = (Some (Inr ()), b')"
  shows "builder_core blk ph limit b' \<and> bu_txs b' = bu_txs b \<and> bu_info b' = bu_info b \<and> bu_exec b' = bu_exec b"
proof -
  have b': "b' = on_meter (\<lambda>_. snd (accept_transaction (builder_meter b))) b"
    using run by (auto simp: accept_system_code_budget_def Let_def split: prod.splits if_splits)
  have "meter_wf (builder_meter b0)" "mt_max_code_bytes (builder_meter b0) = limit"
    using core by (simp_all add: builder_core_def Let_def)
  then have "meter_wf (builder_meter b') \<and> mt_max_code_bytes (builder_meter b') = limit"
    using meter.accept_keeps [of "builder_meter b0" "builder_meter b'" es] by (simp add: b' m)
  then show ?thesis using core same by (simp add: builder_core_def Let_def b')
qed

lemma system_phase_core:
  fixes pe :: "('db, 'l1, 'd, 'x, 'i, 'b, 'p) payload_env"
  assumes laws: "payload_laws pe" and core: "builder_core blk ph limit b0"
    and run: "run_bind (pre_execution pe) (\<lambda>_. accept_system_code_budget lim) b0 = (Some (Inr ()), b')"
  shows "builder_core blk ph limit b' \<and> bu_txs b' = bu_txs b0 \<and> bu_info b' = bu_info b0 \<and>
    ex_gas_used (bu_exec b') = ex_gas_used (bu_exec b0)"
proof -
  let ?b = "on_meter begin_transaction b0"
  from run obtain b1 where pre: "pre_execution pe b0 = (Some (Inr ()), b1)"
    and acc: "(accept_system_code_budget lim :: ('db, 'l1, ('d, 'x) PayloadBuilderError, unit) build) b1 =
      (Some (Inr ()), b')"
    by (auto simp: run_bind_ok_iff)
  obtain ex where ex: "apply_pre_execution_changes (metered_env pe ?b) (bu_exec b0) = (Some (Inr ()), ex)"
    and b1: "b1 = ?b\<lparr>bu_exec := ex, bu_insp := run_hooks (pe_interp pe)
      (pe_pre_hooks pe (bu_insp ?b) (bu_exec b0)) (bu_insp ?b)\<rparr>"
    using pre by (auto simp: pre_execution_def Let_def result_elims split: prod.splits)
  note frame = pre_execution_frame [OF payload_lawsD(1) [OF laws] ex]
  have "builder_meter b1 = apply_events (hooks_events (pe_interp pe)
      (pe_pre_hooks pe (bu_insp ?b) (bu_exec b0)) (bu_insp ?b)) (begin_transaction (builder_meter b0))"
    by (simp add: b1 run_hooks_events) (simp add: builder_meter_def on_meter_def)
  from accept_system_core [OF core this _ _ _ _ _ acc] show ?thesis
    using frame core by (simp add: b1 builder_core_def Let_def)
qed

definition built_as :: "BuildOutcome \<Rightarrow> ScrollBuiltPayload \<Rightarrow> bool" where
  "built_as out p \<longleftrightarrow> out = Freeze p \<or> out = Better p"

lemma build_block_phases:
  fixes pe :: "('db, 'l1, 'd, 'x, 'i, 'b, 'p) payload_env"
  assumes run: "build_block pe cf args env b0 = (Some (Inr out), b')" and built: "built_as out p"
  obtains b1 b2 b3 result where
    "(run_bind (pre_execution pe) (\<lambda>_. accept_system_code_budget (cf_max_code_witness_bytes cf))
       :: ('db, 'l1, ('d, 'x) PayloadBuilderError, unit) build) b0 = (Some (Inr ()), b1)"
    and "forced_phase pe cf (ba_attributes args) (be_gas_limit (ev_block (ex_evm (bu_exec b1)))) b1 =
      (Some (Inr ()), b2)"
    and "pool_phase pe cf (ba_attributes args) (be_gas_limit (ev_block (ex_evm (bu_exec b1)))) b2 =
      (Some (Inr PoolDone), b3)"
    and "finish_block pe cf (ba_trie_root args) env b3 = (Some (Inr (bp_block p, result)), b')"
    and "bp_executed_block p = Some result" and "bp_fees p = xi_total_fees (bu_info b3)"
    and "out = (if sa_no_tx_pool (ba_attributes args) then Freeze p else Better p)"
proof -
  from run obtain b1' b1 b2 b3 pool where
    pre: "pre_execution pe b0 = (Some (Inr ()), b1')"
    and acc: "(accept_system_code_budget (cf_max_code_witness_bytes cf)
      :: ('db, 'l1, ('d, 'x) PayloadBuilderError, unit) build) b1' = (Some (Inr ()), b1)"
    and forced: "forced_phase pe cf (ba_attributes args) (be_gas_limit (ev_block (ex_evm (bu_exec b1)))) b1 =
      (Some (Inr ()), b2)"
    and pool: "pool_phase pe cf (ba_attributes args) (be_gas_limit (ev_block (ex_evm (bu_exec b1)))) b2 =
      (Some (Inr pool), b3)"
    and rest: "(let total_fees = xi_total_fees (bu_info b3) in
         if pool = PoolCancelled then (Some (Inr Cancelled), b3)
         else if pool = PoolOutOfFuel then (Some (Inr NoFuel), b3)
         else if \<not> sa_no_tx_pool (ba_attributes args) \<and> \<not> pe_is_better_payload pe (ba_best_payload args) total_fees
         then (Some (Inr (Aborted total_fees)), b3)
         else
           (run_bind (finish_block pe cf (ba_trie_root args) env) (\<lambda>(sealed, result) b.
             let payload = \<lparr>bp_block = sealed, bp_executed_block = Some result, bp_fees = total_fees\<rparr> in
             (Some (Inr (if sa_no_tx_pool (ba_attributes args) then Freeze payload else Better payload)), b))
             :: ('db, 'l1, ('d, 'x) PayloadBuilderError, BuildOutcome) build) b3) = (Some (Inr out), b')"
    unfolding build_block_def by (fastforce simp: run_bind_ok_iff Let_def)
  from rest built obtain sealed result where
    fin: "finish_block pe cf (ba_trie_root args) env b3 = (Some (Inr (sealed, result)), b')"
    and out: "out = (let payload = \<lparr>bp_block = sealed, bp_executed_block = Some result,
        bp_fees = xi_total_fees (bu_info b3)\<rparr> in
      if sa_no_tx_pool (ba_attributes args) then Freeze payload else Better payload)"
    and pd: "pool = PoolDone"
    by (cases pool) (auto simp: Let_def run_bind_ok_iff built_as_def split: if_splits)
  show thesis
    using built out fin pool pd
    by (intro that [OF _ forced]) (auto simp: run_bind_ok_iff pre acc built_as_def Let_def split: if_splits)
qed

lemma finish_block_built:
  assumes core: "builder_core blk ph limit b"
    and fin: "finish_block pe cf trie env b = (Some (Inr (sealed, result)), b')"
  shows "\<exists>root. assemble_block (pe_assembler pe) env ph (map fst (bu_txs b)) result root = Inr (sb_block sealed)"
    and "br_gas_used result = ex_gas_used (bu_exec b)" and "br_receipts result = ex_receipts (bu_exec b)"
    and "sb_hash sealed = pe_hash_slow pe (sb_block sealed)" and "builder_core blk ph limit b'"
proof -
  let ?b = "on_meter begin_transaction b"
  let ?ex = "if trie = None then bu_exec b else executor_set_state_hook None (bu_exec b)"
  let ?b1 = "?b\<lparr>bu_exec := ?ex, bu_insp := run_hooks (pe_interp pe)
      (pe_finish_hooks pe (bu_insp ?b) ?ex) (bu_insp ?b)\<rparr>"
  have ex: "ex_gas_used ?ex = ex_gas_used (bu_exec b)" "ex_receipts ?ex = ex_receipts (bu_exec b)"
    "ex_parent_hash ?ex = ph" "ev_block (ex_evm ?ex) = blk"
    using core by (simp_all add: executor_set_state_hook_def builder_core_def Let_def)
  from fin obtain root where
    res: "result = executor_finish ?ex" "sb_hash sealed = pe_hash_slow pe (sb_block sealed)"
      "assemble_block (pe_assembler pe) env (ex_parent_hash ?ex) (map fst (bu_txs b)) result root =
        Inr (sb_block sealed)"
    and acc: "accept_system_code_budget (cf_max_code_witness_bytes cf) ?b1 = (Some (Inr ()), b')"
    by (auto simp: finish_block_def Let_def result_elims run_return_def accept_system_code_budget_def
        split: prod.splits if_splits)
  show "\<exists>root. assemble_block (pe_assembler pe) env ph (map fst (bu_txs b)) result root = Inr (sb_block sealed)"
    "br_gas_used result = ex_gas_used (bu_exec b)" "br_receipts result = ex_receipts (bu_exec b)"
    "sb_hash sealed = pe_hash_slow pe (sb_block sealed)"
    using res ex by (auto simp: executor_finish_def)
  have "builder_meter ?b1 = apply_events (hooks_events (pe_interp pe)
      (pe_finish_hooks pe (bu_insp ?b) ?ex) (bu_insp ?b)) (begin_transaction (builder_meter b))"
    by (simp only: builder_meter_simps run_hooks_events) (simp add: builder_meter_def on_meter_def)
  from accept_system_core [OF core this _ _ _ _ _ acc] ex show "builder_core blk ph limit b'" by simp
qed

lemma forced_phase_contents:
  assumes laws: "payload_laws pe" and core: "builder_core blk ph limit b" "gas_linked b" "da_used b = 0"
    and small: "(\<Sum>enc\<leftarrow>forced_list a. length enc) < 2 ^ 64"
    and run: "forced_phase pe cf a lim b = (Some (Inr ()), b')"
  shows "\<exists>forced taken. decode_forced_transactions (decode_2718 (pe_rlp pe) (pe_codec pe) (pe_keccak256 pe)
        (pe_extract_type_byte pe)) a = Inr forced \<and>
      (\<forall>i < length forced. forced_fate pe cf lim forced [] b taken i) \<and>
      map fst (bu_txs b') = map fst (bu_txs b) @ map snd (nths forced taken) \<and> builder_core blk ph limit b' \<and>
      gas_linked b' \<and> da_used b' = forced_bytes_of (nths forced taken) \<and>
      (\<forall>l. cf_max_da_block_size cf = Some l \<and> unat l < 2 ^ 64 - 1 \<longrightarrow> forced_bytes_of forced \<le> unat l)"
proof -
  let ?dec = "decode_forced_transactions (decode_2718 (pe_rlp pe) (pe_codec pe) (pe_keccak256 pe)
        (pe_extract_type_byte pe)) a"
  from run obtain forced where dec: "?dec = Inr forced"
    and loop: "forced_loop pe cf lim forced [] b = (Some (Inr ()), b')"
    and da: "\<forall>l. cf_max_da_block_size cf = Some l \<longrightarrow> forced_transactions_da_bytes forced \<le> l"
    by (auto simp: forced_phase_def result_elims Let_def not_less split: option.splits if_splits)
  have fst: "map fst forced = forced_list a" using dec by (simp add: decode_forced_list)
  then have total: "forced_bytes_of forced = (\<Sum>enc\<leftarrow>forced_list a. length enc)"
    by (simp add: forced_bytes_of_def flip: fst) (simp add: comp_def)
  have each: "length (fst t) < 2 ^ 64" if "t \<in> set forced" for t
    using member_le_sum_list [of "length (fst t)" "map (\<lambda>f. length (fst f)) forced"] that small total
    by (simp add: forced_bytes_of_def)
  then have "unat (forced_transactions_da_bytes forced) = min (forced_bytes_of forced) (2 ^ 64 - 1)"
    using forced_da_bytes_sum [of forced] by (simp add: forced_bytes_of_def)
  then have limit: "\<forall>l. cf_max_da_block_size cf = Some l \<and> unat l < 2 ^ 64 - 1 \<longrightarrow> forced_bytes_of forced \<le> unat l"
    using da by (auto simp: word_le_nat_alt min_def split: if_splits)
  have "da_used b + forced_bytes_of forced < 2 ^ 64" using core(3) small total by simp
  from forced_loop_contents [OF laws loop core(1,2) this] core(3) dec limit show ?thesis by auto
qed

lemma subseq_forced_bytes: "subseq fs gs \<Longrightarrow> forced_bytes_of fs \<le> forced_bytes_of gs"
  by (induction rule: list_emb.induct) (auto simp: forced_bytes_of_def)

lemma builder_start_core:
  shows "builder_core (env_block env) (sh_hash (ba_parent_header args)) (cf_max_code_witness_bytes cf)
      (builder_start pe cf args db env)"
    and "gas_linked (builder_start pe cf args db env)" and "bu_txs (builder_start pe cf args db env) = []"
    and "bu_info (builder_start pe cf args db env) = execution_info_new"
  by (simp_all add: create_evm_with_inspector_def builder_core_def gas_linked_def builder_start_def executor_new_def Let_def
      executor_set_state_hook_def execution_info_new_def builder_meter_def code_inspector_def
      context_for_next_block_def) (simp_all add: code_witness_new_def)

text \<open>Everything known of a built block. \<open>b1\<close> is the state after the system phase, in which the forced
  transactions start.\<close>

lemma build_block_detail:
  fixes pe :: "('db, 'l1, 'd, 'x, 'i, 'b, 'p) payload_env"
  assumes laws: "payload_laws pe"
    and run: "build_block pe cf args env (builder_start pe cf args db env) = (Some (Inr out), b')"
    and built: "built_as out p"
    and small: "(\<Sum>enc\<leftarrow>forced_list (ba_attributes args). length enc) < 2 ^ 64"
  obtains b1 forced taken items ps result root where
    "(run_bind (pre_execution pe) (\<lambda>_. accept_system_code_budget (cf_max_code_witness_bytes cf))
       :: ('db, 'l1, ('d, 'x) PayloadBuilderError, unit) build) (builder_start pe cf args db env) = (Some (Inr ()), b1)"
    "bu_txs b1 = []"
    "decode_forced_transactions (decode_2718 (pe_rlp pe) (pe_codec pe) (pe_keccak256 pe)
      (pe_extract_type_byte pe)) (ba_attributes args) = Inr forced"
    "\<forall>i < length forced. forced_fate pe cf (be_gas_limit (env_block env)) forced [] b1 taken i"
    "yields (pe_best pe) (pe_best_transactions pe (be_basefee (env_block env))) items"
    "subseq ps (map (bt_to_consensus (pe_best pe)) items)"
    "\<forall>p \<in> set ps. env_ty (ee_tx (pe_env pe)) (fst p) \<noteq> 3 \<and> \<not> env_is_l1_message (fst p)"
    "sa_no_tx_pool (ba_attributes args) \<longrightarrow> ps = []"
    "\<forall>l. cf_max_da_block_size cf = Some l \<and> unat l < 2 ^ 64 - 1 \<longrightarrow>
       forced_bytes_of (nths forced taken) + pool_bytes_of pe ps \<le> unat l"
    "bp_executed_block p = Some result"
    "assemble_block (pe_assembler pe) env (sh_hash (ba_parent_header args)) (map snd (nths forced taken) @ map fst ps) result root =
      Inr (sb_block (bp_block p))"
    "sb_hash (bp_block p) = pe_hash_slow pe (sb_block (bp_block p))"
    "br_gas_used result \<le> be_gas_limit (env_block env)"
    "last_cumulative_gas (br_receipts result) = br_gas_used result"
    "map receipt_tx_type (br_receipts result) = map env_tx_type (map snd (nths forced taken) @ map fst ps)"
    "block_code_bytes (builder_meter b') \<le> cf_max_code_witness_bytes cf"
  using run built
proof (rule build_block_phases)
  let ?b0 = "builder_start pe cf args db env"
  let ?core = "builder_core (env_block env) (sh_hash (ba_parent_header args)) (cf_max_code_witness_bytes cf)"
  fix b1 b2 b3 result
  assume sys: "run_bind (pre_execution pe) (\<lambda>_. accept_system_code_budget (cf_max_code_witness_bytes cf)) ?b0 =
      (Some (Inr ()), b1)"
    and forced: "forced_phase pe cf (ba_attributes args) (be_gas_limit (ev_block (ex_evm (bu_exec b1)))) b1 =
      (Some (Inr ()), b2)"
    and pool: "pool_phase pe cf (ba_attributes args) (be_gas_limit (ev_block (ex_evm (bu_exec b1)))) b2 =
      (Some (Inr PoolDone), b3)"
    and fin: "finish_block pe cf (ba_trie_root args) env b3 = (Some (Inr (bp_block p, result)), b')"
    and exec: "bp_executed_block p = Some result"
  note s0 = builder_start_core [where pe = pe and env = env and args = args and cf = cf and db = db]
  have s1: "?core b1" "bu_txs b1 = []" "gas_linked b1" "da_used b1 = 0"
    using system_phase_core [OF laws s0(1) sys] s0(2-4) by (auto simp: gas_linked_def execution_info_new_def)
  have lim: "be_gas_limit (ev_block (ex_evm (bu_exec b1))) = be_gas_limit (env_block env)"
    using s1(1) by (simp add: builder_core_def Let_def)
  obtain fl taken where f: "decode_forced_transactions (decode_2718 (pe_rlp pe) (pe_codec pe) (pe_keccak256 pe)
        (pe_extract_type_byte pe)) (ba_attributes args) = Inr fl"
      "\<forall>i < length fl. forced_fate pe cf (be_gas_limit (env_block env)) fl [] b1 taken i"
      "map fst (bu_txs b2) = map snd (nths fl taken)" "?core b2" "gas_linked b2" "da_used b2 = forced_bytes_of (nths fl taken)"
      "\<forall>l. cf_max_da_block_size cf = Some l \<and> unat l < 2 ^ 64 - 1 \<longrightarrow> forced_bytes_of fl \<le> unat l"
    using forced_phase_contents [OF laws s1(1,3,4) small forced] s1(2) unfolding lim by auto
  have fee: "be_basefee (ev_block (ex_evm (bu_exec b2))) = be_basefee (env_block env)"
    using f(4) by (simp add: builder_core_def Let_def)
  obtain items ps where ps: "yields (pe_best pe) (pe_best_transactions pe (be_basefee (env_block env))) items"
      "subseq ps (map (bt_to_consensus (pe_best pe)) items)" "bu_txs b3 = bu_txs b2 @ ps"
      "\<forall>p \<in> set ps. env_ty (ee_tx (pe_env pe)) (fst p) \<noteq> 3 \<and> \<not> env_is_l1_message (fst p)" "?core b3"
      "da_within pe (cf_max_da_block_size cf) b2 ps b3" "sa_no_tx_pool (ba_attributes args) \<longrightarrow> ps = []"
  proof (cases "sa_no_tx_pool (ba_attributes args)")
    case True
    then show ?thesis using pool f that [of "[]" "[]"] by (simp add: pool_phase_def da_within_def yields_nil)
  next
    case False
    then have "pool_loop pe cf (be_gas_limit (env_block env)) (be_basefee (env_block env)) (config_breaker (pe_clock pe 0) cf)
        (pe_fuel pe) 0 (pe_best_transactions pe (be_basefee (env_block env))) b2 = (Some (Inr PoolDone), b3)"
      using pool by (simp add: pool_phase_def Let_def fee lim)
    from pool_loop_contents [OF laws this f(4,5)] show ?thesis using that False by blast
  qed
  have "subseq (nths fl taken) fl" by (auto simp: subseq_conv_nths)
  then have da: "\<forall>l. cf_max_da_block_size cf = Some l \<and> unat l < 2 ^ 64 - 1 \<longrightarrow>
      forced_bytes_of (nths fl taken) + pool_bytes_of pe ps \<le> unat l"
    using ps(6) f(6,7) subseq_forced_bytes [of "nths fl taken" fl] by (fastforce simp: da_within_def)
  note fin = finish_block_built [OF ps(5) fin]
  have txs: "map fst (bu_txs b3) = map snd (nths fl taken) @ map fst ps" using ps(3) f(3) by simp
  have "map receipt_tx_type (ex_receipts (bu_exec b3)) = map env_tx_type (map fst (bu_txs b3))"
    using ps(5) by (simp add: builder_core_def Let_def)
  then have inv: "br_gas_used result \<le> be_gas_limit (env_block env)"
    "last_cumulative_gas (br_receipts result) = br_gas_used result"
    "map receipt_tx_type (br_receipts result) = map env_tx_type (map snd (nths fl taken) @ map fst ps)"
    using ps(5) fin(2,3) txs by (simp_all add: builder_core_def Let_def)
  have code: "block_code_bytes (builder_meter b') \<le> cf_max_code_witness_bytes cf"
    using fin(5) meter.spent_le [of "builder_meter b'"] by (auto simp: builder_core_def Let_def)
  from fin(1) obtain root where "assemble_block (pe_assembler pe) env (sh_hash (ba_parent_header args))
      (map snd (nths fl taken) @ map fst ps) result root = Inr (sb_block (bp_block p))" unfolding txs by blast
  then show thesis
    using that [OF sys s1(2) f(1,2) ps(1,2,4,7) da exec] fin(4) inv code by blast
qed

lemma build_block_contents:
  fixes pe :: "('db, 'l1, 'd, 'x, 'i, 'b, 'p) payload_env"
  assumes laws: "payload_laws pe"
    and run: "build_block pe cf args env (builder_start pe cf args db env) = (Some (Inr out), b')"
    and built: "built_as out p"
    and small: "(\<Sum>enc\<leftarrow>forced_list (ba_attributes args). length enc) < 2 ^ 64"
  shows "\<exists>txs result root.
    bp_executed_block p = Some result \<and>
    assemble_block (pe_assembler pe) env (sh_hash (ba_parent_header args)) txs result root = Inr (sb_block (bp_block p)) \<and>
    sb_hash (bp_block p) = pe_hash_slow pe (sb_block (bp_block p)) \<and>
    br_gas_used result \<le> be_gas_limit (env_block env) \<and>
    last_cumulative_gas (br_receipts result) = br_gas_used result \<and>
    map receipt_tx_type (br_receipts result) = map env_tx_type txs \<and>
    block_code_bytes (builder_meter b') \<le> cf_max_code_witness_bytes cf"
  using laws run built small
  by (rule build_block_detail) blast

section \<open>Properties\<close>

lemma build_payload_block:
  assumes "build_payload pe cf args db = Some (Inr out)"
  obtains base_fee env b' where
    "next_block_base_fee (ee_fork_api (pe_env pe)) (pe_calc pe) (ee_ops (pe_env pe)) (ee_spec (pe_env pe)) db
       (sh_header (ba_parent_header args)) (pa_timestamp (sa_payload_attributes (ba_attributes args))) =
     Some (Inr base_fee)"
    and "env = next_evm_env (ee_fork_api (pe_env pe)) (ee_spec (pe_env pe)) (sh_header (ba_parent_header args))
       (next_attributes_of pe cf args base_fee)"
    and "build_block pe cf args env (builder_start pe cf args db env) = (Some (Inr out), b')"
  using assms
  by (auto simp: build_payload_def Let_def fst_def split: option.splits sum.splits prod.splits)

text \<open>C4. What a built payload contains and stays within. Every forced transaction of the request is
  executed in its order, from the state the system phase leaves, and none is a blob or has no
  signer; it is in the block, unless the EVM refused it as an invalid transaction in exactly the
  state that the forced transactions before it had left (any other error, a fatal one included, would
  have ended the build). The forced transactions are followed by pool transactions: they are, in that
  order, among the items that the pool's iterator for the block's own base fee yielded, none is a
  blob transaction or an L1 message, and there are none when the request excludes the pool.
  The encoded bytes of all fit the data limit, the gas of the header is the running total of the
  receipts and fits the gas limit, and there is one receipt per transaction, of its type.\<close>

theorem built_payload_contents:
  fixes pe :: "('db, 'l1, 'd, 'x, 'i, 'b, 'p) payload_env"
  assumes laws: "payload_laws pe"
    and run: "build_payload pe cf args db = Some (Inr out)" and built: "built_as out p"
    and small: "(\<Sum>enc\<leftarrow>forced_list (ba_attributes args). length enc) < 2 ^ 64"
    and blk: "blk = sb_block (bp_block p)"
  shows "\<exists>env base_fee b1 forced taken items ps result.
    env = next_evm_env (ee_fork_api (pe_env pe)) (ee_spec (pe_env pe)) (sh_header (ba_parent_header args))
      (next_attributes_of pe cf args base_fee) \<and>
    h_base_fee_per_gas (b_header blk) = Some base_fee \<and>
    (run_bind (pre_execution pe) (\<lambda>_. accept_system_code_budget (cf_max_code_witness_bytes cf))
       :: ('db, 'l1, ('d, 'x) PayloadBuilderError, unit) build) (builder_start pe cf args db env) = (Some (Inr ()), b1) \<and>
    decode_forced_transactions (decode_2718 (pe_rlp pe) (pe_codec pe) (pe_keccak256 pe)
      (pe_extract_type_byte pe)) (ba_attributes args) = Inr forced \<and>
    b_transactions blk = map snd (nths forced taken) @ map fst ps \<and>
    (\<forall>i < length forced. env_ty (ee_tx (pe_env pe)) (snd (forced ! i)) \<noteq> 3 \<and>
       (\<exists>signer bi. env_recover_signer (pe_codec pe) (snd (forced ! i)) = Inr signer \<and>
          forced_loop pe cf (h_gas_limit (b_header blk)) (take i forced) [] b1 = (Some (Inr ()), bi) \<and>
          map fst (bu_txs bi) = map snd (nths (take i forced) taken) \<and>
          (i \<in> taken \<longrightarrow> (\<exists>g b'. execute_with_code_budget pe (snd (forced ! i), signer) bi = (Some (Inr (Some g)), b'))) \<and>
          (i \<notin> taken \<longrightarrow> (\<exists>e b'. execute_with_code_budget pe (snd (forced ! i), signer) bi = (Some (Inl e), b') \<and>
             ((\<exists>h. e = Eip4844NotSupported h) \<or> (\<exists>err h. e = EvmError err h \<and> pe_invalid_tx pe err)))))) \<and>
    yields (pe_best pe) (pe_best_transactions pe base_fee) items \<and>
    subseq ps (map (bt_to_consensus (pe_best pe)) items) \<and>
    (\<forall>p \<in> set ps. env_ty (ee_tx (pe_env pe)) (fst p) \<noteq> 3 \<and> \<not> env_is_l1_message (fst p)) \<and>
    (sa_no_tx_pool (ba_attributes args) \<longrightarrow> ps = []) \<and>
    (\<forall>l. cf_max_da_block_size cf = Some l \<and> unat l < 2 ^ 64 - 1 \<longrightarrow>
       forced_bytes_of (nths forced taken) + pool_bytes_of pe ps \<le> unat l) \<and>
    bp_executed_block p = Some result \<and> h_gas_used (b_header blk) = last_cumulative_gas (br_receipts result) \<and>
    h_gas_used (b_header blk) \<le> h_gas_limit (b_header blk) \<and>
    map receipt_tx_type (br_receipts result) = map env_tx_type (b_transactions blk)"
  using run
proof (rule build_payload_block)
  fix base_fee env b'
  assume env: "env = next_evm_env (ee_fork_api (pe_env pe)) (ee_spec (pe_env pe))
        (sh_header (ba_parent_header args)) (next_attributes_of pe cf args base_fee)"
    and bb: "build_block pe cf args env (builder_start pe cf args db env) = (Some (Inr out), b')"
  from laws bb built small show ?thesis
  proof (rule build_block_detail, goal_cases)
    case (1 b1 forced taken items ps result root)
    have hdr: "b_transactions blk = map snd (nths forced taken) @ map fst ps" "h_gas_used (b_header blk) = br_gas_used result"
      "h_gas_limit (b_header blk) = be_gas_limit (env_block env)" "h_base_fee_per_gas (b_header blk) = Some base_fee"
      "be_basefee (env_block env) = base_fee"
      using 1(11) [folded blk] by (auto simp: env assemble_next_env next_env_block_fields next_attributes_of_def Let_def)
    have gas: "h_gas_used (b_header blk) = last_cumulative_gas (br_receipts result)"
      "h_gas_used (b_header blk) \<le> h_gas_limit (b_header blk)"
      "map receipt_tx_type (br_receipts result) = map env_tx_type (b_transactions blk)"
      using hdr 1(13-15) by simp_all
    note fates = 1(4) [folded hdr(3), unfolded forced_fate_def refused_as_invalid_def 1(2) if_bool_eq_conj list.map append_Nil]
    show ?thesis
      by (rule exI [of _ env], rule exI [of _ base_fee], rule exI [of _ b1], rule exI [of _ forced], rule exI [of _ taken],
          rule exI [of _ items], rule exI [of _ ps], rule exI [of _ result])
        (intro conjI env hdr(4) 1(1,3) hdr(1) fates 1(5) [unfolded hdr(5)] 1(6-10) gas)
  qed
qed

text \<open>C6. A candidate that is not committed leaves no trace in the block: whether the EVM refuses it, it
  overruns the code budget or the block refuses its gas, the transaction list, the gas used and
  the accepted code stay as they were; a committed one is appended, its gas is added exactly, and
  in every case the block stays within its gas limit and its code budget.\<close>

theorem candidate_is_atomic:
  assumes laws: "payload_laws pe" and core: "builder_core blk ph limit b"
    and run: "execute_with_code_budget pe tx b = (Some outcome, b')"
  shows "ex_gas_used (bu_exec b') \<le> be_gas_limit blk \<and> block_code_bytes (builder_meter b') \<le> limit \<and>
    (case outcome of
       Inr (Some g) \<Rightarrow> bu_txs b' = bu_txs b @ [tx] \<and>
         unat (ex_gas_used (bu_exec b')) = unat (ex_gas_used (bu_exec b)) + unat g
     | _ \<Rightarrow> bu_txs b' = bu_txs b \<and> ex_gas_used (bu_exec b') = ex_gas_used (bu_exec b) \<and>
         block_code_bytes (builder_meter b') = block_code_bytes (builder_meter b))"
proof -
  have "block_code_bytes (builder_meter b') \<le> limit \<and> ex_gas_used (bu_exec b') \<le> be_gas_limit blk"
    using execute_budget_step [OF laws core run] meter.spent_le [of "builder_meter b'"]
    by (auto simp: builder_core_def Let_def)
  then show ?thesis
    using execute_budget_step [OF laws core run] by (simp split: sum.splits option.splits)
qed

section \<open>The end of the pool loop\<close>

text \<open>From the deadline on the loop only passes over candidates it filters: running out of fuel means that
  the iterator kept yielding such candidates.\<close>

definition past_deadline ::
  "('db, 'l1, 'd, 'x, 'i, 'b, 'p) payload_env \<Rightarrow> ScrollBuilderConfig \<Rightarrow> nat \<Rightarrow> bool" where
  "past_deadline pe cf i \<longleftrightarrow> pe_cancelled pe i \<or> cf_time_limit cf \<le> pe_clock pe (Suc i) - pe_clock pe 0"

lemma past_deadline_stops:
  assumes "past_deadline pe cf i" and "\<not> pe_cancelled pe i"
  shows "should_break g (config_breaker (pe_clock pe 0) cf) (pe_clock pe (Suc i)) used da"
  using assms by (simp add: past_deadline_def should_break_def config_breaker_def breaker_new_def)

lemma pool_loop_idle:
  assumes late: "\<forall>j \<ge> i. past_deadline pe cf j"
    and run: "pool_loop pe cf lim fee (config_breaker (pe_clock pe 0) cf) n i best b = (Some (Inr PoolOutOfFuel), b')"
  shows "b' = b"
  using late run
proof (induction n arbitrary: i best)
  case (Suc n)
  from Suc.prems(2) show ?case
  proof (cases rule: pool_loop_item)
    case (filter p best0 k)
    then show ?thesis using Suc.IH [of "Suc i"] Suc.prems(1) by simp
  next
    case (execute p best0 best1 out b1 b2)
    then show ?thesis using past_deadline_stops [of pe cf i] Suc.prems(1) by blast
  qed simp
qed simp

lemma pool_loop_out_of_fuel:
  assumes late: "\<forall>j \<ge> N. past_deadline pe cf j"
    and run: "pool_loop pe cf lim fee (config_breaker (pe_clock pe 0) cf) n i best b = (Some (Inr PoolOutOfFuel), b')"
  shows "\<exists>items. yields (pe_best pe) best items \<and> length items = n \<and>
    (\<forall>j < n. N \<le> i + j \<longrightarrow> filtered pe cf lim (bu_info b') (items ! j))"
  using run
proof (induction n arbitrary: i best b)
  case 0
  then show ?case by (intro exI [of _ "[]"]) (simp add: yields_nil)
next
  case (Suc n)
  from Suc.prems show ?case
  proof (cases rule: pool_loop_item)
    case stop
    then show ?thesis by simp
  next
    case (filter p best0 k)
    from Suc.IH [OF filter(3)] obtain items where items: "yields (pe_best pe) (bt_mark_invalid (pe_best pe) p k best0) items"
      "length items = n" "\<forall>j < n. N \<le> Suc i + j \<longrightarrow> filtered pe cf lim (bu_info b') (items ! j)" by blast
    have "N \<le> i \<Longrightarrow> b' = b" using pool_loop_idle [OF _ Suc.prems] late by simp
    then show ?thesis
      using items filter(2) yields_marked [OF filter(1) items(1)]
      by (intro exI [of _ "p # items"]) (auto simp: nth_Cons split: nat.splits)
  next
    case (execute p best0 best1 out b1 b2)
    have "i < N" using past_deadline_stops [of pe cf i] late execute(4,5) by (metis linorder_not_less)
    moreover from Suc.IH [OF execute(8)] obtain items where "yields (pe_best pe) best1 items"
      "length items = n" "\<forall>j < n. N \<le> Suc i + j \<longrightarrow> filtered pe cf lim (bu_info b') (items ! j)" by blast
    ultimately show ?thesis
      using yields_step [OF execute(1,2)] by (intro exI [of _ "p # items"]) (auto simp: nth_Cons split: nat.splits)
  qed
qed

text \<open>More fuel than a build uses changes nothing.\<close>

lemma pool_loop_more_fuel:
  "fst (pool_loop pe cf lim fee bk n i best b) \<noteq> Some (Inr PoolOutOfFuel) \<longrightarrow>
   pool_loop pe cf lim fee bk (n + k) i best b = pool_loop pe cf lim fee bk n i best b"
proof (induction n arbitrary: i best b)
  case (Suc n)
  show ?case by (simp add: Suc.IH Let_def split: prod.split option.split sum.split)
qed simp

lemma fuel_free [simp]:
  "metered_env (pe\<lparr>pe_fuel := n\<rparr>) b = metered_env pe b"
  "executable_of (pe\<lparr>pe_fuel := n\<rparr>) tx = executable_of pe tx"
  "execute_transaction_with_commit_condition (pe\<lparr>pe_fuel := n\<rparr>) tx c b = execute_transaction_with_commit_condition pe tx c b"
  "execute_with_code_budget (pe\<lparr>pe_fuel := n\<rparr>) tx b = execute_with_code_budget pe tx b"
  "is_invalid_tx (pe\<lparr>pe_fuel := n\<rparr>) e = is_invalid_tx pe e"
  "is_nonce_too_low (pe\<lparr>pe_fuel := n\<rparr>) e = is_nonce_too_low pe e"
  "record_pool (pe\<lparr>pe_fuel := n\<rparr>) t g f b = record_pool pe t g f b"
  "pre_execution (pe\<lparr>pe_fuel := n\<rparr>) b = pre_execution pe b"
  "finish_block (pe\<lparr>pe_fuel := n\<rparr>) cf trie env b = finish_block pe cf trie env b"
  "next_attributes_of (pe\<lparr>pe_fuel := n\<rparr>) cf args base_fee = next_attributes_of pe cf args base_fee"
  "builder_start (pe\<lparr>pe_fuel := n\<rparr>) cf args db env = builder_start pe cf args db env"
  by (simp_all add: metered_env_def executable_of_def execute_transaction_with_commit_condition_def
      execute_with_code_budget_def is_invalid_tx_def is_nonce_too_low_def record_pool_def pre_execution_def
      finish_block_def next_attributes_of_def builder_start_def Let_def
      split: BlockExecutionError.split option.split sum.split)

lemma forced_loop_fuel_free [simp]:
  "forced_loop (pe\<lparr>pe_fuel := n\<rparr>) cf lim fs fg b = forced_loop pe cf lim fs fg b"
  by (induction fs arbitrary: fg b) (simp_all add: Let_def split: prod.split option.split sum.split)

lemma pool_loop_fuel_free [simp]:
  "pool_loop (pe\<lparr>pe_fuel := m\<rparr>) cf lim fee bk n i best b = pool_loop pe cf lim fee bk n i best b"
  by (induction n arbitrary: i best b) (simp_all add: Let_def split: prod.split option.split sum.split)

lemma phases_fuel:
  "forced_phase (pe\<lparr>pe_fuel := n\<rparr>) cf a lim b = forced_phase pe cf a lim b"
  "fst (pool_phase pe cf a lim b) \<noteq> Some (Inr PoolOutOfFuel) \<Longrightarrow>
   pool_phase (pe\<lparr>pe_fuel := pe_fuel pe + k\<rparr>) cf a lim b = pool_phase pe cf a lim b"
  by (simp_all add: forced_phase_def run_bind_def Let_def pool_phase_def pool_loop_more_fuel
      split: if_splits option.split prod.split sum.split)

lemma phases_fuel_free [simp]:
  "pre_execution (pe\<lparr>pe_fuel := n\<rparr>) = pre_execution pe"
  "finish_block (pe\<lparr>pe_fuel := n\<rparr>) cf trie env = finish_block pe cf trie env"
  "forced_phase (pe\<lparr>pe_fuel := n\<rparr>) cf a lim = forced_phase pe cf a lim"
  by (rule ext, simp add: phases_fuel)+

lemma run_bind_same:
  "(\<And>a s'. m s = (Some (Inr a), s') \<Longrightarrow> f a s' = g a s') \<Longrightarrow> run_bind m f s = run_bind m g s"
  by (simp add: run_bind_def split: prod.split option.split sum.split)

lemma build_block_more_fuel:
  fixes pe :: "('db, 'l1, 'd, 'x, 'i, 'b, 'p) payload_env"
  assumes enough: "fst (build_block pe cf args env b) \<noteq> Some (Inr NoFuel)"
  shows "build_block (pe\<lparr>pe_fuel := pe_fuel pe + k\<rparr>) cf args env b = build_block pe cf args env b"
  unfolding build_block_def phases_fuel_free Let_def
proof (rule run_bind_same, rule run_bind_same, rule run_bind_same)
  fix u1 b1 u2 b2 u3 b3
  assume pre: "pre_execution pe b = (Some (Inr u1), b1)"
    and sys: "(accept_system_code_budget (cf_max_code_witness_bytes cf)
      :: ('db, 'l1, ('d, 'x) PayloadBuilderError, unit) build) b1 = (Some (Inr u2), b2)"
    and forced: "forced_phase pe cf (ba_attributes args) (be_gas_limit (ev_block (ex_evm (bu_exec b2)))) b2 =
      (Some (Inr u3), b3)"
  let ?lim = "be_gas_limit (ev_block (ex_evm (bu_exec b2)))"
  have "fst (pool_phase pe cf (ba_attributes args) ?lim b3) \<noteq> Some (Inr PoolOutOfFuel)"
  proof
    assume "fst (pool_phase pe cf (ba_attributes args) ?lim b3) = Some (Inr PoolOutOfFuel)"
    then obtain b4 where "pool_phase pe cf (ba_attributes args) ?lim b3 = (Some (Inr PoolOutOfFuel), b4)"
      by (cases "pool_phase pe cf (ba_attributes args) ?lim b3") auto
    then show False
      using enough pre sys forced by (simp add: build_block_def run_bind_def Let_def)
  qed
  note same = phases_fuel(2) [OF this, of k]
  show "run_bind (pool_phase (pe\<lparr>pe_fuel := pe_fuel pe + k\<rparr>) cf (ba_attributes args) ?lim) (\<lambda>pool b.
         if pool = PoolCancelled then (Some (Inr Cancelled), b)
         else if pool = PoolOutOfFuel then (Some (Inr NoFuel), b)
         else if \<not> sa_no_tx_pool (ba_attributes args) \<and>
             \<not> pe_is_better_payload (pe\<lparr>pe_fuel := pe_fuel pe + k\<rparr>) (ba_best_payload args) (xi_total_fees (bu_info b))
         then (Some (Inr (Aborted (xi_total_fees (bu_info b)))), b)
         else
           run_bind (finish_block pe cf (ba_trie_root args) env) (\<lambda>(sealed, result) b'.
             (Some (Inr (if sa_no_tx_pool (ba_attributes args)
                then Freeze \<lparr>bp_block = sealed, bp_executed_block = Some result, bp_fees = xi_total_fees (bu_info b)\<rparr>
                else Better \<lparr>bp_block = sealed, bp_executed_block = Some result, bp_fees = xi_total_fees (bu_info b)\<rparr>)), b')) b) b3 =
      run_bind (pool_phase pe cf (ba_attributes args) ?lim) (\<lambda>pool b.
         if pool = PoolCancelled then (Some (Inr Cancelled), b)
         else if pool = PoolOutOfFuel then (Some (Inr NoFuel), b)
         else if \<not> sa_no_tx_pool (ba_attributes args) \<and>
             \<not> pe_is_better_payload pe (ba_best_payload args) (xi_total_fees (bu_info b))
         then (Some (Inr (Aborted (xi_total_fees (bu_info b)))), b)
         else
           run_bind (finish_block pe cf (ba_trie_root args) env) (\<lambda>(sealed, result) b'.
             (Some (Inr (if sa_no_tx_pool (ba_attributes args)
                then Freeze \<lparr>bp_block = sealed, bp_executed_block = Some result, bp_fees = xi_total_fees (bu_info b)\<rparr>
                else Better \<lparr>bp_block = sealed, bp_executed_block = Some result, bp_fees = xi_total_fees (bu_info b)\<rparr>)), b')) b) b3"
    by (simp add: run_bind_def [of "pool_phase _ _ _ _"] same split: prod.split option.split sum.split)
qed

lemma no_fuel_loop:
  fixes pe :: "('db, 'l1, 'd, 'x, 'i, 'b, 'p) payload_env"
  assumes laws: "payload_laws pe"
    and small: "(\<Sum>enc\<leftarrow>forced_list (ba_attributes args). length enc) < 2 ^ 64"
    and run: "build_block pe cf args env (builder_start pe cf args db env) = (Some (Inr NoFuel), b')"
  shows "\<exists>b2. pool_loop pe cf (be_gas_limit (env_block env)) (be_basefee (env_block env)) (config_breaker (pe_clock pe 0) cf)
    (pe_fuel pe) 0 (pe_best_transactions pe (be_basefee (env_block env))) b2 = (Some (Inr PoolOutOfFuel), b')"
proof -
  let ?b0 = "builder_start pe cf args db env"
  let ?core = "builder_core (env_block env) (sh_hash (ba_parent_header args)) (cf_max_code_witness_bytes cf)"
  from run obtain b1' b1 b2 where
    "pre_execution pe ?b0 = (Some (Inr ()), b1')"
    "(accept_system_code_budget (cf_max_code_witness_bytes cf)
      :: ('db, 'l1, ('d, 'x) PayloadBuilderError, unit) build) b1' = (Some (Inr ()), b1)"
    and forced: "forced_phase pe cf (ba_attributes args) (be_gas_limit (ev_block (ex_evm (bu_exec b1)))) b1 =
      (Some (Inr ()), b2)"
    and pool: "pool_phase pe cf (ba_attributes args) (be_gas_limit (ev_block (ex_evm (bu_exec b1)))) b2 =
      (Some (Inr PoolOutOfFuel), b')"
    by (auto simp: build_block_def run_bind_ok_iff Let_def split: if_splits)
  then have sys: "(run_bind (pre_execution pe) (\<lambda>_. accept_system_code_budget (cf_max_code_witness_bytes cf))
      :: ('db, 'l1, ('d, 'x) PayloadBuilderError, unit) build) ?b0 = (Some (Inr ()), b1)"
    by (simp add: run_bind_ok_iff)
  note s0 = builder_start_core [where pe = pe and env = env and args = args and cf = cf and db = db]
  have s1: "?core b1" "gas_linked b1" "da_used b1 = 0"
    using system_phase_core [OF laws s0(1) sys] s0(2-4) by (auto simp: gas_linked_def execution_info_new_def)
  have "?core b2" using forced_phase_contents [OF laws s1 small forced] by blast
  then have "be_gas_limit (ev_block (ex_evm (bu_exec b1))) = be_gas_limit (env_block env)"
    "be_basefee (ev_block (ex_evm (bu_exec b2))) = be_basefee (env_block env)"
    using s1(1) by (simp_all add: builder_core_def Let_def)
  then show ?thesis using pool by (auto simp: pool_phase_def Let_def split: if_splits)
qed

text \<open>C29. Building ends at the deadline. Suppose that from the \<open>N\<close>th pool item on the build is cancelled
  or its time limit has passed. If the model's fuel runs out, then the pool's iterator yielded as many
  items as there is fuel, and all of them from the \<open>N\<close>th on were candidates that the loop passes over
  because they are over the limits of the block as it then stands, blobs or L1 messages; so the
  first other candidate after the deadline, and the end of the iterator, end the build. If the fuel
  does not run out, the outcome is the same with any more fuel: it is the outcome of the source.\<close>

theorem build_stops_at_deadline:
  fixes pe :: "('db, 'l1, 'd, 'x, 'i, 'b, 'p) payload_env"
  assumes laws: "payload_laws pe"
    and small: "(\<Sum>enc\<leftarrow>forced_list (ba_attributes args). length enc) < 2 ^ 64"
    and late: "\<forall>i \<ge> N. pe_cancelled pe i \<or> cf_time_limit cf \<le> pe_clock pe (Suc i) - pe_clock pe 0"
  shows "(build_payload pe cf args db = Some (Inr NoFuel) \<longrightarrow>
      (\<exists>env base_fee b' items.
        env = next_evm_env (ee_fork_api (pe_env pe)) (ee_spec (pe_env pe)) (sh_header (ba_parent_header args))
          (next_attributes_of pe cf args base_fee) \<and>
        build_block pe cf args env (builder_start pe cf args db env) = (Some (Inr NoFuel), b') \<and>
        yields (pe_best pe) (pe_best_transactions pe base_fee) items \<and> length items = pe_fuel pe \<and>
        (\<forall>i < pe_fuel pe. N \<le> i \<longrightarrow>
          (let tx = fst (bt_to_consensus (pe_best pe) (items ! i)) in
           is_tx_over_limits (pe_rlp pe) (pe_codec pe) (ee_tx (pe_env pe)) tx (be_gas_limit (env_block env))
             (cf_max_da_block_size cf) (bu_info b') \<or>
           env_ty (ee_tx (pe_env pe)) tx = 3 \<or> env_is_l1_message tx)))) \<and>
    (build_payload pe cf args db \<noteq> Some (Inr NoFuel) \<longrightarrow>
      build_payload (pe\<lparr>pe_fuel := pe_fuel pe + k\<rparr>) cf args db = build_payload pe cf args db)"
proof (intro conjI impI)
  assume "build_payload pe cf args db = Some (Inr NoFuel)"
  then show "\<exists>env base_fee b' items.
        env = next_evm_env (ee_fork_api (pe_env pe)) (ee_spec (pe_env pe)) (sh_header (ba_parent_header args))
          (next_attributes_of pe cf args base_fee) \<and>
        build_block pe cf args env (builder_start pe cf args db env) = (Some (Inr NoFuel), b') \<and>
        yields (pe_best pe) (pe_best_transactions pe base_fee) items \<and> length items = pe_fuel pe \<and>
        (\<forall>i < pe_fuel pe. N \<le> i \<longrightarrow>
          (let tx = fst (bt_to_consensus (pe_best pe) (items ! i)) in
           is_tx_over_limits (pe_rlp pe) (pe_codec pe) (ee_tx (pe_env pe)) tx (be_gas_limit (env_block env))
             (cf_max_da_block_size cf) (bu_info b') \<or>
           env_ty (ee_tx (pe_env pe)) tx = 3 \<or> env_is_l1_message tx))"
  proof (rule build_payload_block)
    fix base_fee env b'
    assume env: "env = next_evm_env (ee_fork_api (pe_env pe)) (ee_spec (pe_env pe)) (sh_header (ba_parent_header args))
          (next_attributes_of pe cf args base_fee)"
      and run: "build_block pe cf args env (builder_start pe cf args db env) = (Some (Inr NoFuel), b')"
    have fee: "be_basefee (env_block env) = base_fee"
      by (simp add: env next_env_block_fields next_attributes_of_def Let_def)
    obtain b2 where "pool_loop pe cf (be_gas_limit (env_block env)) (be_basefee (env_block env)) (config_breaker (pe_clock pe 0) cf)
        (pe_fuel pe) 0 (pe_best_transactions pe (be_basefee (env_block env))) b2 = (Some (Inr PoolOutOfFuel), b')"
      using no_fuel_loop [OF laws small run] by blast
    from pool_loop_out_of_fuel [OF _ this, of N] late obtain items where
      "yields (pe_best pe) (pe_best_transactions pe base_fee) items" "length items = pe_fuel pe"
      "\<forall>j < pe_fuel pe. N \<le> j \<longrightarrow> filtered pe cf (be_gas_limit (env_block env)) (bu_info b') (items ! j)"
      unfolding fee by (auto simp: past_deadline_def)
    then show ?thesis using env run unfolding filtered_def by blast
  qed
next
  assume "build_payload pe cf args db \<noteq> Some (Inr NoFuel)"
  then show "build_payload (pe\<lparr>pe_fuel := pe_fuel pe + k\<rparr>) cf args db = build_payload pe cf args db"
    by (auto simp: build_payload_def build_block_more_fuel Let_def split: option.splits sum.splits)
qed

lemma finish_block_root:
  assumes "finish_block pe cf None env b = (Some (Inr (sealed, result)), b')"
  shows "pe_state_root pe (bu_exec b) = Inr (h_state_root (b_header (sb_block sealed)))"
  using assms
  by (auto simp: finish_block_def assemble_block_def Let_def result_elims run_return_def split: if_splits)

lemma finish_block_result:
  assumes "finish_block pe cf trie env b = (Some (Inr (sealed, result)), b')"
  shows "br_receipts result = ex_receipts (bu_exec b)" "br_gas_used result = ex_gas_used (bu_exec b)"
    "b_transactions (sb_block sealed) = map fst (bu_txs b)"
  using assms
  by (auto simp: finish_block_def assemble_block_def executor_finish_def executor_set_state_hook_def Let_def
      result_elims run_return_def split: if_splits)

section \<open>A concrete build\<close>

definition sample_best :: "(nat, unit) best_api" where
  "sample_best = \<lparr>
     bt_next = (\<lambda>n. if n = 0 then None else Some ((), n - 1)),
     bt_mark_invalid = (\<lambda>_ _ n. n),
     bt_to_consensus = (\<lambda>_. (Legacy sample_legacy, 9))\<rparr>"

definition sample_payload_env :: "(map_db, unit, string, string, unit, nat, unit) payload_env" where
  "sample_payload_env = \<lparr>
     pe_env = sample_exec_env_inactive,
     pe_evm = (\<lambda>_. sample_evm_api),
     pe_interp = sample_interp,
     pe_tx_hooks = (\<lambda>_ _ _. [Call_hook sample_code_ctx 8]),
     pe_pre_hooks = (\<lambda>_ _. []), pe_finish_hooks = (\<lambda>_ _. []),
     pe_invalid_tx = (\<lambda>_. True), pe_nonce_too_low = (\<lambda>_. False),
     pe_calc = (\<lambda>used limit fee params. fee),
     pe_rlp = sample_rlp, pe_codec = sample_alloy_codec, pe_txenv = sample_env_api,
     pe_keccak256 = sample_keccak,
     pe_extract_type_byte = (\<lambda>bs. case bs of [] \<Rightarrow> None | ty # _ \<Rightarrow> if ty \<le> 0x7f then Some ty else None),
     pe_effective_tip_per_gas = (\<lambda>_ _. Some 5),
     pe_min_transaction_gas = 21000, pe_gas_limit_bound_divisor = 1024,
     pe_assembler = sample_assembler\<lparr>as_logs_bloom := (\<lambda>_. 0)\<rparr>, pe_hash_slow = (\<lambda>b. h_state_root (b_header b)),
     pe_state_root = (\<lambda>_. Inr 77),
     pe_context = (sample_tx_env, ()),
     pe_best = sample_best, pe_best_transactions = (\<lambda>_. 1),
     pe_is_better_payload = (\<lambda>best fees. case best of None \<Rightarrow> True | Some f \<Rightarrow> f < fees),
     pe_cancelled = (\<lambda>_. False), pe_clock = id, pe_fuel = 3\<rparr>"

lemma sample_payload_env_fields [simp]:
  "pe_env sample_payload_env = sample_exec_env_inactive"
  "pe_evm sample_payload_env = (\<lambda>_. sample_evm_api)"
  "pe_interp sample_payload_env = sample_interp"
  "pe_tx_hooks sample_payload_env = (\<lambda>_ _ _. [Call_hook sample_code_ctx 8])"
  "pe_pre_hooks sample_payload_env = (\<lambda>_ _. [])"
  "pe_finish_hooks sample_payload_env = (\<lambda>_ _. [])"
  "pe_invalid_tx sample_payload_env = (\<lambda>_. True)"
  "pe_nonce_too_low sample_payload_env = (\<lambda>_. False)"
  "pe_calc sample_payload_env = (\<lambda>used limit fee params. fee)"
  "pe_rlp sample_payload_env = sample_rlp"
  "pe_codec sample_payload_env = sample_alloy_codec"
  "pe_txenv sample_payload_env = sample_env_api"
  "pe_keccak256 sample_payload_env = sample_keccak"
  "pe_extract_type_byte sample_payload_env = (\<lambda>bs. case bs of [] \<Rightarrow> None | ty # _ \<Rightarrow> if ty \<le> 0x7f then Some ty else None)"
  "pe_effective_tip_per_gas sample_payload_env = (\<lambda>_ _. Some 5)"
  "pe_min_transaction_gas sample_payload_env = 21000"
  "pe_gas_limit_bound_divisor sample_payload_env = 1024"
  "pe_assembler sample_payload_env = sample_assembler\<lparr>as_logs_bloom := (\<lambda>_. 0)\<rparr>"
  "pe_hash_slow sample_payload_env = (\<lambda>b. h_state_root (b_header b))"
  "pe_state_root sample_payload_env = (\<lambda>_. Inr 77)"
  "pe_context sample_payload_env = (sample_tx_env, ())"
  "pe_best sample_payload_env = sample_best"
  "pe_best_transactions sample_payload_env = (\<lambda>_. 1)"
  "pe_is_better_payload sample_payload_env = (\<lambda>best fees. case best of None \<Rightarrow> True | Some f \<Rightarrow> f < fees)"
  "pe_cancelled sample_payload_env = (\<lambda>_. False)"
  "pe_clock sample_payload_env = id"
  "pe_fuel sample_payload_env = 3"
  by (simp_all add: sample_payload_env_def)

definition sample_build_args :: BuildArguments where
  "sample_build_args = \<lparr>
     ba_parent_header = \<lparr>sh_header = sample_header, sh_hash = 7\<rparr>,
     ba_attributes = sample_payload_attributes\<lparr>sa_transactions := None\<rparr>,
     ba_best_payload = None, ba_trie_root = None\<rparr>"

definition sample_builder_config :: ScrollBuilderConfig where
  "sample_builder_config = \<lparr>cf_gas_limit = Some 40000000, cf_time_limit = 1000,
     cf_max_da_block_size = Some 5000, cf_max_code_witness_bytes = 100\<rparr>"

lemma sample_payload_laws: "payload_laws sample_payload_env"
proof -
  have "gas_limit_agrees sample_alloy_tx_api (executable_of sample_payload_env tx)" for tx
    by (cases "fst tx")
      (simp_all add: gas_limit_agrees_def executable_of_def from_recovered_tx_def recovered_base_def
        sample_alloy_tx_api_def env_gas_limit_def tx_env_new_def l1_tx_env_def l1_gas_limit_def Let_def)
  then show ?thesis
    by (simp add: payload_laws_def sample_exec_env_inactive_def sample_exec_env_def
        sample_best_def env_eip2718_encoded_length_def sample_legacy_codec)
qed

lemma execute_budget_commits:
  assumes b0: "b0 = on_meter begin_transaction b"
    and wo: "execute_transaction_without_commit (metered_env pe b0) (executable_of pe tx) (bu_exec b) =
      (Some (Inr out), ex1)"
    and code: "code_exceeded (ci_meter (run_hooks (pe_interp pe)
      (pe_tx_hooks pe (bu_insp b0) (executable_of pe tx) (bu_exec b)) (bu_insp b0))) = None"
    and co: "commit_transaction (metered_env pe b0) out ex1 = (Some (Inr g), ex2)"
  shows "\<exists>b'. execute_with_code_budget pe tx b = (Some (Inr (Some g)), b') \<and> bu_txs b' = bu_txs b @ [tx] \<and>
    bu_exec b' = ex2 \<and> bu_info b' = bu_info b"
  using assms
  by (simp add: execute_with_code_budget_def execute_transaction_with_commit_condition_def Let_def
      code_witness_commit_def)

lemma commit_legacy:
  "tr_tx_type out = 0 \<Longrightarrow>
   \<exists>ex'. commit_transaction ee out ex = (Some (Inr (er_gas_used (fst (tr_result out)))), ex') \<and>
     ev_tx (ex_evm ex') = ev_tx (ex_evm ex) \<and> ev_block (ex_evm ex') = ev_block (ex_evm ex) \<and>
     ex_gas_used ex' = ex_gas_used ex + er_gas_used (fst (tr_result out))"
  by (cases "tr_result out")
    (simp add: commit_transaction_def build_receipt_def tx_type_try_from_u8_def set_db_def Let_def)

lemma sample_executes:
  assumes "21000 \<le> be_gas_limit (ev_block (ex_evm ex)) - ex_gas_used ex"
  shows "\<exists>out ex'. execute_transaction_without_commit (metered_env sample_payload_env b)
      (executable_of sample_payload_env (Legacy sample_legacy, 9)) ex = (Some (Inr out), ex') \<and>
    er_gas_used (fst (tr_result out)) = 21000 \<and> tr_tx_type out = 0"
proof -
  let ?env = "from_recovered_tx sample_rlp sample_alloy_codec sample_env_api (Legacy sample_legacy) 9"
  have gas: "te_gas_limit (ste_base ?env) = 21000" and bytes: "\<exists>bs. ste_rlp_bytes ?env = Some bs"
    by (simp_all add: from_recovered_tx_def recovered_base_def tx_env_new_def sample_legacy_def Let_def)
  have tx: "env_ty sample_alloy_tx_api (Legacy sample_legacy) = 0" "env_gas_limit sample_alloy_tx_api (Legacy sample_legacy) = 21000"
    by (simp_all add: env_ty_def env_gas_limit_def sample_alloy_tx_api_def sample_legacy_def)
  show ?thesis
    using gas bytes tx assms
    by (auto simp: execute_transaction_without_commit_def executable_of_def metered_env_def
      sample_exec_env_inactive_def sample_exec_env_def transact_raw_def sample_evm_api_def sample_transact_def
      evm_l1_fee_def L1_MESSAGE_TRANSACTION_TYPE_def Let_def)
qed

lemma sample_hook_fits:
  "code_exceeded (ci_meter (run_hooks sample_interp [Call_hook sample_code_ctx 8]
     ((code_inspector m)\<lparr>ci_meter := begin_transaction (code_witness_new 100 (- 1))\<rparr>))) = None"
  by (simp add: sample_meter_defs Let_def)

definition sample_fee_env :: "u64 \<Rightarrow> EvmEnv" where
  "sample_fee_env fee = next_evm_env sample_fork_api (sample_view\<lparr>sv_activation := (\<lambda>_. Never)\<rparr>) sample_header
     (next_attributes_of sample_payload_env sample_builder_config sample_build_args fee)"

definition sample_start :: "u64 \<Rightarrow> (map_db, unit) builder" where
  "sample_start fee = builder_start sample_payload_env sample_builder_config sample_build_args empty_map_db
     (sample_fee_env fee)"

lemma sample_start_facts:
  "bu_insp (sample_start fee) = code_inspector (code_witness_new 100 (- 1))"
  "ex_gas_used (bu_exec (sample_start fee)) = 0"
  "ex_db (bu_exec (sample_start fee)) = empty_map_db"
  "be_timestamp (ev_block (ex_evm (bu_exec (sample_start fee)))) = 12"
  "be_gas_limit (ev_block (ex_evm (bu_exec (sample_start fee)))) = 30029296"
  "bu_info (sample_start fee) = execution_info_new" "bu_txs (sample_start fee) = []"
  by (simp_all add: sample_start_def sample_fee_env_def builder_start_def sample_build_args_def
      sample_builder_config_def executor_new_def next_evm_env_def next_attributes_of_def ex_db_def create_evm_with_inspector_def
      next_block_gas_limit_def clamp_def saturating_sub_def saturating_add_def
      sample_payload_attributes_def sample_header_def Let_def)

lemma sample_pre_changes:
  assumes "be_timestamp (ev_block (ex_evm ex)) = 12" and "ex_db ex = empty_map_db"
  shows "apply_pre_execution_changes (metered_env sample_payload_env b) ex = (Some (Inr ()), ex)"
  using assms
  by (subst pre_execution_inactive [where ts = 12])
    (simp_all add: metered_env_def sample_exec_env_inactive_def sample_exec_env_def u256_to_u64_def
      base_fee_overhead_def map_db_ops_def empty_map_db_def sample_fork_api_def)

lemma sample_pre:
  "pre_execution sample_payload_env (sample_start fee) = (Some (Inr ()), on_meter begin_transaction (sample_start fee))"
  by (simp add: pre_execution_def Let_def run_hooks_def sample_pre_changes sample_start_facts on_meter_def)

lemma accept_fresh:
  "accept_transaction (begin_transaction (code_witness_new c s)) = (True, code_witness_new c s)"
  by (simp add: accept_transaction_def begin_transaction_def reset_transaction_def code_witness_new_def)

lemma sample_candidate:
  "\<exists>b'. execute_with_code_budget sample_payload_env (Legacy sample_legacy, 9) (sample_start fee) =
    (Some (Inr (Some 21000)), b') \<and> bu_txs b' = [(Legacy sample_legacy, 9)]"
proof -
  let ?b0 = "on_meter begin_transaction (sample_start fee)"
  obtain out ex1 where wo: "execute_transaction_without_commit (metered_env sample_payload_env ?b0)
      (executable_of sample_payload_env (Legacy sample_legacy, 9)) (bu_exec (sample_start fee)) = (Some (Inr out), ex1)"
    and o: "er_gas_used (fst (tr_result out)) = 21000" "tr_tx_type out = 0"
    using sample_executes [of "bu_exec (sample_start fee)" ?b0] by (auto simp: sample_start_facts)
  obtain ex2 where co: "commit_transaction (metered_env sample_payload_env ?b0) out ex1 = (Some (Inr 21000), ex2)"
    using commit_legacy [OF o(2)] o(1) by metis
  have fits: "code_exceeded (ci_meter (run_hooks (pe_interp sample_payload_env) (pe_tx_hooks sample_payload_env (bu_insp ?b0)
      (executable_of sample_payload_env (Legacy sample_legacy, 9)) (bu_exec (sample_start fee))) (bu_insp ?b0))) = None"
    using sample_hook_fits by (simp add: on_meter_def sample_start_facts code_inspector_def)
  show ?thesis
    using execute_budget_commits [OF refl wo fits co] by (auto simp: sample_start_facts)
qed

lemma sample_pool:
  "\<exists>b'. pool_phase sample_payload_env sample_builder_config (ba_attributes sample_build_args) 30029296 (sample_start fee) =
     (Some (Inr PoolDone), b') \<and> bu_txs b' = [(Legacy sample_legacy, 9)]"
proof -
  obtain b' where c: "execute_with_code_budget sample_payload_env (Legacy sample_legacy, 9) (sample_start fee) =
    (Some (Inr (Some 21000)), b')" and txs: "bu_txs b' = [(Legacy sample_legacy, 9)]" using sample_candidate by blast
  have tx: "env_ty sample_alloy_tx_api (Legacy sample_legacy) = 0"
     "env_gas_limit sample_alloy_tx_api (Legacy sample_legacy) = 21000"
    by (simp_all add: env_ty_def env_gas_limit_def sample_alloy_tx_api_def sample_legacy_def)
  show ?thesis
   by (simp add: pool_phase_def Let_def numeral_3_eq_3 sample_best_def c txs sample_start_facts execution_info_new_def
     is_tx_over_limits_def sample_builder_config_def sample_build_args_def sample_payload_attributes_def
     sample_exec_env_inactive_def sample_exec_env_def tx env_is_l1_message_def env_eip2718_encoded_length_def
     saturating_add_def saturating_sub_def should_break_def config_breaker_def breaker_new_def MIN_TRANSACTION_DATA_SIZE_def sample_legacy_codec)
qed

lemma sample_finish:
  "\<exists>sealed result b'. finish_block sample_payload_env sample_builder_config None (sample_fee_env fee) b =
     (Some (Inr (sealed, result)), b')"
proof -
  let ?b = "on_meter begin_transaction b"
  obtain blk where a: "assemble_block (sample_assembler\<lparr>as_logs_bloom := (\<lambda>_. 0)\<rparr>) (sample_fee_env fee) (ex_parent_hash (bu_exec b)) (map fst (bu_txs b))
     (executor_finish (bu_exec b)) 77 = Inr blk"
    by (simp add: sample_fee_env_def assemble_next_env)
  have "mt_exceeded (builder_meter ?b) = None"
    by (simp add: begin_transaction_def reset_transaction_def)
  then obtain b' where "(accept_system_code_budget (cf_max_code_witness_bytes sample_builder_config)
     :: (map_db, unit, (string, string) PayloadBuilderError, unit) build) ?b = (Some (Inr ()), b')"
    by (auto simp: accept_system_code_budget_def accept_transaction_def Let_def)
  then show ?thesis
    using a by (simp add: finish_block_def run_hooks_def run_return_def Let_def) (simp add: run_bind_def)
qed

lemma sample_build: "\<exists>p. build_payload sample_payload_env sample_builder_config sample_build_args empty_map_db =
   Some (Inr (Better p)) \<and> b_transactions (sb_block (bp_block p)) = [Legacy sample_legacy]"
proof -
  let ?pe = sample_payload_env and ?cf = sample_builder_config and ?args = sample_build_args
  obtain fee where fee: "next_block_base_fee (ee_fork_api (pe_env ?pe)) (pe_calc ?pe) (ee_ops (pe_env ?pe)) (ee_spec (pe_env ?pe))
     empty_map_db (sh_header (ba_parent_header ?args)) (pa_timestamp (sa_payload_attributes (ba_attributes ?args))) = Some (Inr fee)"
    by (simp add: next_block_base_fee_def base_fee_parent_from_header_def sample_build_args_def sample_header_def
     next_block_base_fee_for_parent_def base_fee_overhead_def sample_exec_env_inactive_def sample_exec_env_def map_db_ops_def empty_map_db_def)
  have env: "next_evm_env (ee_fork_api (pe_env ?pe)) (ee_spec (pe_env ?pe)) (sh_header (ba_parent_header ?args))
     (next_attributes_of ?pe ?cf ?args fee) = sample_fee_env fee"
    by (simp add: sample_fee_env_def sample_build_args_def sample_exec_env_inactive_def sample_exec_env_def)
  obtain b2 where pool: "pool_phase ?pe ?cf (ba_attributes ?args) 30029296 (sample_start fee) = (Some (Inr PoolDone), b2)"
    and txs: "bu_txs b2 = [(Legacy sample_legacy, 9)]"
    using sample_pool by blast
  obtain sealed result b3 where fin: "finish_block ?pe ?cf None (sample_fee_env fee) b2 = (Some (Inr (sealed, result)), b3)"
    using sample_finish by blast
  have forced: "forced_phase ?pe ?cf (ba_attributes ?args) g b = (Some (Inr ()), b)" for g b
    by (simp add: forced_phase_def decode_forced_transactions_def sample_build_args_def sample_payload_attributes_def
      forced_transactions_da_bytes_def sample_builder_config_def run_bind_def run_result_def Let_def)
  have args: "ba_trie_root ?args = None" "ba_best_payload ?args = None" "sa_no_tx_pool (ba_attributes ?args) = False"
    by (simp_all add: sample_build_args_def sample_payload_attributes_def)
  have acc: "accept_system_code_budget lim (on_meter begin_transaction (sample_start fee)) = (Some (Inr ()), sample_start fee)" for lim
    by (simp add: accept_system_code_budget_def accept_fresh builder_meter_def on_meter_def
     sample_start_facts code_inspector_def Let_def)
  have "fst (build_block ?pe ?cf ?args (sample_fee_env fee) (sample_start fee)) =
    Some (Inr (Better \<lparr>bp_block = sealed, bp_executed_block = Some result, bp_fees = xi_total_fees (bu_info b2)\<rparr>))"
    by (simp add: build_block_def run_bind_def sample_pre acc sample_start_facts forced pool fin args Let_def)
  then show ?thesis
    using fee env finish_block_result(3) [OF fin] txs by (simp add: build_payload_def Let_def sample_start_def)
qed

text \<open>A request with the same forced transaction twice, for an EVM that refuses a transaction right after
  itself: the first is in the block, the second is skipped.\<close>

definition once_transact ::
  "ScrollTxEnv \<Rightarrow> (map_db, unit) scroll_evm \<Rightarrow> (string + ResultAndState) \<times> (map_db, unit) scroll_evm" where
  "once_transact tx evm = (if ev_tx evm = tx then (Inl ''nonce'', evm) else sample_transact tx evm)"

definition once_evm_api :: "(map_db, unit, string) evm_api" where
  "once_evm_api = sample_evm_api\<lparr>api_transact := once_transact, api_inspect_tx := once_transact\<rparr>"

definition sample_once_env :: "(map_db, unit, string, string, unit, nat, unit) payload_env" where
  "sample_once_env = sample_payload_env\<lparr>pe_evm := (\<lambda>_. once_evm_api), pe_invalid_tx := (\<lambda>e. e = ''nonce'')\<rparr>"

definition sample_encoding :: bytes where
  "sample_encoding = env_encode_2718 sample_rlp sample_alloy_codec (Legacy sample_legacy)"

definition sample_forced_args :: BuildArguments where
  "sample_forced_args = sample_build_args\<lparr>ba_attributes := (ba_attributes sample_build_args)\<lparr>
     sa_transactions := Some [sample_encoding, sample_encoding], sa_no_tx_pool := True\<rparr>\<rparr>"

lemma sample_once_laws: "payload_laws sample_once_env"
proof -
  have "evm_laws once_evm_api"
    by (auto simp: evm_laws_def once_evm_api_def once_transact_def sample_evm_api_def sample_transact_def
        sample_system_call_def evm_frame_def)
  then show ?thesis
    using sample_payload_laws by (simp add: payload_laws_def sample_once_env_def executable_of_def)
qed

lemma sample_decodes:
  "decode_2718 sample_rlp sample_alloy_codec sample_keccak (pe_extract_type_byte sample_payload_env) sample_encoding =
     Inr (Legacy sample_legacy, [])"
proof -
  have "pe_extract_type_byte sample_payload_env sample_encoding = None"
    by (simp add: sample_encoding_def env_encode_2718_def sample_alloy_codec_def word_le_nat_alt split: list.split)
  then show ?thesis
    using envelope_decode_ok [OF sample_rlp_laws sample_alloy_codec_laws sample_legacy_codec(3), of "[]"]
    by (simp add: decode_2718_def sample_encoding_def del: sample_payload_env_fields)
qed

lemma sample_forced_decoded:
  "decode_forced_transactions (decode_2718 (pe_rlp sample_once_env) (pe_codec sample_once_env) (pe_keccak256 sample_once_env)
      (pe_extract_type_byte sample_once_env)) (ba_attributes sample_forced_args) =
    Inr [(sample_encoding, Legacy sample_legacy), (sample_encoding, Legacy sample_legacy)]"
  using sample_decodes
  by (simp add: decode_forced_list sample_forced_args_def sample_once_env_def)

abbreviation sample_executable :: ScrollTxEnv where
  "sample_executable \<equiv> from_recovered_tx sample_rlp sample_alloy_codec sample_env_api (Legacy sample_legacy) 9"

lemma sample_once_executes:
  assumes room: "21000 \<le> be_gas_limit (ev_block (ex_evm ex)) - ex_gas_used ex"
  shows "ev_tx (ex_evm ex) \<noteq> sample_executable \<Longrightarrow>
      \<exists>out ex'. execute_transaction_without_commit (metered_env sample_once_env b)
        (executable_of sample_once_env (Legacy sample_legacy, 9)) ex = (Some (Inr out), ex') \<and>
      er_gas_used (fst (tr_result out)) = 21000 \<and> tr_tx_type out = 0 \<and> ev_tx (ex_evm ex') = sample_executable \<and>
      ev_block (ex_evm ex') = ev_block (ex_evm ex) \<and> ex_gas_used ex' = ex_gas_used ex"
    and "ev_tx (ex_evm ex) = sample_executable \<Longrightarrow>
      \<exists>h ex'. execute_transaction_without_commit (metered_env sample_once_env b)
        (executable_of sample_once_env (Legacy sample_legacy, 9)) ex = (Some (Inl (EvmError ''nonce'' h)), ex')"
proof -
  have gas: "te_gas_limit (ste_base sample_executable) = 21000" and bytes: "\<exists>bs. ste_rlp_bytes sample_executable = Some bs"
    by (simp_all add: from_recovered_tx_def recovered_base_def tx_env_new_def sample_legacy_def Let_def)
  have tx: "env_ty sample_alloy_tx_api (Legacy sample_legacy) = 0" "env_gas_limit sample_alloy_tx_api (Legacy sample_legacy) = 21000"
    by (simp_all add: env_ty_def env_gas_limit_def sample_alloy_tx_api_def sample_legacy_def)
  note defs = execute_transaction_without_commit_def executable_of_def metered_env_def sample_once_env_def
      sample_exec_env_inactive_def sample_exec_env_def transact_raw_def once_evm_api_def once_transact_def sample_evm_api_def
      sample_transact_def evm_l1_fee_def L1_MESSAGE_TRANSACTION_TYPE_def with_nonce_check_def with_base_fee_check_def Let_def
  show "ev_tx (ex_evm ex) \<noteq> sample_executable \<Longrightarrow>
      \<exists>out ex'. execute_transaction_without_commit (metered_env sample_once_env b)
        (executable_of sample_once_env (Legacy sample_legacy, 9)) ex = (Some (Inr out), ex') \<and>
      er_gas_used (fst (tr_result out)) = 21000 \<and> tr_tx_type out = 0 \<and> ev_tx (ex_evm ex') = sample_executable \<and>
      ev_block (ex_evm ex') = ev_block (ex_evm ex) \<and> ex_gas_used ex' = ex_gas_used ex"
    using gas bytes tx room by (auto simp: defs)
  show "ev_tx (ex_evm ex) = sample_executable \<Longrightarrow>
      \<exists>h ex'. execute_transaction_without_commit (metered_env sample_once_env b)
        (executable_of sample_once_env (Legacy sample_legacy, 9)) ex = (Some (Inl (EvmError ''nonce'' h)), ex')"
    using tx room by (auto simp: defs)
qed

lemma sample_once_pre:
  "pre_execution sample_once_env (sample_start fee) = (Some (Inr ()), on_meter begin_transaction (sample_start fee))"
proof -
  have "apply_pre_execution_changes (metered_env sample_once_env b) (bu_exec (sample_start fee)) =
      (Some (Inr ()), bu_exec (sample_start fee))" for b
    by (subst pre_execution_inactive [where ts = 12])
      (simp_all add: metered_env_def sample_once_env_def sample_exec_env_inactive_def sample_exec_env_def u256_to_u64_def
        base_fee_overhead_def map_db_ops_def empty_map_db_def sample_fork_api_def sample_start_facts)
  then show ?thesis
    by (simp add: pre_execution_def Let_def run_hooks_def on_meter_def) (simp add: sample_once_env_def)
qed

lemma sample_once_forced:
  "\<exists>b'. forced_loop sample_once_env sample_builder_config 30029296
      [(sample_encoding, Legacy sample_legacy), (sample_encoding, Legacy sample_legacy)] [] (sample_start fee) =
    (Some (Inr ()), b') \<and> bu_txs b' = [(Legacy sample_legacy, 9)]"
proof -
  let ?pe = sample_once_env and ?tx = "(Legacy sample_legacy, 9)" and ?s = "sample_start fee"
  let ?b0 = "on_meter begin_transaction ?s"
  have tx: "env_ty (ee_tx (pe_env ?pe)) (Legacy sample_legacy) = 0"
     "env_gas_limit (ee_tx (pe_env ?pe)) (Legacy sample_legacy) = 21000"
     "env_recover_signer (pe_codec ?pe) (Legacy sample_legacy) = Inr 9" "pe_invalid_tx ?pe ''nonce''"
    by (simp_all add: env_ty_def env_gas_limit_def sample_alloy_tx_api_def sample_legacy_codec sample_once_env_def
        sample_exec_env_inactive_def sample_exec_env_def) (simp_all add: sample_legacy_def)
  have fresh: "ev_tx (ex_evm (bu_exec ?s)) \<noteq> sample_executable"
    by (simp add: sample_start_def builder_start_def executor_new_def create_evm_with_inspector_def sample_tx_env_def
        from_recovered_tx_def recovered_base_def l1_tx_env_def tx_env_new_def sample_build_args_def Let_def)
  obtain out ex1 where wo: "execute_transaction_without_commit (metered_env ?pe ?b0) (executable_of ?pe ?tx) (bu_exec ?s) =
      (Some (Inr out), ex1)"
    and o: "er_gas_used (fst (tr_result out)) = 21000" "tr_tx_type out = 0" "ev_tx (ex_evm ex1) = sample_executable"
      "ev_block (ex_evm ex1) = ev_block (ex_evm (bu_exec ?s))" "ex_gas_used ex1 = ex_gas_used (bu_exec ?s)"
    using sample_once_executes(1) [of "bu_exec ?s" ?b0] fresh by (auto simp: sample_start_facts)
  obtain ex2 where co: "commit_transaction (metered_env ?pe ?b0) out ex1 = (Some (Inr 21000), ex2)"
    and ex2: "ev_tx (ex_evm ex2) = sample_executable" "ev_block (ex_evm ex2) = ev_block (ex_evm (bu_exec ?s))"
      "ex_gas_used ex2 = 21000"
    using commit_legacy [OF o(2), of "metered_env ?pe ?b0" ex1] o by (auto simp: sample_start_facts)
  have fits: "code_exceeded (ci_meter (run_hooks (pe_interp ?pe) (pe_tx_hooks ?pe (bu_insp ?b0)
      (executable_of ?pe ?tx) (bu_exec ?s)) (bu_insp ?b0))) = None"
    using sample_hook_fits by (simp add: on_meter_def sample_start_facts code_inspector_def sample_once_env_def)
  obtain b1 where one: "execute_with_code_budget ?pe ?tx ?s = (Some (Inr (Some 21000)), b1)"
    and b1: "bu_exec b1 = ex2" "bu_info b1 = bu_info ?s" "bu_txs b1 = [?tx]"
    using execute_budget_commits [OF refl wo fits co] by (auto simp: sample_start_facts)
  let ?r = "record_forced 21000 (of_nat (length sample_encoding)) b1"
  have "21000 \<le> be_gas_limit (ev_block (ex_evm (bu_exec ?r))) - ex_gas_used (bu_exec ?r)"
    by (simp add: b1 ex2 sample_start_facts)
  from sample_once_executes(2) [OF this, of "on_meter begin_transaction ?r"] obtain h ex3 where
    "execute_transaction_without_commit (metered_env ?pe (on_meter begin_transaction ?r)) (executable_of ?pe ?tx) (bu_exec ?r) =
      (Some (Inl (EvmError ''nonce'' h)), ex3)"
    by (auto simp: b1 ex2)
  then obtain b3 where two: "execute_with_code_budget ?pe ?tx ?r = (Some (Inl (EvmError ''nonce'' h)), b3)"
    and b3: "bu_txs b3 = [?tx]"
    using b1(3) by (simp add: execute_with_code_budget_def execute_transaction_with_commit_condition_def Let_def)
  have info: "xi_cumulative_gas_used (bu_info ?s) = 0" "xi_cumulative_gas_used (bu_info ?r) = 21000"
    using b1(2) by (simp_all add: sample_start_facts execution_info_new_def record_forced_def)
  show ?thesis
    using b3 by (simp add: tx one two info forced_code_budget_result_def is_invalid_tx_def saturating_add_def)
qed

lemma sample_once_build:
  "\<exists>p. build_payload sample_once_env sample_builder_config sample_forced_args empty_map_db = Some (Inr (Freeze p)) \<and>
     b_transactions (sb_block (bp_block p)) = [Legacy sample_legacy]"
proof -
  let ?pe = sample_once_env and ?cf = sample_builder_config and ?args = sample_forced_args
  have pe: "pe_env ?pe = pe_env sample_payload_env" "pe_calc ?pe = pe_calc sample_payload_env"
    by (simp_all add: sample_once_env_def)
  obtain fee where fee: "next_block_base_fee (ee_fork_api (pe_env ?pe)) (pe_calc ?pe) (ee_ops (pe_env ?pe)) (ee_spec (pe_env ?pe))
     empty_map_db (sh_header (ba_parent_header ?args)) (pa_timestamp (sa_payload_attributes (ba_attributes ?args))) = Some (Inr fee)"
    by (simp add: next_block_base_fee_def base_fee_parent_from_header_def sample_build_args_def sample_forced_args_def sample_header_def
     next_block_base_fee_for_parent_def base_fee_overhead_def sample_once_env_def sample_exec_env_inactive_def sample_exec_env_def
     map_db_ops_def empty_map_db_def)
  have env: "next_evm_env (ee_fork_api (pe_env ?pe)) (ee_spec (pe_env ?pe)) (sh_header (ba_parent_header ?args))
     (next_attributes_of ?pe ?cf ?args fee) = sample_fee_env fee"
    by (simp add: sample_fee_env_def sample_build_args_def sample_forced_args_def next_attributes_of_def pe
        sample_exec_env_inactive_def sample_exec_env_def) (simp add: sample_once_env_def)
  have start: "builder_start ?pe ?cf ?args empty_map_db (sample_fee_env fee) = sample_start fee"
    by (simp add: sample_start_def builder_start_def sample_forced_args_def sample_once_env_def)
  obtain b2 where loop: "forced_loop ?pe ?cf 30029296
      [(sample_encoding, Legacy sample_legacy), (sample_encoding, Legacy sample_legacy)] [] (sample_start fee) = (Some (Inr ()), b2)"
    and txs: "bu_txs b2 = [(Legacy sample_legacy, 9)]"
    using sample_once_forced by blast
  have da: "forced_transactions_da_bytes [(sample_encoding, Legacy sample_legacy), (sample_encoding, Legacy sample_legacy)] = 2512"
    by (simp add: forced_transactions_da_bytes_def sample_encoding_def env_encode_2718_def sample_legacy_codec saturating_add_def)
  have forced: "forced_phase ?pe ?cf (ba_attributes ?args) 30029296 (sample_start fee) = (Some (Inr ()), b2)"
    using loop by (simp add: forced_phase_def sample_forced_decoded da run_bind_def run_result_def map_err_def Let_def del: forced_loop.simps)
      (simp add: da sample_builder_config_def del: forced_loop.simps)
  obtain sealed result b3 where fin: "finish_block ?pe ?cf None (sample_fee_env fee) b2 = (Some (Inr (sealed, result)), b3)"
    using sample_finish [of fee b2] by (auto simp: finish_block_def sample_once_env_def Let_def)
  have args: "ba_trie_root ?args = None" "ba_best_payload ?args = None" "sa_no_tx_pool (ba_attributes ?args)"
    by (simp_all add: sample_forced_args_def sample_build_args_def)
  have acc: "accept_system_code_budget lim (on_meter begin_transaction (sample_start fee)) = (Some (Inr ()), sample_start fee)" for lim
    by (simp add: accept_system_code_budget_def accept_fresh builder_meter_def on_meter_def
     sample_start_facts code_inspector_def Let_def)
  have "\<exists>p. fst (build_block ?pe ?cf ?args (sample_fee_env fee) (sample_start fee)) = Some (Inr (Freeze p)) \<and> bp_block p = sealed"
    by (simp add: build_block_def run_bind_def sample_once_pre acc sample_start_facts forced pool_phase_def fin args Let_def)
  then show ?thesis
    using fee env start finish_block_result(3) [OF fin] txs by (auto simp: build_payload_def Let_def)
qed

theorem built_payload_contents_witness:
  "\<exists>p. build_payload sample_once_env sample_builder_config sample_forced_args empty_map_db = Some (Inr (Freeze p)) \<and>
    b_transactions (sb_block (bp_block p)) = [Legacy sample_legacy] \<and>
    h_gas_used (b_header (sb_block (bp_block p))) \<le> h_gas_limit (b_header (sb_block (bp_block p))) \<and>
    (\<exists>signer bi e b'. execute_with_code_budget sample_once_env (Legacy sample_legacy, signer) bi = (Some (Inl e), b') \<and>
       (\<forall>err h. e = EvmError err h \<longrightarrow> err = ''nonce''))"
proof -
  obtain p where run: "build_payload sample_once_env sample_builder_config sample_forced_args empty_map_db = Some (Inr (Freeze p))"
    and txs: "b_transactions (sb_block (bp_block p)) = [Legacy sample_legacy]"
    using sample_once_build by blast
  let ?forced = "[(sample_encoding, Legacy sample_legacy), (sample_encoding, Legacy sample_legacy)]"
  have built: "built_as (Freeze p) p" by (simp add: built_as_def)
  have small: "(\<Sum>enc\<leftarrow>forced_list (ba_attributes sample_forced_args). length enc) < 2 ^ 64"
    by (simp add: sample_forced_args_def sample_encoding_def env_encode_2718_def sample_legacy_codec)
  from built_payload_contents [OF sample_once_laws run built small refl] show ?thesis
  proof (elim exE conjE, goal_cases)
    case (1 env base_fee b1 forced taken items ps result)
    have forced: "forced = ?forced" using trans [OF sym [OF 1(4)] sample_forced_decoded] by (simp only: sum.inject)
    have none: "ps = []" using 1(10) by (simp add: sample_forced_args_def)
    have "length (nths ?forced taken) = 1"
      using arg_cong [OF 1(5), of length] unfolding txs forced none by simp
    moreover have "nths ?forced taken = ?forced" if "\<forall>i < 2. i \<in> taken"
      using that by (intro nths_all) simp
    ultimately obtain i where i: "i < 2" "i \<notin> taken" by fastforce
    then have legacy: "snd (forced ! i) = Legacy sample_legacy" and "i < length forced"
      by (auto simp: forced less_2_cases_iff)
    from 1(6) [THEN spec, THEN mp, OF this(2), THEN conjunct2, unfolded legacy] i(2) obtain signer bi e b' where
      e: "execute_with_code_budget sample_once_env (Legacy sample_legacy, signer) bi = (Some (Inl e), b')"
      "(\<exists>h. e = Eip4844NotSupported h) \<or> (\<exists>err h. e = EvmError err h \<and> pe_invalid_tx sample_once_env err)"
      by blast
    have "\<forall>err h. e = EvmError err h \<longrightarrow> err = ''nonce''" using e(2) by (auto simp: sample_once_env_def)
    then show ?case using run txs 1(14) e(1) by blast
  qed
qed

theorem candidate_is_atomic_witness:
  "\<exists>b'. execute_with_code_budget sample_payload_env (Legacy sample_legacy, 9) (sample_start 5) =
      (Some (Inr (Some 21000)), b') \<and> unat (ex_gas_used (bu_exec b')) = 21000 \<and>
    block_code_bytes (builder_meter b') \<le> 100"
proof -
  obtain b' where run: "execute_with_code_budget sample_payload_env (Legacy sample_legacy, 9) (sample_start 5) =
      (Some (Inr (Some 21000)), b')"
    using sample_candidate by blast
  have core: "builder_core (env_block (sample_fee_env 5)) (sh_hash (ba_parent_header sample_build_args)) 100 (sample_start 5)"
    using builder_start_core(1) [where pe = sample_payload_env and env = "sample_fee_env 5" and args = sample_build_args
        and cf = sample_builder_config and db = empty_map_db]
    by (simp add: sample_start_def sample_builder_config_def)
  from candidate_is_atomic [OF sample_payload_laws core run] run show ?thesis
    by (simp add: sample_start_facts)
qed

text \<open>The sample clock passes the time limit at its thousandth item: the sample build, whose fuel is three,
  has the same outcome with any more.\<close>

theorem build_stops_at_deadline_witness:
  "\<exists>p. build_payload (sample_payload_env\<lparr>pe_fuel := 3 + 1000000\<rparr>) sample_builder_config sample_build_args empty_map_db =
    Some (Inr (Better p))"
proof -
  obtain p where run: "build_payload sample_payload_env sample_builder_config sample_build_args empty_map_db = Some (Inr (Better p))"
    using sample_build by blast
  have late: "\<forall>i \<ge> 1000. pe_cancelled sample_payload_env i \<or>
      cf_time_limit sample_builder_config \<le> pe_clock sample_payload_env (Suc i) - pe_clock sample_payload_env 0"
    by (simp add: sample_builder_config_def)
  have small: "(\<Sum>enc\<leftarrow>forced_list (ba_attributes sample_build_args). length enc) < 2 ^ 64"
    by (simp add: sample_build_args_def sample_payload_attributes_def)
  from build_stops_at_deadline [OF sample_payload_laws small late, of empty_map_db 1000000] run show ?thesis by auto
qed

end
