(* ===== verification/Txpool_Validator.thy ===== *)
theory Txpool_Validator
  imports Evm_Config
begin

text \<open>
  Transaction admission (\<open>crates/dogeos-reth-txpool/src/validator.rs\<close>): the L1 fee snapshot of a
  canonical head, its cache and the bounded refresh of the cache, and the validation of one
  transaction on top of reth's validator; and the pool wrapper of \<open>transaction.rs\<close>.

  The provider is read at successive moments: \<open>client_api\<close> takes the time of each read, and
  every read advances the time, so the canonical head may move between any two reads. Refreshes
  are serialised by their lock and are the only writers of the cache, so one refresh is one
  function on it. Reth's validator, the cost of a transaction and the admission check installed
  by the node are parameters.
\<close>

section \<open>Pool transactions\<close>

record DogeosPooledTransaction =
  pt_transaction :: "ScrollTxEnvelope \<times> address"
  pt_cost :: u256
  pt_encoded_length :: nat
  pt_encoded_2718 :: "bytes option"

text \<open>\<open>EthPooledTransaction::new\<close> computes the cost; it is the argument \<open>cost\<close>.\<close>

definition pooled_tx_new ::
  "(ScrollTxEnvelope \<Rightarrow> u256) \<Rightarrow> ScrollTxEnvelope \<times> address \<Rightarrow> nat \<Rightarrow> DogeosPooledTransaction" where
  "pooled_tx_new cost transaction encoded_length = \<lparr>
     pt_transaction = transaction, pt_cost = cost (fst transaction),
     pt_encoded_length = encoded_length, pt_encoded_2718 = None\<rparr>"

definition pooled_tx_encoded_2718 ::
  "rlp_api \<Rightarrow> alloy_codec \<Rightarrow> DogeosPooledTransaction \<Rightarrow> bytes \<times> DogeosPooledTransaction" where
  "pooled_tx_encoded_2718 r ac t =
     (case pt_encoded_2718 t of
        Some bytes \<Rightarrow> (bytes, t)
      | None \<Rightarrow>
          let bytes = env_encode_2718 r ac (fst (pt_transaction t)) in
          (bytes, t\<lparr>pt_encoded_2718 := Some bytes\<rparr>))"

definition pooled_tx_from_pooled ::
  "alloy_codec \<Rightarrow> (ScrollTxEnvelope \<Rightarrow> u256) \<Rightarrow> ScrollPooledTransaction \<times> address \<Rightarrow>
   DogeosPooledTransaction" where
  "pooled_tx_from_pooled ac cost transaction =
     (let encoded_length = pooled_encode_2718_len ac (fst transaction) in
      pooled_tx_new cost (into_scroll_envelope (fst transaction), snd transaction) encoded_length)"

definition pooled_tx_hash :: "DogeosPooledTransaction \<Rightarrow> b256" where
  "pooled_tx_hash t = env_trie_hash (fst (pt_transaction t))"

section \<open>L1 fee snapshots\<close>

definition MAX_ROLLUP_FEE_PRE_TSUKI :: u256 where
  "MAX_ROLLUP_FEE_PRE_TSUKI = 2 ^ 64 - 1"

definition MAX_ROLLUP_FEE_TSUKI :: u256 where
  "MAX_ROLLUP_FEE_TSUKI = (2 ^ 32 - 1) * 2 ^ 64 + (2 ^ 64 - 1)"

definition MAX_L1_FEE_REFRESH_ATTEMPTS :: nat where
  "MAX_L1_FEE_REFRESH_ATTEMPTS = 3"

record 'l1 DogeosL1FeeSnapshot =
  sn_head_hash :: b256
  sn_timestamp :: u64
  sn_number :: u64
  sn_l1_block_info :: 'l1

datatype 'e DogeosL1FeeError =
    LatestHeaderRead 'e
  | LatestHeaderNotFound
  | ExactStateOpen b256 u64 'e
  | OracleAccountRead b256 u64 'e
  | OracleAccountNotFound b256 u64
  | OracleStorageRead b256 u64 'e
  | RefreshHeadMoved nat b256 u64 b256 u64
  | CacheUnavailable "'e DogeosL1FeeError"

fun head_context :: "'e DogeosL1FeeError \<Rightarrow> (b256 \<times> u64) option" where
  "head_context (ExactStateOpen head_hash number _) = Some (head_hash, number)"
| "head_context (OracleAccountRead head_hash number _) = Some (head_hash, number)"
| "head_context (OracleAccountNotFound head_hash number) = Some (head_hash, number)"
| "head_context (OracleStorageRead head_hash number _) = Some (head_hash, number)"
| "head_context (RefreshHeadMoved _ _ _ latest_head latest_number) = Some (latest_head, latest_number)"
| "head_context (CacheUnavailable source) = head_context source"
| "head_context (LatestHeaderRead _) = None"
| "head_context LatestHeaderNotFound = None"

record ('st, 'l1, 'e) client_api =
  cl_latest_header :: "nat \<Rightarrow> 'e + SealedHeader option"
  cl_state_by_block_hash :: "nat \<Rightarrow> b256 \<Rightarrow> 'e + 'st"
  cl_basic_account :: "'st \<Rightarrow> address \<Rightarrow> 'e + unit option"
  cl_try_fetch :: "'st \<Rightarrow> ScrollSpecId \<Rightarrow> 'e + 'l1"
  cl_fork_api :: fork_api
  cl_spec :: spec_view
  cl_l1_gas_price_oracle_address :: address

text \<open>\<open>latest_header\<close> with its two errors.\<close>

definition latest_head ::
  "('st, 'l1, 'e) client_api \<Rightarrow> nat \<Rightarrow> 'e DogeosL1FeeError + SealedHeader" where
  "latest_head cl t =
     rbind (map_err LatestHeaderRead (cl_latest_header cl t)) (\<lambda>header. ok_or LatestHeaderNotFound header)"

definition load_for_head ::
  "('st, 'l1, 'e) client_api \<Rightarrow> nat \<Rightarrow> b256 \<Rightarrow> u64 \<Rightarrow> u64 \<Rightarrow>
   'e DogeosL1FeeError + 'l1 DogeosL1FeeSnapshot" where
  "load_for_head cl t head_hash timestamp number =
     rbind (map_err (ExactStateOpen head_hash number) (cl_state_by_block_hash cl t head_hash)) (\<lambda>provider.
     rbind (map_err (OracleAccountRead head_hash number)
       (cl_basic_account cl provider (cl_l1_gas_price_oracle_address cl))) (\<lambda>account.
     if account = None then Inl (OracleAccountNotFound head_hash number)
     else
       let spec = spec_id_at_timestamp_and_number (cl_fork_api cl) timestamp number
             (sv_activation (cl_spec cl)) in
       rbind (map_err (OracleStorageRead head_hash number) (cl_try_fetch cl provider spec)) (\<lambda>l1_block_info.
       Inr \<lparr>sn_head_hash = head_hash, sn_timestamp = timestamp, sn_number = number,
            sn_l1_block_info = l1_block_info\<rparr>)))"

definition load_latest ::
  "('st, 'l1, 'e) client_api \<Rightarrow> nat \<Rightarrow> 'e DogeosL1FeeError + 'l1 DogeosL1FeeSnapshot" where
  "load_latest cl t =
     rbind (latest_head cl t) (\<lambda>header.
       load_for_head cl (Suc t) (sh_hash header) (h_timestamp (sh_header header)) (h_number (sh_header header)))"

section \<open>The cache and its refresh\<close>

datatype ('l1, 'e) DogeosL1FeeCache =
    Ready "'l1 DogeosL1FeeSnapshot"
  | Unavailable "'e DogeosL1FeeError"
  | Disabled

definition publish_l1_fee_refresh ::
  "'e DogeosL1FeeError + 'l1 DogeosL1FeeSnapshot \<Rightarrow> bool \<times> ('l1, 'e) DogeosL1FeeCache" where
  "publish_l1_fee_refresh snapshot =
     (case snapshot of
        Inr snapshot \<Rightarrow> (True, Ready snapshot)
      | Inl error \<Rightarrow> (False, Unavailable error))"

text \<open>The attempts that are left, at time \<open>t\<close>; each makes up to three reads. Running out of attempts
  without a result is the \<open>unreachable!\<close> of the source, the value \<open>None\<close>.\<close>

definition holds_head :: "('l1, 'e) DogeosL1FeeCache \<Rightarrow> b256 \<Rightarrow> bool" where
  "holds_head cache h =
     (case cache of Ready snapshot \<Rightarrow> sn_head_hash snapshot = h | _ \<Rightarrow> False)"

fun refresh_attempts ::
  "('st, 'l1, 'e) client_api \<Rightarrow> ('l1, 'e) DogeosL1FeeCache \<Rightarrow> nat \<Rightarrow> nat \<Rightarrow>
   (bool \<times> ('l1, 'e) DogeosL1FeeCache) option" where
  "refresh_attempts cl cache 0 t = None"
| "refresh_attempts cl cache (Suc left) t =
     (case latest_head cl t of
        Inl error \<Rightarrow> Some (publish_l1_fee_refresh (Inl error))
      | Inr target \<Rightarrow>
          if holds_head cache (sh_hash target) then Some (True, cache)
          else
            let snapshot = load_for_head cl (t + 1) (sh_hash target) (h_timestamp (sh_header target))
                  (h_number (sh_header target)) in
            (case latest_head cl (t + 2) of
               Inl error \<Rightarrow> Some (publish_l1_fee_refresh (Inl error))
             | Inr verified_head \<Rightarrow>
                 if sh_hash verified_head \<noteq> sh_hash target then
                   if left = 0 then
                     Some (publish_l1_fee_refresh (Inl (RefreshHeadMoved MAX_L1_FEE_REFRESH_ATTEMPTS
                       (sh_hash target) (h_number (sh_header target))
                       (sh_hash verified_head) (h_number (sh_header verified_head)))))
                   else refresh_attempts cl cache left (t + 3)
                 else Some (publish_l1_fee_refresh snapshot)))"

definition refresh_l1_fee_cache_from_latest ::
  "('st, 'l1, 'e) client_api \<Rightarrow> nat \<Rightarrow> ('l1, 'e) DogeosL1FeeCache \<Rightarrow>
   (bool \<times> ('l1, 'e) DogeosL1FeeCache) option" where
  "refresh_l1_fee_cache_from_latest cl t cache =
     (case cache of
        Disabled \<Rightarrow> Some (True, cache)
      | _ \<Rightarrow> refresh_attempts cl cache MAX_L1_FEE_REFRESH_ATTEMPTS t)"

section \<open>Validation\<close>

datatype tx_error =
    Eip4844Disabled
  | TxTypeNotSupported
  | GasUintOverflow
  | InsufficientFunds u256 u256
  | InnerError string

record valid_fields =
  vf_balance :: u256
  vf_state_nonce :: u64
  vf_transaction :: DogeosPooledTransaction
  vf_propagate :: bool
  vf_bytecode_hash :: "b256 option"
  vf_authorities :: "address list option"

datatype 'e admission_error = L1FeeError "'e DogeosL1FeeError" | CheckFailed string | InnerFailure string

datatype 'e TransactionValidationOutcome =
    Valid valid_fields
  | Invalid DogeosPooledTransaction tx_error
  | ErrorOutcome b256 "'e admission_error"

record ('db, 'l1, 'x, 'e, 'o) validator_env =
  va_inner :: "'o \<Rightarrow> DogeosPooledTransaction \<Rightarrow> 'e TransactionValidationOutcome"
  va_admission_check :: "(DogeosPooledTransaction \<Rightarrow> string + unit) option"
  va_fork_api :: fork_api
  va_spec :: spec_view
  va_evm :: "('db, 'l1, 'x) evm_api"
  va_rlp :: rlp_api
  va_codec :: alloy_codec
  va_txenv :: env_api
  va_tx :: alloy_tx_api

text \<open>The state of a \<open>DogeosTransactionValidator\<close> that changes: the cache, and the Prague flag of the
  wrapped validator, which the constructors set.\<close>

record ('l1, 'e) validator_state =
  vs_cache :: "('l1, 'e) DogeosL1FeeCache"
  vs_prague :: bool

definition validator_new :: "'l1 DogeosL1FeeSnapshot \<Rightarrow> ('l1, 'e) validator_state" where
  "validator_new snapshot = \<lparr>vs_cache = Ready snapshot, vs_prague = True\<rparr>"

definition validator_disabled :: "('l1, 'e) validator_state" where
  "validator_disabled = \<lparr>vs_cache = Disabled, vs_prague = True\<rparr>"

definition with_admission_check ::
  "(DogeosPooledTransaction \<Rightarrow> string + unit) \<Rightarrow> ('db, 'l1, 'x, 'e, 'o) validator_env \<Rightarrow>
   ('db, 'l1, 'x, 'e, 'o) validator_env" where
  "with_admission_check check va = va\<lparr>va_admission_check := Some check\<rparr>"

definition requires_l1_data_gas_fee :: "('l1, 'e) validator_state \<Rightarrow> bool" where
  "requires_l1_data_gas_fee vs \<longleftrightarrow> (case vs_cache vs of Disabled \<Rightarrow> False | _ \<Rightarrow> True)"

definition data_fee_of ::
  "('db, 'l1, 'x, 'e, 'o) validator_env \<Rightarrow> 'l1 DogeosL1FeeSnapshot \<Rightarrow> DogeosPooledTransaction \<Rightarrow> u256" where
  "data_fee_of va snapshot t =
     (let tx = fst (pt_transaction t);
          encoded = env_encode_2718 (va_rlp va) (va_codec va) tx;
          compression = (compute_compression_ratio (va_txenv va) (env_input (va_tx va) tx),
            compute_compressed_size (va_txenv va) encoded) in
      l1_tx_data_fee (va_fork_api va) (va_evm va) (sv_activation (va_spec va)) (sn_l1_block_info snapshot)
        (sn_timestamp snapshot) (sn_number snapshot) encoded (Some compression) False)"

definition max_rollup_fee :: "('db, 'l1, 'x, 'e, 'o) validator_env \<Rightarrow> 'l1 DogeosL1FeeSnapshot \<Rightarrow> u256" where
  "max_rollup_fee va snapshot =
     (if is_tsuki_active_at_timestamp (va_fork_api va) (sv_activation (va_spec va)) (sn_timestamp snapshot)
      then MAX_ROLLUP_FEE_TSUKI else MAX_ROLLUP_FEE_PRE_TSUKI)"

definition validate_basic ::
  "('db, 'l1, 'x, 'e, 'o) validator_env \<Rightarrow> ('l1, 'e) validator_state \<Rightarrow> 'o \<Rightarrow> DogeosPooledTransaction \<Rightarrow>
   'e TransactionValidationOutcome" where
  "validate_basic va vs origin transaction =
     (if env_ty (va_tx va) (fst (pt_transaction transaction)) = 3 then Invalid transaction Eip4844Disabled
      else if env_is_l1_message (fst (pt_transaction transaction)) then Invalid transaction TxTypeNotSupported
      else
        (case vs_cache vs of
           Unavailable source \<Rightarrow>
             ErrorOutcome (pooled_tx_hash transaction) (L1FeeError (CacheUnavailable source))
         | Disabled \<Rightarrow> va_inner va origin transaction
         | Ready snapshot \<Rightarrow>
             (case va_inner va origin transaction of
                Valid v \<Rightarrow>
                  let l1_data_fee = data_fee_of va snapshot (vf_transaction v) in
                  if max_rollup_fee va snapshot \<le> l1_data_fee
                  then Invalid (vf_transaction v) GasUintOverflow
                  else
                    let required = saturating_add (pt_cost (vf_transaction v)) l1_data_fee in
                    if vf_balance v < required
                    then Invalid (vf_transaction v) (InsufficientFunds (vf_balance v) required)
                    else Valid v
              | outcome \<Rightarrow> outcome)))"

definition validate_one ::
  "('db, 'l1, 'x, 'e, 'o) validator_env \<Rightarrow> ('l1, 'e) validator_state \<Rightarrow> 'o \<Rightarrow> DogeosPooledTransaction \<Rightarrow>
   'e TransactionValidationOutcome" where
  "validate_one va vs origin transaction =
     (case validate_basic va vs origin transaction of
        Valid v \<Rightarrow>
          (case va_admission_check va of
             Some check \<Rightarrow>
               (case check (vf_transaction v) of
                  Inl error \<Rightarrow> ErrorOutcome (pooled_tx_hash (vf_transaction v)) (CheckFailed error)
                | Inr _ \<Rightarrow> Valid v)
           | None \<Rightarrow> Valid v)
      | outcome \<Rightarrow> outcome)"

definition refresh_validator ::
  "('st, 'l1, 'e) client_api \<Rightarrow> nat \<Rightarrow> ('l1, 'e) validator_state \<Rightarrow> (bool \<times> ('l1, 'e) validator_state) option" where
  "refresh_validator cl t vs =
     map_option (\<lambda>(ok, cache). (ok, vs\<lparr>vs_cache := cache\<rparr>)) (refresh_l1_fee_cache_from_latest cl t (vs_cache vs))"

section \<open>Refreshes\<close>

lemma publish_simps [simp]:
  "publish_l1_fee_refresh (Inl e) = (False, Unavailable e)" "publish_l1_fee_refresh (Inr s) = (True, Ready s)"
  by (simp_all add: publish_l1_fee_refresh_def)

lemma load_for_head_fields:
  "load_for_head cl t hash ts n = Inr s \<Longrightarrow> sn_head_hash s = hash \<and> sn_timestamp s = ts \<and> sn_number s = n"
  by (auto simp: load_for_head_def result_elims Let_def split: if_splits)

text \<open>A cache whose snapshot belongs to the canonical head read at time \<open>t\<close>, either because it was
  loaded just before that read or because it was there already.\<close>

definition snapshot_current ::
  "('st, 'l1, 'e) client_api \<Rightarrow> ('l1, 'e) DogeosL1FeeCache \<Rightarrow> nat \<Rightarrow> 'l1 DogeosL1FeeSnapshot \<Rightarrow> bool" where
  "snapshot_current cl cache t s \<longleftrightarrow>
     (\<exists>hd. latest_head cl t = Inr hd \<and> sn_head_hash s = sh_hash hd) \<and>
     (cache = Ready s \<or>
      0 < t \<and> load_for_head cl (t - 1) (sn_head_hash s) (sn_timestamp s) (sn_number s) = Inr s)"

definition refreshed ::
  "('st, 'l1, 'e) client_api \<Rightarrow> ('l1, 'e) DogeosL1FeeCache \<Rightarrow> nat \<Rightarrow> nat \<Rightarrow>
   (bool \<times> ('l1, 'e) DogeosL1FeeCache) option \<Rightarrow> bool" where
  "refreshed cl cache from until r \<longleftrightarrow>
     (case r of
        Some (True, Ready s) \<Rightarrow> \<exists>t. from \<le> t \<and> t < until \<and> snapshot_current cl cache t s
      | Some (False, Unavailable e) \<Rightarrow> True
      | _ \<Rightarrow> False)"

lemma refreshed_failed [simp]: "refreshed cl cache from until (Some (publish_l1_fee_refresh (Inl e)))"
  by (simp add: refreshed_def)

lemma refreshed_earlier:
  "refreshed cl cache from until r \<Longrightarrow> from' \<le> from \<Longrightarrow> refreshed cl cache from' until r"
  by (auto simp: refreshed_def split: option.splits prod.splits bool.splits DogeosL1FeeCache.splits
      intro: order_trans)

lemma refreshed_held:
  assumes "latest_head cl t = Inr target" and "holds_head cache (sh_hash target)" and "t < until"
  shows "refreshed cl cache t until (Some (True, cache))"
  using assms by (auto simp: refreshed_def holds_head_def snapshot_current_def split: DogeosL1FeeCache.splits)

lemma refreshed_loaded:
  assumes "latest_head cl (t + 2) = Inr verified" and "sh_hash verified = hash" and "t + 2 < until"
  shows "refreshed cl cache t until (Some (publish_l1_fee_refresh (load_for_head cl (t + 1) hash ts n)))"
proof (cases "load_for_head cl (t + 1) hash ts n")
  case (Inr s)
  then have "snapshot_current cl cache (t + 2) s"
    using load_for_head_fields [OF Inr] assms(1,2) by (simp add: snapshot_current_def)
  then show ?thesis using Inr assms(3) by (auto simp: refreshed_def intro!: exI [of _ "t + 2"])
qed (simp add: refreshed_def)

lemma refresh_attempts_outcome:
  "0 < left \<Longrightarrow> refreshed cl cache t (t + 3 * left) (refresh_attempts cl cache left t)"
proof (induction left arbitrary: t)
  case (Suc left)
  have again: "refreshed cl cache t (t + 3 * Suc left) (refresh_attempts cl cache left (t + 3))" if "left \<noteq> 0"
    using refreshed_earlier [OF Suc.IH [of "t + 3"], of t] that by (simp add: algebra_simps)
  show ?case
  proof (cases "latest_head cl t")
    case target: (Inr target)
    show ?thesis
    proof (cases "holds_head cache (sh_hash target)")
      case True
      then show ?thesis using refreshed_held [OF target True] target by simp
    next
      case False
      then show ?thesis
        using target again refreshed_loaded [of cl t _ "sh_hash target" "t + 3 * Suc left" cache]
        by (cases "latest_head cl (t + 2)") (auto simp: Let_def simp del: publish_simps)
    qed
  qed (simp del: publish_simps)
qed simp


lemma refresh_enabled:
  "cache \<noteq> Disabled \<Longrightarrow> refresh_l1_fee_cache_from_latest cl t cache = refresh_attempts cl cache 3 t"
  by (simp add: refresh_l1_fee_cache_from_latest_def MAX_L1_FEE_REFRESH_ATTEMPTS_def
      split: DogeosL1FeeCache.splits)

lemma refresh_attempts_fail_unavailable:
  assumes "refresh_attempts cl cache 3 t = Some (False, cache')"
  obtains e where "cache' = Unavailable e"
  using refresh_attempts_outcome [of 3 cl cache t] assms
  by (auto simp: refreshed_def split: DogeosL1FeeCache.splits)

text \<open>C20. A refresh always answers: the attempts cannot run out without a result. It reports success
  either for a disabled cache, which it leaves alone, or with a snapshot that belongs to the
  canonical head read during the refresh; it reports failure exactly with an unavailable cache.\<close>

theorem refresh_cache_outcome:
  "case refresh_l1_fee_cache_from_latest cl t cache of
     None \<Rightarrow> False
   | Some (True, cache') \<Rightarrow>
       cache = Disabled \<and> cache' = Disabled \<or>
       (\<exists>s t'. cache' = Ready s \<and> t \<le> t' \<and> t' < t + 9 \<and> snapshot_current cl cache t' s)
   | Some (False, cache') \<Rightarrow> cache \<noteq> Disabled \<and> (\<exists>e. cache' = Unavailable e)"
proof (cases "cache = Disabled")
  case True
  then show ?thesis by (simp add: refresh_l1_fee_cache_from_latest_def)
next
  case False
  then show ?thesis using refresh_attempts_outcome [of 3 cl cache t] refresh_enabled [OF False, of cl t]
    by (auto simp: refreshed_def split: option.splits prod.splits bool.splits DogeosL1FeeCache.splits)
qed

section \<open>Admission\<close>

lemma max_rollup_fee_less: "max_rollup_fee va snapshot \<le> MAX_ROLLUP_FEE_TSUKI"
  by (simp add: max_rollup_fee_def MAX_ROLLUP_FEE_TSUKI_def MAX_ROLLUP_FEE_PRE_TSUKI_def word_le_nat_alt)

lemma saturating_add_within:
  "saturating_add a b \<le> m \<longleftrightarrow> unat a + unat b \<le> unat m \<or> m = - 1"
  for a b m :: "'a::len word"
  using unat_le_max [of m]
  by (auto simp: word_le_nat_alt sat_simps unat_minus_one_word word_unat_eq_iff min_def)

text \<open>What the snapshot asks of a transaction the wrapped validator accepts.\<close>

definition fee_covered ::
  "('db, 'l1, 'x, 'e, 'o) validator_env \<Rightarrow> ('l1, 'e) validator_state \<Rightarrow> valid_fields \<Rightarrow> bool" where
  "fee_covered va vs v =
     (case vs_cache vs of
        Disabled \<Rightarrow> True
      | Unavailable _ \<Rightarrow> False
      | Ready s \<Rightarrow>
          let fee = data_fee_of va s (vf_transaction v) in
          fee < max_rollup_fee va s \<and>
          (unat (pt_cost (vf_transaction v)) + unat fee \<le> unat (vf_balance v) \<or> vf_balance v = - 1))"

definition check_passes :: "('db, 'l1, 'x, 'e, 'o) validator_env \<Rightarrow> valid_fields \<Rightarrow> bool" where
  "check_passes va v =
     (case va_admission_check va of None \<Rightarrow> True | Some check \<Rightarrow> check (vf_transaction v) = Inr ())"

lemma validate_basic_valid:
  "validate_basic va vs origin t = Valid v \<longleftrightarrow>
     env_ty (va_tx va) (fst (pt_transaction t)) \<noteq> 3 \<and> \<not> env_is_l1_message (fst (pt_transaction t)) \<and>
     va_inner va origin t = Valid v \<and> fee_covered va vs v"
  by (auto simp: validate_basic_def fee_covered_def Let_def not_le saturating_add_within [symmetric] not_less
      split: DogeosL1FeeCache.splits TransactionValidationOutcome.splits)

lemma validate_one_valid:
  "validate_one va vs origin t = Valid v \<longleftrightarrow>
     env_ty (va_tx va) (fst (pt_transaction t)) \<noteq> 3 \<and> \<not> env_is_l1_message (fst (pt_transaction t)) \<and>
     va_inner va origin t = Valid v \<and> fee_covered va vs v \<and> check_passes va v"
proof -
  have "validate_one va vs origin t = Valid v \<longleftrightarrow>
      validate_basic va vs origin t = Valid v \<and> check_passes va v"
    by (auto simp: validate_one_def check_passes_def
        split: TransactionValidationOutcome.splits option.splits sum.splits)
  then show ?thesis by (auto simp: validate_basic_valid)
qed

text \<open>The accessor \<open>input\<close> of alloy returns the data of the transaction.\<close>

definition alloy_input_laws :: "alloy_tx_api \<Rightarrow> bool" where
  "alloy_input_laws api \<longleftrightarrow>
     (\<forall>t. al_input api (ALegacy t) = lg_input t) \<and> (\<forall>t. al_input api (A2930 t) = t2930_input t) \<and>
     (\<forall>t. al_input api (A1559 t) = t1559_input t) \<and> (\<forall>t. al_input api (A7702 t) = t7702_input t)"

text \<open>The data fee the executor charges, and the three values it is computed from.\<close>

lemma executed_fee:
  assumes laws: "evm_laws (ee_evm ee)" "alloy_tx_laws (ee_tx ee)" and l2: "\<not> env_is_l1_message tx"
    and run: "execute_transaction_without_commit ee (env, tx) ex = (Some (Inr out), ex')"
  shows "\<exists>bs. ste_rlp_bytes env = Some bs \<and>
    tr_l1_fee out = api_l1_cost (ee_evm ee) (ev_l1_block_info (ex_evm ex')) bs (ev_spec (ex_evm ex))
      (ste_compression_ratio env) (ste_compressed_size env)"
proof -
  let ?evm = "with_nonce_check True (with_base_fee_check True (ex_evm ex))"
  obtain res evm' where t: "transact_raw (ee_evm ee) env ?evm = (res, evm')" by fastforce
  have ty: "env_ty (ee_tx ee) tx \<noteq> L1_MESSAGE_TRANSACTION_TYPE"
    unfolding env_ty_tx_type [OF laws(2)] using l2 unfolding is_l1_message_iff
    by (cases tx) (simp_all add: L1_MESSAGE_TX_TYPE_ID_def L1_MESSAGE_TRANSACTION_TYPE_def)
  have "ev_spec ?evm = ev_spec (ex_evm ex)" by (simp add: with_nonce_check_def with_base_fee_check_def)
  with transact_raw_law(1,2) [OF laws(1) t] run t ty show ?thesis
    by (auto simp: execute_transaction_without_commit_def Let_def evm_frame_def evm_l1_fee_def
        split: if_splits sum.splits option.splits)
qed

lemma recovered_env_prices:
  assumes "alloy_input_laws api" and "\<not> env_is_l1_message tx"
  shows "ste_rlp_bytes (from_recovered_tx r ac ea tx signer) = Some (env_encode_2718 r ac tx)"
    and "ste_compression_ratio (from_recovered_tx r ac ea tx signer) = Some (compute_compression_ratio ea (env_input api tx))"
    and "ste_compressed_size (from_recovered_tx r ac ea tx signer) = Some (compute_compressed_size ea (env_encode_2718 r ac tx))"
  using assms
  by (cases tx; simp add: from_recovered_tx_def recovered_base_def tx_env_new_def env_input_def alloy_input_laws_def
      env_is_l1_message_def Let_def)+

lemma saturating_add_nat:
  "saturating_add a b = of_nat (min (unat a + unat b) (2 ^ LENGTH('a) - 1))" for a b :: "'a::len word"
proof -
  have "min (unat a + unat b) (2 ^ LENGTH('a) - 1) < 2 ^ LENGTH('a)"
    by (rule le_less_trans [OF min.cobounded2]) simp
  then show ?thesis
    by (simp add: word_unat_eq_iff sat_simps unat_minus_one_word unat_of_nat)
qed

text \<open>C7. The pool and the executor price a transaction alike. Suppose the pool's validator is asked about
  a transaction that reth's validator accepts while its fee state is current, and the executor
  executes the same transaction with the L1 fee state and in the fork of the pool's snapshot. Then the
  answer of the pool is decided by the data fee the executor charges: at the limit of the fork in
  force or above it the transaction is refused; if the sender's balance does not cover the cost and
  that fee, in unbounded arithmetic, it is refused with the balance and the sum; and otherwise the
  node's admission check decides. An L1 message, for which the executor charges nothing, never
  enters the pool.\<close>

theorem admission_prices_like_execution:
  fixes va :: "('db, 'l1, 'x, 'e, 'o) validator_env" and ee :: "('db, 'l1, 'd, 'x) exec_env"
  assumes laws: "evm_laws (ee_evm ee)" "alloy_tx_laws (ee_tx ee)" "alloy_input_laws (ee_tx ee)"
    and same: "va_evm va = ee_evm ee" "va_tx va = ee_tx ee"
    and ready: "vs_cache vs = Ready s"
    and inner: "va_inner va origin t = Valid v" "pt_transaction (vf_transaction v) = pt_transaction t"
    and tx: "pt_transaction t = (tx, signer)"
    and executed: "execute_transaction_without_commit ee
        (from_recovered_tx (va_rlp va) (va_codec va) (va_txenv va) tx signer, tx) ex = (Some (Inr out), ex')"
    and l1_state: "ev_l1_block_info (ex_evm ex') = sn_l1_block_info s"
    and fork: "ev_spec (ex_evm ex) =
        spec_id_at_timestamp_and_number (va_fork_api va) (sn_timestamp s) (sn_number s) (sv_activation (va_spec va))"
    and cap: "cap = (if is_tsuki_active_at_timestamp (va_fork_api va) (sv_activation (va_spec va)) (sn_timestamp s)
        then 79228162514264337593543950335 else 18446744073709551615)"
    and amounts: "fee = unat (tr_l1_fee out)" "cost = unat (pt_cost (vf_transaction v))"
  shows "validate_one va vs origin t =
    (if env_is_l1_message tx then Invalid t TxTypeNotSupported
     else if cap \<le> fee then Invalid (vf_transaction v) GasUintOverflow
     else if unat (vf_balance v) < cost + fee \<and> vf_balance v \<noteq> - 1
     then Invalid (vf_transaction v) (InsufficientFunds (vf_balance v) (of_nat (min (cost + fee) (2 ^ 256 - 1))))
     else case va_admission_check va of
       None \<Rightarrow> Valid v
     | Some check \<Rightarrow>
         (case check (vf_transaction v) of
            Inl error \<Rightarrow> ErrorOutcome (env_trie_hash tx) (CheckFailed error)
          | Inr _ \<Rightarrow> Valid v))"
proof -
  have ty: "env_ty (va_tx va) tx \<noteq> 3"
    unfolding same env_ty_tx_type [OF laws(2)] by (cases tx) (simp_all add: L1_MESSAGE_TX_TYPE_ID_def)
  show ?thesis
  proof (cases "env_is_l1_message tx")
    case True
    then show ?thesis using ty by (simp add: validate_one_def validate_basic_def tx)
  next
    case False
    have price: "data_fee_of va s (vf_transaction v) = tr_l1_fee out"
      using executed_fee [OF laws(1,2) False executed]
      by (simp add: data_fee_of_def l1_tx_data_fee_def inner(2) tx same l1_state fork Let_def
          recovered_env_prices [OF laws(3) False])
    have over: "max_rollup_fee va s \<le> tr_l1_fee out \<longleftrightarrow> cap \<le> fee"
      by (simp add: max_rollup_fee_def cap amounts MAX_ROLLUP_FEE_TSUKI_def MAX_ROLLUP_FEE_PRE_TSUKI_def word_le_nat_alt)
    have short: "vf_balance v < saturating_add (pt_cost (vf_transaction v)) (tr_l1_fee out) \<longleftrightarrow>
        unat (vf_balance v) < cost + fee \<and> vf_balance v \<noteq> - 1"
      using saturating_add_within [of "pt_cost (vf_transaction v)" "tr_l1_fee out" "vf_balance v"]
      by (auto simp: amounts not_le [symmetric])
    have sum: "saturating_add (pt_cost (vf_transaction v)) (tr_l1_fee out) = of_nat (min (cost + fee) (2 ^ 256 - 1))"
      by (simp add: saturating_add_nat amounts)
    have basic: "validate_basic va vs origin t =
        (if cap \<le> fee then Invalid (vf_transaction v) GasUintOverflow
         else if unat (vf_balance v) < cost + fee \<and> vf_balance v \<noteq> - 1
         then Invalid (vf_transaction v) (InsufficientFunds (vf_balance v) (saturating_add (pt_cost (vf_transaction v)) (tr_l1_fee out)))
         else Valid v)"
      using False ty by (simp add: validate_basic_def tx ready inner(1) price Let_def over short)
    show ?thesis
      using False by (simp add: validate_one_def basic sum pooled_tx_hash_def inner(2) tx split: option.split sum.split)
  qed
qed

text \<open>C21. A failed refresh closes admission: no transaction is admitted until the next successful one,
  and one that reth's rules leave eligible is answered with the retryable error that names the
  cause. A later refresh that finds the head unchanged around its loads, and loads its state, opens
  admission again with that snapshot.\<close>

theorem failed_refresh_closes_admission:
  fixes vs vs' :: "('l1, 'e) validator_state"
  assumes failed: "refresh_validator cl t vs = Some (False, vs')"
  shows "(\<forall>va origin tx v. validate_one va vs' origin tx \<noteq> Valid v) \<and>
    (\<exists>e. vs_cache vs' = Unavailable e \<and>
      (\<forall>va origin tx. env_ty (va_tx va) (fst (pt_transaction tx)) \<noteq> 3 \<and>
          \<not> env_is_l1_message (fst (pt_transaction tx)) \<longrightarrow>
        validate_one va vs' origin tx = ErrorOutcome (pooled_tx_hash tx) (L1FeeError (CacheUnavailable e)))) \<and>
    (\<forall>cl t' target verified s.
      latest_head cl t' = Inr target \<longrightarrow> latest_head cl (t' + 2) = Inr verified \<longrightarrow>
      sh_hash verified = sh_hash target \<longrightarrow>
      load_for_head cl (t' + 1) (sh_hash target) (h_timestamp (sh_header target)) (h_number (sh_header target))
        = Inr s \<longrightarrow>
      refresh_validator cl t' vs' = Some (True, vs'\<lparr>vs_cache := Ready s\<rparr>))"
proof -
  obtain e where e: "vs_cache vs' = Unavailable e"
  proof (cases "vs_cache vs = Disabled")
    case False
    then obtain e where "vs' = vs\<lparr>vs_cache := Unavailable e\<rparr>"
      using failed by (auto simp: refresh_validator_def refresh_enabled elim!: refresh_attempts_fail_unavailable)
    then show ?thesis using that by simp
  qed (use failed in \<open>simp add: refresh_validator_def refresh_l1_fee_cache_from_latest_def\<close>)
  have closed: "\<forall>va origin tx v. validate_one va vs' origin tx \<noteq> Valid v"
    using e by (auto simp: validate_one_def validate_basic_def split: option.splits sum.splits)
  have answer: "\<forall>va origin tx. env_ty (va_tx va) (fst (pt_transaction tx)) \<noteq> 3 \<and>
          \<not> env_is_l1_message (fst (pt_transaction tx)) \<longrightarrow>
        validate_one va vs' origin tx = ErrorOutcome (pooled_tx_hash tx) (L1FeeError (CacheUnavailable e))"
    using e by (simp add: validate_one_def validate_basic_def)
  have reopened: "refresh_validator cl t' vs' = Some (True, vs'\<lparr>vs_cache := Ready s\<rparr>)"
    if "latest_head cl t' = Inr target" "latest_head cl (t' + 2) = Inr verified"
      "sh_hash verified = sh_hash target"
      "load_for_head cl (t' + 1) (sh_hash target) (h_timestamp (sh_header target)) (h_number (sh_header target))
        = Inr s" for cl t' target verified s
    using that e by (simp add: refresh_validator_def refresh_enabled numeral_3_eq_3 holds_head_def)
  show ?thesis using e closed answer reopened by blast
qed

definition sample_client :: "(nat, unit, string) client_api" where
  "sample_client = \<lparr>
     cl_latest_header = (\<lambda>t. if t = 0 then Inl ''disk'' else Inr (Some \<lparr>sh_header = sample_header, sh_hash = 7\<rparr>)),
     cl_state_by_block_hash = (\<lambda>_ h. Inr (unat h)), cl_basic_account = (\<lambda>_ _. Inr (Some ())),
     cl_try_fetch = (\<lambda>_ _. Inr ()), cl_fork_api = sample_fork_api, cl_spec = sample_view,
     cl_l1_gas_price_oracle_address = 9\<rparr>"

definition sample_snapshot :: "unit DogeosL1FeeSnapshot" where
  "sample_snapshot = \<lparr>sn_head_hash = 7, sn_timestamp = h_timestamp sample_header,
     sn_number = h_number sample_header, sn_l1_block_info = ()\<rparr>"

theorem failed_refresh_closes_admission_witness:
  "refresh_validator sample_client 0 (validator_new (sample_snapshot\<lparr>sn_head_hash := 6\<rparr>)) =
     Some (False, \<lparr>vs_cache = Unavailable (LatestHeaderRead ''disk''), vs_prague = True\<rparr>) \<and>
   refresh_validator sample_client 5 \<lparr>vs_cache = Unavailable (LatestHeaderRead ''disk''), vs_prague = True\<rparr> =
     Some (True, validator_new sample_snapshot)"
proof -
  have failed: "refresh_validator sample_client 0 (validator_new (sample_snapshot\<lparr>sn_head_hash := 6\<rparr>)) =
     Some (False, \<lparr>vs_cache = Unavailable (LatestHeaderRead ''disk''), vs_prague = True\<rparr>)"
    by (simp add: refresh_validator_def refresh_enabled numeral_3_eq_3 latest_head_def sample_client_def
        validator_new_def)
  have head: "latest_head sample_client (Suc t) = Inr \<lparr>sh_header = sample_header, sh_hash = 7\<rparr>" for t
    by (simp add: latest_head_def sample_client_def)
  have load: "load_for_head sample_client 6 7 (h_timestamp sample_header) (h_number sample_header) =
      Inr sample_snapshot"
    by (simp add: load_for_head_def sample_client_def sample_snapshot_def)
  from failed_refresh_closes_admission [OF failed, THEN conjunct2, THEN conjunct2, THEN spec,
      of sample_client, rule_format, of 5 "\<lparr>sh_header = sample_header, sh_hash = 7\<rparr>" _ sample_snapshot]
  have "refresh_validator sample_client 5 \<lparr>vs_cache = Unavailable (LatestHeaderRead ''disk''), vs_prague = True\<rparr> =
      Some (True, validator_new sample_snapshot)"
    using head [of 4] head [of 6] load by (simp add: validator_new_def)
  with failed show ?thesis by simp
qed

text \<open>A transaction of some bytes, whose data fee is their number: the balance covers it, or it does not.\<close>

definition sample_priced_tx :: DogeosPooledTransaction where
  "sample_priced_tx = pooled_tx_new (\<lambda>_. 1000) (Legacy sample_legacy, 9) 3"

definition sample_priced_fields :: "u256 \<Rightarrow> valid_fields" where
  "sample_priced_fields balance = \<lparr>vf_balance = balance, vf_state_nonce = 7, vf_transaction = sample_priced_tx,
     vf_propagate = True, vf_bytecode_hash = None, vf_authorities = None\<rparr>"

definition sample_pricing :: "u256 \<Rightarrow> (map_db, unit, string, string, unit) validator_env" where
  "sample_pricing balance = \<lparr>
     va_inner = (\<lambda>_ t. Valid (sample_priced_fields balance)), va_admission_check = None,
     va_fork_api = sample_fork_api, va_spec = sample_view, va_evm = sample_evm_api\<lparr>api_l1_cost := (\<lambda>_ _ _ _ _. 500)\<rparr>,
     va_rlp = sample_rlp, va_codec = sample_alloy_codec, va_txenv = sample_env_api, va_tx = sample_alloy_tx_api\<rparr>"

theorem admission_prices_like_execution_witness:
  "validate_one (sample_pricing 1500) (validator_new sample_snapshot) () sample_priced_tx = Valid (sample_priced_fields 1500) \<and>
   validate_one (sample_pricing 1499) (validator_new sample_snapshot) () sample_priced_tx =
     Invalid sample_priced_tx (InsufficientFunds 1499 1500)"
proof -
  let ?ee = "sample_exec_env\<lparr>ee_evm := sample_evm_api\<lparr>api_l1_cost := (\<lambda>_ _ _ _ _. 500)\<rparr>\<rparr>"
  let ?env = "from_recovered_tx sample_rlp sample_alloy_codec sample_env_api (Legacy sample_legacy) 9"
  have laws: "evm_laws (ee_evm ?ee)" "alloy_tx_laws (ee_tx ?ee)" "alloy_input_laws (ee_tx ?ee)"
    using sample_evm_laws
    by (simp add: evm_laws_def sample_exec_env_def, simp add: sample_exec_env_def,
        simp add: sample_exec_env_def alloy_input_laws_def sample_alloy_tx_api_def)
  obtain out ex' where run: "execute_transaction_without_commit ?ee (?env, Legacy sample_legacy) (executor_new sample_evm 0) =
      (Some (Inr out), ex')" and fee: "tr_l1_fee out = 500" and spec: "ev_spec sample_evm = TSUKI_V2"
    by (simp add: sample_exec_env_def executor_new_def execute_transaction_without_commit_def
      Let_def transact_raw_def sample_evm_api_def sample_transact_def evm_l1_fee_def from_recovered_tx_def
      recovered_base_def tx_env_new_def sample_evm_def with_nonce_check_def with_base_fee_check_def env_ty_def
      env_gas_limit_def sample_alloy_tx_api_def sample_legacy_def L1_MESSAGE_TRANSACTION_TYPE_def)
  have fork: "ev_spec (ex_evm (executor_new sample_evm 0)) = spec_id_at_timestamp_and_number (va_fork_api (sample_pricing b))
      (sn_timestamp sample_snapshot) (sn_number sample_snapshot) (sv_activation (va_spec (sample_pricing b)))" for b
    by (simp add: spec executor_new_def sample_pricing_def sample_snapshot_def spec_id_at_timestamp_and_number_def
        sample_fork_api_def sample_view_def)
  have "validate_one (sample_pricing b) (validator_new sample_snapshot) () sample_priced_tx =
      (if unat b < 1500 \<and> b \<noteq> - 1 then Invalid sample_priced_tx (InsufficientFunds b (of_nat (min 1500 (2 ^ 256 - 1))))
       else Valid (sample_priced_fields b))" for b
    using admission_prices_like_execution [OF laws, where va = "sample_pricing b" and vs = "validator_new sample_snapshot" and
        s = sample_snapshot and t = sample_priced_tx and v = "sample_priced_fields b" and tx = "Legacy sample_legacy" and
        signer = 9 and origin = "()", OF _ _ _ _ _ _ _ _ fork refl refl refl] run fee
    by (simp add: sample_exec_env_def sample_pricing_def validator_new_def sample_priced_fields_def sample_priced_tx_def
        pooled_tx_new_def env_is_l1_message_def)
  from this [of 1500] this [of 1499] show ?thesis by simp
qed

end
