(* ===== verification/Txpool_Executor.thy ===== *)
theory Txpool_Executor
  imports Txpool_Validator
begin

text \<open>
  The bounded admission executor (\<open>crates/dogeos-reth-txpool/src/executor.rs\<close>). Its concurrent
  requests are a transition system over the permits of the two semaphores. A call of
  \<open>validate_transaction\<close> is a sequence of steps of one request: it claims an inflight permit or is
  answered \<open>Busy\<close>, waits for a worker permit, moves both permits into a blocking job, and is
  answered by the job. Dropping the future of a waiting request releases its permit; dropping the
  future of a request whose job runs detaches the job, which keeps both permits. A finished job
  drops its worker permit before its inflight permit.

  The wrapped validator is the parameter \<open>validator\<close>: what it returns for a transaction may
  change with time, and \<open>Inl\<close> is a panic of the job. Any waiting request may be given a free
  worker, so nothing rests on the fairness of the semaphores. The semaphores are never closed.
\<close>

section \<open>State\<close>

datatype ('o, 't) phase =
    Waiting 'o 't
  | Running bool 'o 't
  | Releasing

datatype 'r answer = Busy | Worker string | Outcome 'r

record ('o, 't, 'r) executor =
  xe_inflight :: nat
  xe_workers :: nat
  xe_requests :: "nat \<Rightarrow> ('o, 't) phase option"
  xe_answers :: "(nat \<times> 'r answer) list"

text \<open>The two capacities.\<close>

definition worker_limit :: "u64 \<Rightarrow> u64 \<Rightarrow> u64" where
  "worker_limit max_inflight additional_validation_tasks =
     min (saturating_add additional_validation_tasks 1) max_inflight"

text \<open>\<open>None\<close> is a panic: the assertion on the capacity, or \<open>Semaphore::new\<close> above \<open>MAX_PERMITS\<close> of
  \<open>tokio\<close>, the argument \<open>max_permits\<close>. The workers are never more than the capacity.\<close>

definition validation_executor_new :: "u64 \<Rightarrow> u64 \<Rightarrow> u64 \<Rightarrow> ('o, 't, 'r) executor option" where
  "validation_executor_new max_permits max_inflight additional_validation_tasks =
     (if max_inflight = 0 \<or> max_permits < max_inflight then None
      else Some \<lparr>xe_inflight = unat max_inflight,
        xe_workers = unat (worker_limit max_inflight additional_validation_tasks),
        xe_requests = (\<lambda>_. None), xe_answers = []\<rparr>)"

section \<open>Steps of a request\<close>

datatype ('o, 't) event =
    Refuse nat
  | Claim nat 'o 't
  | Start nat
  | DropWaiting nat
  | Detach nat
  | Finish nat nat
  | Release nat

text \<open>The validation of an attached job is answered; a detached one is not.\<close>

definition job_answer :: "(nat \<Rightarrow> 'o \<Rightarrow> 't \<Rightarrow> string + 'r) \<Rightarrow> nat \<Rightarrow> 'o \<Rightarrow> 't \<Rightarrow> 'r answer" where
  "job_answer validator now origin tx =
     (case validator now origin tx of Inl panic \<Rightarrow> Worker panic | Inr outcome \<Rightarrow> Outcome outcome)"

inductive exec_step ::
  "(nat \<Rightarrow> 'o \<Rightarrow> 't \<Rightarrow> string + 'r) \<Rightarrow> ('o, 't, 'r) executor \<Rightarrow> ('o, 't) event \<Rightarrow> ('o, 't, 'r) executor \<Rightarrow> bool"
  for validator where
  refuse: "xe_inflight x = 0 \<Longrightarrow>
    exec_step validator x (Refuse i) (x\<lparr>xe_answers := (i, Busy) # xe_answers x\<rparr>)"
| claim: "xe_inflight x = Suc n \<Longrightarrow> xe_requests x i = None \<Longrightarrow>
    exec_step validator x (Claim i origin tx)
      (x\<lparr>xe_inflight := n, xe_requests := (xe_requests x)(i \<mapsto> Waiting origin tx)\<rparr>)"
| start: "xe_requests x i = Some (Waiting origin tx) \<Longrightarrow> xe_workers x = Suc n \<Longrightarrow>
    exec_step validator x (Start i)
      (x\<lparr>xe_workers := n, xe_requests := (xe_requests x)(i \<mapsto> Running True origin tx)\<rparr>)"
| drop_waiting: "xe_requests x i = Some (Waiting origin tx) \<Longrightarrow>
    exec_step validator x (DropWaiting i)
      (x\<lparr>xe_inflight := Suc (xe_inflight x), xe_requests := (xe_requests x)(i := None)\<rparr>)"
| detach: "xe_requests x i = Some (Running True origin tx) \<Longrightarrow>
    exec_step validator x (Detach i) (x\<lparr>xe_requests := (xe_requests x)(i \<mapsto> Running False origin tx)\<rparr>)"
| finish: "xe_requests x i = Some (Running attached origin tx) \<Longrightarrow>
    exec_step validator x (Finish i now)
      (x\<lparr>xe_workers := Suc (xe_workers x), xe_requests := (xe_requests x)(i \<mapsto> Releasing),
         xe_answers := (if attached then (i, job_answer validator now origin tx) # xe_answers x
                        else xe_answers x)\<rparr>)"
| release: "xe_requests x i = Some Releasing \<Longrightarrow>
    exec_step validator x (Release i)
      (x\<lparr>xe_inflight := Suc (xe_inflight x), xe_requests := (xe_requests x)(i := None)\<rparr>)"

inductive_simps exec_step_simps:
  "exec_step validator x (Refuse i) x'" "exec_step validator x (Claim i origin tx) x'"
  "exec_step validator x (Start i) x'" "exec_step validator x (DropWaiting i) x'"
  "exec_step validator x (Detach i) x'" "exec_step validator x (Finish i now) x'"
  "exec_step validator x (Release i) x'"

inductive exec_run ::
  "(nat \<Rightarrow> 'o \<Rightarrow> 't \<Rightarrow> string + 'r) \<Rightarrow> ('o, 't, 'r) executor \<Rightarrow> ('o, 't) event list \<Rightarrow> ('o, 't, 'r) executor \<Rightarrow> bool"
  for validator where
  run_nil: "exec_run validator x [] x"
| run_step: "exec_step validator x ev y \<Longrightarrow> exec_run validator y evs z \<Longrightarrow> exec_run validator x (ev # evs) z"

section \<open>The permit invariant\<close>

definition held :: "('o, 't, 'r) executor \<Rightarrow> nat set" where
  "held x = dom (xe_requests x)"

definition running_in :: "(nat \<Rightarrow> ('o, 't) phase option) \<Rightarrow> nat set" where
  "running_in m = {i. \<exists>a origin tx. m i = Some (Running a origin tx)}"

definition running :: "('o, 't, 'r) executor \<Rightarrow> nat set" where
  "running x = running_in (xe_requests x)"

definition permits_ok :: "nat \<Rightarrow> nat \<Rightarrow> ('o, 't, 'r) executor \<Rightarrow> bool" where
  "permits_ok max_inflight workers x \<longleftrightarrow>
     finite (held x) \<and> xe_inflight x + card (held x) = max_inflight \<and>
     xe_workers x + card (running x) = workers"

lemma running_in_dom: "running_in m \<subseteq> dom m"
  by (auto simp: running_in_def)

lemma running_in_update [simp]:
  "running_in (m(i \<mapsto> Waiting origin tx)) = running_in m - {i}"
  "running_in (m(i \<mapsto> Releasing)) = running_in m - {i}"
  "running_in (m(i \<mapsto> Running a origin tx)) = insert i (running_in m)"
  "running_in (m(i := None)) = running_in m - {i}"
  by (auto simp: running_in_def)

lemma running_in_phase [simp]:
  "m i = None \<Longrightarrow> i \<notin> running_in m"
  "m i = Some (Waiting origin tx) \<Longrightarrow> i \<notin> running_in m"
  "m i = Some Releasing \<Longrightarrow> i \<notin> running_in m"
  "m i = Some (Running a origin tx) \<Longrightarrow> i \<in> running_in m"
  by (simp_all add: running_in_def)

lemma exec_step_permits:
  "exec_step validator x ev x' \<Longrightarrow> permits_ok m w x \<Longrightarrow> permits_ok m w x'"
proof (induction rule: exec_step.induct)
  case (finish x i attached origin tx now)
  have fin: "finite (running_in (xe_requests x))"
    using finish.prems by (auto simp: permits_ok_def held_def intro: finite_subset [OF running_in_dom])
  have "0 < card (running_in (xe_requests x))"
    using finish.hyps fin by (auto simp: card_gt_0_iff dest: running_in_phase(4))
  then show ?case using finish fin
    by (auto simp: permits_ok_def held_def running_def insert_absorb domI)
next
  case (start x i origin tx n)
  then have "finite (running_in (xe_requests x))"
    by (auto simp: permits_ok_def held_def intro: finite_subset [OF running_in_dom])
  then show ?case using start by (simp add: permits_ok_def held_def running_def insert_absorb domI)
next
  case (release x i)
  then have "0 < card (dom (xe_requests x))" by (auto simp: permits_ok_def held_def card_gt_0_iff)
  then show ?case using release by (auto simp: permits_ok_def held_def running_def domI)
next
  case (drop_waiting x i origin tx)
  then have "0 < card (dom (xe_requests x))" by (auto simp: permits_ok_def held_def card_gt_0_iff)
  then show ?case using drop_waiting by (auto simp: permits_ok_def held_def running_def domI)
qed (auto simp: permits_ok_def held_def running_def insert_absorb domI domIff
      intro: finite_subset [OF running_in_dom])

lemma exec_run_permits:
  "exec_run validator x evs y \<Longrightarrow> permits_ok m w x \<Longrightarrow> permits_ok m w y"
  by (induction rule: exec_run.induct) (auto intro: exec_step_permits)

lemma new_permits:
  "validation_executor_new mp mx additional = Some x \<Longrightarrow> permits_ok (unat mx) (unat (worker_limit mx additional)) x"
  by (auto simp: validation_executor_new_def permits_ok_def held_def running_def running_in_def split: if_splits)

lemma worker_limit_bounds:
  "mx \<noteq> 0 \<Longrightarrow> 0 < unat (worker_limit mx additional) \<and> unat (worker_limit mx additional) \<le> unat mx"
proof -
  assume "mx \<noteq> 0"
  then have "0 < unat mx" by (simp add: unat_gt_0)
  moreover have "unat (worker_limit mx additional) = min (min (unat additional + 1) (2 ^ 64 - 1)) (unat mx)"
    by (simp add: worker_limit_def min_def word_le_nat_alt sat_simps)
  ultimately show ?thesis by simp
qed

lemma new_nonzero: "validation_executor_new mp mx additional = Some x \<Longrightarrow> mx \<noteq> 0"
  by (auto simp: validation_executor_new_def split: if_splits)

lemma run_permits:
  assumes "validation_executor_new mp mx additional = Some x0" and "exec_run validator x0 evs x"
  shows "permits_ok (unat mx) (unat (worker_limit mx additional)) x"
  using exec_run_permits [OF assms(2) new_permits [OF assms(1)]] .

text \<open>C9. Whatever the interleaving of submissions, cancellations and completions, the permits are
  conserved: the requests that hold one, the detached jobs included, are at most the configured
  capacity, the validations that execute at most the worker limit, which is positive and at most
  the capacity; a submission is refused exactly when the capacity is used up, and claims a
  permit exactly otherwise.\<close>

theorem admission_permits_conserved:
  fixes x0 x :: "('o, 't, 'r) executor"
  assumes new: "validation_executor_new mp mx additional = Some x0" and run: "exec_run validator x0 evs x"
  shows "card (running x) \<le> unat (worker_limit mx additional) \<and>
    0 < unat (worker_limit mx additional) \<and> unat (worker_limit mx additional) \<le> unat mx \<and>
    running x \<subseteq> held x \<and> xe_inflight x + card (held x) = unat mx \<and>
    xe_workers x + card (running x) = unat (worker_limit mx additional) \<and>
    (\<forall>i. (\<exists>y. exec_step validator x (Refuse i) y) \<longleftrightarrow> card (held x) = unat mx) \<and>
    (\<forall>i origin tx. i \<notin> held x \<longrightarrow>
      (\<exists>y. exec_step validator x (Claim i origin tx) y) \<longleftrightarrow> card (held x) < unat mx)"
  using run_permits [OF new run] worker_limit_bounds [OF new_nonzero [OF new], of additional]
    running_in_dom [of "xe_requests x"]
  by (auto simp: permits_ok_def exec_step_simps held_def running_def domIff gr0_conv_Suc [symmetric])

section \<open>Progress\<close>

text \<open>The steps that need no caller: a job starts, finishes and releases its permits.\<close>

fun internal :: "('o, 't) event \<Rightarrow> bool" where
  "internal (Start _) = True"
| "internal (Finish _ _) = True"
| "internal (Release _) = True"
| "internal _ = False"

fun phase_weight :: "('o, 't) phase option \<Rightarrow> nat" where
  "phase_weight (Some (Waiting _ _)) = 3"
| "phase_weight (Some (Running _ _ _)) = 2"
| "phase_weight (Some Releasing) = 1"
| "phase_weight None = 0"

definition load :: "('o, 't, 'r) executor \<Rightarrow> nat" where
  "load x = (\<Sum>i\<in>held x. phase_weight (xe_requests x i))"

lemma load_update:
  assumes "finite (dom m)" and "i \<in> dom m"
  shows "(\<Sum>j\<in>dom (m(i := p)). phase_weight ((m(i := p)) j)) + phase_weight (m i) =
    (\<Sum>j\<in>dom m. phase_weight (m j)) + phase_weight p"
proof -
  have rest: "(\<Sum>j\<in>dom m - {i}. phase_weight ((m(i := p)) j)) = (\<Sum>j\<in>dom m - {i}. phase_weight (m j))"
    by (rule sum.cong) auto
  have old: "(\<Sum>j\<in>dom m. phase_weight (m j)) = phase_weight (m i) + (\<Sum>j\<in>dom m - {i}. phase_weight (m j))"
    using assms by (rule sum.remove)
  show ?thesis
  proof (cases p)
    case None
    then show ?thesis using rest old by simp
  next
    case (Some q)
    have "(\<Sum>j\<in>dom m. phase_weight ((m(i := p)) j)) =
        phase_weight p + (\<Sum>j\<in>dom m - {i}. phase_weight ((m(i := p)) j))"
      using assms by (subst sum.remove [of _ i]) simp_all
    then show ?thesis using Some rest old assms(2) by (simp add: insert_absorb del: fun_upd_apply)
  qed
qed

lemma internal_step_load:
  assumes "exec_step validator x ev y" and "internal ev" and "finite (held x)"
  shows "load y < load x"
  using assms
proof (cases rule: exec_step.cases)
  case (start i origin tx n)
  then show ?thesis
    using load_update [of "xe_requests x" i "Some (Running True origin tx)"] assms(3)
    by (simp add: load_def held_def domI)
next
  case (finish i attached origin tx now)
  then show ?thesis
    using load_update [of "xe_requests x" i "Some Releasing"] assms(3)
    by (simp add: load_def held_def domI)
next
  case (release i)
  then show ?thesis
    using load_update [of "xe_requests x" i None] assms(3)
    by (simp add: load_def held_def domI)
qed simp_all

lemma phase_weight_le: "phase_weight p \<le> 3"
  by (cases p rule: phase_weight.cases) simp_all

lemma load_bound: "load x \<le> 3 * card (held x)"
  using sum_bounded_above [of "held x" "\<lambda>i. phase_weight (xe_requests x i)" 3]
  by (simp add: load_def phase_weight_le mult.commute)

lemma internal_run_short:
  "exec_run validator x evs y \<Longrightarrow> list_all internal evs \<Longrightarrow> permits_ok m w x \<Longrightarrow> length evs \<le> load x"
proof (induction rule: exec_run.induct)
  case (run_step x ev y evs z)
  then have "load y < load x" by (auto simp: permits_ok_def intro!: internal_step_load)
  then show ?case using run_step exec_step_permits by fastforce
qed simp

lemma internal_enabled:
  assumes ok: "permits_ok m w x" and w: "0 < w" and "held x \<noteq> {}"
  obtains ev y where "internal ev" "exec_step validator x ev y"
proof (cases "running x = {}")
  case False
  then obtain i a origin tx where "xe_requests x i = Some (Running a origin tx)"
    by (auto simp: running_def running_in_def)
  then show ?thesis using that [of "Finish i 0"] by (auto intro: exec_step.finish)
next
  case True
  then obtain n where n: "xe_workers x = Suc n" using ok w by (auto simp: permits_ok_def gr0_conv_Suc)
  from assms(3) obtain i p where p: "xe_requests x i = Some p" by (fastforce simp: held_def dom_def)
  show ?thesis
  proof (cases p)
    case (Waiting origin tx)
    then show ?thesis using that [of "Start i"] p n by (auto intro: exec_step.start)
  next
    case (Running a origin tx)
    then show ?thesis using True p by (auto simp: running_def running_in_def)
  next
    case Releasing
    then show ?thesis using that [of "Release i"] p by (auto intro: exec_step.release)
  qed
qed

text \<open>A request whose caller still listens, and one that has its answer.\<close>

definition pending :: "('o, 't, 'r) executor \<Rightarrow> nat \<Rightarrow> 'o \<Rightarrow> 't \<Rightarrow> bool" where
  "pending x i origin tx \<longleftrightarrow>
     xe_requests x i \<in> {Some (Waiting origin tx), Some (Running True origin tx)}"

definition answered ::
  "(nat \<Rightarrow> 'o \<Rightarrow> 't \<Rightarrow> string + 'r) \<Rightarrow> ('o, 't, 'r) executor \<Rightarrow> nat \<Rightarrow> 'o \<Rightarrow> 't \<Rightarrow> bool" where
  "answered validator x i origin tx \<longleftrightarrow> (\<exists>now. (i, job_answer validator now origin tx) \<in> set (xe_answers x))"

lemma internal_step_answers:
  "exec_step validator x ev y \<Longrightarrow> internal ev \<Longrightarrow> pending x i origin tx \<or> answered validator x i origin tx \<Longrightarrow>
   pending y i origin tx \<or> answered validator y i origin tx"
  by (induction rule: exec_step.induct) (auto simp: pending_def answered_def)

lemma internal_run_drains:
  "permits_ok m w x \<Longrightarrow> 0 < w \<Longrightarrow>
   \<exists>evs y. list_all internal evs \<and> exec_run validator x evs y \<and> held y = {} \<and>
     (\<forall>i origin tx. pending x i origin tx \<or> answered validator x i origin tx \<longrightarrow> answered validator y i origin tx)"
proof (induction "load x" arbitrary: x rule: less_induct)
  case less
  show ?case
  proof (cases "held x = {}")
    case True
    then have "\<not> pending x i origin tx" for i origin tx by (auto simp: pending_def held_def)
    then show ?thesis using True run_nil [of validator x] by (intro exI [of _ "[]"]) auto
  next
    case False
    then obtain ev z where step: "internal ev" "exec_step validator x ev z"
      using internal_enabled [OF less.prems] by metis
    then have ok: "load z < load x" "permits_ok m w z"
      using less.prems internal_step_load [OF step(2,1)] exec_step_permits [OF step(2)]
      by (simp_all add: permits_ok_def)
    from less.hyps [OF this less.prems(2)] obtain evs y where
      rest: "list_all internal evs" "exec_run validator z evs y" "held y = {}"
        "\<forall>i origin tx. pending z i origin tx \<or> answered validator z i origin tx \<longrightarrow> answered validator y i origin tx"
      by blast
    have "\<forall>i origin tx. pending x i origin tx \<or> answered validator x i origin tx \<longrightarrow> answered validator y i origin tx"
      using rest(4) internal_step_answers [OF step(2,1)] by blast
    then show ?thesis using rest step run_step [OF step(2) rest(2)] by (intro exI [of _ "ev # evs"]) auto
  qed
qed

text \<open>C19. The executor drains: from every reachable state the jobs can run to the end, whatever the
  validator returns, after which every permit is back and every request whose caller still listens
  has an answer, the outcome of its own validation or the failure of its worker; and no sequence of
  such steps is longer than three per permit.\<close>

theorem admission_drains:
  fixes x0 x :: "('o, 't, 'r) executor"
  assumes new: "validation_executor_new mp mx additional = Some x0" and run: "exec_run validator x0 evs x"
  shows "(\<exists>evs' y. list_all internal evs' \<and> exec_run validator x evs' y \<and> held y = {} \<and>
      xe_inflight y = unat mx \<and> xe_workers y = unat (worker_limit mx additional) \<and>
      (\<forall>i origin tx. pending x i origin tx \<longrightarrow> answered validator y i origin tx)) \<and>
    (\<forall>evs' y. exec_run validator x evs' y \<and> list_all internal evs' \<longrightarrow> length evs' \<le> 3 * unat mx)"
proof
  note ok = run_permits [OF new run]
  have w: "0 < unat (worker_limit mx additional)" using worker_limit_bounds new_nonzero [OF new] by blast
  from internal_run_drains [OF ok w, of validator] obtain evs' y where
    drained: "list_all internal evs'" "exec_run validator x evs' y" "held y = {}"
      "\<forall>i origin tx. pending x i origin tx \<or> answered validator x i origin tx \<longrightarrow> answered validator y i origin tx"
    by blast
  have "permits_ok (unat mx) (unat (worker_limit mx additional)) y"
    using exec_run_permits [OF drained(2) ok] .
  moreover have "running y = {}" using drained(3) by (auto simp: held_def running_def running_in_def)
  ultimately show "\<exists>evs' y. list_all internal evs' \<and> exec_run validator x evs' y \<and> held y = {} \<and>
      xe_inflight y = unat mx \<and> xe_workers y = unat (worker_limit mx additional) \<and>
      (\<forall>i origin tx. pending x i origin tx \<longrightarrow> answered validator y i origin tx)"
    using drained by (intro exI [of _ evs'] exI [of _ y]) (simp add: permits_ok_def)
  show "\<forall>evs' y. exec_run validator x evs' y \<and> list_all internal evs' \<longrightarrow> length evs' \<le> 3 * unat mx"
    using internal_run_short [OF _ _ ok] load_bound [of x] ok
    by (fastforce simp: permits_ok_def)
qed

definition sample_executor :: "(unit, nat, nat) executor" where
  "sample_executor = the (validation_executor_new 9 2 0)"

lemma sample_executor_new: "validation_executor_new 9 2 0 = Some sample_executor"
  by (simp add: sample_executor_def validation_executor_new_def)

text \<open>Two submissions, the first starts and is detached: both permits stay claimed.\<close>

definition sample_executor_full :: "(unit, nat, nat) executor" where
  "sample_executor_full = sample_executor\<lparr>xe_inflight := 0, xe_workers := 0,
     xe_requests := [1 \<mapsto> Running False () 10, 2 \<mapsto> Waiting () 20]\<rparr>"

lemma sample_executor_run:
  "exec_run validator sample_executor [Claim 1 () 10, Start 1, Claim 2 () 20, Detach 1] sample_executor_full"
  apply (rule run_step, rule exec_step.claim [where n = 1])
    apply (simp_all add: sample_executor_def validation_executor_new_def worker_limit_def saturating_add_def)
  apply (rule run_step, rule exec_step.start [where n = 0], simp_all)
  apply (rule run_step, rule exec_step.claim [where n = 0], simp_all)
  apply (rule run_step, rule exec_step.detach, simp_all)
  apply (simp add: sample_executor_full_def sample_executor_def validation_executor_new_def
      worker_limit_def saturating_add_def fun_upd_twist run_nil)
  done

theorem admission_permits_conserved_witness:
  "card (held sample_executor_full) = 2 \<and>
   (\<exists>y. exec_step (\<lambda>_ _ tx. Inr tx) sample_executor_full (Refuse 3) y)"
proof -
  note conserved = admission_permits_conserved [OF sample_executor_new sample_executor_run [of "\<lambda>_ _ tx. Inr tx"]]
  then have "card (held sample_executor_full) = 2"
    by (simp add: sample_executor_full_def)
  then show ?thesis using conserved by simp
qed

theorem admission_drains_witness:
  "\<exists>evs y. exec_run (\<lambda>_ _ tx. Inr tx) sample_executor_full evs y \<and> xe_inflight y = 2 \<and>
     answered (\<lambda>_ _ tx. Inr tx) y 2 () 20"
proof -
  have "pending sample_executor_full 2 () 20" by (simp add: pending_def sample_executor_full_def)
  then show ?thesis
    using admission_drains [OF sample_executor_new sample_executor_run [of "\<lambda>_ _ tx. Inr tx"]]
    by fastforce
qed

end
