(* ===== verification/Txpool_Code_Witness.thy ===== *)
theory Txpool_Code_Witness
  imports Txpool_Validator Code_Witness
begin

text \<open>
  The admission simulation (\<open>crates/dogeos-reth-txpool/src/code_witness.rs\<close>): a transaction is
  executed on the state of the latest head, in the environment of the next block, under a fresh
  code witness meter; and its composition with the validator (\<open>build_pool\<close> in
  \<open>crates/dogeos-reth-node/src/pool.rs\<close> installs it as the admission check).

  Parameters (\<open>simulation_env\<close>): the provider, the cached database of revm, the EVM with the
  inspector (\<open>sm_evm\<close>, given the inspector's state because a halt of the inspector changes what
  the EVM does), the hooks it calls on the inspector and the reading of its errors.
\<close>

record CodeWitnessValidationConfig =
  cw_max_code_witness_bytes :: u64
  cw_max_steps :: u64
  cw_max_inflight :: u64

definition default_code_witness_config :: CodeWitnessValidationConfig where
  "default_code_witness_config = \<lparr>cw_max_code_witness_bytes = DEFAULT_MAX_CODE_WITNESS_BYTES,
     cw_max_steps = 1000000, cw_max_inflight = 64\<rparr>"

datatype 'e CodeWitnessValidationError =
    CodeBytesExceeded u64 u64
  | ExecutionStepsExceeded u64
  | Provider 'e
  | MissingHead
  | Indeterminate string

record ('st, 'db, 'l1, 'x, 'i, 'e) simulation_env =
  sm_latest_header :: "'e + SealedHeader option"
  sm_state_by_block_hash :: "b256 \<Rightarrow> 'e + 'st"
  sm_cache_db :: "'st \<Rightarrow> 'db"
  sm_load_account :: "address \<Rightarrow> 'db \<Rightarrow> 'e + 'db"
  sm_set_nonce :: "address \<Rightarrow> u64 \<Rightarrow> 'db \<Rightarrow> 'db"
  sm_ops :: "('db, 'e) db_ops"
  sm_fork_api :: fork_api
  sm_calc :: base_fee_calc
  sm_spec :: spec_view
  sm_context :: "ScrollTxEnv \<times> 'l1"
  sm_evm :: "CodeWitnessInspector \<Rightarrow> ('db, 'l1, 'x) evm_api"
  sm_interp :: "'i interp_api"
  sm_tx_hooks :: "CodeWitnessInspector \<Rightarrow> ScrollTxEnv \<Rightarrow> ('db, 'l1) scroll_evm \<Rightarrow> 'i hook list"
  sm_database_error :: "'x \<Rightarrow> 'e option"
  sm_error_text :: "'x \<Rightarrow> string"
  sm_rlp :: rlp_api
  sm_codec :: alloy_codec
  sm_txenv :: env_api
  sm_tx :: alloy_tx_api

section \<open>The simulation\<close>

text \<open>The environment of the simulation, before any code runs: the parent, and the database with the
  sender's nonce replaced. \<open>None\<close> is a panic of the base-fee rule.\<close>

definition simulation_setup ::
  "('st, 'db, 'l1, 'x, 'i, 'e) simulation_env \<Rightarrow> DogeosPooledTransaction \<Rightarrow>
   ('e CodeWitnessValidationError + 'db \<times> EvmEnv) option" where
  "simulation_setup sm transaction =
     (case rbind (map_err Provider (sm_latest_header sm)) (ok_or MissingHead) of
        Inl e \<Rightarrow> Some (Inl e)
      | Inr parent \<Rightarrow>
          let h = sh_header parent; sender = snd (pt_transaction transaction) in
          if h_number h = - 1 then Some (Inl (Indeterminate ''parent block number overflow''))
          else
            (case rbind (map_err Provider (sm_state_by_block_hash sm (sh_hash parent))) (\<lambda>provider.
                    map_err Provider (sm_load_account sm sender (sm_cache_db sm provider))) of
               Inl e \<Rightarrow> Some (Inl e)
             | Inr database \<Rightarrow>
                 let database = sm_set_nonce sm sender (env_nonce (sm_tx sm) (fst (pt_transaction transaction)))
                       database in
                 if h_timestamp h = - 1 then Some (Inl (Indeterminate ''parent timestamp overflow''))
                 else if h_base_fee_per_gas h = None
                 then Some (Inl (Indeterminate ''parent has no base fee''))
                 else
                   let timestamp = h_timestamp h + 1 in
                   map_option (\<lambda>r. rbind (map_err Provider r) (\<lambda>base_fee.
                       let attributes = \<lparr>nb_timestamp = timestamp,
                             nb_suggested_fee_recipient = h_beneficiary h,
                             nb_gas_limit = h_gas_limit h, nb_base_fee = base_fee\<rparr> in
                       Inr (database, next_evm_env (sm_fork_api sm) (sm_spec sm) h attributes)))
                     (next_block_base_fee (sm_fork_api sm) (sm_calc sm) (sm_ops sm) (sm_spec sm) database h
                       timestamp)))"

definition simulation_tx ::
  "('st, 'db, 'l1, 'x, 'i, 'e) simulation_env \<Rightarrow> DogeosPooledTransaction \<Rightarrow> ScrollTxEnv" where
  "simulation_tx sm transaction =
     from_recovered_tx (sm_rlp sm) (sm_codec sm) (sm_txenv sm) (fst (pt_transaction transaction))
       (snd (pt_transaction transaction))"

definition simulation_inspector :: "CodeWitnessValidationConfig \<Rightarrow> CodeWitnessInspector" where
  "simulation_inspector config =
     code_inspector (begin_transaction
       (code_witness_new (cw_max_code_witness_bytes config) (cw_max_steps config)))"

definition simulation_hooks ::
  "('st, 'db, 'l1, 'x, 'i, 'e) simulation_env \<Rightarrow> CodeWitnessValidationConfig \<Rightarrow> DogeosPooledTransaction \<Rightarrow>
   'db \<times> EvmEnv \<Rightarrow> 'i hook list" where
  "simulation_hooks sm config transaction start =
     sm_tx_hooks sm (simulation_inspector config) (simulation_tx sm transaction)
       (with_base_fee_check False (create_evm_with_inspector (sm_context sm) (fst start) (snd start)))"

definition simulation_result ::
  "('st, 'db, 'l1, 'x, 'i, 'e) simulation_env \<Rightarrow> CodeWitnessValidationConfig \<Rightarrow> DogeosPooledTransaction \<Rightarrow>
   'db \<times> EvmEnv \<Rightarrow> 'x + ResultAndState" where
  "simulation_result sm config transaction start =
     fst (transact_raw (sm_evm sm (simulation_inspector config)) (simulation_tx sm transaction)
       (with_base_fee_check False (create_evm_with_inspector (sm_context sm) (fst start) (snd start))))"

definition validate_code_witness ::
  "('st, 'db, 'l1, 'x, 'i, 'e) simulation_env \<Rightarrow> CodeWitnessValidationConfig \<Rightarrow> DogeosPooledTransaction \<Rightarrow>
   ('e CodeWitnessValidationError + unit) option" where
  "validate_code_witness sm config transaction =
     (case simulation_setup sm transaction of
        None \<Rightarrow> None
      | Some (Inl e) \<Rightarrow> Some (Inl e)
      | Some (Inr start) \<Rightarrow>
          let meter = ci_meter (run_hooks (sm_interp sm) (simulation_hooks sm config transaction start)
                (simulation_inspector config));
              result = simulation_result sm config transaction start in
          Some
            (case code_exceeded meter of
               Some CodeBytes \<Rightarrow>
                 Inl (CodeBytesExceeded (transaction_code_bytes meter) (cw_max_code_witness_bytes config))
             | Some ExecutionSteps \<Rightarrow> Inl (ExecutionStepsExceeded (cw_max_steps config))
             | None \<Rightarrow>
                 (case result of
                    Inr _ \<Rightarrow> Inr ()
                  | Inl error \<Rightarrow>
                      (case sm_database_error sm error of
                         Some error \<Rightarrow> Inl (Provider error)
                       | None \<Rightarrow> Inl (Indeterminate (sm_error_text sm error))))))"

text \<open>The check that the node installs; the text of an error stands for the boxed error.\<close>

definition node_admission_check ::
  "('st, 'db, 'l1, 'x, 'i, 'e) simulation_env \<Rightarrow> CodeWitnessValidationConfig \<Rightarrow>
   ('e CodeWitnessValidationError \<Rightarrow> string) \<Rightarrow> DogeosPooledTransaction \<Rightarrow> string + unit" where
  "node_admission_check sm config text transaction =
     (case validate_code_witness sm config transaction of
        Some r \<Rightarrow> map_err text r
      | None \<Rightarrow> Inl ''panicked'')"

section \<open>Which limit was hit\<close>

definition reason_ok :: "Meter \<Rightarrow> event list \<Rightarrow> CodeWitnessLimit option \<Rightarrow> bool" where
  "reason_ok m0 es reason =
     (case reason of
        None \<Rightarrow> True
      | Some CodeBytes \<Rightarrow>
          unat (mt_max_code_bytes m0) < unat (mt_accepted_bytes m0) + needed (dom (mt_accepted m0)) es
      | Some ExecutionSteps \<Rightarrow> unat (mt_max_steps m0) < step_count es)"

lemma needed_le_snoc: "needed A es \<le> needed A (es @ [e])"
  by (cases e) simp_all

lemma step_count_le_snoc: "step_count es \<le> step_count (es @ [e])"
  by simp

lemma reason_ok_snoc: "reason_ok m0 es reason \<Longrightarrow> reason_ok m0 (es @ [e]) reason"
  using needed_le_snoc [of "dom (mt_accepted m0)" es e]
  by (auto simp: reason_ok_def simp del: needed_snoc split: option.splits CodeWitnessLimit.splits)

lemma apply_event_reason:
  "mt_exceeded (apply_event e m) =
     (case mt_exceeded m of
        Some l \<Rightarrow> Some l
      | None \<Rightarrow> (if mt_exceeded (apply_event e m) = None then None
                 else Some (if e = Ev_step then ExecutionSteps else CodeBytes)))"
  by (cases e) (auto simp: meter_reserve_def meter_record_def exceed_def Let_def split: option.splits)

lemma exceeded_reason:
  assumes wf: "meter_wf m" and cap: "unat (mt_max_code_bytes m) < 2 ^ 64 - 1"
  shows "reason_ok m es (mt_exceeded (apply_events es (begin_transaction m)))"
proof (induction es rule: rev_induct)
  case Nil
  show ?case by (simp add: reason_ok_def begin_transaction_def reset_transaction_def)
next
  case (snoc e es)
  let ?m = "apply_events es (begin_transaction m)"
  have t: "tracks m es ?m" and t': "tracks m (es @ [e]) (apply_event e ?m)"
    using tracks_events [OF wf cap] tracks_event [OF tracks_events [OF wf cap] cap] by simp_all
  show ?case
  proof (cases "mt_exceeded ?m")
    case (Some l)
    then have "mt_exceeded (apply_event e ?m) = Some l" using apply_event_reason [of e ?m] by simp
    then show ?thesis using reason_ok_snoc [OF snoc] Some by simp
  next
    case None
    then have fits: "fits m es" using t by (simp add: tracks_def)
    show ?thesis
    proof (cases "mt_exceeded (apply_event e ?m)")
      case (Some l)
      then have "\<not> fits m (es @ [e])" using t' by (simp add: tracks_def)
      moreover have "l = (if e = Ev_step then ExecutionSteps else CodeBytes)"
        using apply_event_reason [of e ?m] None Some by simp
      ultimately show ?thesis using Some fits
        by (auto simp: reason_ok_def fits_def)
    qed (simp add: reason_ok_def)
  qed
qed

lemma simulation_meter:
  fixes sm :: "('st, 'db, 'l1, 'x, 'i, 'e) simulation_env"
  assumes cap: "unat (cw_max_code_witness_bytes config) < 2 ^ 64 - 1"
    and m: "m = ci_meter (run_hooks ia hs (simulation_inspector config))"
    and es: "es = hooks_events ia hs (simulation_inspector config)"
  shows "(code_exceeded m = None \<longleftrightarrow>
        needed {} es \<le> unat (cw_max_code_witness_bytes config) \<and> step_count es \<le> unat (cw_max_steps config))"
    and "code_exceeded m = Some CodeBytes \<Longrightarrow> unat (cw_max_code_witness_bytes config) < needed {} es"
    and "code_exceeded m = Some ExecutionSteps \<Longrightarrow> unat (cw_max_steps config) < step_count es"
    and "unat (transaction_code_bytes m) = min (needed {} es) (2 ^ 64 - 1)"
proof -
  let ?m0 = "code_witness_new (cw_max_code_witness_bytes config) (cw_max_steps config)"
  have run: "m = apply_events es (begin_transaction ?m0)"
    unfolding m es run_hooks_events by (simp add: simulation_inspector_def code_inspector_def)
  have cap0: "unat (mt_max_code_bytes ?m0) < 2 ^ 64 - 1" using cap by (simp add: code_witness_new_def)
  have t: "tracks ?m0 es m" using tracks_events [OF meter_wf_new cap0] run by simp
  have reason: "reason_ok ?m0 es (mt_exceeded m)" using exceeded_reason [OF meter_wf_new cap0] run by simp
  have fields: "mt_accepted ?m0 = Map.empty" "mt_accepted_bytes ?m0 = 0"
    "mt_max_code_bytes ?m0 = cw_max_code_witness_bytes config" "mt_max_steps ?m0 = cw_max_steps config"
    by (simp_all add: code_witness_new_def)
  show "(code_exceeded m = None \<longleftrightarrow>
        needed {} es \<le> unat (cw_max_code_witness_bytes config) \<and> step_count es \<le> unat (cw_max_steps config))"
    and "code_exceeded m = Some CodeBytes \<Longrightarrow> unat (cw_max_code_witness_bytes config) < needed {} es"
    and "code_exceeded m = Some ExecutionSteps \<Longrightarrow> unat (cw_max_steps config) < step_count es"
    and "unat (transaction_code_bytes m) = min (needed {} es) (2 ^ 64 - 1)"
    using t reason
    by (simp_all add: tracks_def fits_def reason_ok_def code_exceeded_def transaction_code_bytes_def fields)
qed

lemma simulation_setup_returns: "simulation_setup sm transaction \<noteq> None"
  by (auto simp: simulation_setup_def next_block_base_fee_def base_fee_parent_from_header_def Let_def
      split: sum.splits option.splits)

lemma with_admission_check_simps [simp]:
  "va_inner (with_admission_check check va) = va_inner va"
  "va_tx (with_admission_check check va) = va_tx va"
  "fee_covered (with_admission_check check va) = fee_covered va"
  "check_passes (with_admission_check check va) v \<longleftrightarrow> check (vf_transaction v) = Inr ()"
  by (simp_all add: with_admission_check_def check_passes_def fee_covered_def data_fee_of_def
      max_rollup_fee_def fun_eq_iff Let_def cong: DogeosL1FeeCache.case_cong)

section \<open>Properties\<close>

text \<open>C22. The simulation always answers. Once its environment is set up it accepts a transaction
  exactly when the distinct code it loads, with its authorization reserves, fits in the byte
  budget, its steps are within the allowance, and the EVM executes it (a revert included). A code
  overflow is reported only when the code really is over the budget, with the bytes observed, and
  an exhausted step allowance only when the steps really were over it.\<close>

theorem code_witness_simulation_exact:
  fixes sm :: "('st, 'db, 'l1, 'x, 'i, 'e) simulation_env"
  assumes cap: "unat (cw_max_code_witness_bytes config) < 2 ^ 64 - 1"
  shows "\<exists>r. validate_code_witness sm config transaction = Some r \<and>
    (\<forall>e. simulation_setup sm transaction = Some (Inl e) \<longrightarrow> r = Inl e) \<and>
    (\<forall>start es. simulation_setup sm transaction = Some (Inr start) \<and>
       es = hooks_events (sm_interp sm) (simulation_hooks sm config transaction start) (simulation_inspector config) \<longrightarrow>
       (r = Inr () \<longleftrightarrow>
          needed {} es \<le> unat (cw_max_code_witness_bytes config) \<and> step_count es \<le> unat (cw_max_steps config) \<and>
          (\<exists>out. simulation_result sm config transaction start = Inr out)) \<and>
       (\<forall>observed limit. r = Inl (CodeBytesExceeded observed limit) \<longrightarrow>
          limit = cw_max_code_witness_bytes config \<and> unat limit < needed {} es \<and>
          unat observed = min (needed {} es) (2 ^ 64 - 1)) \<and>
       (\<forall>limit. r = Inl (ExecutionStepsExceeded limit) \<longrightarrow>
          limit = cw_max_steps config \<and> unat limit < step_count es))"
proof (cases "simulation_setup sm transaction")
  case None
  then show ?thesis using simulation_setup_returns by blast
next
  case (Some s)
  show ?thesis
  proof (cases s)
    case (Inl e)
    then show ?thesis using Some by (simp add: validate_code_witness_def)
  next
    case (Inr start)
    note limits = simulation_meter [OF cap refl refl,
        of "sm_interp sm" "simulation_hooks sm config transaction start"]
    show ?thesis
    proof (cases "code_exceeded (ci_meter (run_hooks (sm_interp sm) (simulation_hooks sm config transaction start)
        (simulation_inspector config)))")
      case None
      then show ?thesis using Some Inr limits(1)
        by (auto simp: validate_code_witness_def Let_def split: sum.splits option.splits)
    next
      case (Some l)
      then show ?thesis using \<open>simulation_setup sm transaction = Some s\<close> Inr limits
        by (cases l) (auto simp: validate_code_witness_def Let_def)
    qed
  qed
qed

text \<open>C23. A transaction that the assembled pool validator admits was accepted by reth's validator, is
  covered by the sender's balance including its L1 fee, and its simulation on the latest head
  stayed within both code witness limits and executed.\<close>

theorem admitted_within_code_limits:
  fixes sm :: "('st, 'sdb, 'sl1, 'sx, 'i, 'se) simulation_env"
  assumes cap: "unat (cw_max_code_witness_bytes config) < 2 ^ 64 - 1"
    and valid: "validate_one (with_admission_check (node_admission_check sm config text) va) vs origin t = Valid v"
  shows "va_inner va origin t = Valid v \<and> fee_covered va vs v \<and>
    (\<exists>start es. simulation_setup sm (vf_transaction v) = Some (Inr start) \<and>
       es = hooks_events (sm_interp sm) (simulation_hooks sm config (vf_transaction v) start)
         (simulation_inspector config) \<and>
       needed {} es \<le> unat (cw_max_code_witness_bytes config) \<and> step_count es \<le> unat (cw_max_steps config) \<and>
       (\<exists>out. simulation_result sm config (vf_transaction v) start = Inr out))"
proof -
  have "node_admission_check sm config text (vf_transaction v) = Inr ()" and "va_inner va origin t = Valid v"
    and "fee_covered va vs v"
    using valid by (simp_all add: validate_one_valid)
  then have ok: "validate_code_witness sm config (vf_transaction v) = Some (Inr ())"
    by (auto simp: node_admission_check_def result_elims split: option.splits)
  then obtain start where start: "simulation_setup sm (vf_transaction v) = Some (Inr start)"
    by (auto simp: validate_code_witness_def split: option.splits sum.splits)
  have "code_exceeded (ci_meter (run_hooks (sm_interp sm) (simulation_hooks sm config (vf_transaction v) start)
        (simulation_inspector config))) = None \<and> (\<exists>out. simulation_result sm config (vf_transaction v) start = Inr out)"
    using ok start
    by (auto simp: validate_code_witness_def Let_def split: option.splits sum.splits CodeWitnessLimit.splits)
  then show ?thesis
    using simulation_meter(1) [OF cap refl refl, of "sm_interp sm"
        "simulation_hooks sm config (vf_transaction v) start"]
      start \<open>va_inner va origin t = Valid v\<close> \<open>fee_covered va vs v\<close> by blast
qed

section \<open>A sample simulation\<close>

definition sample_simulation :: "(map_db, map_db, unit, string, unit, string) simulation_env" where
  "sample_simulation = \<lparr>
     sm_latest_header = Inr (Some \<lparr>sh_header = sample_header, sh_hash = 7\<rparr>),
     sm_state_by_block_hash = (\<lambda>_. Inr empty_map_db), sm_cache_db = id, sm_load_account = (\<lambda>_ db. Inr db),
     sm_set_nonce = (\<lambda>_ _ db. db), sm_ops = map_db_ops, sm_fork_api = sample_fork_api,
     sm_calc = (\<lambda>_ _ fee _. fee), sm_spec = sample_view,
     sm_context = (sample_tx_env, ()),
     sm_evm = (\<lambda>_. sample_evm_api\<lparr>api_inspect_tx := (\<lambda>tx evm. (Inr (\<lparr>er_success = True, er_gas_used = 0,
       er_logs = []\<rparr>, Map.empty), evm))\<rparr>),
     sm_interp = sample_interp, sm_tx_hooks = (\<lambda>_ _ _. sample_hooks),
     sm_database_error = (\<lambda>_. None), sm_error_text = id, sm_rlp = sample_rlp, sm_codec = sample_alloy_codec,
     sm_txenv = sample_env_api, sm_tx = sample_alloy_tx_api\<rparr>"

definition sample_code_config :: CodeWitnessValidationConfig where
  "sample_code_config = \<lparr>cw_max_code_witness_bytes = 100, cw_max_steps = 5, cw_max_inflight = 2\<rparr>"

definition sample_pooled_tx :: DogeosPooledTransaction where
  "sample_pooled_tx = pooled_tx_new (\<lambda>_. 21000) (Legacy sample_legacy, 8) 100"

lemma sample_setup:
  "\<exists>start. simulation_setup sample_simulation t = Some (Inr start)"
  by (simp add: simulation_setup_def sample_simulation_def sample_header_def next_block_base_fee_def
      base_fee_parent_from_header_def next_block_base_fee_for_parent_def base_fee_overhead_def map_db_ops_def Let_def)

lemma sample_meter_within:
  "code_exceeded (ci_meter (run_hooks sample_interp sample_hooks (simulation_inspector sample_code_config))) = None"
  by (simp add: simulation_inspector_def sample_code_config_def sample_meter_defs Let_def)

lemma sample_simulation_accepts:
  "validate_code_witness sample_simulation sample_code_config t = Some (Inr ())"
proof -
  obtain start where start: "simulation_setup sample_simulation t = Some (Inr start)"
    using sample_setup by blast
  have "\<exists>out. simulation_result sample_simulation sample_code_config t start = Inr out"
    by (simp add: simulation_result_def sample_simulation_def transact_raw_def with_base_fee_check_def
        create_evm_with_inspector_def)
  moreover have "sm_interp sample_simulation = sample_interp"
    "simulation_hooks sample_simulation sample_code_config t start = sample_hooks"
    by (simp_all add: sample_simulation_def simulation_hooks_def)
  ultimately show ?thesis using start sample_meter_within by (auto simp: validate_code_witness_def)
qed

theorem code_witness_simulation_exact_witness:
  "\<exists>start es. simulation_setup sample_simulation sample_pooled_tx = Some (Inr start) \<and>
     es = hooks_events sample_interp sample_hooks (simulation_inspector sample_code_config) \<and>
     needed {} es \<le> 100 \<and> step_count es \<le> 5"
proof -
  obtain start where start: "simulation_setup sample_simulation sample_pooled_tx = Some (Inr start)"
    using sample_setup by blast
  have "unat (cw_max_code_witness_bytes sample_code_config) < 2 ^ 64 - 1" by (simp add: sample_code_config_def)
  from code_witness_simulation_exact [OF this, of sample_simulation sample_pooled_tx] start
  have "needed {} (hooks_events (sm_interp sample_simulation)
      (simulation_hooks sample_simulation sample_code_config sample_pooled_tx start)
      (simulation_inspector sample_code_config)) \<le> unat (cw_max_code_witness_bytes sample_code_config) \<and>
    step_count (hooks_events (sm_interp sample_simulation)
      (simulation_hooks sample_simulation sample_code_config sample_pooled_tx start)
      (simulation_inspector sample_code_config)) \<le> unat (cw_max_steps sample_code_config)"
    using sample_simulation_accepts [of sample_pooled_tx] by auto
  then show ?thesis using start
    by (simp add: sample_simulation_def simulation_hooks_def) (simp add: sample_code_config_def)
qed

definition sample_fields :: valid_fields where
  "sample_fields = \<lparr>vf_balance = 1000000, vf_state_nonce = 7, vf_transaction = sample_pooled_tx,
     vf_propagate = True, vf_bytecode_hash = None, vf_authorities = None\<rparr>"

definition sample_validator :: "(map_db, unit, string, string, unit) validator_env" where
  "sample_validator = \<lparr>
     va_inner = (\<lambda>_ t. Valid (sample_fields\<lparr>vf_transaction := t\<rparr>)), va_admission_check = None,
     va_fork_api = sample_fork_api, va_spec = sample_view, va_evm = sample_evm_api\<lparr>api_l1_cost := (\<lambda>_ _ _ _ _. 500)\<rparr>,
     va_rlp = sample_rlp, va_codec = sample_alloy_codec, va_txenv = sample_env_api, va_tx = sample_alloy_tx_api\<rparr>"

lemma sample_fee: "data_fee_of sample_validator s t = 500"
  by (simp add: data_fee_of_def sample_validator_def l1_tx_data_fee_def Let_def)

theorem admitted_within_code_limits_witness:
  "fee_covered sample_validator (validator_new sample_snapshot :: (unit, string) validator_state) sample_fields \<and>
   va_inner sample_validator () sample_pooled_tx = Valid sample_fields"
proof -
  have covered: "fee_covered sample_validator (validator_new sample_snapshot :: (unit, string) validator_state) sample_fields"
    by (simp add: fee_covered_def validator_new_def sample_fee max_rollup_fee_def MAX_ROLLUP_FEE_TSUKI_def
        MAX_ROLLUP_FEE_PRE_TSUKI_def sample_fields_def sample_pooled_tx_def pooled_tx_new_def)
  have accepted: "va_inner sample_validator () sample_pooled_tx = Valid sample_fields"
    by (simp add: sample_validator_def sample_fields_def)
  have plain: "env_ty (va_tx sample_validator) (fst (pt_transaction sample_pooled_tx)) \<noteq> 3"
    "\<not> env_is_l1_message (fst (pt_transaction sample_pooled_tx))"
    by (simp_all add: sample_validator_def sample_pooled_tx_def pooled_tx_new_def env_ty_def
        sample_alloy_tx_api_def env_is_l1_message_def)
  have valid: "validate_one (with_admission_check
      (node_admission_check sample_simulation sample_code_config (\<lambda>_. [])) sample_validator)
      (validator_new sample_snapshot) () sample_pooled_tx = Valid sample_fields"
    using covered accepted plain
    by (simp add: validate_one_valid node_admission_check_def sample_simulation_accepts)
  have "unat (cw_max_code_witness_bytes sample_code_config) < 2 ^ 64 - 1" by (simp add: sample_code_config_def)
  from admitted_within_code_limits [OF this valid] show ?thesis by simp
qed

end
