(* ===== verification/Node_Pool.thy ===== *)
theory Node_Pool
  imports Txpool_Executor Txpool_Code_Witness
begin

text \<open>
  The pool of the node (\<open>crates/dogeos-reth-node/src/pool.rs\<close>): how \<open>build_pool\<close> puts the validator,
  the admission check and the executor together, and the task that keeps the L1 fee cache current
  (\<open>run_dogeos_l1_fee_cache_maintenance\<close>): drain the notifications, reconcile, signal readiness, then
  refresh on every notification and, while the cache is unavailable, after an exponential backoff.

  Durations and instants are natural numbers of nanoseconds; \<open>Duration\<close> saturates at
  \<open>DURATION_MAX\<close>. What the channel and the timer deliver are the constructors of \<open>try_recv\<close> and
  \<open>wake\<close>, with the time at which a wake is handled. The refresh is a parameter of the task, as in
  the source; the locale \<open>fee_refresh\<close> is what the task relies on and is interpreted on the
  validator's refresh.
\<close>

section \<open>The maintenance task\<close>

definition DURATION_MAX :: nat where
  "DURATION_MAX = (2 ^ 64 - 1) * 1000000000 + 999999999"

record L1FeeRetryBackoff =
  bo_initial :: nat
  bo_max :: nat

definition L1_FEE_RETRY_BACKOFF :: L1FeeRetryBackoff where
  "L1_FEE_RETRY_BACKOFF = \<lparr>bo_initial = 1 * 1000000000, bo_max = 30 * 1000000000\<rparr>"

datatype try_recv = TryOk | TryLagged u64 | TryEmpty | TryClosed

text \<open>The startup drain: \<open>Some True\<close> when the channel was found empty, \<open>Some False\<close> when it was closed,
  \<open>None\<close> while it still delivers.\<close>

fun drain_notifications :: "('s \<Rightarrow> bool \<times> 's) \<Rightarrow> try_recv list \<Rightarrow> 's \<Rightarrow> bool option \<times> 's" where
  "drain_notifications refresh [] s = (None, s)"
| "drain_notifications refresh (TryOk # rs) s = drain_notifications refresh rs (snd (refresh s))"
| "drain_notifications refresh (TryLagged _ # rs) s = drain_notifications refresh rs (snd (refresh s))"
| "drain_notifications refresh (TryEmpty # rs) s = (Some True, s)"
| "drain_notifications refresh (TryClosed # rs) s = (Some False, s)"

record 's fee_task =
  ft_state :: 's
  ft_available :: bool
  ft_retry_delay :: nat
  ft_retry_deadline :: "nat option"
  ft_running :: bool

text \<open>The reconciliation between the drain and the loop. \<open>listening\<close> says whether the receiver of the
  readiness signal is still there.\<close>

definition reconcile ::
  "('s \<Rightarrow> bool \<times> 's) \<Rightarrow> L1FeeRetryBackoff \<Rightarrow> bool \<Rightarrow> nat \<Rightarrow> 's \<Rightarrow> 's fee_task" where
  "reconcile refresh backoff listening now s =
     (let (available, s) = refresh s in
      \<lparr>ft_state = s, ft_available = available, ft_retry_delay = bo_initial backoff,
       ft_retry_deadline = (if available then None else Some (now + bo_initial backoff)),
       ft_running = listening\<rparr>)"

datatype wake = Notified nat | Lagged u64 nat | ChannelClosed | RetryTimer nat

text \<open>One turn of the \<open>select!\<close> loop; \<open>None\<close> when the wake cannot happen: the task has returned, or
  the timer is not armed or not due.\<close>

definition after_notification ::
  "('s \<Rightarrow> bool \<times> 's) \<Rightarrow> L1FeeRetryBackoff \<Rightarrow> nat \<Rightarrow> 's fee_task \<Rightarrow> 's fee_task" where
  "after_notification refresh backoff now ft =
     (let (available, s) = refresh (ft_state ft) in
      ft\<lparr>ft_state := s, ft_available := available, ft_retry_delay := bo_initial backoff,
         ft_retry_deadline := (if available then None else Some (now + bo_initial backoff))\<rparr>)"

definition after_retry ::
  "('s \<Rightarrow> bool \<times> 's) \<Rightarrow> L1FeeRetryBackoff \<Rightarrow> nat \<Rightarrow> 's fee_task \<Rightarrow> 's fee_task" where
  "after_retry refresh backoff now ft =
     (let (available, s) = refresh (ft_state ft); ft = ft\<lparr>ft_state := s, ft_available := available\<rparr> in
      if available then ft\<lparr>ft_retry_delay := bo_initial backoff, ft_retry_deadline := None\<rparr>
      else
        let retry_delay = min (min (ft_retry_delay ft * 2) DURATION_MAX) (bo_max backoff) in
        ft\<lparr>ft_retry_delay := retry_delay, ft_retry_deadline := Some (now + retry_delay)\<rparr>)"

fun turn :: "('s \<Rightarrow> bool \<times> 's) \<Rightarrow> L1FeeRetryBackoff \<Rightarrow> wake \<Rightarrow> 's fee_task \<Rightarrow> 's fee_task option" where
  "turn refresh backoff (Notified now) ft =
     (if ft_running ft then Some (after_notification refresh backoff now ft) else None)"
| "turn refresh backoff (Lagged skipped now) ft =
     (if ft_running ft then Some (after_notification refresh backoff now ft) else None)"
| "turn refresh backoff ChannelClosed ft =
     (if ft_running ft then Some (ft\<lparr>ft_running := False\<rparr>) else None)"
| "turn refresh backoff (RetryTimer now) ft =
     (case ft_retry_deadline ft of
        Some deadline \<Rightarrow>
          if ft_running ft \<and> deadline \<le> now then Some (after_retry refresh backoff now ft) else None
      | None \<Rightarrow> None)"

fun turns :: "('s \<Rightarrow> bool \<times> 's) \<Rightarrow> L1FeeRetryBackoff \<Rightarrow> wake list \<Rightarrow> 's fee_task \<Rightarrow> 's fee_task option" where
  "turns refresh backoff [] ft = Some ft"
| "turns refresh backoff (w # ws) ft = Option.bind (turn refresh backoff w ft) (turns refresh backoff ws)"

section \<open>The assembled pool\<close>

text \<open>The part of \<open>build_pool\<close> that decides the validator: none without the L1 fee state, except in
  development mode.\<close>

definition build_pool_validator ::
  "('st, 'l1, 'e) client_api \<Rightarrow> nat \<Rightarrow> bool \<Rightarrow> 'e DogeosL1FeeError + ('l1, 'e) validator_state" where
  "build_pool_validator cl t dev =
     (let require_l1_data_gas_fee = \<not> dev in
      if require_l1_data_gas_fee
      then rbind (load_latest cl t) (\<lambda>snapshot. Inr (validator_new snapshot))
      else Inr validator_disabled)"

text \<open>The executor of \<open>build_pool\<close>: the capacity of the code witness configuration, the additional
  tasks of the pool configuration or of the node.\<close>

definition build_pool_executor ::
  "u64 \<Rightarrow> CodeWitnessValidationConfig \<Rightarrow> u64 option \<Rightarrow> u64 \<Rightarrow> ('o, 't, 'r) Txpool_Executor.executor option" where
  "build_pool_executor max_permits config override node_additional =
     validation_executor_new max_permits (cw_max_inflight config)
       (case override of Some n \<Rightarrow> n | None \<Rightarrow> node_additional)"

section \<open>What the task relies on\<close>

text \<open>The time of the last refresh and the retries since the last notification.\<close>

fun attempts :: "wake \<Rightarrow> nat \<times> nat \<Rightarrow> nat \<times> nat" where
  "attempts (Notified now) (at, retries) = (now, 0)"
| "attempts (Lagged skipped now) (at, retries) = (now, 0)"
| "attempts ChannelClosed (at, retries) = (at, retries)"
| "attempts (RetryTimer now) (at, retries) = (now, Suc retries)"

definition backoff_delay :: "L1FeeRetryBackoff \<Rightarrow> nat \<Rightarrow> nat" where
  "backoff_delay backoff retries = min (bo_initial backoff * 2 ^ retries) (bo_max backoff)"

definition task_ok :: "('s \<Rightarrow> bool) \<Rightarrow> L1FeeRetryBackoff \<Rightarrow> nat \<times> nat \<Rightarrow> 's fee_task \<Rightarrow> bool" where
  "task_ok usable backoff = (\<lambda>(at, retries) ft.
     (ft_available ft \<longleftrightarrow> usable (ft_state ft)) \<and>
     ft_retry_delay ft = (if ft_available ft then bo_initial backoff else backoff_delay backoff retries) \<and>
     ft_retry_deadline ft = (if ft_available ft then None else Some (at + ft_retry_delay ft)))"

text \<open>A refresh reports whether the state can be used afterwards.\<close>

locale fee_refresh =
  fixes refresh :: "'s \<Rightarrow> bool \<times> 's" and usable :: "'s \<Rightarrow> bool"
  assumes refresh_reports: "refresh s = (ok, s') \<Longrightarrow> ok \<longleftrightarrow> usable s'"
begin

lemma reconcile_ok:
  "bo_initial backoff \<le> bo_max backoff \<Longrightarrow> task_ok usable backoff (now, 0) (reconcile refresh backoff listening now s)"
  using refresh_reports by (auto simp: reconcile_def task_ok_def backoff_delay_def split: prod.splits)

lemma turn_ok:
  assumes "bo_initial backoff \<le> bo_max backoff" and "bo_max backoff \<le> DURATION_MAX"
    and "task_ok usable backoff h ft" and "turn refresh backoff w ft = Some ft'"
  shows "task_ok usable backoff (attempts w h) ft'"
proof -
  obtain at retries where h: "h = (at, retries)" by (cases h)
  have "min (min (backoff_delay backoff retries * 2) DURATION_MAX) (bo_max backoff) = backoff_delay backoff (Suc retries)"
    using assms(2) by (auto simp: backoff_delay_def min_def)
  then show ?thesis
    using assms refresh_reports [of "ft_state ft"]
    by (cases w) (auto simp: h task_ok_def after_notification_def after_retry_def backoff_delay_def [of _ 0] Let_def
        split: if_splits option.splits prod.splits)
qed

lemma turns_ok:
  assumes "bo_initial backoff \<le> bo_max backoff" and "bo_max backoff \<le> DURATION_MAX"
  shows "task_ok usable backoff h ft \<Longrightarrow> turns refresh backoff ws ft = Some ft' \<Longrightarrow>
    task_ok usable backoff (fold attempts ws h) ft'"
proof (induction ws arbitrary: ft h)
  case (Cons w ws)
  then obtain ft1 where "turn refresh backoff w ft = Some ft1" "turns refresh backoff ws ft1 = Some ft'"
    by (auto split: bind_splits)
  then show ?case using Cons.IH [OF turn_ok [OF assms Cons.prems(1)]] by simp
qed simp

text \<open>An unusable state is always retried: the timer is armed, and when it fires at its deadline the
  refresh runs.\<close>

lemma retry_armed:
  assumes "task_ok usable backoff h ft" and "ft_running ft" and "\<not> usable (ft_state ft)"
  obtains deadline where "ft_retry_deadline ft = Some deadline"
    "turn refresh backoff (RetryTimer deadline) ft = Some (after_retry refresh backoff deadline ft)"
  using assms that by (cases "ft_retry_deadline ft") (auto simp: task_ok_def)

end

text \<open>Whatever a refresh preserves, the whole task preserves.\<close>

lemma drain_preserves:
  assumes "\<And>s. P s \<Longrightarrow> P (snd (refresh s))"
  shows "P s \<Longrightarrow> drain_notifications refresh rs s = (r, s') \<Longrightarrow> P s'"
proof (induction rs arbitrary: s)
  case (Cons r' rs)
  then show ?case using assms [of s] by (cases r') auto
qed simp

lemma turn_preserves:
  assumes "\<And>s. P s \<Longrightarrow> P (snd (refresh s))"
  shows "P (ft_state ft) \<Longrightarrow> turn refresh backoff w ft = Some ft' \<Longrightarrow> P (ft_state ft')"
  using assms [of "ft_state ft"]
  by (cases w) (auto simp: after_notification_def after_retry_def Let_def split: if_splits option.splits prod.splits)

lemma turns_preserves:
  assumes "\<And>s. P s \<Longrightarrow> P (snd (refresh s))"
  shows "P (ft_state ft) \<Longrightarrow> turns refresh backoff ws ft = Some ft' \<Longrightarrow> P (ft_state ft')"
  by (induction ws arbitrary: ft) (auto split: bind_splits intro: turn_preserves [where P = P and refresh = refresh, OF assms])

section \<open>The task on the validator\<close>

text \<open>The refresh of the validator, whose reads take up to nine moments of the provider's time. It
  cannot panic (\<open>refresh_attempts_outcome\<close>).\<close>

definition validator_refresh ::
  "('st, 'l1, 'e) client_api \<Rightarrow> ('l1, 'e) validator_state \<times> nat \<Rightarrow> bool \<times> ('l1, 'e) validator_state \<times> nat" where
  "validator_refresh cl = (\<lambda>(vs, t).
     case refresh_validator cl t vs of
       Some (ok, vs') \<Rightarrow> (ok, vs', t + 9)
     | None \<Rightarrow> (False, vs, t))"

definition cache_usable :: "('l1, 'e) validator_state \<times> nat \<Rightarrow> bool" where
  "cache_usable s \<longleftrightarrow> (case vs_cache (fst s) of Unavailable _ \<Rightarrow> False | _ \<Rightarrow> True)"

lemma validator_refresh_cases:
  obtains "vs_cache vs = Disabled" "validator_refresh cl (vs, t) = (True, vs, t + 9)"
  | s where "vs_cache vs \<noteq> Disabled" "validator_refresh cl (vs, t) = (True, vs\<lparr>vs_cache := Ready s\<rparr>, t + 9)"
  | e where "vs_cache vs \<noteq> Disabled" "validator_refresh cl (vs, t) = (False, vs\<lparr>vs_cache := Unavailable e\<rparr>, t + 9)"
proof (cases "vs_cache vs = Disabled")
  case True
  then show ?thesis using that(1)
    by (simp add: validator_refresh_def refresh_validator_def refresh_l1_fee_cache_from_latest_def)
next
  case False
  then show ?thesis using that(2,3) refresh_attempts_outcome [of 3 cl "vs_cache vs" t]
    by (auto simp: validator_refresh_def refresh_validator_def refresh_enabled refreshed_def
        split: option.splits prod.splits bool.splits DogeosL1FeeCache.splits)
qed

interpretation validator_task: fee_refresh "validator_refresh cl" cache_usable for cl
proof
  fix s s' :: "('l1, 'e) validator_state \<times> nat" and ok cl
  assume r: "validator_refresh cl s = (ok, s')"
  obtain vs t where s: "s = (vs, t)" by (cases s)
  show "ok \<longleftrightarrow> cache_usable s'"
    using r unfolding s by (cases rule: validator_refresh_cases [of vs cl t]) (auto simp: cache_usable_def)
qed

definition fee_enforced :: "('l1, 'e) validator_state \<times> nat \<Rightarrow> bool" where
  "fee_enforced s \<longleftrightarrow> requires_l1_data_gas_fee (fst s) \<and> vs_prague (fst s)"

lemma refresh_enforced: "fee_enforced s \<Longrightarrow> fee_enforced (snd (validator_refresh cl s))"
proof -
  assume e: "fee_enforced s"
  obtain vs t where s: "s = (vs, t)" by (cases s)
  show ?thesis using e unfolding s
    by (cases rule: validator_refresh_cases [of vs cl t]) (auto simp: fee_enforced_def requires_l1_data_gas_fee_def)
qed

lemma backoff_bounds:
  "bo_initial L1_FEE_RETRY_BACKOFF \<le> bo_max L1_FEE_RETRY_BACKOFF" "bo_max L1_FEE_RETRY_BACKOFF \<le> DURATION_MAX"
  by (simp_all add: L1_FEE_RETRY_BACKOFF_def DURATION_MAX_def)

lemma reconcile_state: "ft_state (reconcile refresh backoff listening now s) = snd (refresh s)"
  by (simp add: reconcile_def split: prod.splits)

lemma min_double: "0 < k \<Longrightarrow> min (min (d * 2) mx * k) mx = min (d * (2 * k)) mx" for d mx k :: nat
proof (cases "d * 2 \<le> mx")
  case False
  assume "0 < k"
  then have "mx \<le> mx * k" "mx \<le> d * (2 * k)"
    using False by (auto intro: order_trans [of _ "d * 2"] simp: mult.assoc [symmetric])
  then have "min (d * 2) mx = mx" "min (mx * k) mx = mx" "min (d * (2 * k)) mx = mx"
    using False by (auto intro: min_absorb2)
  then show ?thesis by simp
qed (simp add: min_def mult.assoc)

section \<open>Properties\<close>

text \<open>C28. In a production pool the fee cache is always enforced and its task always live. Whatever the
  provider returns and whatever the channel and the timer deliver, the L1 fee requirement and the
  Prague rules are never switched off; the task's view of the cache is the cache's; the retry
  timer is armed exactly while the cache is unavailable, and then its deadline is the time of the
  last refresh plus one second, doubled by every retry since the last notification and at most
  thirty seconds; and from that deadline on, whenever the timer fires, the task, as long as it runs,
  refreshes without any new block, while it does not before.\<close>

theorem fee_maintenance_invariant:
  fixes cl :: "('st, 'l1, 'e) client_api"
  assumes built: "build_pool_validator cl t False = Inr vs"
    and drained: "drain_notifications (validator_refresh cl) rs (vs, t') = (Some True, s)"
    and run: "turns (validator_refresh cl) L1_FEE_RETRY_BACKOFF ws
      (reconcile (validator_refresh cl) L1_FEE_RETRY_BACKOFF listening now s) = Some ft"
    and history: "fold attempts ws (now, 0) = (last_refresh, retries)"
  shows "requires_l1_data_gas_fee (fst (ft_state ft)) \<and> vs_prague (fst (ft_state ft)) \<and>
    (ft_available ft \<longleftrightarrow> (\<forall>e. vs_cache (fst (ft_state ft)) \<noteq> Unavailable e)) \<and>
    (ft_retry_deadline ft = None \<longleftrightarrow> ft_available ft) \<and>
    1000000000 \<le> ft_retry_delay ft \<and> ft_retry_delay ft \<le> 30000000000 \<and>
    (\<not> ft_available ft \<longrightarrow>
      ft_retry_deadline ft = Some (last_refresh + min (1000000000 * 2 ^ retries) 30000000000)) \<and>
    (ft_running ft \<and> \<not> ft_available ft \<longrightarrow>
      (\<exists>deadline. ft_retry_deadline ft = Some deadline \<and>
        last_refresh + 1000000000 \<le> deadline \<and> deadline \<le> last_refresh + 30000000000 \<and>
        (\<forall>at. turn (validator_refresh cl) L1_FEE_RETRY_BACKOFF (RetryTimer at) ft =
          (if deadline \<le> at then Some (after_retry (validator_refresh cl) L1_FEE_RETRY_BACKOFF at ft) else None))))"
proof -
  have "fee_enforced (vs, t')"
    using built by (auto simp: build_pool_validator_def result_elims fee_enforced_def
        requires_l1_data_gas_fee_def validator_new_def)
  from drain_preserves [where P = fee_enforced, OF refresh_enforced this drained]
  have "fee_enforced (ft_state (reconcile (validator_refresh cl) L1_FEE_RETRY_BACKOFF listening now s))"
    by (simp add: reconcile_state refresh_enforced)
  from turns_preserves [where P = fee_enforced, OF refresh_enforced this run] have enforced: "fee_enforced (ft_state ft)" .
  have ok: "task_ok cache_usable L1_FEE_RETRY_BACKOFF (last_refresh, retries) ft"
    using validator_task.turns_ok [OF backoff_bounds validator_task.reconcile_ok [OF backoff_bounds(1)] run]
    unfolding history .
  have delay: "backoff_delay L1_FEE_RETRY_BACKOFF retries = min (1000000000 * 2 ^ retries) 30000000000"
    "1000000000 \<le> backoff_delay L1_FEE_RETRY_BACKOFF retries"
    by (simp_all add: backoff_delay_def L1_FEE_RETRY_BACKOFF_def)
  have usable: "cache_usable (ft_state ft) \<longleftrightarrow> (\<forall>e. vs_cache (fst (ft_state ft)) \<noteq> Unavailable e)"
    by (auto simp: cache_usable_def split: DogeosL1FeeCache.splits)
  show ?thesis
    using enforced ok usable delay
    by (auto simp: task_ok_def fee_enforced_def L1_FEE_RETRY_BACKOFF_def)
qed

text \<open>Consecutive failed retries back off exponentially up to the maximum: after \<open>n\<close> of them the
  delay is the initial one doubled \<open>n\<close> instants, cut at the maximum, and the next deadline is that
  delay after the last attempt. A notification starts the backoff again.\<close>

theorem retry_backoff_exact:
  assumes down: "\<And>s. \<not> fst (refresh s)" and bounds: "bo_max backoff \<le> DURATION_MAX"
    and start: "ft_retry_delay ft \<le> bo_max backoff"
    and run: "turns refresh backoff (map RetryTimer instants) ft = Some ft'"
  shows "ft_retry_delay ft' = min (ft_retry_delay ft * 2 ^ length instants) (bo_max backoff) \<and>
    (instants \<noteq> [] \<longrightarrow> ft_retry_deadline ft' = Some (last instants + ft_retry_delay ft')) \<and>
    (\<forall>now. ft_running ft' \<longrightarrow> (\<exists>ft''. turn refresh backoff (Notified now) ft' = Some ft'' \<and>
       ft_retry_delay ft'' = bo_initial backoff \<and> ft_retry_deadline ft'' = Some (now + bo_initial backoff)))"
proof -
  have "ft_retry_delay ft' = min (ft_retry_delay ft * 2 ^ length instants) (bo_max backoff) \<and>
    (instants \<noteq> [] \<longrightarrow> ft_retry_deadline ft' = Some (last instants + ft_retry_delay ft'))"
    using start run
  proof (induction instants arbitrary: ft)
    case (Cons now instants)
    obtain ft1 where ft1: "turn refresh backoff (RetryTimer now) ft = Some ft1"
      "turns refresh backoff (map RetryTimer instants) ft1 = Some ft'"
      using Cons.prems(2) by (auto split: bind_splits)
    have delay: "ft_retry_delay ft1 = min (ft_retry_delay ft * 2) (bo_max backoff)"
      "ft_retry_deadline ft1 = Some (now + ft_retry_delay ft1)"
      using ft1(1) down [of "ft_state ft"] bounds
      by (auto simp: after_retry_def Let_def min_def split: option.splits if_splits prod.splits)
    show ?case using Cons.IH [of ft1] ft1(2) delay by (cases instants) (auto simp: min_double)
  qed simp
  moreover have "\<exists>ft''. turn refresh backoff (Notified now) ft' = Some ft'' \<and>
       ft_retry_delay ft'' = bo_initial backoff \<and> ft_retry_deadline ft'' = Some (now + bo_initial backoff)"
    if "ft_running ft'" for now
    using that down [of "ft_state ft'"] by (auto simp: after_notification_def split: prod.splits)
  ultimately show ?thesis by blast
qed

text \<open>A cold start: the snapshot is loaded, then the provider fails during the reconciliation.\<close>

lemma sample_pool_built: "build_pool_validator sample_client 1 False = Inr (validator_new sample_snapshot)"
  by (simp add: build_pool_validator_def load_latest_def latest_head_def load_for_head_def sample_client_def
      sample_snapshot_def)

lemma sample_refresh_fails:
  "validator_refresh sample_client (validator_new sample_snapshot, 0) =
     (False, (validator_new sample_snapshot)\<lparr>vs_cache := Unavailable (LatestHeaderRead ''disk'')\<rparr>, 9)"
  by (simp add: validator_refresh_def refresh_validator_def refresh_enabled validator_new_def numeral_3_eq_3
      latest_head_def sample_client_def)

theorem fee_maintenance_invariant_witness:
  "let ft = reconcile (validator_refresh sample_client) L1_FEE_RETRY_BACKOFF True 5
       (validator_new sample_snapshot, 0) in
   \<not> ft_available ft \<and> requires_l1_data_gas_fee (fst (ft_state ft)) \<and>
   turn (validator_refresh sample_client) L1_FEE_RETRY_BACKOFF (RetryTimer 1000000005) ft =
     Some (after_retry (validator_refresh sample_client) L1_FEE_RETRY_BACKOFF 1000000005 ft) \<and>
   turn (validator_refresh sample_client) L1_FEE_RETRY_BACKOFF (RetryTimer 1000000004) ft = None"
proof -
  define ft where "ft = reconcile (validator_refresh sample_client) L1_FEE_RETRY_BACKOFF True 5
       (validator_new sample_snapshot, 0)"
  have d: "drain_notifications (validator_refresh sample_client) [TryEmpty] (validator_new sample_snapshot, 0) =
      (Some True, (validator_new sample_snapshot, 0))"
    by simp
  have t: "turns (validator_refresh sample_client) L1_FEE_RETRY_BACKOFF []
      (reconcile (validator_refresh sample_client) L1_FEE_RETRY_BACKOFF True 5
        (validator_new sample_snapshot, 0)) = Some ft"
    by (simp add: ft_def)
  have "\<not> ft_available ft" "ft_retry_deadline ft = Some 1000000005" "ft_running ft"
    by (simp_all add: ft_def reconcile_def sample_refresh_fails L1_FEE_RETRY_BACKOFF_def)
  then show ?thesis
    using fee_maintenance_invariant [OF sample_pool_built d t, of 5 0] unfolding ft_def [symmetric] by simp
qed

theorem retry_backoff_exact_witness:
  "\<exists>ft'. turns (\<lambda>_. (False, ())) L1_FEE_RETRY_BACKOFF (map RetryTimer [2000000000, 5000000000])
      (reconcile (\<lambda>_. (False, ())) L1_FEE_RETRY_BACKOFF True 0 ()) = Some ft' \<and>
    ft_retry_delay ft' = 4000000000"
proof -
  let ?ft = "reconcile (\<lambda>_. (False, ())) L1_FEE_RETRY_BACKOFF True 0 ()"
  obtain ft' where run: "turns (\<lambda>_. (False, ())) L1_FEE_RETRY_BACKOFF
      (map RetryTimer [2000000000, 5000000000]) ?ft = Some ft'"
    by (simp add: reconcile_def after_retry_def L1_FEE_RETRY_BACKOFF_def DURATION_MAX_def)
  have "ft_retry_delay ?ft \<le> bo_max L1_FEE_RETRY_BACKOFF" "ft_retry_delay ?ft = 1000000000"
    by (simp_all add: reconcile_def L1_FEE_RETRY_BACKOFF_def)
  then show ?thesis
    using retry_backoff_exact [OF _ backoff_bounds(2) _ run] run by (simp add: L1_FEE_RETRY_BACKOFF_def)
qed

end
