(* ===== verification/Countable_Types.thy ===== *)
theory Countable_Types
  imports Evm_Config "HOL-Library.Countable"
begin

text \<open>
  The data types of blocks are countable: transactions, headers and blocks are built from machine
  words, lists and options. A concrete block codec for the announcement protocol is obtained from
  this (\<open>Scroll_Wire\<close>).
\<close>

instance Signature_ext :: (countable) countable
  by (rule countable_classI [of "\<lambda>x. to_nat
      (sig_r x, sig_s x, sig_y_parity x, Signature.more x)"])
    (auto intro: Signature.equality)

instance TxKind :: countable
  by countable_datatype

instance SignedAuthorization_ext :: (countable) countable
  by (rule countable_classI [of "\<lambda>x. to_nat
      (auth_chain_id x, auth_address x, auth_nonce x, auth_signature x,
       SignedAuthorization.more x)"])
    (auto intro: SignedAuthorization.equality)

instance TxLegacy_ext :: (countable) countable
  by (rule countable_classI [of "\<lambda>x. to_nat
      (lg_chain_id x, lg_nonce x, lg_gas_price x, lg_gas_limit x, lg_to x, lg_value x,
       lg_input x, TxLegacy.more x)"])
    (auto intro: TxLegacy.equality)

instance TxEip2930_ext :: (countable) countable
  by (rule countable_classI [of "\<lambda>x. to_nat
      (t2930_chain_id x, t2930_nonce x, t2930_gas_price x, t2930_gas_limit x, t2930_to x,
       t2930_value x, t2930_access_list x, t2930_input x, TxEip2930.more x)"])
    (auto intro: TxEip2930.equality)

instance TxEip1559_ext :: (countable) countable
  by (rule countable_classI [of "\<lambda>x. to_nat
      (t1559_chain_id x, t1559_nonce x, t1559_gas_limit x, t1559_max_fee_per_gas x,
       t1559_max_priority_fee_per_gas x, t1559_to x, t1559_value x, t1559_access_list x,
       t1559_input x, TxEip1559.more x)"])
    (auto intro: TxEip1559.equality)

instance TxEip7702_ext :: (countable) countable
  by (rule countable_classI [of "\<lambda>x. to_nat
      (t7702_chain_id x, t7702_nonce x, t7702_gas_limit x, t7702_max_fee_per_gas x,
       t7702_max_priority_fee_per_gas x, t7702_to x, t7702_value x, t7702_access_list x,
       t7702_authorization_list x, t7702_input x, TxEip7702.more x)"])
    (auto intro: TxEip7702.equality)

instance TxL1Message_ext :: (countable) countable
  by (rule countable_classI [of "\<lambda>x. to_nat
      (l1m_queue_index x, l1m_gas_limit x, l1m_to x, l1m_value x, l1m_sender x, l1m_input x,
       TxL1Message.more x)"])
    (auto intro: TxL1Message.equality)

instance Signed_ext :: (countable, countable) countable
  by (rule countable_classI [of "\<lambda>x. to_nat
      (signed_tx x, signed_signature x, signed_hash x, Signed.more x)"])
    (auto intro: Signed.equality)

instance Sealed_ext :: (countable, countable) countable
  by (rule countable_classI [of "\<lambda>x. to_nat
      (sealed_inner x, sealed_hash x, Sealed.more x)"])
    (auto intro: Sealed.equality)

instance ScrollTxEnvelope :: countable
  by countable_datatype

instance header_ext :: (countable) countable
  by (rule countable_classI [of "\<lambda>x. to_nat
      (h_parent_hash x, h_ommers_hash x, h_beneficiary x, h_state_root x, h_transactions_root x,
       h_receipts_root x, h_logs_bloom x, h_difficulty x, h_number x, h_gas_limit x,
       h_gas_used x, h_timestamp x, h_extra_data x, h_mix_hash x, h_nonce x,
       h_base_fee_per_gas x, h_withdrawals_root x, h_blob_gas_used x, h_excess_blob_gas x,
       h_parent_beacon_block_root x, h_requests_hash x, header.more x)"])
    (auto intro: header.equality)

instance Block_ext :: (countable) countable
  by (rule countable_classI [of "\<lambda>x. to_nat
      (b_header x, b_transactions x, b_ommers x, b_withdrawals x, Block.more x)"])
    (auto intro: Block.equality)

end
