(* ===== verification/Scroll_Wire.thy ===== *)
theory Scroll_Wire
  imports Engine Countable_Types
begin

text \<open>
  Block announcements: the \<open>scroll/1\<close> protocol (\<open>crates/dogeos-scroll-wire/src\<close>: \<open>protocol/proto.rs\<close>,
  \<open>signature.rs\<close>, \<open>connection/mod.rs\<close>, \<open>connection/handler.rs\<close>, \<open>manager.rs\<close>) and the importer that
  hands announced blocks to the engine (\<open>crates/dogeos-reth-node/src/wire_import.rs\<close>).

  Parameters (\<open>wire_api\<close>): the RLP codecs of alloy for the field types and the block, keccak256,
  the recovery of a signer and the raw form of a signature, with \<open>wire_laws\<close>; and the least
  recently used cache of reth (\<open>lru_api\<close>, \<open>lru_laws\<close>: inserting an absent key puts it in front and
  drops what exceeds the limit). Channels are lists of what they hold; a receiver that is gone is
  an explicit flag.
\<close>

section \<open>Messages\<close>

record wire_api =
  wi_rlp :: rlp_api
  wi_enc_b256 :: "b256 \<Rightarrow> bytes"
  wi_dec_b256 :: "b256 decoder"
  wi_len_b256 :: "b256 \<Rightarrow> nat"
  wi_enc_bloom :: "bloom \<Rightarrow> bytes"
  wi_dec_bloom :: "bloom decoder"
  wi_len_bloom :: "bloom \<Rightarrow> nat"
  wi_enc_b64 :: "b64 \<Rightarrow> bytes"
  wi_dec_b64 :: "b64 decoder"
  wi_len_b64 :: "b64 \<Rightarrow> nat"
  wi_enc_block :: "Block \<Rightarrow> bytes"
  wi_dec_block :: "Block decoder"
  wi_len_block :: "Block \<Rightarrow> nat"
  wi_as_rsy :: "Signature \<Rightarrow> bytes"
  wi_from_raw :: "bytes \<Rightarrow> unit + Signature"
  wi_keccak256 :: "bytes \<Rightarrow> b256"
  wi_recover_signer :: "Signature \<Rightarrow> b256 \<Rightarrow> unit + address"

definition wire_laws :: "wire_api \<Rightarrow> bool" where
  "wire_laws wi \<longleftrightarrow>
     rlp_laws (wi_rlp wi) \<and>
     codec_ok (wi_enc_b256 wi) (wi_dec_b256 wi) (wi_len_b256 wi) \<and>
     codec_ok (wi_enc_bloom wi) (wi_dec_bloom wi) (wi_len_bloom wi) \<and>
     codec_ok (wi_enc_b64 wi) (wi_dec_b64 wi) (wi_len_b64 wi) \<and>
     codec_ok (wi_enc_block wi) (wi_dec_block wi) (wi_len_block wi) \<and>
     (\<forall>s. wi_from_raw wi (wi_as_rsy wi s) = Inr s)"

datatype ScrollMessageId = NewBlockId

fun message_id_byte :: "ScrollMessageId \<Rightarrow> u8" where
  "message_id_byte NewBlockId = 0"

definition message_id_try_from :: "u8 \<Rightarrow> ScrollMessageId option" where
  "message_id_try_from value = (if value = 0 then Some NewBlockId else None)"

record NewBlock =
  nbk_signature :: bytes
  nbk_block :: Block

definition new_block_new :: "wire_api \<Rightarrow> Signature \<Rightarrow> Block \<Rightarrow> NewBlock" where
  "new_block_new wi signature block = \<lparr>nbk_signature = wi_as_rsy wi signature, nbk_block = block\<rparr>"

text \<open>The derived RLP of the announcement: a list of its two fields.\<close>

definition new_block_encode :: "wire_api \<Rightarrow> NewBlock \<Rightarrow> bytes" where
  "new_block_encode wi nb =
     (let r = wi_rlp wi;
          payload_length = rlp_len_bytes r (nbk_signature nb) + wi_len_block wi (nbk_block nb) in
      rlp_enc_header r (True, payload_length) @ rlp_enc_bytes r (nbk_signature nb) @
      wi_enc_block wi (nbk_block nb))"

definition new_block_decode :: "wire_api \<Rightarrow> NewBlock decoder" where
  "new_block_decode wi buf =
     rbind (rlp_dec_header (wi_rlp wi) buf) (\<lambda>((is_list, payload_length), buf).
       if \<not> is_list then Inl UnexpectedString
       else
         let started = length buf in
         rbind (rlp_dec_bytes (wi_rlp wi) buf) (\<lambda>(signature, buf).
         rbind (wi_dec_block wi buf) (\<lambda>(block, buf).
           if length buf + payload_length \<noteq> started
           then Inl (ListLengthMismatch payload_length (started - length buf))
           else Inr (\<lparr>nbk_signature = signature, nbk_block = block\<rparr>, buf))))"

datatype ScrollMessagePayload = NewBlockPayload NewBlock

record ScrollMessage =
  sm_id :: ScrollMessageId
  sm_payload :: ScrollMessagePayload

definition message_new_block :: "NewBlock \<Rightarrow> ScrollMessage" where
  "message_new_block block = \<lparr>sm_id = NewBlockId, sm_payload = NewBlockPayload block\<rparr>"

definition message_encoded :: "wire_api \<Rightarrow> ScrollMessage \<Rightarrow> bytes" where
  "message_encoded wi m =
     message_id_byte (sm_id m) # (case sm_payload m of NewBlockPayload block \<Rightarrow> new_block_encode wi block)"

definition message_decode :: "wire_api \<Rightarrow> bytes \<Rightarrow> ScrollMessage option" where
  "message_decode wi buffer =
     (case buffer of
        [] \<Rightarrow> None
      | b # buffer \<Rightarrow>
          (case message_id_try_from b of
             None \<Rightarrow> None
           | Some NewBlockId \<Rightarrow>
               (case new_block_decode wi buffer of
                  Inl _ \<Rightarrow> None
                | Inr (block, _) \<Rightarrow> Some \<lparr>sm_id = NewBlockId, sm_payload = NewBlockPayload block\<rparr>)))"

section \<open>Signatures\<close>

datatype BlockSignatureError = RecoveryFailed | UnauthorizedSigner address address

definition signing_payload_length :: "wire_api \<Rightarrow> header \<Rightarrow> nat" where
  "signing_payload_length wi h =
     (let r = wi_rlp wi in
      wi_len_b256 wi (h_parent_hash h) + wi_len_b256 wi (h_ommers_hash h) +
      rlp_len_address r (h_beneficiary h) + wi_len_b256 wi (h_state_root h) +
      wi_len_b256 wi (h_transactions_root h) + wi_len_b256 wi (h_receipts_root h) +
      wi_len_bloom wi (h_logs_bloom h) + rlp_len_u256 r (h_difficulty h) +
      rlp_len_u256 r (ucast (h_number h)) + rlp_len_u256 r (ucast (h_gas_limit h)) +
      rlp_len_u256 r (ucast (h_gas_used h)) + rlp_len_u64 r (h_timestamp h) +
      wi_len_b256 wi (h_mix_hash h) + wi_len_b64 wi (h_nonce h) +
      (case h_base_fee_per_gas h of None \<Rightarrow> 0 | Some fee \<Rightarrow> rlp_len_u256 r (ucast fee)))"

definition signing_fields :: "wire_api \<Rightarrow> header \<Rightarrow> bytes" where
  "signing_fields wi h =
     (let r = wi_rlp wi in
      wi_enc_b256 wi (h_parent_hash h) @ wi_enc_b256 wi (h_ommers_hash h) @
      rlp_enc_address r (h_beneficiary h) @ wi_enc_b256 wi (h_state_root h) @
      wi_enc_b256 wi (h_transactions_root h) @ wi_enc_b256 wi (h_receipts_root h) @
      wi_enc_bloom wi (h_logs_bloom h) @ rlp_enc_u256 r (h_difficulty h) @
      rlp_enc_u256 r (ucast (h_number h)) @ rlp_enc_u256 r (ucast (h_gas_limit h)) @
      rlp_enc_u256 r (ucast (h_gas_used h)) @ rlp_enc_u64 r (h_timestamp h) @
      wi_enc_b256 wi (h_mix_hash h) @ wi_enc_b64 wi (h_nonce h) @
      (case h_base_fee_per_gas h of None \<Rightarrow> [] | Some fee \<Rightarrow> rlp_enc_u256 r (ucast fee)))"

definition signing_encoding :: "wire_api \<Rightarrow> header \<Rightarrow> bytes" where
  "signing_encoding wi h =
     rlp_enc_header (wi_rlp wi) (True, signing_payload_length wi h) @ signing_fields wi h"

definition signature_hash :: "wire_api \<Rightarrow> header \<Rightarrow> b256" where
  "signature_hash wi h = wi_keccak256 wi (signing_encoding wi h)"

definition verify_block_signature ::
  "wire_api \<Rightarrow> header \<Rightarrow> Signature \<Rightarrow> address option \<Rightarrow> BlockSignatureError + unit" where
  "verify_block_signature wi h signature authorized_signer =
     (case authorized_signer of
        None \<Rightarrow> Inr ()
      | Some expected \<Rightarrow>
          rbind (map_err (\<lambda>_. RecoveryFailed) (wi_recover_signer wi signature (signature_hash wi h))) (\<lambda>actual.
            if actual \<noteq> expected then Inl (UnauthorizedSigner expected actual) else Inr ()))"

section \<open>Connections\<close>

datatype ('d, 'c) ScrollWireEvent =
    ConnectionEstablished 'd nat 'c
  | NewBlockEvent nat Block Signature

datatype poll_outcome = Yield bytes | Ended | PendingPoll

text \<open>What a connection does with a frame of its peer: it is decoded, its signature is read, and the event
  is sent to the manager, whose receiver may be gone (\<open>listening\<close>); \<open>None\<close> closes the
  connection.\<close>

definition receive_frame :: "wire_api \<Rightarrow> nat \<Rightarrow> bool \<Rightarrow> bytes \<Rightarrow> ('d, 'c) ScrollWireEvent option" where
  "receive_frame wi peer_id listening frame =
     (case message_decode wi frame of
        None \<Rightarrow> None
      | Some message \<Rightarrow>
          (case sm_payload message of
             NewBlockPayload new_block \<Rightarrow>
               (case wi_from_raw wi (nbk_signature new_block) of
                  Inl _ \<Rightarrow> None
                | Inr signature \<Rightarrow>
                    if \<not> listening then None
                    else Some (NewBlockEvent peer_id (nbk_block new_block) signature))))"

text \<open>The frames that have arrived are read (\<open>None\<close> is the end of the peer's stream), until one ends
  the connection or none is left: what a poll does while nothing is to be sent.\<close>

fun poll_inbound ::
  "wire_api \<Rightarrow> nat \<Rightarrow> bool \<Rightarrow> bytes option list \<Rightarrow> ('d, 'c) ScrollWireEvent list \<Rightarrow>
   poll_outcome \<times> bytes option list \<times> ('d, 'c) ScrollWireEvent list" where
  "poll_inbound wi peer_id listening [] events = (PendingPoll, [], events)"
| "poll_inbound wi peer_id listening (None # frames) events = (Ended, frames, events)"
| "poll_inbound wi peer_id listening (Some frame # frames) events =
     (case receive_frame wi peer_id listening frame of
        None \<Rightarrow> (Ended, frames, events)
      | Some event \<Rightarrow> poll_inbound wi peer_id listening frames (events @ [event]))"

record ('d, 'c) wire_connection =
  wc_peer_id :: nat
  wc_direction :: 'd
  wc_outbound :: "ScrollMessage list"
  wc_inbound :: "bytes option list"

text \<open>The loop of a poll: every iteration looks at the queue of messages to send before it reads a
  frame. The manager runs beside the connection, so messages may be queued while a frame is read:
  \<open>arrivals\<close> has the messages that arrive during each iteration (no more arrive after its end).\<close>

fun poll_loop ::
  "wire_api \<Rightarrow> nat \<Rightarrow> bool \<Rightarrow> ScrollMessage list list \<Rightarrow> ScrollMessage list \<Rightarrow> bytes option list \<Rightarrow>
   ('d, 'c) ScrollWireEvent list \<Rightarrow>
   poll_outcome \<times> ScrollMessage list \<times> bytes option list \<times> ('d, 'c) ScrollWireEvent list" where
  "poll_loop wi peer_id listening arrivals (message # outbound) frames events =
     (Yield (message_encoded wi message), outbound, frames, events)"
| "poll_loop wi peer_id listening arrivals [] [] events = (PendingPoll, [], [], events)"
| "poll_loop wi peer_id listening arrivals [] (None # frames) events = (Ended, [], frames, events)"
| "poll_loop wi peer_id listening arrivals [] (Some frame # frames) events =
     (case receive_frame wi peer_id listening frame of
        None \<Rightarrow> (Ended, [], frames, events)
      | Some event \<Rightarrow>
          (case arrivals of
             [] \<Rightarrow> poll_loop wi peer_id listening [] [] frames (events @ [event])
           | sent # arrivals \<Rightarrow> poll_loop wi peer_id listening arrivals sent frames (events @ [event])))"

definition poll_connection ::
  "wire_api \<Rightarrow> bool \<Rightarrow> ScrollMessage list list \<Rightarrow> ('d, 'c) wire_connection \<Rightarrow>
   ('d, 'c) ScrollWireEvent list \<Rightarrow>
   poll_outcome \<times> ('d, 'c) wire_connection \<times> ('d, 'c) ScrollWireEvent list" where
  "poll_connection wi listening arrivals wc events =
     (case poll_loop wi (wc_peer_id wc) listening arrivals (wc_outbound wc) (wc_inbound wc) events of
        (outcome, outbound, frames, events) \<Rightarrow>
          (outcome, wc\<lparr>wc_outbound := outbound, wc_inbound := frames\<rparr>, events))"

datatype OnNotSupported = KeepAlive | Disconnect

definition on_unsupported_by_peer :: "bool \<Rightarrow> OnNotSupported" where
  "on_unsupported_by_peer connect_unsupported_peer =
     (if connect_unsupported_peer then KeepAlive else Disconnect)"

section \<open>The manager\<close>

datatype AnnounceBlockError = PeerNotConnected nat | SendFailed nat

text \<open>The senders the manager holds are numbers of channels; \<open>channels\<close> has the queue of each channel
  whose receiver is alive.\<close>

record ('d) ScrollWireManager =
  mg_events :: "('d, nat) ScrollWireEvent list"
  mg_connections :: "nat \<rightharpoonup> nat"

type_synonym channels = "nat \<rightharpoonup> ScrollMessage list"

definition manager_new :: "('d, nat) ScrollWireEvent list \<Rightarrow> 'd ScrollWireManager" where
  "manager_new events = \<lparr>mg_events = events, mg_connections = Map.empty\<rparr>"

definition announce_block ::
  "nat \<Rightarrow> NewBlock \<Rightarrow> 'd ScrollWireManager \<Rightarrow> channels \<Rightarrow>
   (AnnounceBlockError + unit) \<times> 'd ScrollWireManager \<times> channels" where
  "announce_block peer_id block mg channels =
     (case mg_connections mg peer_id of
        None \<Rightarrow> (Inl (PeerNotConnected peer_id), mg, channels)
      | Some connection \<Rightarrow>
          (case channels connection of
             None \<Rightarrow> (Inl (SendFailed peer_id),
               mg\<lparr>mg_connections := (mg_connections mg)(peer_id := None)\<rparr>, channels)
           | Some queue \<Rightarrow> (Inr (), mg, channels(connection \<mapsto> queue @ [message_new_block block]))))"

definition connected_peers :: "'d ScrollWireManager \<Rightarrow> nat set" where
  "connected_peers mg = dom (mg_connections mg)"

text \<open>A connection that is accepted: a fresh channel is opened and announced to the manager, whose
  receiver may be gone; the connection reads from the other end of the channel.\<close>

definition into_connection ::
  "'d \<Rightarrow> nat \<Rightarrow> nat \<Rightarrow> bool \<Rightarrow> bytes option list \<Rightarrow> channels \<Rightarrow> ('d, nat) ScrollWireEvent list \<Rightarrow>
   ('d, nat) wire_connection \<times> channels \<times> ('d, nat) ScrollWireEvent list" where
  "into_connection direction peer_id to_connection listening conn channels events =
     (\<lparr>wc_peer_id = peer_id, wc_direction = direction, wc_outbound = [], wc_inbound = conn\<rparr>,
      channels(to_connection \<mapsto> []),
      if listening then events @ [ConnectionEstablished direction peer_id to_connection] else events)"

definition is_connected :: "nat \<Rightarrow> 'd ScrollWireManager \<Rightarrow> bool" where
  "is_connected peer_id mg \<longleftrightarrow> mg_connections mg peer_id \<noteq> None"

text \<open>Awaiting the manager: connections are registered until an announcement is found; \<open>None\<close> is
  pending.\<close>

fun poll_manager ::
  "('d, nat) ScrollWireEvent list \<Rightarrow> (nat \<rightharpoonup> nat) \<Rightarrow>
   ('d, nat) ScrollWireEvent option \<times> ('d, nat) ScrollWireEvent list \<times> (nat \<rightharpoonup> nat)" where
  "poll_manager [] connections = (None, [], connections)"
| "poll_manager (NewBlockEvent p b s # events) connections = (Some (NewBlockEvent p b s), events, connections)"
| "poll_manager (ConnectionEstablished d peer_id to_connection # events) connections =
     poll_manager events (connections(peer_id \<mapsto> to_connection))"

section \<open>The importer\<close>

definition LRU_CACHE_SIZE :: nat where
  "LRU_CACHE_SIZE = 100"

record ('k, 'c) lru_api =
  lru_new :: "nat \<Rightarrow> 'c"
  lru_contains :: "'c \<Rightarrow> 'k \<Rightarrow> bool"
  lru_insert :: "'k \<Rightarrow> 'c \<Rightarrow> 'c"

definition lru_laws :: "('k, 'c) lru_api \<Rightarrow> ('c \<Rightarrow> 'k list) \<Rightarrow> ('c \<Rightarrow> nat) \<Rightarrow> bool" where
  "lru_laws lru items limit \<longleftrightarrow>
     (\<forall>n. items (lru_new lru n) = [] \<and> limit (lru_new lru n) = n) \<and>
     (\<forall>c k. lru_contains lru c k \<longleftrightarrow> k \<in> set (items c)) \<and>
     (\<forall>c k. k \<notin> set (items c) \<longrightarrow> items (lru_insert lru k c) = take (limit c) (k # items c)) \<and>
     (\<forall>c k. limit (lru_insert lru k c) = limit c)"

datatype 'e ScrollWireImportError = SignatureError BlockSignatureError | EngineError 'e

text \<open>The importer with what it has sent to the engine, in order.\<close>

record ('c) importer =
  im_authorized_signer :: "address option"
  im_blocks_seen :: 'c
  im_sent :: "(Block \<times> Signature) list"

record ('p, 's, 'e, 'status) import_env =
  ie_wire :: wire_api
  ie_header_hash :: "header \<Rightarrow> b256"
  ie_engine :: "('p, 's, string) engine_api"
  ie_new_payload :: "nat \<Rightarrow> 'p \<times> 's \<Rightarrow> 'e + 'status"

definition importer_new :: "(b256 \<times> Signature, 'c) lru_api \<Rightarrow> address option \<Rightarrow> 'c importer" where
  "importer_new lru authorized_signer =
     \<lparr>im_authorized_signer = authorized_signer, im_blocks_seen = lru_new lru LRU_CACHE_SIZE, im_sent = []\<rparr>"

definition block_key :: "('p, 's, 'e, 'status) import_env \<Rightarrow> Block \<times> Signature \<Rightarrow> b256 \<times> Signature" where
  "block_key ie bs = (ie_header_hash ie (b_header (fst bs)), snd bs)"

text \<open>The payload sent for a block; \<open>seal_slow\<close> hashes it.\<close>

definition import_payload :: "('p, 's, 'e, 'status) import_env \<Rightarrow> Block \<Rightarrow> 'p \<times> 's" where
  "import_payload ie block =
     block_to_payload (ie_engine ie) \<lparr>sb_block = block, sb_hash = ie_header_hash ie (b_header block)\<rparr>"

definition import_event ::
  "('p, 's, 'e, 'status) import_env \<Rightarrow> (b256 \<times> Signature, 'c) lru_api \<Rightarrow> ('d, nat) ScrollWireEvent \<Rightarrow>
   'c importer \<Rightarrow> ('e ScrollWireImportError + 'status option) \<times> 'c importer" where
  "import_event ie lru event im =
     (case event of
        ConnectionEstablished _ _ _ \<Rightarrow> (Inr None, im)
      | NewBlockEvent _ block signature \<Rightarrow>
          (case verify_block_signature (ie_wire ie) (b_header block) signature (im_authorized_signer im) of
             Inl error \<Rightarrow> (Inl (SignatureError error), im)
           | Inr _ \<Rightarrow>
               let key = block_key ie (block, signature) in
               if lru_contains lru (im_blocks_seen im) key then (Inr None, im)
               else
                 let im = im\<lparr>im_blocks_seen := lru_insert lru key (im_blocks_seen im),
                             im_sent := im_sent im @ [(block, signature)]\<rparr> in
                 (case ie_new_payload ie (length (im_sent im)) (import_payload ie block) of
                    Inl error \<Rightarrow> (Inl (EngineError error), im)
                  | Inr status \<Rightarrow> (Inr (Some status), im))))"

text \<open>The import loop: an error is logged and the next event is handled.\<close>

definition import_all ::
  "('p, 's, 'e, 'status) import_env \<Rightarrow> (b256 \<times> Signature, 'c) lru_api \<Rightarrow> ('d, nat) ScrollWireEvent list \<Rightarrow>
   'c importer \<Rightarrow> 'c importer" where
  "import_all ie lru events im = fold (\<lambda>event im. snd (import_event ie lru event im)) events im"

section \<open>Codec lemmas\<close>

lemma codec_append_inj:
  "codec_ok enc dec len \<Longrightarrow> enc x @ xs = enc y @ ys \<longleftrightarrow> x = y \<and> xs = ys"
proof
  assume ok: "codec_ok enc dec len" and eq: "enc x @ xs = enc y @ ys"
  have "Inr (x, xs) = dec (enc x @ xs)" using ok by (simp add: codec_ok_def)
  also have "\<dots> = dec (enc y @ ys)" by (simp only: eq)
  also have "\<dots> = Inr (y, ys)" using ok by (simp add: codec_ok_def)
  finally show "x = y \<and> xs = ys" by simp
qed simp

lemma codec_len: "codec_ok enc dec len \<Longrightarrow> len x = length (enc x)"
  by (simp add: codec_ok_def)

lemma codec_dec: "codec_ok enc dec len \<Longrightarrow> dec (enc x @ rest) = Inr (x, rest)"
  by (simp add: codec_ok_def)

lemma wire_lawsD:
  assumes "wire_laws wi"
  shows "rlp_laws (wi_rlp wi)"
    "codec_ok (wi_enc_b256 wi) (wi_dec_b256 wi) (wi_len_b256 wi)"
    "codec_ok (wi_enc_bloom wi) (wi_dec_bloom wi) (wi_len_bloom wi)"
    "codec_ok (wi_enc_b64 wi) (wi_dec_b64 wi) (wi_len_b64 wi)"
    "codec_ok (wi_enc_block wi) (wi_dec_block wi) (wi_len_block wi)"
    "codec_ok (rlp_enc_u64 (wi_rlp wi)) (rlp_dec_u64 (wi_rlp wi)) (rlp_len_u64 (wi_rlp wi))"
    "codec_ok (rlp_enc_address (wi_rlp wi)) (rlp_dec_address (wi_rlp wi)) (rlp_len_address (wi_rlp wi))"
    "codec_ok (rlp_enc_u256 (wi_rlp wi)) (rlp_dec_u256 (wi_rlp wi)) (rlp_len_u256 (wi_rlp wi))"
    "codec_ok (rlp_enc_bytes (wi_rlp wi)) (rlp_dec_bytes (wi_rlp wi)) (rlp_len_bytes (wi_rlp wi))"
    "n \<le> length rest \<Longrightarrow>
       rlp_dec_header (wi_rlp wi) (rlp_enc_header (wi_rlp wi) (l, n) @ rest) = Inr ((l, n), rest)"
    "wi_from_raw wi (wi_as_rsy wi s) = Inr s"
  using assms by (auto simp: wire_laws_def rlp_laws_def)

lemma new_block_decodes:
  "wire_laws wi \<Longrightarrow> new_block_decode wi (new_block_encode wi nb @ rest) = Inr (nb, rest)"
  by (simp add: new_block_decode_def new_block_encode_def Let_def wire_lawsD(10)
      codec_dec [OF wire_lawsD(9)] codec_dec [OF wire_lawsD(5)] codec_len [OF wire_lawsD(9)]
      codec_len [OF wire_lawsD(5)])

lemma message_roundtrip: "wire_laws wi \<Longrightarrow> message_decode wi (message_encoded wi m @ rest) = Some m"
  by (cases m; cases "sm_id m"; cases "sm_payload m")
    (simp add: message_decode_def message_encoded_def message_id_try_from_def new_block_decodes)

lemma signing_length: "wire_laws wi \<Longrightarrow> signing_payload_length wi h = length (signing_fields wi h)"
  by (simp add: signing_payload_length_def signing_fields_def Let_def codec_len [OF wire_lawsD(2)]
      codec_len [OF wire_lawsD(3)] codec_len [OF wire_lawsD(4)] codec_len [OF wire_lawsD(6)]
      codec_len [OF wire_lawsD(7)] codec_len [OF wire_lawsD(8)] split: option.splits)

lemma signing_encoding_fields:
  assumes "wire_laws wi" and "signing_encoding wi h = signing_encoding wi h'"
  shows "signing_fields wi h = signing_fields wi h'"
  using assms wire_lawsD(10) [OF assms(1), of "signing_payload_length wi h" "signing_fields wi h" True]
    wire_lawsD(10) [OF assms(1), of "signing_payload_length wi h'" "signing_fields wi h'" True]
  by (simp add: signing_encoding_def signing_length)

section \<open>Properties of the protocol\<close>

text \<open>What is not signed: the fields that a header of this chain does not use.\<close>

definition unsigned_fields :: "header \<Rightarrow> bytes \<times> b256 option \<times> u64 option \<times> u64 option \<times> b256 option \<times> b256 option" where
  "unsigned_fields h = (h_extra_data h, h_withdrawals_root h, h_blob_gas_used h, h_excess_blob_gas h,
     h_parent_beacon_block_root h, h_requests_hash h)"

lemma signing_fields_inj:
  assumes laws: "wire_laws wi" and eq: "signing_fields wi h = signing_fields wi h'"
    and fees: "h_base_fee_per_gas h = Some fee" "h_base_fee_per_gas h' = Some fee'"
    and rest: "unsigned_fields h = unsigned_fields h'"
  shows "h = h'"
proof -
  note inj = codec_append_inj [OF wire_lawsD(2) [OF laws]] codec_append_inj [OF wire_lawsD(3) [OF laws]]
    codec_append_inj [OF wire_lawsD(4) [OF laws]] codec_append_inj [OF wire_lawsD(6) [OF laws]]
    codec_append_inj [OF wire_lawsD(7) [OF laws]] codec_append_inj [OF wire_lawsD(8) [OF laws]]
    codec_append_inj [OF wire_lawsD(8) [OF laws], where xs = "[]" and ys = "[]", simplified]
  have wide: "ucast a = (ucast b :: u256) \<longleftrightarrow> a = b" for a b :: u64
    by (auto simp: word_unat_eq_iff unsigned_ucast_eq take_bit_nat_eq_self)
  show ?thesis
    using eq rest fees
    by (intro header.equality) (simp_all add: signing_fields_def unsigned_fields_def Let_def inj wide)
qed

text \<open>C15. A signature binds the whole header: two headers that the header rules accept and that have
  the same signing encoding are the same header, although the encoding leaves six fields out; and
  the length announced in the encoding is that of its fields.\<close>

theorem signed_header_binding:
  assumes laws: "wire_laws wi"
    and ok: "validate_header ca now h = Inr ()" "validate_header ca now' h' = Inr ()"
    and same: "signing_encoding wi h = signing_encoding wi h'"
  shows "h = h' \<and> signing_payload_length wi h = length (signing_fields wi h)"
proof -
  have fees: "\<exists>fee. h_base_fee_per_gas h = Some fee" "\<exists>fee. h_base_fee_per_gas h' = Some fee"
    and rest: "unsigned_fields h = unsigned_fields h'"
    using ok by (auto simp: unsigned_fields_def validate_header_def result_elims split: if_splits option.splits)
  then show ?thesis
    using signing_fields_inj [OF laws signing_encoding_fields [OF laws same]] signing_length [OF laws] by blast
qed

lemma poll_loop_inbound:
  "poll_loop wi peer listening [] [] frames events =
    (case poll_inbound wi peer listening frames events of (outcome, rest, evs) \<Rightarrow> (outcome, [], rest, evs))"
  by (induction wi peer listening frames events rule: poll_inbound.induct) (simp_all split: option.splits)

lemma receive_announced:
  assumes laws: "wire_laws wi"
  shows "receive_frame wi peer True
      (message_encoded wi (message_new_block (new_block_new wi signature block)) @ trailing) =
    Some (NewBlockEvent peer block signature)"
  by (simp add: receive_frame_def message_roundtrip [OF laws] message_new_block_def new_block_new_def
      wire_lawsD(11) [OF laws])

text \<open>A message that arrives while the last of some announcements is read goes out next.\<close>

lemma poll_loop_interrupted:
  assumes laws: "wire_laws wi"
  shows "poll_loop wi peer True (replicate (length bs) [] @ (m # ms) # later) []
      (map (\<lambda>(block, signature, trailing). Some (message_encoded wi (message_new_block (new_block_new wi signature block)) @ trailing)) (bs @ [b])
        @ frames) events =
    (Yield (message_encoded wi m), ms, frames,
      events @ map (\<lambda>(block, signature, trailing). NewBlockEvent peer block signature) (bs @ [b]))"
  by (induction bs arbitrary: events)
    (simp_all add: receive_announced [OF laws] split: prod.splits)

text \<open>C16. Announcements arrive unchanged and in order: whatever follows a message in its frame, a
  connection that reads the frames of announced blocks emits exactly one event per block, with the
  announced block and signature, and keeps waiting; a frame that is empty, of another message kind
  or malformed ends the connection after the events of the frames before it. Messages to send go out
  first, encoded, and are read back by the peer: a poll that finds one reads no frame, whatever
  arrives meanwhile; a message that is queued while a frame is read goes out before the next frame
  is read; and a poll during which nothing is queued reads the frames as above.\<close>

theorem announcements_delivered:
  fixes events :: "('d, 'c) ScrollWireEvent list"
  assumes laws: "wire_laws wi"
  shows "poll_inbound wi peer True
      (map (\<lambda>(block, signature, trailing). Some (message_encoded wi (message_new_block (new_block_new wi signature block)) @ trailing)) bs
        @ frames) events =
      poll_inbound wi peer True frames
        (events @ map (\<lambda>(block, signature, trailing). NewBlockEvent peer block signature) bs) \<and>
    (\<forall>frame rest. frame = [] \<or> hd frame \<noteq> 0 \<or> message_decode wi frame = None \<longrightarrow>
      poll_inbound wi peer True (Some frame # rest) events = (Ended, rest, events)) \<and>
    (\<forall>(wc :: ('d, 'c) wire_connection) arrivals m rest. wc_outbound wc = m # rest \<longrightarrow>
      (\<exists>bytes. poll_connection wi True arrivals wc events = (Yield bytes, wc\<lparr>wc_outbound := rest\<rparr>, events) \<and>
         message_decode wi bytes = Some m)) \<and>
    (\<forall>(wc :: ('d, 'c) wire_connection) bs b m rest later frames.
      wc_outbound wc = [] \<and>
      wc_inbound wc = map (\<lambda>(block, signature, trailing). Some (message_encoded wi (message_new_block (new_block_new wi signature block)) @ trailing)) (bs @ [b]) @ frames \<longrightarrow>
      (\<exists>bytes. poll_connection wi True (replicate (length bs) [] @ (m # rest) # later) wc events =
          (Yield bytes, wc\<lparr>wc_outbound := rest, wc_inbound := frames\<rparr>,
            events @ map (\<lambda>(block, signature, trailing). NewBlockEvent (wc_peer_id wc) block signature) (bs @ [b])) \<and>
        message_decode wi bytes = Some m)) \<and>
    (\<forall>wc :: ('d, 'c) wire_connection. wc_outbound wc = [] \<longrightarrow>
      poll_connection wi True [] wc events =
        (case poll_inbound wi (wc_peer_id wc) True (wc_inbound wc) events of
           (outcome, rest, evs) \<Rightarrow> (outcome, wc\<lparr>wc_inbound := rest\<rparr>, evs)))"
proof (intro conjI allI impI, goal_cases)
  case 1
  show ?case by (induction bs arbitrary: events) (auto simp: receive_announced [OF laws])
next
  case (2 frame rest)
  then have "message_decode wi frame = None"
    by (cases frame) (auto simp: message_decode_def message_id_try_from_def)
  then show ?case by (simp add: receive_frame_def)
next
  case (3 wc arrivals m rest)
  then show ?case using message_roundtrip [OF laws, of m "[]"] by (simp add: poll_connection_def)
next
  case (4 wc bs b m rest later frames)
  then show ?case
    using message_roundtrip [OF laws, of m "[]"]
    by (simp add: poll_connection_def poll_loop_interrupted [OF laws] del: map_append append_assoc)
next
  case (5 wc)
  then show ?case by (simp add: poll_connection_def poll_loop_inbound split: prod.splits)
qed

section \<open>Properties of the importer\<close>

lemma lru_lawsD:
  assumes "lru_laws lru items limit"
  shows "items (lru_new lru n) = []" "limit (lru_new lru n) = n"
    "lru_contains lru c k \<longleftrightarrow> k \<in> set (items c)"
    "k \<notin> set (items c) \<Longrightarrow> items (lru_insert lru k c) = take (limit c) (k # items c)"
    "limit (lru_insert lru k c) = limit c"
  using assms unfolding lru_laws_def by blast+

lemma import_event_cases:
  fixes lru :: "(b256 \<times> Signature, 'c) lru_api"
  assumes "lru_laws lru items limit"
  obtains (kept) "snd (import_event ie lru event im) = im"
  | (sent) p block signature where "event = NewBlockEvent p block signature"
      "verify_block_signature (ie_wire ie) (b_header block) signature (im_authorized_signer im) = Inr ()"
      "block_key ie (block, signature) \<notin> set (items (im_blocks_seen im))"
      "snd (import_event ie lru event im) = im\<lparr>im_blocks_seen :=
         lru_insert lru (block_key ie (block, signature)) (im_blocks_seen im),
         im_sent := im_sent im @ [(block, signature)]\<rparr>"
proof (cases event)
  case (NewBlockEvent p block signature)
  then show ?thesis using kept sent [OF NewBlockEvent]
    by (cases "verify_block_signature (ie_wire ie) (b_header block) signature (im_authorized_signer im)";
        cases "block_key ie (block, signature) \<in> set (items (im_blocks_seen im))")
      (simp_all add: import_event_def Let_def lru_lawsD(3) [OF assms] split: sum.split)
qed (simp add: kept import_event_def)

text \<open>The cache holds the keys of the last payloads that were sent.\<close>

definition importer_ok ::
  "('p, 's, 'e, 'status) import_env \<Rightarrow> ('c \<Rightarrow> (b256 \<times> Signature) list) \<Rightarrow> ('c \<Rightarrow> nat) \<Rightarrow> address option \<Rightarrow>
   'c importer \<Rightarrow> bool" where
  "importer_ok ie items limit signer im \<longleftrightarrow>
     im_authorized_signer im = signer \<and> limit (im_blocks_seen im) = LRU_CACHE_SIZE \<and>
     items (im_blocks_seen im) = take LRU_CACHE_SIZE (rev (map (block_key ie) (im_sent im))) \<and>
     (\<forall>i j. i < j \<and> j < length (im_sent im) \<and> j - i \<le> LRU_CACHE_SIZE \<longrightarrow>
        block_key ie (im_sent im ! i) \<noteq> block_key ie (im_sent im ! j)) \<and>
     (\<forall>(block, signature) \<in> set (im_sent im).
        verify_block_signature (ie_wire ie) (b_header block) signature signer = Inr ())"

lemma nth_in_take_rev:
  "i < length xs \<Longrightarrow> length xs - i \<le> n \<Longrightarrow> xs ! i \<in> set (take n (rev xs))"
proof -
  assume i: "i < length xs" and n: "length xs - i \<le> n"
  have "take n (rev xs) ! (length xs - Suc i) = xs ! i" "length xs - Suc i < length (take n (rev xs))"
    using i n by (auto simp: rev_nth)
  then show ?thesis by (metis nth_mem)
qed

lemma import_event_ok:
  assumes laws: "lru_laws lru items limit" and ok: "importer_ok ie items limit signer im"
  shows "importer_ok ie items limit signer (snd (import_event ie lru event im))"
  using laws
proof (cases rule: import_event_cases [of lru items limit ie event im])
  case kept
  then show ?thesis using ok by simp
next
  case (sent p block signature)
  let ?k = "block_key ie (block, signature)" and ?keys = "map (block_key ie) (im_sent im)"
  have fresh: "?k \<notin> set (take LRU_CACHE_SIZE (rev ?keys))" using sent(3) ok by (simp add: importer_ok_def)
  have window: "block_key ie (im_sent im ! i) \<noteq> ?k" if "i < length (im_sent im)" "length (im_sent im) - i \<le> LRU_CACHE_SIZE" for i
    using fresh nth_in_take_rev [of i ?keys LRU_CACHE_SIZE] that by auto
  have items: "items (lru_insert lru ?k (im_blocks_seen im)) = take LRU_CACHE_SIZE (?k # rev ?keys)"
    using sent(3) ok by (simp add: lru_lawsD(4) [OF laws] importer_ok_def take_Cons' LRU_CACHE_SIZE_def)
  have "limit (lru_insert lru ?k (im_blocks_seen im)) = LRU_CACHE_SIZE"
    using ok by (simp add: lru_lawsD(5) [OF laws] importer_ok_def)
  then show ?thesis
    using ok sent(2,4) items window
    by (auto simp: importer_ok_def nth_append less_Suc_eq)
qed

lemma import_all_ok:
  assumes laws: "lru_laws lru items limit" and ok: "importer_ok ie items limit signer im"
  shows "importer_ok ie items limit signer (import_all ie lru events im)"
  using ok unfolding import_all_def
  by (induction events arbitrary: im) (simp_all add: import_event_ok [OF laws])

lemma importer_new_ok:
  "lru_laws lru items limit \<Longrightarrow> importer_ok ie items limit signer (importer_new lru signer)"
  by (simp add: importer_ok_def importer_new_def lru_lawsD)

text \<open>C14. Only authorized blocks reach the engine, and no block twice in a row: over every sequence of
  events the importer sends only announcements whose signature verifies for the configured signer,
  and among any hundred and one consecutive payloads no block and signature repeat. An announcement
  that verifies and is not among the last hundred is sent, whether or not earlier ones failed; a
  refused one changes nothing.\<close>

theorem imports_authorized_once:
  fixes lru :: "(b256 \<times> Signature, 'c) lru_api" and events :: "('d, nat) ScrollWireEvent list"
  assumes laws: "lru_laws lru items limit" and im: "im = import_all ie lru events (importer_new lru (Some signer))"
  shows "(\<forall>(block, signature) \<in> set (im_sent im).
        wi_recover_signer (ie_wire ie) signature (signature_hash (ie_wire ie) (b_header block)) = Inr signer) \<and>
    (\<forall>i j. i < j \<and> j < length (im_sent im) \<and> j - i \<le> 100 \<longrightarrow>
        block_key ie (im_sent im ! i) \<noteq> block_key ie (im_sent im ! j)) \<and>
    (\<forall>p block signature.
       let (r, im') = import_event ie lru (NewBlockEvent p block signature :: ('d, nat) ScrollWireEvent) im in
       if wi_recover_signer (ie_wire ie) signature (signature_hash (ie_wire ie) (b_header block)) = Inr signer
       then im_sent im' = (if block_key ie (block, signature) \<in> set (take 100 (rev (map (block_key ie) (im_sent im))))
                           then im_sent im else im_sent im @ [(block, signature)])
       else im' = im \<and> (\<exists>e. r = Inl (SignatureError e)))"
proof -
  have ok: "importer_ok ie items limit (Some signer) im"
    unfolding im using import_all_ok [OF laws importer_new_ok [OF laws]] .
  have verified: "verify_block_signature (ie_wire ie) h s (Some signer) = Inr () \<longleftrightarrow>
      wi_recover_signer (ie_wire ie) s (signature_hash (ie_wire ie) h) = Inr signer" for h s
    by (cases "wi_recover_signer (ie_wire ie) s (signature_hash (ie_wire ie) h)")
      (auto simp: verify_block_signature_def)
  have contains: "lru_contains lru (im_blocks_seen im) k \<longleftrightarrow> k \<in> set (take 100 (rev (map (block_key ie) (im_sent im))))" for k
    using ok by (simp add: lru_lawsD(3) [OF laws] importer_ok_def LRU_CACHE_SIZE_def)
  have step: "\<forall>p block signature.
      let (r, im') = import_event ie lru (NewBlockEvent p block signature :: ('d, nat) ScrollWireEvent) im in
       if wi_recover_signer (ie_wire ie) signature (signature_hash (ie_wire ie) (b_header block)) = Inr signer
       then im_sent im' = (if block_key ie (block, signature) \<in> set (take 100 (rev (map (block_key ie) (im_sent im))))
                           then im_sent im else im_sent im @ [(block, signature)])
       else im' = im \<and> (\<exists>e. r = Inl (SignatureError e))"
  proof (intro allI)
    fix p block signature
    show "let (r, im') = import_event ie lru (NewBlockEvent p block signature :: ('d, nat) ScrollWireEvent) im in
       if wi_recover_signer (ie_wire ie) signature (signature_hash (ie_wire ie) (b_header block)) = Inr signer
       then im_sent im' = (if block_key ie (block, signature) \<in> set (take 100 (rev (map (block_key ie) (im_sent im))))
                           then im_sent im else im_sent im @ [(block, signature)])
       else im' = im \<and> (\<exists>e. r = Inl (SignatureError e))"
      using ok verified [of "b_header block" signature]
      by (auto simp: import_event_def importer_ok_def contains Let_def split: sum.splits)
  qed
  have A: "(\<forall>(block, signature) \<in> set (im_sent im).
        wi_recover_signer (ie_wire ie) signature (signature_hash (ie_wire ie) (b_header block)) = Inr signer) \<and>
    (\<forall>i j. i < j \<and> j < length (im_sent im) \<and> j - i \<le> 100 \<longrightarrow>
        block_key ie (im_sent im ! i) \<noteq> block_key ie (im_sent im ! j))"
    using ok unfolding importer_ok_def LRU_CACHE_SIZE_def by (auto simp: verified)
  show ?thesis by (rule conjI [OF conjunct1 [OF A] conjI [OF conjunct2 [OF A] step]])
qed

section \<open>A concrete instance\<close>

definition sample_wire :: wire_api where
  "sample_wire = \<lparr>
     wi_rlp = sample_rlp,
     wi_enc_b256 = enc_word, wi_dec_b256 = dec_word, wi_len_b256 = (\<lambda>x. length (enc_word x)),
     wi_enc_bloom = enc_word, wi_dec_bloom = dec_word, wi_len_bloom = (\<lambda>x. length (enc_word x)),
     wi_enc_b64 = enc_word, wi_dec_b64 = dec_word, wi_len_b64 = (\<lambda>x. length (enc_word x)),
     wi_enc_block = (\<lambda>b. enc_nat (to_nat b)), wi_dec_block = dec_map from_nat dec_nat,
     wi_len_block = (\<lambda>b. length (enc_nat (to_nat b))),
     wi_as_rsy = enc_sig,
     wi_from_raw = (\<lambda>bs. case dec_sig bs of Inr (s, _) \<Rightarrow> Inr s | Inl _ \<Rightarrow> Inl ()),
     wi_keccak256 = sample_keccak, wi_recover_signer = (\<lambda>s h. Inr (ucast (sig_r s)))\<rparr>"

lemma decodes_codec: "decodes e d \<Longrightarrow> codec_ok e d (\<lambda>x. length (e x))"
  by (simp add: codec_ok_def decodes_def)

lemma word_codec: "codec_ok enc_word dec_word (\<lambda>x. length (enc_word x))"
  by (rule decodes_codec, rule decodes_word)

lemma sample_wire_laws [simp]: "wire_laws sample_wire"
proof -
  have "dec_sig (enc_sig s) = Inr (s, [])" for s using decodesD [OF decodes_sig, of s "[]"] by simp
  moreover have "codec_ok (\<lambda>b :: Block. enc_nat (to_nat b)) (dec_map from_nat dec_nat) (\<lambda>b. length (enc_nat (to_nat b)))"
    by (rule decodes_codec, rule decodes_map) (simp_all add: decodes_nat)
  ultimately show ?thesis by (simp add: wire_laws_def sample_wire_def word_codec)
qed

theorem signed_header_binding_witness:
  "signing_payload_length sample_wire sample_valid_header = length (signing_fields sample_wire sample_valid_header)"
  using signed_header_binding [OF sample_wire_laws sample_valid_header_ok sample_valid_header_ok refl] by simp

definition sample_signature :: Signature where
  "sample_signature = \<lparr>sig_r = 17, sig_s = 2, sig_y_parity = True\<rparr>"

theorem announcements_delivered_witness:
  "poll_inbound sample_wire 4 True
     [Some (message_encoded sample_wire (message_new_block (new_block_new sample_wire sample_signature sample_block)) @ [1]),
      Some [], None] [] =
   (Ended, [None], [NewBlockEvent 4 sample_block sample_signature :: (unit, nat) ScrollWireEvent])"
proof -
  note delivered = announcements_delivered [OF sample_wire_laws, of 4]
  have "poll_inbound sample_wire 4 True (Some [] # [None]) [NewBlockEvent 4 sample_block sample_signature :: (unit, nat) ScrollWireEvent]
      = (Ended, [None], [NewBlockEvent 4 sample_block sample_signature])"
    using delivered [THEN conjunct2, THEN conjunct1, rule_format, of "[]" "[None]"] by blast
  then show ?thesis
    using delivered [THEN conjunct1, of "[(sample_block, sample_signature, [1])]" "[Some [], None]"
      "[] :: (unit, nat) ScrollWireEvent list"]
    by (simp del: poll_inbound.simps)
qed

text \<open>A cache as its limit and its keys, the most recent first.\<close>

definition list_lru :: "('k, nat \<times> 'k list) lru_api" where
  "list_lru = \<lparr>lru_new = (\<lambda>n. (n, [])), lru_contains = (\<lambda>c k. k \<in> set (snd c)),
     lru_insert = (\<lambda>k c. (fst c, take (fst c) (k # remove1 k (snd c))))\<rparr>"

lemma list_lru_laws: "lru_laws list_lru snd fst"
  by (simp add: lru_laws_def list_lru_def remove1_idem)

definition sample_import_env :: "(Block \<times> b256, unit, string, unit) import_env" where
  "sample_import_env = \<lparr>ie_wire = sample_wire, ie_header_hash = (\<lambda>h. ucast (h_number h)),
     ie_engine = sample_engine, ie_new_payload = (\<lambda>_ _. Inr ())\<rparr>"

text \<open>The same announcement twice, then one by another signer: one payload is sent.\<close>

theorem imports_authorized_once_witness:
  "im_sent (import_all sample_import_env list_lru
      [NewBlockEvent 4 sample_block sample_signature, NewBlockEvent 5 sample_block sample_signature,
       NewBlockEvent 4 sample_block (sample_signature\<lparr>sig_r := 18\<rparr>) :: (unit, nat) ScrollWireEvent]
      (importer_new list_lru (Some 17))) = [(sample_block, sample_signature)] \<and>
   wi_recover_signer sample_wire sample_signature (signature_hash sample_wire (b_header sample_block)) = Inr 17"
proof -
  let ?evs = "[NewBlockEvent 4 sample_block sample_signature, NewBlockEvent 5 sample_block sample_signature,
       NewBlockEvent 4 sample_block (sample_signature\<lparr>sig_r := 18\<rparr>) :: (unit, nat) ScrollWireEvent]"
  let ?im = "import_all sample_import_env list_lru ?evs (importer_new list_lru (Some 17))"
  have sent: "im_sent ?im = [(sample_block, sample_signature)]"
    by (simp add: import_all_def import_event_def importer_new_def list_lru_def sample_import_env_def
        verify_block_signature_def sample_wire_def sample_signature_def block_key_def LRU_CACHE_SIZE_def)
  from conjunct1 [OF imports_authorized_once [OF list_lru_laws refl, of sample_import_env ?evs 17]] sent
  have "wi_recover_signer (ie_wire sample_import_env) sample_signature
      (signature_hash (ie_wire sample_import_env) (b_header sample_block)) = Inr 17"
    by simp
  then show ?thesis using sent by (simp add: sample_import_env_def)
qed

end
