(* ===== verification/Rpc_Types.thy ===== *)
theory Rpc_Types
  imports Receipts Tx_Env
begin

text \<open>
  The types of the JSON-RPC interface: \<open>crates/dogeos-rpc-types/src\<close> (\<open>network.rs\<close>, \<open>receipt.rs\<close>,
  \<open>transaction.rs\<close>, \<open>transaction/request.rs\<close>), the conversions of
  \<open>crates/dogeos-reth-rpc/src/receipt.rs\<close> and \<open>transaction.rs\<close>, and
  \<open>crates/dogeos-protocol-types/src/transaction/meta.rs\<close>.

  Parameters: the request of \<open>alloy_rpc_types_eth\<close> (\<open>request_api\<close>; its fields that this code does
  not touch are one component of any type), its signer, the effective tip of the \<open>Transaction\<close>
  trait (\<open>tip_law\<close>), and the receipt builder and log collector of \<open>reth_rpc_eth_types\<close> and alloy
  (\<open>receipt_builder_api\<close>, \<open>receipt_builder_laws\<close>). JSON is modelled as the structures that are
  written and read; \<open>json_reads\<close> says which values a reader of the flattened form can see.
\<close>

section \<open>Requests\<close>

record ('i, 'o) TransactionRequest =
  tq_from :: "address option"
  tq_to :: "TxKind option"
  tq_gas :: "u64 option"
  tq_value :: "u256 option"
  tq_nonce :: "u64 option"
  tq_max_fee_per_gas :: "u128 option"
  tq_max_priority_fee_per_gas :: "u128 option"
  tq_access_list :: "access_list option"
  tq_transaction_type :: "u8 option"
  tq_input :: 'i
  tq_other :: 'o

text \<open>The transaction types of alloy, with the blob transactions this chain does not have.\<close>

datatype TxType = EthLegacy | EthEip2930 | EthEip1559 | EthEip4844 | EthEip7702

datatype 'b TypedTransaction = TypedAlloy alloy_tx | TypedEip4844 'b

record ('i, 'o, 'b) request_api =
  rq_default :: "('i, 'o) TransactionRequest"
  rq_has_eip4844_fields :: "('i, 'o) TransactionRequest \<Rightarrow> bool"
  rq_build_consensus_tx :: "('i, 'o) TransactionRequest \<Rightarrow> ('i, 'o) TransactionRequest + 'b TypedTransaction"
  rq_missing_keys :: "('i, 'o) TransactionRequest \<Rightarrow> (TxType \<times> string list) + unit"
  rq_preferred_type :: "('i, 'o) TransactionRequest \<Rightarrow> TxType"
  rq_buildable_type :: "('i, 'o) TransactionRequest \<Rightarrow> TxType option"
  rq_complete_type :: "('i, 'o) TransactionRequest \<Rightarrow> TxType \<Rightarrow> string list + unit"
  rq_prep_for_submission :: "('i, 'o) TransactionRequest \<Rightarrow> ('i, 'o) TransactionRequest"
  rq_tx_type_try_from :: "u8 \<Rightarrow> TxType option"
  rq_from_blob :: "'b \<Rightarrow> ('i, 'o) TransactionRequest"
  rq_from_alloy :: "alloy_tx \<Rightarrow> ('i, 'o) TransactionRequest"
  rq_input_from_bytes :: "bytes \<Rightarrow> 'i"

definition BLOB_REQUEST_UNSUPPORTED :: string where
  "BLOB_REQUEST_UNSUPPORTED = ''blob transactions are not supported''"

definition EIP4844_TX_TYPE_ID :: u8 where
  "EIP4844_TX_TYPE_ID = 3"

definition request_from :: "address \<Rightarrow> ('i, 'o) TransactionRequest \<Rightarrow> ('i, 'o) TransactionRequest" where
  "request_from value rq = rq\<lparr>tq_from := Some value\<rparr>"

definition request_transaction_type :: "u8 \<Rightarrow> ('i, 'o) TransactionRequest \<Rightarrow> ('i, 'o) TransactionRequest" where
  "request_transaction_type value rq = rq\<lparr>tq_transaction_type := Some value\<rparr>"

definition request_gas_limit :: "u64 \<Rightarrow> ('i, 'o) TransactionRequest \<Rightarrow> ('i, 'o) TransactionRequest" where
  "request_gas_limit value rq = rq\<lparr>tq_gas := Some value\<rparr>"

definition request_nonce :: "u64 \<Rightarrow> ('i, 'o) TransactionRequest \<Rightarrow> ('i, 'o) TransactionRequest" where
  "request_nonce value rq = rq\<lparr>tq_nonce := Some value\<rparr>"

definition request_max_fee_per_gas :: "u128 \<Rightarrow> ('i, 'o) TransactionRequest \<Rightarrow> ('i, 'o) TransactionRequest" where
  "request_max_fee_per_gas value rq = rq\<lparr>tq_max_fee_per_gas := Some value\<rparr>"

definition request_max_priority_fee_per_gas ::
  "u128 \<Rightarrow> ('i, 'o) TransactionRequest \<Rightarrow> ('i, 'o) TransactionRequest" where
  "request_max_priority_fee_per_gas value rq = rq\<lparr>tq_max_priority_fee_per_gas := Some value\<rparr>"

definition request_to :: "address \<Rightarrow> ('i, 'o) TransactionRequest \<Rightarrow> ('i, 'o) TransactionRequest" where
  "request_to value rq = rq\<lparr>tq_to := Some (Call value)\<rparr>"

definition request_value :: "u256 \<Rightarrow> ('i, 'o) TransactionRequest \<Rightarrow> ('i, 'o) TransactionRequest" where
  "request_value value rq = rq\<lparr>tq_value := Some value\<rparr>"

definition request_access_list :: "access_list \<Rightarrow> ('i, 'o) TransactionRequest \<Rightarrow> ('i, 'o) TransactionRequest" where
  "request_access_list value rq = rq\<lparr>tq_access_list := Some value\<rparr>"

definition request_input :: "'i \<Rightarrow> ('i, 'o) TransactionRequest \<Rightarrow> ('i, 'o) TransactionRequest" where
  "request_input value rq = rq\<lparr>tq_input := value\<rparr>"

definition request_take_nonce ::
  "('i, 'o) TransactionRequest \<Rightarrow> u64 option \<times> ('i, 'o) TransactionRequest" where
  "request_take_nonce rq = (tq_nonce rq, rq\<lparr>tq_nonce := None\<rparr>)"

definition is_blob_request :: "('i, 'o, 'b) request_api \<Rightarrow> ('i, 'o) TransactionRequest \<Rightarrow> bool" where
  "is_blob_request ra rq \<longleftrightarrow>
     tq_transaction_type rq = Some EIP4844_TX_TYPE_ID \<or> rq_has_eip4844_fields ra rq"

definition build_typed_tx ::
  "('i, 'o, 'b) request_api \<Rightarrow> ('i, 'o) TransactionRequest \<Rightarrow>
   (('i, 'o) TransactionRequest \<times> string) + ScrollTypedTransaction" where
  "build_typed_tx ra rq =
     (if is_blob_request ra rq then Inl (rq, BLOB_REQUEST_UNSUPPORTED)
      else
        rbind (map_err (\<lambda>tx. (tx, ''required fields missing'')) (rq_build_consensus_tx ra rq)) (\<lambda>transaction.
          case transaction of
            TypedAlloy (ALegacy tx) \<Rightarrow> Inr (TLegacy tx)
          | TypedAlloy (A2930 tx) \<Rightarrow> Inr (TEip2930 tx)
          | TypedAlloy (A1559 tx) \<Rightarrow> Inr (TEip1559 tx)
          | TypedEip4844 tx \<Rightarrow> Inl (rq_from_blob ra tx, BLOB_REQUEST_UNSUPPORTED)
          | TypedAlloy (A7702 tx) \<Rightarrow> Inr (TEip7702 tx)))"

fun map_tx_type :: "TxType \<Rightarrow> ScrollTxType" where
  "map_tx_type EthLegacy = TyLegacy"
| "map_tx_type EthEip2930 = TyEip2930"
| "map_tx_type EthEip1559 = TyEip1559"
| "map_tx_type EthEip4844 = TyEip1559"
| "map_tx_type EthEip7702 = TyEip7702"

text \<open>\<open>None\<close> is the panic of the \<open>expect\<close> on a type unknown to alloy.\<close>

definition complete_type ::
  "('i, 'o, 'b) request_api \<Rightarrow> ('i, 'o) TransactionRequest \<Rightarrow> ScrollTxType \<Rightarrow> (string list + unit) option" where
  "complete_type ra rq ty =
     (if ty = TyL1Message then Some (Inl [''L1 message transactions cannot be submitted over RPC''])
      else map_option (rq_complete_type ra rq) (rq_tx_type_try_from ra (tx_type_to_u8 ty)))"

definition output_tx_type :: "('i, 'o, 'b) request_api \<Rightarrow> ('i, 'o) TransactionRequest \<Rightarrow> ScrollTxType" where
  "output_tx_type ra rq = map_tx_type (rq_preferred_type ra rq)"

definition output_tx_type_checked ::
  "('i, 'o, 'b) request_api \<Rightarrow> ('i, 'o) TransactionRequest \<Rightarrow> ScrollTxType option" where
  "output_tx_type_checked ra rq = map_option map_tx_type (rq_buildable_type ra rq)"

definition prep_for_submission ::
  "('i, 'o, 'b) request_api \<Rightarrow> ('i, 'o) TransactionRequest \<Rightarrow> ('i, 'o) TransactionRequest" where
  "prep_for_submission ra rq = (if is_blob_request ra rq then rq else rq_prep_for_submission ra rq)"

datatype TransactionBuilderError = CustomBuilderError string | InvalidTransactionRequest ScrollTxType "string list"

definition build_unsigned ::
  "('i, 'o, 'b) request_api \<Rightarrow> ('i, 'o) TransactionRequest \<Rightarrow>
   (('i, 'o) TransactionRequest \<times> TransactionBuilderError) + ScrollTypedTransaction" where
  "build_unsigned ra rq =
     (if is_blob_request ra rq then Inl (rq, CustomBuilderError BLOB_REQUEST_UNSUPPORTED)
      else
        (case rq_missing_keys ra rq of
           Inl (tx_type, missing) \<Rightarrow> Inl (rq, InvalidTransactionRequest (map_tx_type tx_type) missing)
         | Inr _ \<Rightarrow>
             map_err (\<lambda>(request, _). (request, InvalidTransactionRequest (output_tx_type ra request) [''required fields'']))
               (build_typed_tx ra rq)))"

text \<open>The hashing of signed transactions, as \<^const>\<open>typed_into_signed\<close> takes it.\<close>

record sign_api =
  sg_rlp :: rlp_api
  sg_codec :: alloy_codec
  sg_keccak256 :: "bytes \<Rightarrow> b256"

definition sign_typed :: "sign_api \<Rightarrow> ScrollTypedTransaction \<Rightarrow> Signature \<Rightarrow> ScrollTxEnvelope" where
  "sign_typed sa tx signature =
     env_from_signed_typed (typed_into_signed (sg_rlp sa) (sg_codec sa) (sg_keccak256 sa) tx signature)"

datatype 'e SignTxRequestError = InvalidRequest | SignerError 'e

text \<open>A signer gets the transaction to sign for writing.\<close>

definition try_build_and_sign ::
  "('i, 'o, 'b) request_api \<Rightarrow> sign_api \<Rightarrow> (ScrollTypedTransaction \<Rightarrow> 'e + (Signature \<times> ScrollTypedTransaction)) \<Rightarrow>
   ('i, 'o) TransactionRequest \<Rightarrow> 'e SignTxRequestError + ScrollTxEnvelope" where
  "try_build_and_sign ra sa sign_transaction rq =
     rbind (map_err (\<lambda>_. InvalidRequest) (build_typed_tx ra rq)) (\<lambda>transaction.
     rbind (map_err SignerError (sign_transaction transaction)) (\<lambda>(signature, transaction).
       Inr (sign_typed sa transaction signature)))"

definition convert_sim_tx ::
  "('i, 'o, 'b) request_api \<Rightarrow> sign_api \<Rightarrow> ('i, 'o) TransactionRequest \<Rightarrow>
   (('i, 'o) TransactionRequest \<times> string) + ScrollTxEnvelope" where
  "convert_sim_tx ra sa request =
     rbind (build_typed_tx ra request) (\<lambda>transaction.
       Inr (sign_typed sa transaction \<lparr>sig_r = 0, sig_s = 0, sig_y_parity = False\<rparr>))"

text \<open>Requests of existing transactions.\<close>

definition request_of_l1_message :: "('i, 'o, 'b) request_api \<Rightarrow> TxL1Message \<Rightarrow> ('i, 'o) TransactionRequest" where
  "request_of_l1_message ra transaction =
     (rq_default ra)\<lparr>tq_from := Some (l1m_sender transaction), tq_to := Some (Call (l1m_to transaction)),
       tq_value := Some (l1m_value transaction), tq_gas := Some (l1m_gas_limit transaction),
       tq_input := rq_input_from_bytes ra (l1m_input transaction)\<rparr>"

fun request_of_typed :: "('i, 'o, 'b) request_api \<Rightarrow> ScrollTypedTransaction \<Rightarrow> ('i, 'o) TransactionRequest" where
  "request_of_typed ra (TLegacy value) = rq_from_alloy ra (ALegacy value)"
| "request_of_typed ra (TEip2930 value) = rq_from_alloy ra (A2930 value)"
| "request_of_typed ra (TEip1559 value) = rq_from_alloy ra (A1559 value)"
| "request_of_typed ra (TEip7702 value) = rq_from_alloy ra (A7702 value)"
| "request_of_typed ra (TL1Message value) = request_of_l1_message ra value"

fun request_of_envelope :: "('i, 'o, 'b) request_api \<Rightarrow> ScrollTxEnvelope \<Rightarrow> ('i, 'o) TransactionRequest" where
  "request_of_envelope ra (Legacy value) = rq_from_alloy ra (ALegacy (signed_tx value))"
| "request_of_envelope ra (Eip2930 value) = rq_from_alloy ra (A2930 (signed_tx value))"
| "request_of_envelope ra (Eip1559 value) = rq_from_alloy ra (A1559 (signed_tx value))"
| "request_of_envelope ra (Eip7702 value) = rq_from_alloy ra (A7702 (signed_tx value))"
| "request_of_envelope ra (L1Message value) = request_of_l1_message ra (sealed_inner value)"

text \<open>The environment of a call: no data is charged to it.\<close>

definition convert_tx_env ::
  "env_api \<Rightarrow> (('i, 'o) TransactionRequest \<Rightarrow> 'e + TxEnv) \<Rightarrow> ('i, 'o) TransactionRequest \<Rightarrow> 'e + ScrollTxEnv" where
  "convert_tx_env ea try_into_tx_env request =
     rbind (try_into_tx_env request) (\<lambda>tx_env.
       Inr (tx_env_new tx_env (Some []) (Some (ea_fee_precision ea)) (Some 0)))"

section \<open>Transactions\<close>

record ScrollAdditionalInfo =
  ai_l1_fee :: u256

record TransactionInfo =
  ti_hash :: "b256 option"
  ti_index :: "u64 option"
  ti_block_hash :: "b256 option"
  ti_block_number :: "u64 option"
  ti_base_fee :: "u64 option"

record ScrollTransactionInfo =
  sti_inner :: TransactionInfo
  sti_additional_info :: ScrollAdditionalInfo

definition try_map ::
  "(b256 \<Rightarrow> 'e + ScrollReceipt option) \<Rightarrow> ScrollTxEnvelope \<Rightarrow> TransactionInfo \<Rightarrow> 'e + ScrollTransactionInfo" where
  "try_map receipt_by_hash tx tx_info =
     rbind (if env_is_l1_message tx then Inr None
            else rbind (receipt_by_hash (env_tx_hash tx)) (\<lambda>r.
              Inr (map_option (\<lambda>receipt. \<lparr>ai_l1_fee = receipt_l1_fee receipt\<rparr>) r))) (\<lambda>additional_info.
       Inr \<lparr>sti_inner = tx_info,
            sti_additional_info = (case additional_info of Some info \<Rightarrow> info | None \<Rightarrow> \<lparr>ai_l1_fee = 0\<rparr>)\<rparr>)"

record ScrollRpcTransaction =
  rt_envelope :: ScrollTxEnvelope
  rt_signer :: address
  rt_block_hash :: "b256 option"
  rt_block_number :: "u64 option"
  rt_transaction_index :: "u64 option"
  rt_effective_gas_price :: "u128 option"

text \<open>The tip a transaction pays above a base fee, as the \<open>Transaction\<close> trait documents it.\<close>

type_synonym tip_api = "ScrollTxEnvelope \<Rightarrow> u64 \<Rightarrow> u128 option"

definition tip_law :: "alloy_tx_api \<Rightarrow> tip_api \<Rightarrow> bool" where
  "tip_law api effective_tip_per_gas \<longleftrightarrow>
     (\<forall>tx base_fee. effective_tip_per_gas tx base_fee =
        (if env_max_fee_per_gas api tx < ucast base_fee then None
         else case env_max_priority_fee_per_gas api tx of
             None \<Rightarrow> Some (env_max_fee_per_gas api tx - ucast base_fee)
           | Some priority \<Rightarrow> Some (min priority (env_max_fee_per_gas api tx - ucast base_fee))))"

definition rpc_from_transaction ::
  "alloy_tx_api \<Rightarrow> tip_api \<Rightarrow> ScrollTxEnvelope \<Rightarrow> address \<Rightarrow> ScrollTransactionInfo \<Rightarrow> ScrollRpcTransaction" where
  "rpc_from_transaction api effective_tip_per_gas transaction signer info =
     (let effective_gas_price =
        (if env_is_l1_message transaction then 0
         else (case ti_base_fee (sti_inner info) of
                 None \<Rightarrow> env_max_fee_per_gas api transaction
               | Some base_fee \<Rightarrow>
                   (case effective_tip_per_gas transaction base_fee of Some tip \<Rightarrow> tip | None \<Rightarrow> 0) + ucast base_fee)) in
      \<lparr>rt_envelope = transaction, rt_signer = signer,
       rt_block_hash = ti_block_hash (sti_inner info), rt_block_number = ti_block_number (sti_inner info),
       rt_transaction_index = ti_index (sti_inner info), rt_effective_gas_price = Some effective_gas_price\<rparr>)"

definition convert_rpc_tx ::
  "alloy_tx_api \<Rightarrow> tip_api \<Rightarrow> ScrollTxEnvelope \<Rightarrow> address \<Rightarrow> ScrollTransactionInfo \<Rightarrow> ScrollRpcTransaction" where
  "convert_rpc_tx api effective_tip_per_gas tx signer tx_info =
     rpc_from_transaction api effective_tip_per_gas tx signer tx_info"

record OptionalFields =
  of_from :: "address option"
  of_effective_gas_price :: "u128 option"

record TransactionSerde =
  ts_inner :: ScrollTxEnvelope
  ts_block_hash :: "b256 option"
  ts_block_number :: "u64 option"
  ts_transaction_index :: "u64 option"
  ts_other :: OptionalFields

definition rpc_serialize :: "alloy_tx_api \<Rightarrow> ScrollRpcTransaction \<Rightarrow> TransactionSerde" where
  "rpc_serialize api t = \<lparr>
     ts_inner = rt_envelope t, ts_block_hash = rt_block_hash t, ts_block_number = rt_block_number t,
     ts_transaction_index = rt_transaction_index t,
     ts_other = \<lparr>of_from = Some (rt_signer t),
       of_effective_gas_price =
         (if env_gas_price api (rt_envelope t) = None then rt_effective_gas_price t else None)\<rparr>\<rparr>"

definition rpc_deserialize :: "alloy_tx_api \<Rightarrow> TransactionSerde \<Rightarrow> string + ScrollRpcTransaction" where
  "rpc_deserialize api value =
     rbind (ok_or ''missing `from` field''
       (case of_from (ts_other value) of
          Some a \<Rightarrow> Some a
        | None \<Rightarrow> (case ts_inner value of L1Message transaction \<Rightarrow> Some (l1m_sender (sealed_inner transaction)) | _ \<Rightarrow> None)))
       (\<lambda>from.
         let effective_gas_price =
           (case of_effective_gas_price (ts_other value) of
              Some price \<Rightarrow> Some price
            | None \<Rightarrow> env_gas_price api (ts_inner value)) in
         Inr \<lparr>rt_envelope = ts_inner value, rt_signer = from, rt_block_hash = ts_block_hash value,
              rt_block_number = ts_block_number value, rt_transaction_index = ts_transaction_index value,
              rt_effective_gas_price = effective_gas_price\<rparr>)"

text \<open>The envelope and the optional fields are flattened into one object, so a reader may find the
  gas price of the envelope in the optional fields when these left it out.\<close>

definition json_reads :: "alloy_tx_api \<Rightarrow> TransactionSerde \<Rightarrow> TransactionSerde \<Rightarrow> bool" where
  "json_reads api written value \<longleftrightarrow>
     value = written \<or>
     of_effective_gas_price (ts_other written) = None \<and>
     value = written\<lparr>ts_other := (ts_other written)\<lparr>of_effective_gas_price := env_gas_price api (ts_inner written)\<rparr>\<rparr>"

section \<open>Receipts\<close>

text \<open>The envelope and receipt over a type of logs; \<^typ>\<open>ScrollReceiptEnvelope\<close> is the one over the
  logs of the consensus.\<close>

record 'l RpcReceipt =
  rr_status :: Eip658Value
  rr_cumulative_gas_used :: u64
  rr_logs :: "'l list"

datatype 'l RpcEnvelope =
    RpcLegacy "'l RpcReceipt ReceiptWithBloom"
  | RpcEip2930 "'l RpcReceipt ReceiptWithBloom"
  | RpcEip1559 "'l RpcReceipt ReceiptWithBloom"
  | RpcEip7702 "'l RpcReceipt ReceiptWithBloom"
  | RpcL1Message "'l RpcReceipt ReceiptWithBloom"

record ('e, 'o) TransactionReceipt =
  trc_inner :: 'e
  trc_other :: 'o

record ('l, 'o) RpcTransactionReceipt =
  rtr_inner :: "('l RpcEnvelope, 'o) TransactionReceipt"
  rtr_l1_fee :: "u128 option"

record 'm receipt_input =
  ri_receipt :: ScrollReceipt
  ri_next_log_index :: nat
  ri_meta :: 'm

record ('l, 'm, 'o) receipt_builder_api =
  rba_build_receipt :: "'m receipt_input \<Rightarrow> (ScrollReceipt \<Rightarrow> nat \<Rightarrow> 'm \<Rightarrow> 'l RpcEnvelope) \<Rightarrow> ('l RpcEnvelope, 'o) TransactionReceipt"
  rba_collect_for_receipt :: "nat \<Rightarrow> 'm \<Rightarrow> Log list \<Rightarrow> 'l list"
  rba_log_inner :: "'l \<Rightarrow> Log"
  rba_logs_bloom :: "'l list \<Rightarrow> bloom"

definition receipt_builder_laws :: "('l, 'm, 'o) receipt_builder_api \<Rightarrow> (Log list \<Rightarrow> bloom) \<Rightarrow> bool" where
  "receipt_builder_laws rba logs_bloom \<longleftrightarrow>
     (\<forall>input build. trc_inner (rba_build_receipt rba input build) =
        build (ri_receipt input) (ri_next_log_index input) (ri_meta input)) \<and>
     (\<forall>n m logs. map (rba_log_inner rba) (rba_collect_for_receipt rba n m logs) = logs) \<and>
     (\<forall>logs. rba_logs_bloom rba logs = logs_bloom (map (rba_log_inner rba) logs))"

text \<open>\<open>saturating_to::<u128>\<close>.\<close>

definition saturating_to_u128 :: "u256 \<Rightarrow> u128" where
  "saturating_to_u128 x = (if unat x < 2 ^ 128 then ucast x else - 1)"

definition map_logs ::
  "('l, 'm, 'o) receipt_builder_api \<Rightarrow> nat \<Rightarrow> 'm \<Rightarrow> Receipt \<Rightarrow> 'l RpcReceipt ReceiptWithBloom" where
  "map_logs rba next_log_index meta receipt =
     (let logs = rba_collect_for_receipt rba next_log_index meta (rc_logs receipt) in
      \<lparr>rwb_receipt = \<lparr>rr_status = rc_status receipt, rr_cumulative_gas_used = rc_cumulative_gas_used receipt, rr_logs = logs\<rparr>,
       rwb_logs_bloom = rba_logs_bloom rba logs\<rparr>)"

definition rpc_envelope_of ::
  "('l, 'm, 'o) receipt_builder_api \<Rightarrow> ScrollReceipt \<Rightarrow> nat \<Rightarrow> 'm \<Rightarrow> 'l RpcEnvelope" where
  "rpc_envelope_of rba receipt next_log_index meta =
     (case receipt of
        RLegacy receipt \<Rightarrow> RpcLegacy (map_logs rba next_log_index meta (str_inner receipt))
      | REip2930 receipt \<Rightarrow> RpcEip2930 (map_logs rba next_log_index meta (str_inner receipt))
      | REip1559 receipt \<Rightarrow> RpcEip1559 (map_logs rba next_log_index meta (str_inner receipt))
      | REip7702 receipt \<Rightarrow> RpcEip7702 (map_logs rba next_log_index meta (str_inner receipt))
      | RL1Message receipt \<Rightarrow> RpcL1Message (map_logs rba next_log_index meta receipt))"

definition scroll_receipt_build ::
  "('l, 'm, 'o) receipt_builder_api \<Rightarrow> 'm receipt_input \<Rightarrow> ('l, 'o) RpcTransactionReceipt" where
  "scroll_receipt_build rba input = \<lparr>
     rtr_inner = rba_build_receipt rba input (rpc_envelope_of rba),
     rtr_l1_fee = Some (saturating_to_u128 (receipt_l1_fee (ri_receipt input)))\<rparr>"

definition convert_receipts ::
  "('l, 'm, 'o) receipt_builder_api \<Rightarrow> 'm receipt_input list \<Rightarrow> ('l, 'o) RpcTransactionReceipt list" where
  "convert_receipts rba inputs = map (scroll_receipt_build rba) inputs"

definition consensus_receipt ::
  "('l \<Rightarrow> Log) \<Rightarrow> 'l RpcReceipt ReceiptWithBloom \<Rightarrow> Receipt ReceiptWithBloom" where
  "consensus_receipt log_inner value =
     (let receipt = rwb_receipt value in
      \<lparr>rwb_receipt = \<lparr>rc_status = rr_status receipt, rc_cumulative_gas_used = rr_cumulative_gas_used receipt,
         rc_logs = map log_inner (rr_logs receipt)\<rparr>,
       rwb_logs_bloom = rwb_logs_bloom value\<rparr>)"

definition envelope_from_rpc ::
  "('l \<Rightarrow> Log) \<Rightarrow> ('l, 'o) RpcTransactionReceipt \<Rightarrow> ScrollReceiptEnvelope" where
  "envelope_from_rpc log_inner value =
     (case trc_inner (rtr_inner value) of
        RpcLegacy receipt \<Rightarrow> ELegacy (consensus_receipt log_inner receipt)
      | RpcEip2930 receipt \<Rightarrow> EEip2930 (consensus_receipt log_inner receipt)
      | RpcEip1559 receipt \<Rightarrow> EEip1559 (consensus_receipt log_inner receipt)
      | RpcEip7702 receipt \<Rightarrow> EEip7702 (consensus_receipt log_inner receipt)
      | RpcL1Message receipt \<Rightarrow> EL1Message (consensus_receipt log_inner receipt))"

section \<open>Lemmas\<close>

text \<open>The transactions of alloy that this chain has.\<close>

fun typed_of_alloy :: "alloy_tx \<Rightarrow> ScrollTypedTransaction" where
  "typed_of_alloy (ALegacy tx) = TLegacy tx"
| "typed_of_alloy (A2930 tx) = TEip2930 tx"
| "typed_of_alloy (A1559 tx) = TEip1559 tx"
| "typed_of_alloy (A7702 tx) = TEip7702 tx"

lemma typed_of_alloy_type: "typed_tx_type (typed_of_alloy a) \<noteq> TyL1Message"
  by (cases a) simp_all

lemma sign_typed_type: "env_tx_type (sign_typed sa tx sg) = typed_tx_type tx"
  by (cases tx) (simp_all add: sign_typed_def typed_into_signed_def)

lemma poolable_iff: "(\<exists>p. try_into_pooled e = Inr p \<and> into_scroll_envelope p = e) \<longleftrightarrow> env_tx_type e \<noteq> TyL1Message"
  by (cases e) simp_all

lemma build_typed_tx_iff:
  "build_typed_tx ra rq = Inr t \<longleftrightarrow>
     \<not> is_blob_request ra rq \<and> (\<exists>a. rq_build_consensus_tx ra rq = Inr (TypedAlloy a) \<and> t = typed_of_alloy a)"
  by (cases "rq_build_consensus_tx ra rq")
    (auto simp: build_typed_tx_def split: TypedTransaction.splits alloy_tx.splits)

lemma build_unsigned_iff:
  "build_unsigned ra rq = Inr t \<longleftrightarrow> rq_missing_keys ra rq = Inr () \<and> build_typed_tx ra rq = Inr t"
  using build_typed_tx_iff [of ra rq t]
  by (auto simp: build_unsigned_def result_elims split: sum.splits)

lemma deserialize_reads:
  assumes "json_reads api (rpc_serialize api t) value"
  shows "rpc_deserialize api value = Inr (t\<lparr>rt_effective_gas_price :=
     (if env_gas_price api (rt_envelope t) = None then rt_effective_gas_price t else env_gas_price api (rt_envelope t))\<rparr>)"
proof -
  have "ts_inner value = rt_envelope t" "of_from (ts_other value) = Some (rt_signer t)"
    "ts_block_hash value = rt_block_hash t" "ts_block_number value = rt_block_number t"
    "ts_transaction_index value = rt_transaction_index t"
    and price: "of_effective_gas_price (ts_other value) = (if env_gas_price api (rt_envelope t) = None then rt_effective_gas_price t else None) \<or>
      of_effective_gas_price (ts_other value) = env_gas_price api (rt_envelope t) \<and>
      (env_gas_price api (rt_envelope t) = None \<longrightarrow> rt_effective_gas_price t = None)"
    using assms by (auto simp: json_reads_def rpc_serialize_def split: if_splits)
  then show ?thesis
    by (cases t; cases "env_gas_price api (rt_envelope t)"; cases "rt_effective_gas_price t")
      (auto simp: rpc_deserialize_def ok_or_def Let_def)
qed

lemma max_fee_tip:
  assumes "tip_law api tip" and "tip tx base = Some t"
  shows "t + ucast base \<le> env_max_fee_per_gas api tx \<and> ucast base \<le> t + ucast base"
proof -
  let ?m = "env_max_fee_per_gas api tx" and ?b = "ucast base :: u128"
  have b: "?b \<le> ?m" and t: "t \<le> ?m - ?b"
    using assms by (auto simp: tip_law_def not_less split: if_splits option.splits)
  then have "unat t + unat ?b \<le> unat ?m" by (simp add: word_le_nat_alt unat_sub)
  moreover from this have "unat (t + ?b) = unat t + unat ?b"
    by (intro unat_add_lem [THEN iffD1] le_less_trans [OF _ unsigned_less]) simp
  ultimately show ?thesis by (simp add: word_le_nat_alt)
qed

section \<open>Properties\<close>

text \<open>C26. A request only ever becomes a transaction of the pool: a request builds exactly when it is
  not a blob request and alloy builds one of the four signed types from it, and it builds that
  transaction; signing it, with the dummy signature of a simulation or by a signer that keeps the
  type, gives a transaction the pool can hold, never an L1 message. A blob request is still one
  after its preparation and every path refuses it. The request of an L1 message forgets its queue
  index and nothing else.\<close>

theorem requests_build_pool_transactions:
  assumes signer: "\<forall>tx sg tx'. sign tx = Inr (sg, tx') \<longrightarrow> typed_tx_type tx' = typed_tx_type tx"
    and input: "inj (rq_input_from_bytes ra)"
  shows "(\<forall>t. build_typed_tx ra rq = Inr t \<longleftrightarrow>
        \<not> is_blob_request ra rq \<and> (\<exists>a. rq_build_consensus_tx ra rq = Inr (TypedAlloy a) \<and> t = typed_of_alloy a)) \<and>
    (\<forall>t. build_unsigned ra rq = Inr t \<longleftrightarrow> rq_missing_keys ra rq = Inr () \<and> build_typed_tx ra rq = Inr t) \<and>
    (\<forall>e. convert_sim_tx ra sa rq = Inr e \<or> try_build_and_sign ra sa sign rq = Inr e \<longrightarrow>
       (\<exists>p. try_into_pooled e = Inr p \<and> into_scroll_envelope p = e)) \<and>
    (is_blob_request ra rq \<longrightarrow>
       build_unsigned ra (prep_for_submission ra rq) = Inl (rq, CustomBuilderError BLOB_REQUEST_UNSUPPORTED) \<and>
       convert_sim_tx ra sa rq = Inl (rq, BLOB_REQUEST_UNSUPPORTED) \<and>
       try_build_and_sign ra sa sign rq = Inl InvalidRequest) \<and>
    (\<forall>a b. request_of_envelope ra (L1Message a) = request_of_envelope ra (L1Message b) \<longleftrightarrow>
       (sealed_inner a)\<lparr>l1m_queue_index := 0\<rparr> = (sealed_inner b)\<lparr>l1m_queue_index := 0\<rparr>)"
proof (intro conjI allI impI)
  fix e
  assume "convert_sim_tx ra sa rq = Inr e \<or> try_build_and_sign ra sa sign rq = Inr e"
  then have "\<exists>a tx sg. typed_tx_type tx = typed_tx_type (typed_of_alloy a) \<and> e = sign_typed sa tx sg"
    using signer by (fastforce simp: convert_sim_tx_def try_build_and_sign_def result_elims build_typed_tx_iff)
  then obtain a tx sg where "typed_tx_type tx = typed_tx_type (typed_of_alloy a)" and "e = sign_typed sa tx sg" by blast
  then show "\<exists>p. try_into_pooled e = Inr p \<and> into_scroll_envelope p = e"
    using typed_of_alloy_type [of a] by (simp only: poolable_iff sign_typed_type) simp
next
  fix a b :: "TxL1Message Sealed"
  show "request_of_envelope ra (L1Message a) = request_of_envelope ra (L1Message b) \<longleftrightarrow>
       (sealed_inner a)\<lparr>l1m_queue_index := 0\<rparr> = (sealed_inner b)\<lparr>l1m_queue_index := 0\<rparr>"
    using injD [OF input] by (cases "sealed_inner a"; cases "sealed_inner b"; cases "rq_default ra")
      (auto simp: request_of_l1_message_def)
next
  show "build_typed_tx ra rq = Inr t \<longleftrightarrow>
        \<not> is_blob_request ra rq \<and> (\<exists>a. rq_build_consensus_tx ra rq = Inr (TypedAlloy a) \<and> t = typed_of_alloy a)" for t
    by (rule build_typed_tx_iff)
  show "build_unsigned ra rq = Inr t \<longleftrightarrow> rq_missing_keys ra rq = Inr () \<and> build_typed_tx ra rq = Inr t" for t
    by (rule build_unsigned_iff)
qed (simp_all add: build_unsigned_def prep_for_submission_def convert_sim_tx_def try_build_and_sign_def build_typed_tx_def)

text \<open>A request interface that builds a legacy transaction when a nonce and a gas limit are given;
  a request asks for blobs through its other fields.\<close>

definition sample_request :: "(bytes, bool) TransactionRequest" where
  "sample_request = \<lparr>tq_from = None, tq_to = None, tq_gas = None, tq_value = None, tq_nonce = None,
     tq_max_fee_per_gas = None, tq_max_priority_fee_per_gas = None, tq_access_list = None,
     tq_transaction_type = None, tq_input = [], tq_other = False\<rparr>"

definition sample_request_api :: "(bytes, bool, unit) request_api" where
  "sample_request_api = \<lparr>
     rq_default = sample_request, rq_has_eip4844_fields = tq_other,
     rq_build_consensus_tx = (\<lambda>rq. case (tq_nonce rq, tq_gas rq) of
        (Some nonce, Some gas) \<Rightarrow> Inr (TypedAlloy (ALegacy \<lparr>lg_chain_id = None, lg_nonce = nonce, lg_gas_price = 1,
           lg_gas_limit = gas, lg_to = (case tq_to rq of Some k \<Rightarrow> k | None \<Rightarrow> Create), lg_value = 0, lg_input = tq_input rq\<rparr>))
      | _ \<Rightarrow> Inl rq),
     rq_missing_keys = (\<lambda>rq. if tq_nonce rq = None then Inl (EthLegacy, [''nonce'']) else Inr ()),
     rq_preferred_type = (\<lambda>_. EthLegacy), rq_buildable_type = (\<lambda>_. Some EthLegacy),
     rq_complete_type = (\<lambda>_ _. Inr ()), rq_prep_for_submission = (\<lambda>rq. rq\<lparr>tq_transaction_type := Some 0\<rparr>),
     rq_tx_type_try_from = (\<lambda>_. Some EthLegacy), rq_from_blob = (\<lambda>_. sample_request),
     rq_from_alloy = (\<lambda>_. sample_request), rq_input_from_bytes = id\<rparr>"

definition sample_sign_api :: sign_api where
  "sample_sign_api = \<lparr>sg_rlp = sample_rlp, sg_codec = sample_alloy_codec, sg_keccak256 = sample_keccak\<rparr>"

theorem requests_build_pool_transactions_witness:
  "(\<exists>e p. convert_sim_tx sample_request_api sample_sign_api (request_gas_limit 21000 (request_nonce 3 sample_request)) = Inr e \<and>
     try_into_pooled e = Inr p) \<and>
   build_unsigned sample_request_api (prep_for_submission sample_request_api (request_transaction_type 3 sample_request)) =
     Inl (request_transaction_type 3 sample_request, CustomBuilderError BLOB_REQUEST_UNSUPPORTED)"
proof -
  note built = requests_build_pool_transactions [of "\<lambda>tx. Inr (\<lparr>sig_r = 1, sig_s = 2, sig_y_parity = True\<rparr>, tx) :: unit + _"
      sample_request_api]
  let ?rq = "request_gas_limit 21000 (request_nonce 3 sample_request)"
  have inp: "inj (rq_input_from_bytes sample_request_api)" by (simp add: sample_request_api_def)
  obtain e where e: "convert_sim_tx sample_request_api sample_sign_api ?rq = Inr e"
    by (simp add: convert_sim_tx_def build_typed_tx_def is_blob_request_def sample_request_api_def sample_request_def
        request_gas_limit_def request_nonce_def)
  have blob: "is_blob_request sample_request_api (request_transaction_type 3 sample_request)"
    by (simp add: is_blob_request_def request_transaction_type_def EIP4844_TX_TYPE_ID_def)
  from built [OF _ inp, of ?rq sample_sign_api] e obtain p where "try_into_pooled e = Inr p" by fastforce
  moreover from built [OF _ inp, of "request_transaction_type 3 sample_request" sample_sign_api] blob
  have "build_unsigned sample_request_api (prep_for_submission sample_request_api (request_transaction_type 3 sample_request)) =
     Inl (request_transaction_type 3 sample_request, CustomBuilderError BLOB_REQUEST_UNSUPPORTED)" by simp
  ultimately show ?thesis using e by blast
qed

text \<open>The price of a transaction over RPC: an L1 message shows zero, a pending transaction its
  maximum, a transaction of a block the base fee of the block plus its tip, so a price between the
  base fee and its maximum when it can pay the base fee at all. Whatever a reader of the flattened
  JSON sees in the optional price, it reads back the transaction with all its fields and its signer;
  the price is the one that was shown, except that a transaction with a gas price of its own always
  reads back as that.\<close>

theorem rpc_transaction_price:
  assumes tip: "tip_law api tip" and t: "t = rpc_from_transaction api tip tx signer info"
    and json: "json_reads api (rpc_serialize api t) value"
  shows "(\<exists>price. rt_effective_gas_price t = Some price \<and>
       (if env_is_l1_message tx then price = 0
        else case ti_base_fee (sti_inner info) of
            None \<Rightarrow> price = env_max_fee_per_gas api tx
          | Some base_fee \<Rightarrow> if env_max_fee_per_gas api tx < ucast base_fee then price = ucast base_fee
              else ucast base_fee \<le> price \<and> price \<le> env_max_fee_per_gas api tx)) \<and>
    rpc_deserialize api value = Inr (t\<lparr>rt_effective_gas_price :=
       (if env_gas_price api tx = None then rt_effective_gas_price t else env_gas_price api tx)\<rparr>)"
proof
  let ?m = "env_max_fee_per_gas api tx"
  have pays: "ucast base \<le> p + ucast base \<and> p + ucast base \<le> ?m" if "tip tx base = Some p" for base p
    using max_fee_tip [OF tip that] by simp
  have none: "tip tx base = None" if "?m < ucast base" for base
    using tip that by (simp add: tip_law_def)
  have some: "\<exists>p. tip tx base = Some p" if "\<not> ?m < ucast base" for base
    using tip that by (auto simp: tip_law_def split: option.splits)
  show "\<exists>price. rt_effective_gas_price t = Some price \<and>
       (if env_is_l1_message tx then price = 0
        else case ti_base_fee (sti_inner info) of
            None \<Rightarrow> price = ?m
          | Some base_fee \<Rightarrow> if ?m < ucast base_fee then price = ucast base_fee
              else ucast base_fee \<le> price \<and> price \<le> ?m)"
  proof (cases "ti_base_fee (sti_inner info)")
    case (Some base_fee)
    then show ?thesis
      using pays [of base_fee] none [of base_fee] some [of base_fee]
      by (cases "?m < ucast base_fee") (auto simp: t rpc_from_transaction_def Let_def)
  qed (simp add: t rpc_from_transaction_def Let_def)
  show "rpc_deserialize api value = Inr (t\<lparr>rt_effective_gas_price :=
       (if env_gas_price api tx = None then rt_effective_gas_price t else env_gas_price api tx)\<rparr>)"
    using deserialize_reads [OF json] by (simp add: t rpc_from_transaction_def Let_def)
qed

text \<open>C36. A receipt over RPC is the receipt of the node: its type, status, cumulative gas, logs in
  order and bloom are read back from it by the conversion to the consensus form, its L1 fee is shown
  up to the largest value the field has, and a list of receipts is converted one by one. So two
  receipts whose fees fit the field and that look the same over RPC are the same.\<close>

theorem rpc_receipt_faithful:
  assumes laws: "receipt_builder_laws rba logs_bloom" and out: "out = scroll_receipt_build rba input"
    and rc: "rc = ri_receipt input"
  shows "envelope_tx_type (envelope_from_rpc (rba_log_inner rba) out) = receipt_tx_type rc \<and>
    envelope_as_receipt (envelope_from_rpc (rba_log_inner rba) out) = Some (as_receipt rc) \<and>
    envelope_logs_bloom (envelope_from_rpc (rba_log_inner rba) out) = logs_bloom (rc_logs (as_receipt rc)) \<and>
    map_option unat (rtr_l1_fee out) = Some (min (unat (receipt_l1_fee rc)) (2 ^ 128 - 1)) \<and>
    (\<forall>input'. rtr_inner (scroll_receipt_build rba input') = rtr_inner out \<and>
       rtr_l1_fee (scroll_receipt_build rba input') = rtr_l1_fee out \<and>
       unat (receipt_l1_fee rc) < 2 ^ 128 - 1 \<longrightarrow> ri_receipt input' = rc) \<and>
    (\<forall>inputs i. i < length inputs \<longrightarrow>
       length (convert_receipts rba inputs) = length inputs \<and>
       convert_receipts rba inputs ! i = scroll_receipt_build rba (inputs ! i))"
proof -
  let ?env = "\<lambda>input. envelope_from_rpc (rba_log_inner rba) (scroll_receipt_build rba input)"
  have env: "envelope_tx_type (?env input) = receipt_tx_type (ri_receipt input)"
    "envelope_as_receipt (?env input) = Some (as_receipt (ri_receipt input))"
    "envelope_logs_bloom (?env input) = logs_bloom (rc_logs (as_receipt (ri_receipt input)))" for input
    using laws by (cases "ri_receipt input";
        simp add: envelope_from_rpc_def scroll_receipt_build_def receipt_builder_laws_def rpc_envelope_of_def
          consensus_receipt_def map_logs_def envelope_as_receipt_def envelope_logs_bloom_def Let_def)+
  have sat: "unat (saturating_to_u128 x) = min (unat x) (2 ^ 128 - 1)" for x
    by (auto simp: saturating_to_u128_def unsigned_ucast_eq take_bit_nat_eq_self unat_minus_one_word min_def)
  have fee: "map_option unat (rtr_l1_fee (scroll_receipt_build rba input)) =
      Some (min (unat (receipt_l1_fee (ri_receipt input))) (2 ^ 128 - 1))" for input
    by (simp add: scroll_receipt_build_def sat)
  have "ri_receipt input' = rc" if same: "rtr_inner (scroll_receipt_build rba input') = rtr_inner out"
      "rtr_l1_fee (scroll_receipt_build rba input') = rtr_l1_fee out" and small: "unat (receipt_l1_fee rc) < 2 ^ 128 - 1" for input'
  proof -
    have "?env input' = ?env input" using same by (simp add: envelope_from_rpc_def out)
    then have "receipt_tx_type (ri_receipt input') = receipt_tx_type rc" "as_receipt (ri_receipt input') = as_receipt rc"
      using env [of input] env [of input'] by (simp_all add: rc)
    moreover have "receipt_l1_fee (ri_receipt input') = receipt_l1_fee rc"
    proof -
      have "min (unat (receipt_l1_fee (ri_receipt input'))) (2 ^ 128 - 1) = min (unat (receipt_l1_fee rc)) (2 ^ 128 - 1)"
        using fee [of input] fee [of input'] same(2) by (simp only: out rc option.inject)
      then show ?thesis using small by (simp add: word_unat_eq_iff min_def split: if_splits)
    qed
    ultimately show ?thesis
      by (cases "ri_receipt input'"; cases rc) simp_all
  qed
  note unique = this
  show ?thesis
  proof (intro conjI allI impI)
    fix input'
    assume "rtr_inner (scroll_receipt_build rba input') = rtr_inner out \<and>
       rtr_l1_fee (scroll_receipt_build rba input') = rtr_l1_fee out \<and> unat (receipt_l1_fee rc) < 2 ^ 128 - 1"
    then show "ri_receipt input' = rc" using unique by blast
  next
    show "map_option unat (rtr_l1_fee out) = Some (min (unat (receipt_l1_fee rc)) (2 ^ 128 - 1))"
      unfolding out rc by (rule fee)
  qed (simp_all add: out rc env convert_receipts_def)
qed

text \<open>Receipts of transactions whose RPC logs are the logs with their index.\<close>

definition sample_receipt_builder :: "(Log \<times> nat, unit, unit) receipt_builder_api" where
  "sample_receipt_builder = \<lparr>
     rba_build_receipt = (\<lambda>input build. \<lparr>trc_inner = build (ri_receipt input) (ri_next_log_index input) (), trc_other = ()\<rparr>),
     rba_collect_for_receipt = (\<lambda>n _ logs. zip logs [n..<n + length logs]), rba_log_inner = fst,
     rba_logs_bloom = (\<lambda>logs. of_nat (length logs))\<rparr>"

lemma sample_receipt_builder_laws: "receipt_builder_laws sample_receipt_builder (\<lambda>logs. of_nat (length logs))"
  by (simp add: receipt_builder_laws_def sample_receipt_builder_def)

theorem rpc_receipt_faithful_witness:
  "map_option unat (rtr_l1_fee (scroll_receipt_build sample_receipt_builder
      \<lparr>ri_receipt = REip1559 \<lparr>str_inner = sample_receipt, str_l1_fee = 2 ^ 130\<rparr>, ri_next_log_index = 4, ri_meta = ()\<rparr>)) =
    Some (2 ^ 128 - 1)"
  using rpc_receipt_faithful [OF sample_receipt_builder_laws refl refl,
      of "\<lparr>ri_receipt = REip1559 \<lparr>str_inner = sample_receipt, str_l1_fee = 2 ^ 130\<rparr>, ri_next_log_index = 4, ri_meta = ()\<rparr>",
      THEN conjunct2, THEN conjunct2, THEN conjunct2, THEN conjunct1]
  by simp

definition sample_tip :: tip_api where
  "sample_tip tx base_fee =
     (if env_max_fee_per_gas sample_alloy_tx_api tx < ucast base_fee then None
      else case env_max_priority_fee_per_gas sample_alloy_tx_api tx of
          None \<Rightarrow> Some (env_max_fee_per_gas sample_alloy_tx_api tx - ucast base_fee)
        | Some priority \<Rightarrow> Some (min priority (env_max_fee_per_gas sample_alloy_tx_api tx - ucast base_fee)))"

lemma sample_tip_law: "tip_law sample_alloy_tx_api sample_tip"
  by (simp add: tip_law_def sample_tip_def)

theorem rpc_transaction_price_witness:
  "let t = rpc_from_transaction sample_alloy_tx_api sample_tip (L1Message sample_l1_message) 8
       \<lparr>sti_inner = \<lparr>ti_hash = None, ti_index = Some 0, ti_block_hash = Some 5, ti_block_number = Some 9, ti_base_fee = Some 7\<rparr>,
        sti_additional_info = \<lparr>ai_l1_fee = 0\<rparr>\<rparr> in
   rpc_deserialize sample_alloy_tx_api (rpc_serialize sample_alloy_tx_api t) = Inr t \<and> rt_effective_gas_price t = Some 0"
  using rpc_transaction_price [OF sample_tip_law refl, of "L1Message sample_l1_message" 8
      "\<lparr>sti_inner = \<lparr>ti_hash = None, ti_index = Some 0, ti_block_hash = Some 5, ti_block_number = Some 9, ti_base_fee = Some 7\<rparr>,
        sti_additional_info = \<lparr>ai_l1_fee = 0\<rparr>\<rparr>"]
  by (fastforce simp: json_reads_def env_is_l1_message_def env_method_defs l1_method_defs Let_def)

end
