(* ===== verification/Txpool_Maintenance.thy ===== *)
theory Txpool_Maintenance
  imports Base_Fee
begin

text \<open>
  Pool maintenance (\<open>crates/dogeos-reth-txpool/src/maintenance.rs\<close>): the view of the pool that
  replaces reth's stateless base-fee prediction by the DogeOS rule before an update is applied.

  The wrapped pool is the parameter \<open>pool_api\<close>; \<open>pool_laws\<close> is what its documentation promises of
  the block information after an update. The provider is \<open>maintenance_client\<close>, given anew to every
  notification. The methods forwarded by \<open>delegate_pool!\<close> change nothing of the fee.
\<close>

section \<open>The fee of an update\<close>

record BlockInfo =
  bi_block_gas_limit :: u64
  bi_last_seen_block_hash :: b256
  bi_last_seen_block_number :: u64
  bi_pending_basefee :: u64
  bi_pending_blob_fee :: "u128 option"

record 'c CanonicalStateUpdate =
  cu_new_tip :: b256
  cu_pending_block_base_fee :: u64
  cu_changes :: 'c

record ('p, 'c) pool_api =
  pl_block_info :: "'p \<Rightarrow> BlockInfo"
  pl_set_block_info :: "BlockInfo \<Rightarrow> 'p \<Rightarrow> 'p"
  pl_on_canonical_state_change :: "'c CanonicalStateUpdate \<Rightarrow> 'p \<Rightarrow> 'p"

definition pool_laws :: "('p, 'c) pool_api \<Rightarrow> bool" where
  "pool_laws pl \<longleftrightarrow>
     (\<forall>info p. pl_block_info pl (pl_set_block_info pl info p) = info) \<and>
     (\<forall>update p. bi_last_seen_block_hash (pl_block_info pl (pl_on_canonical_state_change pl update p))
          = cu_new_tip update \<and>
        bi_pending_basefee (pl_block_info pl (pl_on_canonical_state_change pl update p))
          = cu_pending_block_base_fee update)"

datatype 'e provider_error = HeaderNotFound b256 | ProviderFailure 'e

record ('db, 'e) maintenance_client =
  mc_header :: "b256 \<Rightarrow> 'e + header option"
  mc_state_by_block_hash :: "b256 \<Rightarrow> 'e + 'db"
  mc_ops :: "('db, 'e) db_ops"
  mc_fork_api :: fork_api
  mc_calc :: base_fee_calc
  mc_spec :: spec_view

text \<open>\<open>None\<close> is the panic of the base-fee rule on a header without a base fee.\<close>

definition pool_next_base_fee ::
  "('db, 'e) maintenance_client \<Rightarrow> b256 \<Rightarrow> ('e provider_error + u64) option" where
  "pool_next_base_fee mc hash =
     (case rbind (map_err ProviderFailure (mc_header mc hash)) (ok_or (HeaderNotFound hash)) of
        Inl e \<Rightarrow> Some (Inl e)
      | Inr h \<Rightarrow>
          if h_base_fee_per_gas h = None then Some (Inr 0)
          else
            (case mc_state_by_block_hash mc hash of
               Inl e \<Rightarrow> Some (Inl (ProviderFailure e))
             | Inr state \<Rightarrow>
                 map_option (map_err ProviderFailure)
                   (predict_next_block_base_fee (mc_fork_api mc) (mc_calc mc) (mc_ops mc) (mc_spec mc) state h)))"

definition kept_base_fee :: "BlockInfo \<Rightarrow> u64" where
  "kept_base_fee previous =
     (if bi_last_seen_block_hash previous = 0 then MAX_L2_BASE_FEE else bi_pending_basefee previous)"

definition pending_base_fee ::
  "('db, 'e) maintenance_client \<Rightarrow> BlockInfo \<Rightarrow> b256 \<Rightarrow> u64 option" where
  "pending_base_fee mc previous hash =
     map_option (\<lambda>r. case r of Inr fee \<Rightarrow> fee | Inl _ \<Rightarrow> kept_base_fee previous) (pool_next_base_fee mc hash)"

definition set_block_info ::
  "('p, 'c) pool_api \<Rightarrow> ('db, 'e) maintenance_client \<Rightarrow> BlockInfo \<Rightarrow> 'p \<Rightarrow> 'p option" where
  "set_block_info pl mc info p =
     map_option (\<lambda>fee. pl_set_block_info pl (info\<lparr>bi_pending_basefee := fee\<rparr>) p)
       (pending_base_fee mc (pl_block_info pl p) (bi_last_seen_block_hash info))"

definition on_canonical_state_change ::
  "('p, 'c) pool_api \<Rightarrow> ('db, 'e) maintenance_client \<Rightarrow> 'c CanonicalStateUpdate \<Rightarrow> 'p \<Rightarrow> 'p option" where
  "on_canonical_state_change pl mc update p =
     map_option (\<lambda>fee. pl_on_canonical_state_change pl (update\<lparr>cu_pending_block_base_fee := fee\<rparr>) p)
       (pending_base_fee mc (pl_block_info pl p) (cu_new_tip update))"

section \<open>Sequences of updates\<close>

datatype 'c maintenance_op = SetBlockInfo BlockInfo | CanonicalChange "'c CanonicalStateUpdate"

fun op_head :: "'c maintenance_op \<Rightarrow> b256" where
  "op_head (SetBlockInfo info) = bi_last_seen_block_hash info"
| "op_head (CanonicalChange update) = cu_new_tip update"

fun maintain ::
  "('p, 'c) pool_api \<Rightarrow> ('db, 'e) maintenance_client \<times> 'c maintenance_op \<Rightarrow> 'p \<Rightarrow> 'p option" where
  "maintain pl (mc, SetBlockInfo info) p = set_block_info pl mc info p"
| "maintain pl (mc, CanonicalChange update) p = on_canonical_state_change pl mc update p"

fun maintain_all ::
  "('p, 'c) pool_api \<Rightarrow> (('db, 'e) maintenance_client \<times> 'c maintenance_op) list \<Rightarrow> 'p \<Rightarrow> 'p option" where
  "maintain_all pl [] p = Some p"
| "maintain_all pl (op # ops) p = Option.bind (maintain pl op p) (maintain_all pl ops)"

lemma pool_next_base_fee_answers:
  obtains e where "pool_next_base_fee mc hash = Some (Inl e)"
  | fee where "pool_next_base_fee mc hash = Some (Inr fee)" "fee \<le> MAX_L2_BASE_FEE"
proof (cases "rbind (map_err ProviderFailure (mc_header mc hash)) (ok_or (HeaderNotFound hash))")
  case (Inl e)
  then show ?thesis using that(1) by (simp add: pool_next_base_fee_def)
next
  case header: (Inr h)
  show ?thesis
  proof (cases "h_base_fee_per_gas h")
    case None
    then show ?thesis using that(2) [of 0] header by (simp add: pool_next_base_fee_def)
  next
    case (Some fee)
    show ?thesis
    proof (cases "mc_state_by_block_hash mc hash")
      case (Inl e)
      then show ?thesis using that(1) header Some by (simp add: pool_next_base_fee_def)
    next
      case (Inr state)
      have r: "pool_next_base_fee mc hash = map_option (map_err ProviderFailure)
          (predict_next_block_base_fee (mc_fork_api mc) (mc_calc mc) (mc_ops mc) (mc_spec mc) state h)"
        using header Some Inr by (simp add: pool_next_base_fee_def)
      show ?thesis
        by (rule prediction.predict_cases [of h "mc_fork_api mc" "mc_calc mc" "mc_ops mc" "mc_spec mc" state])
          (use Some r that in simp_all)
    qed
  qed
qed

text \<open>One update: the pool sees the new head with the fee of \<open>pending_base_fee\<close>.\<close>

lemma maintain_info:
  assumes "pool_laws pl"
  obtains p' fee where "maintain pl (mc, op) p = Some p'"
    "pending_base_fee mc (pl_block_info pl p) (op_head op) = Some fee"
    "bi_last_seen_block_hash (pl_block_info pl p') = op_head op" "bi_pending_basefee (pl_block_info pl p') = fee"
proof -
  obtain fee where "pending_base_fee mc (pl_block_info pl p) (op_head op) = Some fee"
    by (cases rule: pool_next_base_fee_answers [of mc "op_head op"]) (auto simp: pending_base_fee_def)
  then show ?thesis using that assms
    by (cases op) (auto simp: pool_laws_def set_block_info_def on_canonical_state_change_def)
qed

definition fee_capped :: "BlockInfo \<Rightarrow> bool" where
  "fee_capped info \<longleftrightarrow> bi_last_seen_block_hash info = 0 \<or> bi_pending_basefee info \<le> MAX_L2_BASE_FEE"

lemma pending_base_fee_capped:
  "fee_capped info \<Longrightarrow> pending_base_fee mc info hash = Some fee \<Longrightarrow> fee \<le> MAX_L2_BASE_FEE"
  by (cases rule: pool_next_base_fee_answers [of mc hash])
    (auto simp: pending_base_fee_def kept_base_fee_def fee_capped_def split: if_splits)

lemma maintain_all_append:
  "maintain_all pl (xs @ ys) p = Option.bind (maintain_all pl xs p) (maintain_all pl ys)"
  by (induction xs arbitrary: p) (auto split: bind_splits)

lemma maintain_all_capped:
  assumes "pool_laws pl" and "fee_capped (pl_block_info pl p)"
  shows "\<exists>p'. maintain_all pl ops p = Some p' \<and> fee_capped (pl_block_info pl p') \<and>
    (ops \<noteq> [] \<longrightarrow> bi_pending_basefee (pl_block_info pl p') \<le> MAX_L2_BASE_FEE)"
  using assms(2)
proof (induction ops arbitrary: p)
  case (Cons entry ops)
  obtain mc op where entry: "entry = (mc, op)" by (cases entry)
  obtain p1 fee where p1: "maintain pl (mc, op) p = Some p1"
    "pending_base_fee mc (pl_block_info pl p) (op_head op) = Some fee"
    "bi_pending_basefee (pl_block_info pl p1) = fee"
    using maintain_info [OF assms(1)] by metis
  then have capped: "bi_pending_basefee (pl_block_info pl p1) \<le> MAX_L2_BASE_FEE"
    using pending_base_fee_capped [OF Cons.prems] by simp
  with Cons.IH [of p1] p1(1) entry show ?case
    by (cases ops) (auto simp: fee_capped_def)
qed simp

lemma maintain_all_kept:
  assumes "pool_laws pl"
    and "\<forall>(mc, op) \<in> set ops. op_head op \<noteq> 0 \<and> (\<exists>e. pool_next_base_fee mc (op_head op) = Some (Inl e))"
    and "bi_last_seen_block_hash (pl_block_info pl p) \<noteq> 0"
    and "maintain_all pl ops p = Some p'"
  shows "bi_pending_basefee (pl_block_info pl p') = bi_pending_basefee (pl_block_info pl p)"
  using assms(2-)
proof (induction ops arbitrary: p)
  case (Cons entry ops)
  obtain mc op where entry: "entry = (mc, op)" by (cases entry)
  obtain p1 fee where p1: "maintain pl (mc, op) p = Some p1"
    "pending_base_fee mc (pl_block_info pl p) (op_head op) = Some fee"
    "bi_last_seen_block_hash (pl_block_info pl p1) = op_head op"
    "bi_pending_basefee (pl_block_info pl p1) = fee"
    using maintain_info [OF assms(1)] by metis
  have "fee = bi_pending_basefee (pl_block_info pl p)"
    using p1(2) Cons.prems(1,2) entry by (auto simp: pending_base_fee_def kept_base_fee_def)
  moreover have "bi_pending_basefee (pl_block_info pl p') = bi_pending_basefee (pl_block_info pl p1)"
    using Cons.IH [of p1] Cons.prems p1(1,3) entry by auto
  ultimately show ?case using p1(4) by simp
qed simp

section \<open>Property\<close>

text \<open>C27. The fee the pool enforces, over every sequence of head updates, is never above the protocol
  cap once an update has been applied, whether or not the state behind the heads can be read, and no
  update is lost or panics. Updates whose head cannot be read keep the fee of a pool that has seen a
  head; an update whose head can be read sets exactly the DogeOS prediction.\<close>

theorem maintained_pool_fee:
  fixes ops :: "(('db, 'e) maintenance_client \<times> 'c maintenance_op) list"
  assumes laws: "pool_laws pl" and start: "fee_capped (pl_block_info pl p)"
  shows "\<exists>p'. maintain_all pl ops p = Some p' \<and>
    (ops \<noteq> [] \<longrightarrow> bi_pending_basefee (pl_block_info pl p') \<le> MAX_L2_BASE_FEE \<and>
       bi_last_seen_block_hash (pl_block_info pl p') = op_head (snd (last ops)) \<and>
       (\<forall>fee. pool_next_base_fee (fst (last ops)) (op_head (snd (last ops))) = Some (Inr fee) \<longrightarrow>
          bi_pending_basefee (pl_block_info pl p') = fee)) \<and>
    (bi_last_seen_block_hash (pl_block_info pl p) \<noteq> 0 \<and>
     (\<forall>(mc, op) \<in> set ops. op_head op \<noteq> 0 \<and> (\<exists>e. pool_next_base_fee mc (op_head op) = Some (Inl e))) \<longrightarrow>
       bi_pending_basefee (pl_block_info pl p') = bi_pending_basefee (pl_block_info pl p))"
proof -
  from maintain_all_capped [OF laws start, of ops] obtain p' where
    p': "maintain_all pl ops p = Some p'" "ops \<noteq> [] \<longrightarrow> bi_pending_basefee (pl_block_info pl p') \<le> MAX_L2_BASE_FEE"
    by blast
  have "bi_last_seen_block_hash (pl_block_info pl p') = op_head (snd (last ops)) \<and>
      (\<forall>fee. pool_next_base_fee (fst (last ops)) (op_head (snd (last ops))) = Some (Inr fee) \<longrightarrow>
          bi_pending_basefee (pl_block_info pl p') = fee)" if "ops \<noteq> []"
  proof -
    obtain mc op where l: "last ops = (mc, op)" by (cases "last ops")
    have split: "ops = butlast ops @ [(mc, op)]" using append_butlast_last_id [OF that] l by simp
    have "maintain_all pl (butlast ops @ [(mc, op)]) p = Some p'" using p'(1) split by simp
    then obtain q where q: "maintain pl (mc, op) q = Some p'"
      by (auto simp: maintain_all_append split: bind_splits)
    obtain q' fee where "maintain pl (mc, op) q = Some q'"
      "pending_base_fee mc (pl_block_info pl q) (op_head op) = Some fee"
      "bi_last_seen_block_hash (pl_block_info pl q') = op_head op" "bi_pending_basefee (pl_block_info pl q') = fee"
      using maintain_info [OF laws] by metis
    then show ?thesis using q l by (auto simp: pending_base_fee_def)
  qed
  then show ?thesis using p' maintain_all_kept [OF laws, of ops p p'] by blast
qed

definition sample_pool :: "(BlockInfo, unit) pool_api" where
  "sample_pool = \<lparr>
     pl_block_info = id, pl_set_block_info = (\<lambda>info _. info),
     pl_on_canonical_state_change = (\<lambda>update p.
       p\<lparr>bi_last_seen_block_hash := cu_new_tip update, bi_pending_basefee := cu_pending_block_base_fee update\<rparr>)\<rparr>"

definition sample_maintenance_client :: "(map_db, string) maintenance_client" where
  "sample_maintenance_client = \<lparr>
     mc_header = (\<lambda>h. if h = 7 then Inr (Some sample_header) else Inr None),
     mc_state_by_block_hash = (\<lambda>_. Inr empty_map_db), mc_ops = map_db_ops, mc_fork_api = sample_fork_api,
     mc_calc = (\<lambda>_ _ fee _. fee), mc_spec = sample_view\<rparr>"

theorem maintained_pool_fee_witness:
  "\<exists>p'. maintain_all sample_pool
      [(sample_maintenance_client, CanonicalChange \<lparr>cu_new_tip = 9, cu_pending_block_base_fee = 1, cu_changes = ()\<rparr>)]
      \<lparr>bi_block_gas_limit = 30000000, bi_last_seen_block_hash = 5, bi_last_seen_block_number = 4,
       bi_pending_basefee = 1000, bi_pending_blob_fee = None\<rparr> = Some p' \<and>
    bi_pending_basefee p' = 1000"
proof -
  have laws: "pool_laws sample_pool" by (simp add: pool_laws_def sample_pool_def)
  have "pool_next_base_fee sample_maintenance_client 9 = Some (Inl (HeaderNotFound 9))"
    by (simp add: pool_next_base_fee_def sample_maintenance_client_def)
  then show ?thesis
    using maintained_pool_fee [OF laws, of "\<lparr>bi_block_gas_limit = 30000000, bi_last_seen_block_hash = 5,
        bi_last_seen_block_number = 4, bi_pending_basefee = 1000, bi_pending_blob_fee = None\<rparr>"
      "[(sample_maintenance_client,
        CanonicalChange \<lparr>cu_new_tip = 9, cu_pending_block_base_fee = 1, cu_changes = ()\<rparr>)]"]
    by (auto simp: fee_capped_def sample_pool_def MAX_L2_BASE_FEE_def)
qed

end
