(* ===== verification/Rpc_Fees.thy ===== *)
theory Rpc_Fees
  imports Rpc_Types Txpool_Maintenance Evm_Config "HOL-Library.Multiset"
begin

text \<open>
  Fee suggestions over RPC: \<open>crates/dogeos-reth-rpc/src/priority_fee.rs\<close> (\<open>eth_maxPriorityFeePerGas\<close>
  and \<open>eth_feeHistory\<close>).

  Parameters (\<open>fee_env\<close>): the provider and block cache of reth, its fee history, the effective tip
  of the \<open>Transaction\<close> trait. Percentiles and gas-used ratios are floating-point numbers of which
  only the count matters here.
\<close>

definition DEFAULT_MIN_SUGGESTED_PRIORITY_FEE :: u64 where
  "DEFAULT_MIN_SUGGESTED_PRIORITY_FEE = 100"

definition is_at_capacity :: "u64 \<Rightarrow> u64 \<Rightarrow> u64 \<Rightarrow> u64 \<Rightarrow> u64 \<Rightarrow> u64 \<Rightarrow> bool" where
  "is_at_capacity gas_used gas_limit max_tx_gas_used total_payload_size max_tx_payload_size payload_size_limit \<longleftrightarrow>
     gas_limit < saturating_add gas_used max_tx_gas_used \<or>
     payload_size_limit < saturating_add total_payload_size max_tx_payload_size"

text \<open>The sum of the two middle tips wraps at 128 bits in a release build.\<close>

definition capacity_tip :: "u128 list \<Rightarrow> u256 \<Rightarrow> u256 option \<Rightarrow> u256" where
  "capacity_tip tips minimum maximum =
     (if tips = [] then minimum
      else
        let tips = sort tips;
            median = (if length tips mod 2 = 1 then tips ! (length tips div 2)
                      else (tips ! (length tips div 2 - 1) + tips ! (length tips div 2)) div 2);
            median = ucast median :: u256;
            suggestion = max (median + median div 10) minimum in
        case maximum of Some maximum \<Rightarrow> min suggestion maximum | None \<Rightarrow> suggestion)"

datatype BlockNumberOrTag = Latest | Finalized | Safe | Earliest | Pending | Number u64

record ('f, 'o) FeeHistory =
  fh_base_fee_per_gas :: "u128 list"
  fh_gas_used_ratio :: "'f list"
  fh_reward :: "u128 list list option"
  fh_other :: 'o

datatype ('e, 'u) fee_error =
    FeeProviderError 'e
  | FeeHeaderNotFound BlockNumberOrTag
  | UpstreamError 'u
  | InternalError 'e

record ('db, 'e, 'u, 'f, 'o) fee_env =
  fe_header_by_number_or_tag :: "BlockNumberOrTag \<Rightarrow> 'e + SealedHeader option"
  fe_block_and_receipts :: "b256 \<Rightarrow> 'e + (Block \<times> ScrollReceipt list) option"
  fe_state_by_block_id :: "b256 \<Rightarrow> 'e + 'db"
  fe_upstream_fee_history :: "u64 \<Rightarrow> BlockNumberOrTag \<Rightarrow> 'f list option \<Rightarrow> 'u + ('f, 'o) FeeHistory"
  fe_ops :: "('db, 'e) db_ops"
  fe_fork_api :: fork_api
  fe_calc :: base_fee_calc
  fe_spec :: spec_view
  fe_alloy :: alloy_tx_api
  fe_tip :: tip_api
  fe_rlp :: rlp_api
  fe_codec :: alloy_codec

record DogeosPriorityFeeApi =
  pf_max_price :: "u256 option"
  pf_min_suggested_priority_fee :: u256
  pf_payload_size_limit :: u64

definition priority_fee_api_new :: "u256 option \<Rightarrow> u64 \<Rightarrow> u64 \<Rightarrow> DogeosPriorityFeeApi" where
  "priority_fee_api_new max_price min_suggested_priority_fee payload_size_limit = \<lparr>
     pf_max_price = max_price, pf_min_suggested_priority_fee = ucast min_suggested_priority_fee,
     pf_payload_size_limit = payload_size_limit\<rparr>"

text \<open>The largest gas of a transaction, from the running totals of the receipts.\<close>

fun max_gas_loop :: "ScrollReceipt list \<Rightarrow> u64 \<Rightarrow> u64 \<Rightarrow> u64" where
  "max_gas_loop [] max_tx_gas_used last_cumulative_gas = max_tx_gas_used"
| "max_gas_loop (receipt # receipts) max_tx_gas_used last_cumulative_gas =
     (let cumulative_gas = receipt_cumulative_gas_used receipt in
      max_gas_loop receipts (max max_tx_gas_used (saturating_sub cumulative_gas last_cumulative_gas)) cumulative_gas)"

definition payload_sizes :: "rlp_api \<Rightarrow> alloy_codec \<Rightarrow> ScrollTxEnvelope list \<Rightarrow> u64 \<times> u64" where
  "payload_sizes r ac transactions =
     fold (\<lambda>transaction (total, largest).
        let len = of_nat (env_eip2718_encoded_length r ac transaction) in
        (saturating_add total len, max largest len)) transactions (0, 0)"

definition block_tips :: "alloy_tx_api \<Rightarrow> tip_api \<Rightarrow> u64 option \<Rightarrow> ScrollTxEnvelope list \<Rightarrow> u128 list" where
  "block_tips api tip base_fee transactions =
     List.map_filter (\<lambda>transaction.
       case base_fee of
         Some base_fee \<Rightarrow> tip transaction base_fee
       | None \<Rightarrow> Some (env_priority_fee_or_price api transaction)) transactions"

definition priority_fee_for_block ::
  "('db, 'e, 'u, 'f, 'o) fee_env \<Rightarrow> DogeosPriorityFeeApi \<Rightarrow> BlockNumberOrTag \<Rightarrow> ('e, 'u) fee_error + u256 \<times> bool" where
  "priority_fee_for_block fe pf block =
     rbind (rbind (map_err FeeProviderError (fe_header_by_number_or_tag fe block)) (ok_or (FeeHeaderNotFound block))) (\<lambda>header.
     rbind (map_err FeeProviderError (fe_block_and_receipts fe (sh_hash header))) (\<lambda>found.
       case found of
         None \<Rightarrow> Inr (pf_min_suggested_priority_fee pf, False)
       | Some (block, receipts) \<Rightarrow>
           let max_tx_gas_used = max_gas_loop receipts 0 0;
               (total_payload_size, max_tx_payload_size) = payload_sizes (fe_rlp fe) (fe_codec fe) (b_transactions block);
               at_capacity = is_at_capacity (h_gas_used (sh_header header)) (h_gas_limit (sh_header header))
                 max_tx_gas_used total_payload_size max_tx_payload_size (pf_payload_size_limit pf) in
           if \<not> at_capacity then Inr (pf_min_suggested_priority_fee pf, False)
           else
             let tips = block_tips (fe_alloy fe) (fe_tip fe) (h_base_fee_per_gas (b_header block)) (b_transactions block) in
             Inr (capacity_tip tips (pf_min_suggested_priority_fee pf) (pf_max_price pf), True)))"

definition suggested_priority_fee ::
  "('db, 'e, 'u, 'f, 'o) fee_env \<Rightarrow> DogeosPriorityFeeApi \<Rightarrow> ('e, 'u) fee_error + u256" where
  "suggested_priority_fee fe pf = rbind (priority_fee_for_block fe pf Latest) (\<lambda>(tip, _). Inr tip)"

text \<open>\<open>U256::to::<u128>\<close> panics when the value does not fit.\<close>

definition to_u128 :: "u256 \<Rightarrow> u128 option" where
  "to_u128 x = (if unat x < 2 ^ 128 then Some (ucast x) else None)"

text \<open>\<open>None\<close> is a panic: of the base-fee rule on a header without a base fee, or of \<^const>\<open>to_u128\<close>.\<close>

definition fee_history ::
  "('db, 'e, 'u, 'f, 'o) fee_env \<Rightarrow> DogeosPriorityFeeApi \<Rightarrow> u64 \<Rightarrow> BlockNumberOrTag \<Rightarrow> 'f list option \<Rightarrow>
   (('e, 'u) fee_error + ('f, 'o) FeeHistory) option" where
  "fee_history fe pf block_count newest_block reward_percentiles =
     (case map_err UpstreamError (fe_upstream_fee_history fe block_count newest_block reward_percentiles) of
        Inl e \<Rightarrow> Some (Inl e)
      | Inr history \<Rightarrow>
          if block_count = 0 then Some (Inr history)
          else
            let newest_block = (if newest_block = Pending then Latest else newest_block) in
            (case rbind (rbind (map_err FeeProviderError (fe_header_by_number_or_tag fe newest_block)) (ok_or (FeeHeaderNotFound newest_block)))
                    (\<lambda>last_header. rbind (map_err FeeProviderError (fe_state_by_block_id fe (sh_hash last_header)))
                       (\<lambda>state. Inr (last_header, state))) of
               Inl e \<Rightarrow> Some (Inl e)
             | Inr (last_header, state) \<Rightarrow>
                 (case predict_next_block_base_fee (fe_fork_api fe) (fe_calc fe) (fe_ops fe) (fe_spec fe) state (sh_header last_header) of
                    None \<Rightarrow> None
                  | Some (Inl e) \<Rightarrow> Some (Inl (InternalError e))
                  | Some (Inr next_base_fee) \<Rightarrow>
                      let fees = fh_base_fee_per_gas history;
                          history = (if fees = [] then history
                                     else history\<lparr>fh_base_fee_per_gas := fees[length fees - 1 := ucast next_base_fee]\<rparr>) in
                      (case reward_percentiles of
                         None \<Rightarrow> Some (Inr history)
                       | Some percentiles \<Rightarrow>
                           (case priority_fee_for_block fe pf newest_block of
                              Inl e \<Rightarrow> Some (Inl e)
                            | Inr (suggestion, at_capacity) \<Rightarrow>
                                if at_capacity then Some (Inr history)
                                else map_option (\<lambda>reward. Inr (history\<lparr>fh_reward :=
                                    Some (replicate (length (fh_gas_used_ratio history)) (replicate (length percentiles) reward))\<rparr>))
                                  (to_u128 suggestion))))))"

section \<open>Reference definitions\<close>

text \<open>The median of a list of numbers; for an even number of them the mean of the two middle ones,
  rounded down.\<close>

definition median_of :: "nat list \<Rightarrow> nat" where
  "median_of xs = (sort xs ! ((length xs - 1) div 2) + sort xs ! (length xs div 2)) div 2"

definition suggestion_of :: "nat \<Rightarrow> nat \<Rightarrow> nat option \<Rightarrow> nat" where
  "suggestion_of median minimum maximum =
     (let s = max (median + median div 10) minimum in case maximum of None \<Rightarrow> s | Some m \<Rightarrow> min s m)"

section \<open>Lemmas\<close>

lemma sort_map_unat: "sort (map unat xs) = map unat (sort xs)" for xs :: "'a::len word list"
proof (rule properties_for_sort)
  have "sorted_wrt (\<lambda>x y. unat x \<le> unat y) (sort xs)"
    by (rule sorted_wrt_mono_rel [OF _ sorted_sort]) (simp add: word_le_nat_alt)
  then show "sorted (map unat (sort xs))" by (simp add: sorted_map)
qed simp

lemma sort_eq_of_mset: "mset xs = mset ys \<Longrightarrow> sort xs = sort ys" for xs ys :: "'a::linorder list"
  by (metis mset_sort properties_for_sort sorted_sort)

lemma unat_median:
  fixes tips :: "u128 list"
  assumes ne: "tips \<noteq> []" and small: "\<forall>t \<in> set tips. unat t < 2 ^ 127"
  shows "unat (if length tips mod 2 = 1 then sort tips ! (length tips div 2)
      else (sort tips ! (length tips div 2 - 1) + sort tips ! (length tips div 2)) div 2) = median_of (map unat tips)"
proof -
  let ?n = "length tips"
  have n: "0 < ?n" using ne by simp
  then have mid: "(?n - 1) div 2 < ?n" "?n div 2 < ?n" by linarith+
  have nth: "sort (map unat tips) ! i = unat (sort tips ! i)" and lt: "unat (sort tips ! i) < 2 ^ 127" if "i < ?n" for i
    using that small nth_mem [of i "sort tips"] by (simp_all add: sort_map_unat)
  show ?thesis
  proof (cases "?n mod 2 = 1")
    case True
    then have "(?n - 1) div 2 = ?n div 2" by presburger
    then show ?thesis using True mid nth by (simp add: median_of_def)
  next
    case False
    have i: "(?n - 1) div 2 = ?n div 2 - 1" using False n by presburger
    let ?a = "sort tips ! ((?n - 1) div 2)" and ?b = "sort tips ! (?n div 2)"
    have "unat (?a + ?b) = unat ?a + unat ?b"
      using lt [OF mid(1)] lt [OF mid(2)] by (intro unat_add_lem [THEN iffD1]) simp
    then have "unat ((?a + ?b) div 2) = (unat ?a + unat ?b) div 2" by (simp add: unat_div)
    then show ?thesis using False mid nth i by (simp add: median_of_def)
  qed
qed

lemma unat_raised:
  fixes m :: u128
  shows "unat (ucast m + ucast m div 10 :: u256) = unat m + unat m div 10"
proof -
  have m: "unat (ucast m :: u256) = unat m"
    using unsigned_less [of m, where ?'a = nat] by (simp add: unsigned_ucast_eq take_bit_nat_eq_self)
  have "unat (ucast m :: u256) + unat (ucast m div 10 :: u256) < 2 ^ 256"
    using unsigned_less [of m, where ?'a = nat] by (simp add: unat_div m)
  then have "unat (ucast m + ucast m div 10 :: u256) = unat (ucast m :: u256) + unat (ucast m div 10 :: u256)"
    by (intro unat_add_lem [THEN iffD1]) simp
  then show ?thesis by (simp add: unat_div m)
qed

lemma unat_max_word: "unat (max a b) = max (unat a) (unat b)" and unat_min_word: "unat (min a b) = min (unat a) (unat b)"
  for a b :: "'a::len word"
  by (simp_all add: max_def min_def word_le_nat_alt)

lemma unat_sort_suggestion:
  fixes tips :: "u128 list"
  assumes "tips \<noteq> []" and "\<forall>t \<in> set tips. unat t < 2 ^ 127"
  shows "unat (capacity_tip tips minimum maximum) =
    suggestion_of (median_of (map unat tips)) (unat minimum) (map_option unat maximum)"
proof -
  define median :: u128 where "median = (if length tips mod 2 = 1 then sort tips ! (length tips div 2)
      else (sort tips ! (length tips div 2 - 1) + sort tips ! (length tips div 2)) div 2)"
  have tip: "capacity_tip tips minimum maximum =
      (case maximum of Some m \<Rightarrow> min (max (ucast median + ucast median div 10) minimum) m
       | None \<Rightarrow> max (ucast median + ucast median div 10) minimum)"
    using assms(1) by (simp only: capacity_tip_def Let_def length_sort median_def if_False)
  have "unat median = median_of (map unat tips)" unfolding median_def by (rule unat_median [OF assms])
  then show ?thesis
    by (simp add: tip suggestion_of_def Let_def unat_max_word unat_min_word unat_raised split: option.split)
qed

lemma max_gas_loop_running:
  "map (\<lambda>rc. unat (receipt_cumulative_gas_used rc)) rs = running_totals (unat prev) gs \<Longrightarrow>
   unat (max_gas_loop rs m prev) = Max (insert (unat m) (unat ` set gs))"
proof (induction gs arbitrary: rs m prev)
  case (Cons g gs)
  then obtain rc rs' where rs: "rs = rc # rs'" and c: "unat (receipt_cumulative_gas_used rc) = unat prev + unat g"
    and tl: "map (\<lambda>rc. unat (receipt_cumulative_gas_used rc)) rs' = running_totals (unat prev + unat g) gs"
    by (auto simp: Cons_eq_map_conv)
  let ?c = "receipt_cumulative_gas_used rc"
  have "unat (max_gas_loop rs' (max m (saturating_sub ?c prev)) ?c) =
      Max (insert (unat (max m (saturating_sub ?c prev))) (unat ` set gs))"
    by (rule Cons.IH) (simp add: tl c)
  then show ?case
    by (simp add: rs Let_def unat_max_word unat_saturating_sub c) (cases "gs = []"; simp add: max.assoc)
qed simp

lemma payload_sizes_fold:
  fixes total largest :: u64
  assumes "unat total + sum_list (map len txs) < 2 ^ 64" and len: "len = env_eip2718_encoded_length r ac"
  shows "\<exists>total' largest'. fold (\<lambda>transaction (total :: u64, largest).
        let len = of_nat (env_eip2718_encoded_length r ac transaction) in
        (saturating_add total len, max largest len)) txs (total, largest) = (total', largest') \<and>
     unat total' = unat total + sum_list (map len txs) \<and> unat largest' = Max (insert (unat largest) (len ` set txs))"
  using assms(1)
proof (induction txs arbitrary: total largest)
  case (Cons t txs)
  let ?l = "of_nat (len t) :: u64"
  have l: "unat ?l = len t" using Cons.prems by (simp add: unat_of_nat)
  have t: "unat (saturating_add total ?l) = unat total + len t"
    using Cons.prems by (simp add: unat_saturating_add l min_def)
  from Cons.IH [of "saturating_add total ?l" "max largest ?l"] Cons.prems
  show ?case
    by (simp add: t l len [symmetric] unat_max_word Let_def add.assoc) (cases "txs = []"; simp add: max.assoc)
qed simp

lemma payload_sizes_exact:
  fixes total largest :: u64
  assumes "sum_list (map (env_eip2718_encoded_length r ac) txs) < 2 ^ 64"
    and "payload_sizes r ac txs = (total, largest)"
  shows "unat total = sum_list (map (env_eip2718_encoded_length r ac) txs)"
    and "unat largest = Max (insert 0 (env_eip2718_encoded_length r ac ` set txs))"
  using payload_sizes_fold [of 0 "env_eip2718_encoded_length r ac" txs r ac 0] assms
  by (auto simp: payload_sizes_def)

lemma suggested_within:
  assumes "capacity_tip tips minimum maximum = s" and "\<forall>m. maximum = Some m \<longrightarrow> minimum \<le> m"
  shows "minimum \<le> s" and "maximum = Some m \<Longrightarrow> tips \<noteq> [] \<Longrightarrow> s \<le> m"
  using assms by (auto simp: capacity_tip_def Let_def split: option.splits if_splits)

text \<open>The maintenance of the pool reads headers, states and rules where the fee history does.\<close>

definition same_chain ::
  "('db, 'e, 'u, 'f, 'o) fee_env \<Rightarrow> ('db, 'e) maintenance_client \<Rightarrow> bool" where
  "same_chain fe mc \<longleftrightarrow>
     mc_ops mc = fe_ops fe \<and> mc_fork_api mc = fe_fork_api fe \<and> mc_calc mc = fe_calc fe \<and> mc_spec mc = fe_spec fe \<and>
     (\<forall>hash. mc_state_by_block_hash mc hash = fe_state_by_block_id fe hash) \<and>
     (\<forall>tag header. fe_header_by_number_or_tag fe tag = Inr (Some header) \<longrightarrow>
        mc_header mc (sh_hash header) = Inr (Some (sh_header header)))"

lemma min_fee_fits: "to_u128 (pf_min_suggested_priority_fee (priority_fee_api_new mx minimum size_limit)) = Some (ucast minimum)"
proof -
  have "unat (ucast minimum :: u256) = unat minimum"
    using unsigned_less [of minimum, where ?'a = nat] by (simp add: unsigned_ucast_eq take_bit_nat_eq_self)
  moreover have "unat minimum < 2 ^ 128" using unsigned_less [of minimum, where ?'a = nat] by simp
  moreover have "ucast (ucast minimum :: u256) = (ucast minimum :: u128)"
    by (auto simp: bit_eq_iff bit_simps dest: bit_imp_le_length)
  ultimately show ?thesis by (simp add: to_u128_def priority_fee_api_new_def)
qed

lemma not_full_minimum:
  "priority_fee_for_block fe pf block = Inr (s, False) \<Longrightarrow> s = pf_min_suggested_priority_fee pf"
  by (auto simp: priority_fee_for_block_def result_elims Let_def case_prod_beta split: option.splits if_splits)

text \<open>The stages of a successful fee history.\<close>

definition with_next_fee :: "u64 \<Rightarrow> ('f, 'o) FeeHistory \<Rightarrow> ('f, 'o) FeeHistory" where
  "with_next_fee fee history =
     (if fh_base_fee_per_gas history = [] then history
      else history\<lparr>fh_base_fee_per_gas := (fh_base_fee_per_gas history)[length (fh_base_fee_per_gas history) - 1 := ucast fee]\<rparr>)"

definition rewarded ::
  "('db, 'e, 'u, 'f, 'o) fee_env \<Rightarrow> DogeosPriorityFeeApi \<Rightarrow> BlockNumberOrTag \<Rightarrow> 'f list option \<Rightarrow>
   ('f, 'o) FeeHistory \<Rightarrow> ('f, 'o) FeeHistory \<Rightarrow> bool" where
  "rewarded fe pf newest percentiles h history \<longleftrightarrow>
     percentiles = None \<and> history = h \<or>
     (\<exists>ps s. percentiles = Some ps \<and> priority_fee_for_block fe pf newest = Inr (s, True) \<and> history = h) \<or>
     (\<exists>ps s r. percentiles = Some ps \<and> priority_fee_for_block fe pf newest = Inr (s, False) \<and> to_u128 s = Some r \<and>
        history = h\<lparr>fh_reward := Some (replicate (length (fh_gas_used_ratio h)) (replicate (length ps) r))\<rparr>)"

lemma fee_history_success:
  assumes "fee_history fe pf block_count tag percentiles = Some (Inr history)" and "block_count \<noteq> 0"
    and "fe_upstream_fee_history fe block_count tag percentiles = Inr upstream"
  obtains header state fee where
    "fe_header_by_number_or_tag fe (if tag = Pending then Latest else tag) = Inr (Some header)"
    "fe_state_by_block_id fe (sh_hash header) = Inr state"
    "predict_next_block_base_fee (fe_fork_api fe) (fe_calc fe) (fe_ops fe) (fe_spec fe) state (sh_header header) = Some (Inr fee)"
    "rewarded fe pf (if tag = Pending then Latest else tag) percentiles (with_next_fee fee upstream) history"
  using assms unfolding fee_history_def Let_def with_next_fee_def [symmetric]
  by (clarsimp simp: result_elims rewarded_def simp del: split_paired_Ex split: sum.splits option.splits prod.splits if_splits)

lemma fee_history_panic:
  assumes "fee_history fe pf block_count tag percentiles = None"
  obtains (predict) t header state where "fe_header_by_number_or_tag fe t = Inr (Some header)"
    "predict_next_block_base_fee (fe_fork_api fe) (fe_calc fe) (fe_ops fe) (fe_spec fe) state (sh_header header) = None"
  | (reward) t s where "priority_fee_for_block fe pf t = Inr (s, False)" "to_u128 s = None"
  using assms unfolding fee_history_def Let_def
  by (auto simp: result_elims split: sum.splits option.splits prod.splits if_splits)

lemma set_last: "xs \<noteq> [] \<Longrightarrow> xs[length xs - Suc 0 := x] = butlast xs @ [x]"
  by (induction xs) (auto simp: list_update_append1 split: nat.splits)

section \<open>Properties\<close>

text \<open>C31. The suggested tip of a full block is the median of its tips raised by a tenth, at least the
  configured minimum and at most the configured maximum, whatever the order of the tips; without
  tips it is the minimum. This is exact arithmetic for tips below \<open>2\<^sup>1\<^sup>2\<^sup>7\<close>; from there on the sum of
  the two middle tips wraps, and two tips of exactly that size suggest the minimum.\<close>

theorem capacity_tip_exact:
  fixes tips :: "u128 list"
  shows "(tips \<noteq> [] \<and> (\<forall>t \<in> set tips. unat t < 2 ^ 127) \<longrightarrow>
      unat (capacity_tip tips minimum maximum) =
        suggestion_of (median_of (map unat tips)) (unat minimum) (map_option unat maximum)) \<and>
    (tips = [] \<longrightarrow> capacity_tip tips minimum maximum = minimum) \<and>
    (\<forall>tips'. mset tips' = mset tips \<longrightarrow> capacity_tip tips' minimum maximum = capacity_tip tips minimum maximum) \<and>
    capacity_tip [2 ^ 127, 2 ^ 127] minimum None = minimum"
proof (intro conjI impI allI)
  show "unat (capacity_tip tips minimum maximum) =
      suggestion_of (median_of (map unat tips)) (unat minimum) (map_option unat maximum)"
    if "tips \<noteq> [] \<and> (\<forall>t \<in> set tips. unat t < 2 ^ 127)"
    using that unat_sort_suggestion by blast
  show "capacity_tip tips' minimum maximum = capacity_tip tips minimum maximum" if "mset tips' = mset tips" for tips'
  proof -
    have "tips' = [] \<longleftrightarrow> tips = []" using mset_eq_length [OF that] by auto
    then show ?thesis by (simp only: capacity_tip_def sort_eq_of_mset [OF that])
  qed
  show "capacity_tip [2 ^ 127, 2 ^ 127] minimum None = minimum"
  proof -
    have "(2 ^ 127 + 2 ^ 127 :: u128) div 2 = 0" by simp
    then show ?thesis by (simp add: capacity_tip_def Let_def max_def)
  qed
qed (simp add: capacity_tip_def)

theorem capacity_tip_exact_witness: "unat (capacity_tip [100, 300, 200] 100 None) = 220"
  using conjunct1 [OF capacity_tip_exact [of "[100, 300, 200]" 100 None]]
  by (simp add: suggestion_of_def median_of_def Let_def)

text \<open>C25. The suggestion tells whether the block has room for one more transaction as large as its
  largest. For a cached block whose receipts carry the running totals of its gas, the answer is the
  configured minimum while the largest gas and the largest encoding of its transactions still fit
  under the gas limit and the payload limit, and the tip of a full block otherwise, with sums and
  maxima taken without overflow. The suggestion is never below the minimum and, for a full block with
  tips, never above the maximum.\<close>

theorem priority_fee_exact:
  fixes fe :: "('db, 'e, 'u, 'f, 'o) fee_env"
  assumes header: "fe_header_by_number_or_tag fe tag = Inr (Some header)"
    and found: "fe_block_and_receipts fe (sh_hash header) = Inr (Some (b, rs))"
    and gas: "map (\<lambda>rc. unat (receipt_cumulative_gas_used rc)) rs = running_totals 0 gs"
    and len: "len = env_eip2718_encoded_length (fe_rlp fe) (fe_codec fe)" "sum_list (map len (b_transactions b)) < 2 ^ 64"
    and limits: "unat (h_gas_limit (sh_header header)) < 2 ^ 64 - 1" "unat (pf_payload_size_limit pf) < 2 ^ 64 - 1"
    and full: "full \<longleftrightarrow>
        unat (h_gas_limit (sh_header header)) < unat (h_gas_used (sh_header header)) + Max (insert 0 (unat ` set gs)) \<or>
        unat (pf_payload_size_limit pf) < sum_list (map len (b_transactions b)) + Max (insert 0 (len ` set (b_transactions b)))"
    and tips: "tips = block_tips (fe_alloy fe) (fe_tip fe) (h_base_fee_per_gas (b_header b)) (b_transactions b)"
    and minimum: "\<forall>m. pf_max_price pf = Some m \<longrightarrow> pf_min_suggested_priority_fee pf \<le> m"
  shows "\<exists>fee. priority_fee_for_block fe pf tag = Inr (fee, full) \<and>
    fee = (if full then capacity_tip tips (pf_min_suggested_priority_fee pf) (pf_max_price pf)
           else pf_min_suggested_priority_fee pf) \<and>
    pf_min_suggested_priority_fee pf \<le> fee \<and>
    (\<forall>m. pf_max_price pf = Some m \<and> full \<and> tips \<noteq> [] \<longrightarrow> fee \<le> m)"
proof -
  obtain total largest where sizes: "payload_sizes (fe_rlp fe) (fe_codec fe) (b_transactions b) = (total, largest)"
    by fastforce
  note exact = payload_sizes_exact [OF _ sizes] max_gas_loop_running [of rs 0 gs 0]
  have cap: "is_at_capacity (h_gas_used (sh_header header)) (h_gas_limit (sh_header header)) (max_gas_loop rs 0 0)
      total largest (pf_payload_size_limit pf) \<longleftrightarrow> full"
    using exact gas len limits full
    by (simp add: is_at_capacity_def word_less_nat_alt unat_saturating_add)
  have fee: "priority_fee_for_block fe pf tag =
      Inr (if full then capacity_tip tips (pf_min_suggested_priority_fee pf) (pf_max_price pf)
           else pf_min_suggested_priority_fee pf, full)"
    using header found sizes cap by (simp add: priority_fee_for_block_def ok_or_def Let_def tips)
  show ?thesis
    using suggested_within [OF refl minimum, where tips = tips] by (simp add: fee)
qed

text \<open>C24. The fee history announces the base fee the pool enforces. Over a chain whose headers have a
  base fee, the history never panics; an answer for at least one block ends in the fee the pool
  maintenance computes for the newest block, which is within the protocol limit, and keeps the other
  base fees of reth; the rewards are those of reth when none were asked for or the block is full, and
  otherwise the minimum tip for every block and percentile.\<close>

theorem fee_history_agrees_with_pool:
  fixes fe :: "('db, 'e, 'u, 'f, 'o) fee_env"
  assumes pf: "pf = priority_fee_api_new max_price minimum size_limit" and chain: "same_chain fe mc"
    and fees: "\<forall>tag header. fe_header_by_number_or_tag fe tag = Inr (Some header) \<longrightarrow> h_base_fee_per_gas (sh_header header) \<noteq> None"
    and newest: "newest = (if tag = Pending then Latest else tag)"
  shows "fee_history fe pf block_count tag percentiles \<noteq> None \<and>
    (\<forall>history upstream. fee_history fe pf block_count tag percentiles = Some (Inr history) \<and> block_count \<noteq> 0 \<and>
       fe_upstream_fee_history fe block_count tag percentiles = Inr upstream \<longrightarrow>
       (\<exists>header fee. fe_header_by_number_or_tag fe newest = Inr (Some header) \<and>
          pool_next_base_fee mc (sh_hash header) = Some (Inr fee) \<and> fee \<le> MAX_L2_BASE_FEE \<and>
          fh_base_fee_per_gas history = (if fh_base_fee_per_gas upstream = [] then []
             else butlast (fh_base_fee_per_gas upstream) @ [ucast fee]) \<and>
          fh_gas_used_ratio history = fh_gas_used_ratio upstream \<and> fh_other history = fh_other upstream) \<and>
       fh_reward history =
         (case percentiles of
            None \<Rightarrow> fh_reward upstream
          | Some ps \<Rightarrow>
              if priority_fee_for_block fe pf newest = Inr (pf_min_suggested_priority_fee pf, False)
              then Some (replicate (length (fh_gas_used_ratio upstream)) (replicate (length ps) (ucast minimum)))
              else fh_reward upstream))"
proof (intro conjI allI impI)
  have predicted: "predict_next_block_base_fee (fe_fork_api fe) (fe_calc fe) (fe_ops fe) (fe_spec fe) state (sh_header header) \<noteq> None"
    if "fe_header_by_number_or_tag fe t = Inr (Some header)" for t header state
    using fees that by (simp add: prediction.predict_panics)
  have reward: "s = pf_min_suggested_priority_fee pf" "to_u128 s = Some (ucast minimum)"
    if "priority_fee_for_block fe pf t = Inr (s, False)" for t s
    using not_full_minimum [OF that] min_fee_fits by (simp_all add: pf)
  show "fee_history fe pf block_count tag percentiles \<noteq> None"
  proof
    assume panic: "fee_history fe pf block_count tag percentiles = None"
    show False
      using panic by (rule fee_history_panic) (use predicted reward(2) in \<open>metis option.distinct(1)\<close>)+
  qed
  fix history upstream
  assume run: "fee_history fe pf block_count tag percentiles = Some (Inr history) \<and> block_count \<noteq> 0 \<and>
       fe_upstream_fee_history fe block_count tag percentiles = Inr upstream"
  obtain header state fee where
    header: "fe_header_by_number_or_tag fe newest = Inr (Some header)"
    and state: "fe_state_by_block_id fe (sh_hash header) = Inr state"
    and fee: "predict_next_block_base_fee (fe_fork_api fe) (fe_calc fe) (fe_ops fe) (fe_spec fe) state (sh_header header) = Some (Inr fee)"
    and h: "rewarded fe pf newest percentiles (with_next_fee fee upstream) history"
    unfolding newest by (rule fee_history_success [of fe pf block_count tag percentiles history upstream]) (use run in simp_all)
  have "h_base_fee_per_gas (sh_header header) \<noteq> None" using fees header by blast
  then have pool: "pool_next_base_fee mc (sh_hash header) = Some (Inr fee)"
    using chain header state fee by (auto simp: pool_next_base_fee_def same_chain_def ok_or_def)
  then have "fee \<le> MAX_L2_BASE_FEE" using pool_next_base_fee_answers [of mc "sh_hash header"] by auto
  then show "\<exists>header fee. fe_header_by_number_or_tag fe newest = Inr (Some header) \<and>
          pool_next_base_fee mc (sh_hash header) = Some (Inr fee) \<and> fee \<le> MAX_L2_BASE_FEE \<and>
          fh_base_fee_per_gas history = (if fh_base_fee_per_gas upstream = [] then []
             else butlast (fh_base_fee_per_gas upstream) @ [ucast fee]) \<and>
          fh_gas_used_ratio history = fh_gas_used_ratio upstream \<and> fh_other history = fh_other upstream"
    using header pool h by (auto simp: rewarded_def with_next_fee_def set_last)
  show "fh_reward history =
         (case percentiles of
            None \<Rightarrow> fh_reward upstream
          | Some ps \<Rightarrow>
              if priority_fee_for_block fe pf newest = Inr (pf_min_suggested_priority_fee pf, False)
              then Some (replicate (length (fh_gas_used_ratio upstream)) (replicate (length ps) (ucast minimum)))
              else fh_reward upstream)"
    using h reward [of newest] by (auto simp: rewarded_def with_next_fee_def)
qed

section \<open>A concrete instance\<close>

text \<open>One block that used two thirds of its gas for a single transaction.\<close>

definition sample_full_header :: SealedHeader where
  "sample_full_header = \<lparr>sh_header = sample_header\<lparr>h_gas_used := 20000000, h_base_fee_per_gas := Some 500000000\<rparr>, sh_hash = 7\<rparr>"

definition sample_fees :: "(map_db, string, string, unit, unit) fee_env" where
  "sample_fees = \<lparr>
     fe_header_by_number_or_tag = (\<lambda>tag. if tag = Latest then Inr (Some sample_full_header) else Inr None),
     fe_block_and_receipts = (\<lambda>_. Inr (Some
       (\<lparr>b_header = sh_header sample_full_header, b_transactions = [Legacy sample_legacy], b_ommers = [], b_withdrawals = None\<rparr>,
        [RLegacy \<lparr>str_inner = sample_receipt\<lparr>rc_cumulative_gas_used := 20000000\<rparr>, str_l1_fee = 0\<rparr>]))),
     fe_state_by_block_id = (\<lambda>_. Inr empty_map_db),
     fe_upstream_fee_history = (\<lambda>_ _ _. Inr \<lparr>fh_base_fee_per_gas = [5, 6], fh_gas_used_ratio = [()], fh_reward = None, fh_other = ()\<rparr>),
     fe_ops = map_db_ops, fe_fork_api = sample_fork_api, fe_calc = (\<lambda>_ _ fee _. fee), fe_spec = sample_view,
     fe_alloy = sample_alloy_tx_api, fe_tip = sample_tip, fe_rlp = sample_rlp,
     fe_codec = sample_alloy_codec\<lparr>ac_encoded_length := (\<lambda>_ _. 110)\<rparr>\<rparr>"

theorem priority_fee_exact_witness:
  "priority_fee_for_block sample_fees (priority_fee_api_new None 100 122880) Latest = Inr (550000000, True)"
proof -
  let ?pf = "priority_fee_api_new None 100 122880" and ?b = "\<lparr>b_header = sh_header sample_full_header,
      b_transactions = [Legacy sample_legacy], b_ommers = [], b_withdrawals = None\<rparr>"
  let ?rs = "[RLegacy \<lparr>str_inner = sample_receipt\<lparr>rc_cumulative_gas_used := 20000000\<rparr>, str_l1_fee = 0\<rparr>]"
  have tips: "block_tips sample_alloy_tx_api sample_tip (Some 500000000) [Legacy sample_legacy] = [500000000]"
    by (simp add: block_tips_def List.map_filter_def sample_tip_def env_method_defs sample_alloy_tx_api_def sample_legacy_def)
  have tip: "capacity_tip [500000000] 100 None = 550000000"
    by (simp add: capacity_tip_def Let_def max_def)
  from priority_fee_exact [of sample_fees Latest sample_full_header ?b ?rs "[20000000]" _ ?pf True, OF _ _ _ refl _ _ _ _ refl]
  show ?thesis
    using tips tip
    by (simp add: sample_fees_def sample_full_header_def sample_header_def priority_fee_api_new_def
        receipt_cumulative_gas_used_def env_eip2718_encoded_length_def)
qed

theorem fee_history_agrees_with_pool_witness:
  "\<exists>history fee. fee_history sample_fees (priority_fee_api_new None 100 122880) 1 Pending None = Some (Inr history) \<and>
     pool_next_base_fee (sample_maintenance_client\<lparr>mc_header := (\<lambda>_. Inr (Some (sh_header sample_full_header)))\<rparr>) 7 = Some (Inr fee) \<and>
     fh_base_fee_per_gas history = [5, ucast fee]"
proof -
  let ?mc = "sample_maintenance_client\<lparr>mc_header := (\<lambda>_. Inr (Some (sh_header sample_full_header)))\<rparr>"
  let ?pf = "priority_fee_api_new None 100 122880"
  let ?up = "\<lparr>fh_base_fee_per_gas = [5, 6], fh_gas_used_ratio = [()], fh_reward = None, fh_other = ()\<rparr>"
  have chain: "same_chain sample_fees ?mc"
    by (simp add: same_chain_def sample_fees_def sample_maintenance_client_def)
  have fees: "\<forall>tag header. fe_header_by_number_or_tag sample_fees tag = Inr (Some header) \<longrightarrow> h_base_fee_per_gas (sh_header header) \<noteq> None"
    by (simp add: sample_fees_def sample_full_header_def)
  note agrees = fee_history_agrees_with_pool [OF refl chain fees refl, of None 100 122880 1 Pending None]
  obtain history where run: "fee_history sample_fees ?pf 1 Pending None = Some (Inr history)"
    by (simp add: fee_history_def sample_fees_def sample_full_header_def sample_header_def ok_or_def Let_def
        predict_next_block_base_fee_def next_block_base_fee_def base_fee_parent_from_header_def next_block_base_fee_for_parent_def
        base_fee_overhead_def map_db_ops_def split: sum.splits)
  have "fe_upstream_fee_history sample_fees 1 Pending None = Inr ?up" by (simp add: sample_fees_def)
  with agrees run obtain header fee where "fe_header_by_number_or_tag sample_fees Latest = Inr (Some header)"
    "pool_next_base_fee ?mc (sh_hash header) = Some (Inr fee)" "fh_base_fee_per_gas history = [5, ucast fee]"
    by fastforce
  then show ?thesis using run by (auto simp: sample_fees_def sample_full_header_def)
qed

end
