(* ===== verification/Dogeos_Node.thy ===== *)
theory Dogeos_Node
  imports Built_Blocks Node_Pool Scroll_Wire Rpc_Fees
begin

text \<open>
  The composition of the node, \<open>crates/dogeos-reth-node/src\<close>: \<open>args.rs\<close>, \<open>code_witness_args.rs\<close>,
  \<open>payload.rs\<close>, \<open>storage.rs\<close>, \<open>network.rs\<close>, \<open>rpc.rs\<close> and \<open>lib.rs\<close>, and the command line
  (\<open>bin/dogeos-reth/src\<close>: \<open>lib.rs\<close>, \<open>main.rs\<close>). What a component is built from is the value its
  builder is given; the builders of reth that only carry these values are left out.

  Parameters: the limit of the semaphore of tokio, the chain of the development network, the URL
  parser, the provider's local payload attributes.
\<close>

section \<open>Arguments\<close>

record CodeWitnessArgs =
  cwa_max_code_witness_bytes :: u64
  cwa_max_steps :: u64
  cwa_max_inflight :: u64

definition default_code_witness_args :: CodeWitnessArgs where
  "default_code_witness_args =
     (let config = default_code_witness_config in
      \<lparr>cwa_max_code_witness_bytes = cw_max_code_witness_bytes config,
       cwa_max_steps = cw_max_steps config, cwa_max_inflight = cw_max_inflight config\<rparr>)"

definition validation_config :: "CodeWitnessArgs \<Rightarrow> CodeWitnessValidationConfig" where
  "validation_config a = \<lparr>cw_max_code_witness_bytes = cwa_max_code_witness_bytes a,
     cw_max_steps = cwa_max_steps a, cw_max_inflight = cwa_max_inflight a\<rparr>"

datatype arg_error = NotANumber json_error | OutOfRange u64 u64

definition parse_nonzero_usize :: "u64 \<Rightarrow> string \<Rightarrow> arg_error + u64" where
  "parse_nonzero_usize max_permits value =
     rbind (map_err NotANumber (u64_from_str_radix value 10)) (\<lambda>value.
       if value = 0 \<or> max_permits < value then Inl (OutOfRange 1 max_permits) else Inr value)"

text \<open>\<open>value_parser!(u64).range(1..)\<close>.\<close>

definition parse_positive_u64 :: "string \<Rightarrow> arg_error + u64" where
  "parse_positive_u64 value =
     rbind (map_err NotANumber (u64_from_str_radix value 10)) (\<lambda>value.
       if value = 0 then Inl (OutOfRange 1 (- 1)) else Inr value)"

definition with_default :: "(string \<Rightarrow> arg_error + u64) \<Rightarrow> u64 \<Rightarrow> string option \<Rightarrow> arg_error + u64" where
  "with_default parser default_value arg = (case arg of None \<Rightarrow> Inr default_value | Some s \<Rightarrow> parser s)"

definition parse_code_witness_args ::
  "u64 \<Rightarrow> string option \<Rightarrow> string option \<Rightarrow> string option \<Rightarrow> arg_error + CodeWitnessArgs" where
  "parse_code_witness_args max_permits code_bytes steps inflight =
     (let config = default_code_witness_config in
      rbind (with_default parse_positive_u64 (cw_max_code_witness_bytes config) code_bytes) (\<lambda>code_bytes.
      rbind (with_default parse_positive_u64 (cw_max_steps config) steps) (\<lambda>steps.
      rbind (with_default (parse_nonzero_usize max_permits) (cw_max_inflight config) inflight) (\<lambda>inflight.
        Inr \<lparr>cwa_max_code_witness_bytes = code_bytes, cwa_max_steps = steps, cwa_max_inflight = inflight\<rparr>))))"

definition DOGEOS_DEFAULT_GAS_LIMIT :: u64 where
  "DOGEOS_DEFAULT_GAS_LIMIT = 20000000"

definition DOGEOS_DEFAULT_PAYLOAD_SIZE_LIMIT :: u64 where
  "DOGEOS_DEFAULT_PAYLOAD_SIZE_LIMIT = 122880"

text \<open>Durations are in nanoseconds.\<close>

definition DOGEOS_DEFAULT_PAYLOAD_BUILDING_DURATION :: nat where
  "DOGEOS_DEFAULT_PAYLOAD_BUILDING_DURATION = 1000000000"

record DogeosRollupArgs =
  ra_code_witness :: CodeWitnessArgs
  ra_sequencer :: "string option"
  ra_min_suggested_priority_fee :: u64
  ra_payload_size_limit :: u64
  ra_enable_scroll_wire :: bool
  ra_scroll_wire_signer :: "address option"

definition default_rollup_args :: DogeosRollupArgs where
  "default_rollup_args = \<lparr>
     ra_code_witness = default_code_witness_args, ra_sequencer = None,
     ra_min_suggested_priority_fee = DEFAULT_MIN_SUGGESTED_PRIORITY_FEE,
     ra_payload_size_limit = DOGEOS_DEFAULT_PAYLOAD_SIZE_LIMIT,
     ra_enable_scroll_wire = True, ra_scroll_wire_signer = None\<rparr>"

datatype launch_error = SignerRequired

definition validate_for_chain :: "u64 \<Rightarrow> DogeosRollupArgs \<Rightarrow> u64 \<Rightarrow> launch_error + unit" where
  "validate_for_chain dev_chain args chain =
     (let is_dev = (chain = dev_chain) in
      if ra_enable_scroll_wire args \<and> ra_scroll_wire_signer args = None \<and> \<not> is_dev then Inl SignerRequired else Inr ())"

section \<open>Payload builder\<close>

record DogeosPayloadBuilderBuilder =
  pbb_payload_building_time_limit :: nat
  pbb_block_da_size_limit :: "u64 option"
  pbb_max_code_witness_bytes :: u64

definition default_payload_builder :: DogeosPayloadBuilderBuilder where
  "default_payload_builder = \<lparr>
     pbb_payload_building_time_limit = DOGEOS_DEFAULT_PAYLOAD_BUILDING_DURATION,
     pbb_block_da_size_limit = Some DOGEOS_DEFAULT_PAYLOAD_SIZE_LIMIT,
     pbb_max_code_witness_bytes = cwa_max_code_witness_bytes default_code_witness_args\<rparr>"

definition builder_config :: "DogeosPayloadBuilderBuilder \<Rightarrow> u64 \<Rightarrow> ScrollBuilderConfig" where
  "builder_config pbb gas_limit =
     with_max_code_witness_bytes (pbb_max_code_witness_bytes pbb)
       (builder_config_new (Some gas_limit) (pbb_payload_building_time_limit pbb) (pbb_block_da_size_limit pbb))"

definition build_payload_builder :: "DogeosPayloadBuilderBuilder \<Rightarrow> u64 option \<Rightarrow> ScrollBuilderConfig" where
  "build_payload_builder pbb configured_gas_limit =
     builder_config pbb (case configured_gas_limit of Some g \<Rightarrow> g | None \<Rightarrow> DOGEOS_DEFAULT_GAS_LIMIT)"

section \<open>Storage\<close>

record DogeosBlockBody =
  bb_transactions :: "ScrollTxEnvelope list"
  bb_ommers :: "header list"
  bb_withdrawals :: "unit list option"

definition read_block_bodies :: "(header \<times> ScrollTxEnvelope list) list \<Rightarrow> DogeosBlockBody list" where
  "read_block_bodies inputs =
     map (\<lambda>(_, transactions). \<lparr>bb_transactions = transactions, bb_ommers = [], bb_withdrawals = None\<rparr>) inputs"

text \<open>Nothing of a body but its transactions, which the generic provider writes, is stored.\<close>

definition write_block_bodies :: "(u64 \<times> DogeosBlockBody option) list \<Rightarrow> 'db \<Rightarrow> 'db" where
  "write_block_bodies bodies db = db"

definition remove_block_bodies_above :: "u64 \<Rightarrow> 'db \<Rightarrow> 'db" where
  "remove_block_bodies_above block db = db"

section \<open>Network\<close>

record ScrollWireConfig =
  wcf_connect_unsupported_peer :: bool

record DogeosNetworkBuilder =
  nwb_extra_protocols :: "ScrollWireConfig list"

definition network_builder_new :: DogeosNetworkBuilder where
  "network_builder_new = \<lparr>nwb_extra_protocols = []\<rparr>"

definition with_sub_protocol :: "ScrollWireConfig \<Rightarrow> DogeosNetworkBuilder \<Rightarrow> DogeosNetworkBuilder" where
  "with_sub_protocol protocol b = b\<lparr>nwb_extra_protocols := nwb_extra_protocols b @ [protocol]\<rparr>"

definition with_scroll_wire ::
  "ScrollWireConfig \<Rightarrow> DogeosNetworkBuilder \<Rightarrow> DogeosNetworkBuilder \<times> 'd ScrollWireManager" where
  "with_scroll_wire config b = (with_sub_protocol config b, manager_new [])"

text \<open>The protocols of the network configuration, the ones of reth first.\<close>

definition build_network :: "DogeosNetworkBuilder \<Rightarrow> ScrollWireConfig list \<Rightarrow> ScrollWireConfig list" where
  "build_network b config = fold (\<lambda>protocol config. config @ [protocol]) (nwb_extra_protocols b) config"

section \<open>RPC\<close>

text \<open>The hand-over of the announcement manager from the network to the RPC phase.\<close>

type_synonym 'd ScrollWireRuntime = "'d ScrollWireManager option"

definition runtime_install :: "'d ScrollWireManager \<Rightarrow> 'd ScrollWireRuntime \<Rightarrow> 'd ScrollWireRuntime" where
  "runtime_install manager runtime = Some manager"

definition runtime_take :: "'d ScrollWireRuntime \<Rightarrow> 'd ScrollWireManager option \<times> 'd ScrollWireRuntime" where
  "runtime_take runtime = (runtime, None)"

definition pending_env_attributes :: "SealedHeader \<Rightarrow> ScrollNextBlockEnvAttributes" where
  "pending_env_attributes parent = \<lparr>
     nb_timestamp = h_timestamp (sh_header parent),
     nb_suggested_fee_recipient = h_beneficiary (sh_header parent),
     nb_gas_limit = h_gas_limit (sh_header parent),
     nb_base_fee = (case h_base_fee_per_gas (sh_header parent) of Some fee \<Rightarrow> fee | None \<Rightarrow> 0)\<rparr>"

text \<open>The importer that \<open>build_eth_api\<close> starts, if it finds a manager.\<close>

definition build_eth_api ::
  "(b256 \<times> Signature, 'c) lru_api \<Rightarrow> address option \<Rightarrow> 'd ScrollWireRuntime \<Rightarrow>
   ('d ScrollWireManager \<times> 'c importer) option \<times> 'd ScrollWireRuntime" where
  "build_eth_api lru scroll_wire_signer runtime =
     (case runtime_take runtime of
        (None, runtime) \<Rightarrow> (None, runtime)
      | (Some manager, runtime) \<Rightarrow> (Some (manager, importer_new lru scroll_wire_signer), runtime))"

record 'url rpc_modules =
  rm_priority_fee :: DogeosPriorityFeeApi
  rm_forwarder :: "('url \<times> bool) option"

definition extend_rpc_modules ::
  "(string \<Rightarrow> 'e + 'url) \<Rightarrow> ('url \<Rightarrow> 'e + unit) \<Rightarrow> u256 option \<Rightarrow> 'url option \<Rightarrow> bool \<Rightarrow>
   string option \<Rightarrow> u64 \<Rightarrow> u64 \<Rightarrow> 'e + 'url rpc_modules" where
  "extend_rpc_modules parse_url with_http_client max_price rpc_forwarder no_local_transactions_propagation
     sequencer_url min_suggested_priority_fee payload_size_limit =
     (let priority_fee_api = priority_fee_api_new max_price min_suggested_priority_fee payload_size_limit in
      rbind (case sequencer_url of None \<Rightarrow> Inr None | Some s \<Rightarrow> rbind (parse_url s) (\<lambda>u. Inr (Some u))) (\<lambda>parsed.
      let forwarder_url = (case parsed of Some u \<Rightarrow> Some u | None \<Rightarrow> rpc_forwarder) in
      (case forwarder_url of
         None \<Rightarrow> Inr \<lparr>rm_priority_fee = priority_fee_api, rm_forwarder = None\<rparr>
       | Some url \<Rightarrow>
           rbind (with_http_client url) (\<lambda>_.
             Inr \<lparr>rm_priority_fee = priority_fee_api, rm_forwarder = Some (url, \<not> no_local_transactions_propagation)\<rparr>))))"

section \<open>The node\<close>

record 'd DogeosNodeTypes =
  nt_args :: DogeosRollupArgs
  nt_scroll_wire :: "'d ScrollWireRuntime"

definition node_types_new :: "DogeosRollupArgs \<Rightarrow> 'd DogeosNodeTypes" where
  "node_types_new args = \<lparr>nt_args = args, nt_scroll_wire = None\<rparr>"

record node_components =
  nc_code_witness_config :: CodeWitnessValidationConfig
  nc_payload :: DogeosPayloadBuilderBuilder
  nc_network :: DogeosNetworkBuilder

definition components_builder :: "'d DogeosNodeTypes \<Rightarrow> node_components \<times> 'd DogeosNodeTypes" where
  "components_builder nt =
     (let args = nt_args nt;
          (network, nt) =
            (if ra_enable_scroll_wire args
             then (let (network, manager) = with_scroll_wire \<lparr>wcf_connect_unsupported_peer = True\<rparr> network_builder_new in
                   (network, nt\<lparr>nt_scroll_wire := runtime_install manager (nt_scroll_wire nt)\<rparr>))
             else (network_builder_new, nt)) in
      (\<lparr>nc_code_witness_config = validation_config (ra_code_witness args),
        nc_payload = default_payload_builder\<lparr>pbb_max_code_witness_bytes := cwa_max_code_witness_bytes (ra_code_witness args),
          pbb_block_da_size_limit := Some (ra_payload_size_limit args)\<rparr>,
        nc_network = network\<rparr>, nt))"

text \<open>The RPC phase of the node: the importer and the modules of \<open>add_ons\<close>.\<close>

definition add_ons ::
  "(b256 \<times> Signature, 'c) lru_api \<Rightarrow> (string \<Rightarrow> 'e + 'url) \<Rightarrow> ('url \<Rightarrow> 'e + unit) \<Rightarrow> u256 option \<Rightarrow> 'url option \<Rightarrow> bool \<Rightarrow>
   'd DogeosNodeTypes \<Rightarrow> ('d ScrollWireManager \<times> 'c importer) option \<times> ('e + 'url rpc_modules) \<times> 'd DogeosNodeTypes" where
  "add_ons lru parse_url with_http_client max_price rpc_forwarder no_propagation nt =
     (let args = nt_args nt; (importer, runtime) = build_eth_api lru (ra_scroll_wire_signer args) (nt_scroll_wire nt) in
      (importer,
       extend_rpc_modules parse_url with_http_client max_price rpc_forwarder no_propagation
         (ra_sequencer args) (ra_min_suggested_priority_fee args) (ra_payload_size_limit args),
       nt\<lparr>nt_scroll_wire := runtime\<rparr>))"

definition local_payload_attributes ::
  "(SealedHeader \<Rightarrow> PayloadAttributes) \<Rightarrow> SealedHeader \<Rightarrow> ScrollPayloadAttributes" where
  "local_payload_attributes inner_build parent = \<lparr>
     sa_payload_attributes = (inner_build parent)\<lparr>pa_withdrawals := None\<rparr>,
     sa_transactions = None, sa_no_tx_pool = False,
     sa_block_data_hint = \<lparr>bh_extra_data = None, bh_state_root = None, bh_coinbase = None, bh_nonce = None, bh_difficulty = None\<rparr>,
     sa_gas_limit = None\<rparr>"

definition SUPPORTED_CHAINS :: "string list" where
  "SUPPORTED_CHAINS = [''dogeos-mainnet'', ''dogeos-chikyu'', ''dev'']"

text \<open>\<open>None\<close> is the panic of a custom genesis that is refused.\<close>

definition parse_chain ::
  "'s \<Rightarrow> 's \<Rightarrow> 's \<Rightarrow> (string \<Rightarrow> 'e + 'g) \<Rightarrow> ('g \<Rightarrow> 's option) \<Rightarrow> string \<Rightarrow> ('e + 's) option" where
  "parse_chain mainnet chikyu dev parse_genesis custom_genesis value =
     (if value = ''dogeos-mainnet'' then Some (Inr mainnet)
      else if value = ''dogeos-chikyu'' then Some (Inr chikyu)
      else if value = ''dev'' then Some (Inr dev)
      else case parse_genesis value of
          Inl e \<Rightarrow> Some (Inl e)
        | Inr g \<Rightarrow> map_option Inr (custom_genesis g))"

text \<open>The start of the program: the arguments are checked against the chain before the node is built.\<close>

definition launch :: "u64 \<Rightarrow> DogeosRollupArgs \<Rightarrow> u64 \<Rightarrow> launch_error + node_components \<times> 'd DogeosNodeTypes" where
  "launch dev_chain args chain =
     rbind (validate_for_chain dev_chain args chain) (\<lambda>_. Inr (components_builder (node_types_new args)))"

section \<open>Properties\<close>

lemma components_built:
  "components_builder (node_types_new args :: 'd DogeosNodeTypes) =
     (\<lparr>nc_code_witness_config = validation_config (ra_code_witness args),
       nc_payload = \<lparr>pbb_payload_building_time_limit = DOGEOS_DEFAULT_PAYLOAD_BUILDING_DURATION,
         pbb_block_da_size_limit = Some (ra_payload_size_limit args),
         pbb_max_code_witness_bytes = cwa_max_code_witness_bytes (ra_code_witness args)\<rparr>,
       nc_network = \<lparr>nwb_extra_protocols = (if ra_enable_scroll_wire args then [\<lparr>wcf_connect_unsupported_peer = True\<rparr>] else [])\<rparr>\<rparr>,
      \<lparr>nt_args = args, nt_scroll_wire = (if ra_enable_scroll_wire args then Some (manager_new []) else None)\<rparr>)"
  by (simp add: components_builder_def node_types_new_def with_scroll_wire_def with_sub_protocol_def network_builder_new_def
      runtime_install_def default_payload_builder_def Let_def)

lemma parsed_positive:
  "parse_code_witness_args max_permits a b c = Inr x \<Longrightarrow>
   cwa_max_code_witness_bytes x \<noteq> 0 \<and> cwa_max_steps x \<noteq> 0 \<and> cwa_max_inflight x \<noteq> 0 \<and>
   (cw_max_inflight default_code_witness_config \<le> max_permits \<longrightarrow> cwa_max_inflight x \<le> max_permits)"
  by (auto simp: parse_code_witness_args_def with_default_def parse_positive_u64_def parse_nonzero_usize_def
      default_code_witness_config_def DEFAULT_MAX_CODE_WITNESS_BYTES_def Let_def result_elims split: option.splits if_splits)

lemma launched:
  assumes "launch dev_chain args chain = Inr (nc, nt :: 'd DogeosNodeTypes)"
  shows "(nc, nt) = components_builder (node_types_new args)"
    and "ra_enable_scroll_wire args \<Longrightarrow> chain \<noteq> dev_chain \<Longrightarrow> \<exists>signer. ra_scroll_wire_signer args = Some signer"
  using assms by (auto simp: launch_def result_elims validate_for_chain_def Let_def split: if_splits)

text \<open>C17. A node that starts on a network other than the development one imports only blocks of its
  signer: its importer runs exactly when announcements are enabled, which is also when the protocol is
  offered to peers, and over every sequence of events the importer sends the engine only blocks whose
  signature recovers to the configured signer. The importer starts once: a second RPC phase finds no
  manager.\<close>

theorem launched_node_imports_authorized:
  fixes ie :: "('p, 's, 'x, 'status) import_env" and lru :: "(b256 \<times> Signature, 'c) lru_api"
  assumes laws: "lru_laws lru items limit"
    and start: "launch dev_chain args chain = Inr (nc, nt :: 'd DogeosNodeTypes)" and prod: "chain \<noteq> dev_chain"
    and rpc: "add_ons lru parse_url http max_price fwd no_prop nt = (imp, modules, nt')"
  shows "(imp = None \<longleftrightarrow> \<not> ra_enable_scroll_wire args) \<and>
    (build_network (nc_network nc) [] = [] \<longleftrightarrow> \<not> ra_enable_scroll_wire args) \<and>
    (\<forall>manager im events. imp = Some (manager, im) \<longrightarrow>
       (\<exists>signer. ra_scroll_wire_signer args = Some signer \<and>
          (\<forall>(block, signature) \<in> set (im_sent (import_all ie lru (events :: ('d, nat) ScrollWireEvent list) im)).
             wi_recover_signer (ie_wire ie) signature (signature_hash (ie_wire ie) (b_header block)) = Inr signer))) \<and>
    fst (add_ons lru parse_url http max_price fwd no_prop nt') = None"
proof -
  have nc: "nc_network nc = \<lparr>nwb_extra_protocols = (if ra_enable_scroll_wire args then [\<lparr>wcf_connect_unsupported_peer = True\<rparr>] else [])\<rparr>"
    and nt: "nt = \<lparr>nt_args = args, nt_scroll_wire = (if ra_enable_scroll_wire args then Some (manager_new []) else None)\<rparr>"
    using launched(1) [OF start] by (simp_all add: components_built)
  have imp: "imp = (if ra_enable_scroll_wire args then Some (manager_new [], importer_new lru (ra_scroll_wire_signer args)) else None)"
    and nt': "nt_scroll_wire nt' = None"
    using rpc by (auto simp: add_ons_def nt build_eth_api_def runtime_take_def Let_def split: if_splits)
  have sent: "\<exists>signer. ra_scroll_wire_signer args = Some signer \<and>
          (\<forall>(block, signature) \<in> set (im_sent (import_all ie lru events im)).
             wi_recover_signer (ie_wire ie) signature (signature_hash (ie_wire ie) (b_header block)) = Inr signer)"
    if im: "imp = Some (manager, im)" for manager im and events :: "('d, nat) ScrollWireEvent list"
  proof -
    obtain signer where signer: "ra_scroll_wire_signer args = Some signer"
      using launched(2) [OF start _ prod] im imp by (auto split: if_splits)
    have "im = importer_new lru (Some signer)" using im imp signer by (auto split: if_splits)
    then have "importer_ok ie items limit (Some signer) (import_all ie lru events im)"
      using import_all_ok [OF laws importer_new_ok [OF laws]] by simp
    then show ?thesis
      using signer by (auto simp: importer_ok_def verify_block_signature_def result_elims split: if_splits)
  qed
  show ?thesis
    using imp nt' sent
    by (auto simp: nc build_network_def add_ons_def build_eth_api_def runtime_take_def Let_def)
qed

text \<open>One configuration reaches every component: the code limit of a block and of an admission are
  the same, the size limit of the builder is the one by which the fee suggestion judges a full block,
  and the builder has a gas limit. Arguments accepted by the command line have positive limits, so the
  admission executor is built when the default capacity is one a semaphore can have, and a transaction forwarder is installed exactly when a URL is known,
  the sequencer's before the generic one.\<close>

theorem node_policy_consistent:
  assumes parsed: "parse_code_witness_args max_permits a b c = Inr (ra_code_witness args)"
    and permits: "cw_max_inflight default_code_witness_config \<le> max_permits"
    and start: "launch dev_chain args chain = Inr (nc, nt :: 'd DogeosNodeTypes)"
    and rpc: "add_ons lru parse_url http max_price fwd no_prop nt = (imp, Inr modules, nt')"
    and config: "config = build_payload_builder (nc_payload nc) configured_gas_limit"
  shows "cf_max_code_witness_bytes config = cw_max_code_witness_bytes (nc_code_witness_config nc) \<and>
    cf_max_code_witness_bytes config \<noteq> 0 \<and>
    cf_max_da_block_size config = Some (pf_payload_size_limit (rm_priority_fee modules)) \<and>
    cf_gas_limit config = Some (case configured_gas_limit of Some g \<Rightarrow> g | None \<Rightarrow> 20000000) \<and>
    (\<exists>x :: ('o, 't, 'r) Txpool_Executor.executor.
       build_pool_executor max_permits (nc_code_witness_config nc) override additional = Some x \<and> 0 < xe_workers x \<and>
       xe_workers x \<le> xe_inflight x) \<and>
    (case ra_sequencer args of
       Some s \<Rightarrow> (\<exists>url. parse_url s = Inr url \<and> rm_forwarder modules = Some (url, \<not> no_prop))
     | None \<Rightarrow> rm_forwarder modules = map_option (\<lambda>url. (url, \<not> no_prop)) fwd)"
proof -
  have nc: "nc_payload nc = \<lparr>pbb_payload_building_time_limit = DOGEOS_DEFAULT_PAYLOAD_BUILDING_DURATION,
         pbb_block_da_size_limit = Some (ra_payload_size_limit args),
         pbb_max_code_witness_bytes = cwa_max_code_witness_bytes (ra_code_witness args)\<rparr>"
    "nc_code_witness_config nc = validation_config (ra_code_witness args)" "nt_args nt = args"
    using launched(1) [OF start] by (simp_all add: components_built)
  have bytes: "cwa_max_code_witness_bytes (ra_code_witness args) \<noteq> 0" and inflight: "cwa_max_inflight (ra_code_witness args) \<noteq> 0"
    "cwa_max_inflight (ra_code_witness args) \<le> max_permits"
    using parsed_positive [OF parsed] permits by simp_all
  have modules: "rm_priority_fee modules = priority_fee_api_new max_price (ra_min_suggested_priority_fee args) (ra_payload_size_limit args)"
    "case ra_sequencer args of
       Some s \<Rightarrow> (\<exists>url. parse_url s = Inr url \<and> rm_forwarder modules = Some (url, \<not> no_prop))
     | None \<Rightarrow> rm_forwarder modules = map_option (\<lambda>url. (url, \<not> no_prop)) fwd"
    using rpc by (auto simp: add_ons_def nc(3) extend_rpc_modules_def Let_def result_elims split: option.splits prod.splits)
  have exec: "\<exists>x :: ('o, 't, 'r) Txpool_Executor.executor.
       build_pool_executor max_permits (nc_code_witness_config nc) override additional = Some x \<and> 0 < xe_workers x \<and> xe_workers x \<le> xe_inflight x"
    using inflight worker_limit_bounds [OF inflight(1)]
    by (auto simp: build_pool_executor_def validation_executor_new_def nc validation_config_def)
  show ?thesis
    using bytes modules exec
    by (simp add: config build_payload_builder_def builder_config_def with_max_code_witness_bytes_def builder_config_new_def nc
        validation_config_def DOGEOS_DEFAULT_GAS_LIMIT_def priority_fee_api_new_def cong: option.case_cong)
qed

text \<open>Bodies survive the storage: for blocks that pass the body rules of the consensus, reading the
  bodies back from the stored transactions gives the blocks again, in order.\<close>

theorem stored_bodies_roundtrip:
  assumes "\<forall>b \<in> set blocks. cons_validate_block_pre_execution ca b = Inr ()"
  shows "map2 (\<lambda>b body. \<lparr>b_header = b_header b, b_transactions = bb_transactions body, b_ommers = bb_ommers body,
      b_withdrawals = bb_withdrawals body\<rparr>) blocks (read_block_bodies (map (\<lambda>b. (b_header b, b_transactions b)) blocks)) = blocks"
proof -
  have "\<lparr>b_header = b_header b, b_transactions = b_transactions b, b_ommers = [], b_withdrawals = None\<rparr> = b"
    if "b \<in> set blocks" for b
  proof -
    have "b_ommers b = []" "b_withdrawals b = None"
      using assms that by (auto simp: cons_validate_block_pre_execution_def split: if_splits)
    then show ?thesis by (intro Block.equality) simp_all
  qed
  then show ?thesis by (induction blocks) (simp_all add: read_block_bodies_def)
qed

section \<open>A concrete instance\<close>

definition sample_args :: DogeosRollupArgs where
  "sample_args = default_rollup_args\<lparr>ra_scroll_wire_signer := Some 17\<rparr>"

lemma sample_launch:
  "launch 1337 sample_args 1122005 = Inr (components_builder (node_types_new sample_args) :: node_components \<times> unit DogeosNodeTypes)"
  by (simp add: launch_def validate_for_chain_def sample_args_def)

theorem launched_node_imports_authorized_witness:
  "\<exists>nc nt :: unit DogeosNodeTypes. launch 1337 sample_args 1122005 = Inr (nc, nt) \<and>
     (\<exists>manager im. fst (add_ons list_lru (\<lambda>_. Inl () :: unit + unit) Inr None None False nt) = Some (manager, im) \<and>
       (\<forall>(block, signature) \<in> set (im_sent (import_all sample_import_env list_lru
           [NewBlockEvent 4 sample_block sample_signature, NewBlockEvent 4 sample_block (sample_signature\<lparr>sig_r := 18\<rparr>) :: (unit, nat) ScrollWireEvent] im)).
          wi_recover_signer sample_wire signature (signature_hash sample_wire (b_header block)) = Inr 17))"
proof -
  let ?evs = "[NewBlockEvent 4 sample_block sample_signature,
      NewBlockEvent 4 sample_block (sample_signature\<lparr>sig_r := 18\<rparr>) :: (unit, nat) ScrollWireEvent]"
  obtain nc and nt :: "unit DogeosNodeTypes" where start: "launch 1337 sample_args 1122005 = Inr (nc, nt)"
    using sample_launch by (cases "components_builder (node_types_new sample_args) :: node_components \<times> unit DogeosNodeTypes") simp
  obtain imp modules nt' where rpc: "add_ons list_lru (\<lambda>_. Inl () :: unit + unit) Inr None None False nt = (imp, modules, nt')"
    by (metis prod_cases3)
  have args: "ra_enable_scroll_wire sample_args" "ra_scroll_wire_signer sample_args = Some 17"
    by (simp_all add: sample_args_def default_rollup_args_def)
  from launched_node_imports_authorized [OF list_lru_laws start _ rpc, of sample_import_env] args
  obtain manager im where "imp = Some (manager, im)"
    and "\<forall>(block, signature) \<in> set (im_sent (import_all sample_import_env list_lru ?evs im)).
          wi_recover_signer (ie_wire sample_import_env) signature (signature_hash (ie_wire sample_import_env) (b_header block)) = Inr 17"
    by fastforce
  then show ?thesis using start rpc by (fastforce simp: sample_import_env_def)
qed

theorem node_policy_consistent_witness:
  "\<exists>nc nt modules imp nt'. launch 1337 sample_args 1122005 = Inr (nc, nt :: unit DogeosNodeTypes) \<and>
     add_ons list_lru (\<lambda>_. Inl () :: unit + unit) Inr None None False nt = (imp, Inr modules, nt') \<and>
     cf_max_da_block_size (build_payload_builder (nc_payload nc) None) = Some (pf_payload_size_limit (rm_priority_fee modules))"
proof -
  obtain nc and nt :: "unit DogeosNodeTypes" where start: "launch 1337 sample_args 1122005 = Inr (nc, nt)"
    using sample_launch by (cases "components_builder (node_types_new sample_args) :: node_components \<times> unit DogeosNodeTypes") simp
  have nt: "nt_args nt = sample_args" using launched(1) [OF start] by (simp add: components_built)
  have parsed: "parse_code_witness_args 1000 None None None = Inr (ra_code_witness sample_args)"
    by (simp add: parse_code_witness_args_def with_default_def sample_args_def default_rollup_args_def
        default_code_witness_args_def Let_def)
  obtain imp modules nt' where rpc: "add_ons list_lru (\<lambda>_. Inl () :: unit + unit) Inr None None False nt = (imp, Inr modules, nt')"
    by (cases "build_eth_api list_lru (ra_scroll_wire_signer sample_args) (nt_scroll_wire nt) ::
          (unit ScrollWireManager \<times> (nat \<times> (b256 \<times> Signature) list) importer) option \<times> _")
      (simp add: add_ons_def nt extend_rpc_modules_def sample_args_def default_rollup_args_def Let_def)
  have permits: "cw_max_inflight default_code_witness_config \<le> 1000" by (simp add: default_code_witness_config_def)
  from node_policy_consistent [OF parsed permits start rpc refl, of None] start rpc show ?thesis by blast
qed

theorem stored_bodies_roundtrip_witness:
  "read_block_bodies [(b_header sample_block, b_transactions sample_block)] =
     [\<lparr>bb_transactions = [], bb_ommers = [], bb_withdrawals = None\<rparr>] \<and>
   map2 (\<lambda>b body. \<lparr>b_header = b_header b, b_transactions = bb_transactions body, b_ommers = bb_ommers body,
      b_withdrawals = bb_withdrawals body\<rparr>) [sample_block] (read_block_bodies [(b_header sample_block, b_transactions sample_block)]) = [sample_block]"
proof -
  have "cons_validate_block_pre_execution
      (sample_consensus\<lparr>ca_transaction_root_valid := (\<lambda>_. True), ca_empty_ommer_root := h_ommers_hash (b_header sample_block)\<rparr>) sample_block = Inr ()"
    by (simp add: cons_validate_block_pre_execution_def sample_block_def validate_l1_messages_def)
  then show ?thesis
    using stored_bodies_roundtrip [of "[sample_block]"] by (auto simp: read_block_bodies_def sample_block_def)
qed

end
