(* ===== verification/Rpc_Service.thy ===== *)
theory Rpc_Service
  imports Evm_Config "HOL-Library.Multiset"
begin

text \<open>
  The remaining RPC services: forwarding of raw transactions to a sequencer
  (\<open>crates/dogeos-reth-rpc/src/forwarder.rs\<close>, \<open>sequencer.rs\<close>) and execution witnesses
  (\<open>crates/dogeos-reth-rpc/src/witness.rs\<close> with \<open>crates/dogeos-reth-evm/src/witness_state.rs\<close>).

  Parameters: the local pool behind the \<open>eth\<close> API and the sequencer (\<open>forward_env\<close>); the caching
  state of revm (\<open>witness_ops\<close>, laws \<open>witness_laws\<close>: reads of accounts that exist are recorded, and a
  slot can be read once its account is loaded), the provider and the witness recorder of reth (\<open>witness_env\<close>).
\<close>

section \<open>Forwarding\<close>

datatype 'r SequencerClientError = SequencerRpc 'r

text \<open>\<open>send_raw_transaction\<close> is an async function with two await points. A call is the state of its future:
  where it is suspended (with the local hash that lives across the second await), what has answered
  it, and whether its caller has dropped it. The answer of the pool is recorded when the pool has
  run, the answer of the sequencer when the request has reached it, and both may come before the
  future is polled again, or after it is dropped.\<close>

datatype 'e forward_point =
    AtPool
  | AtSequencer b256
  | Returned "'e + b256"

record ('e, 'r) forward_future =
  ff_raw :: bytes
  ff_point :: "'e forward_point"
  ff_local :: "('e + b256) option"
  ff_remote :: "('r SequencerClientError + b256) option"
  ff_dropped :: bool

record ('p, 'e, 'r) forward_state =
  fs_pool :: 'p
  fs_requests :: "(string \<times> string) list"
  fs_spawned :: "bytes list"
  fs_calls :: "('e, 'r) forward_future list"

record ('p, 'e, 'r) forward_env =
  fw_send_raw_transaction :: "bytes \<Rightarrow> 'p \<Rightarrow> ('e + b256) \<times> 'p"
  fw_encode_prefixed :: "bytes \<Rightarrow> string"
  fw_request :: "nat \<Rightarrow> string \<Rightarrow> string \<Rightarrow> 'r + b256"
  fw_other :: "'r \<Rightarrow> 'e"
  fw_propagate_local_transactions :: bool

text \<open>The answer of the sequencer may depend on the requests before this one.\<close>

definition send_rpc_call ::
  "('p, 'e, 'r) forward_env \<Rightarrow> string \<Rightarrow> string \<Rightarrow> ('p, 'e, 'r) forward_state \<Rightarrow>
   ('r SequencerClientError + b256) \<times> ('p, 'e, 'r) forward_state" where
  "send_rpc_call fw method params st =
     (map_err SequencerRpc (fw_request fw (length (fs_requests st)) method params),
      st\<lparr>fs_requests := fs_requests st @ [(method, params)]\<rparr>)"

definition forward_raw_transaction ::
  "('p, 'e, 'r) forward_env \<Rightarrow> bytes \<Rightarrow> ('p, 'e, 'r) forward_state \<Rightarrow>
   ('r SequencerClientError + b256) \<times> ('p, 'e, 'r) forward_state" where
  "forward_raw_transaction fw transaction st =
     send_rpc_call fw ''eth_sendRawTransaction'' (fw_encode_prefixed fw transaction) st"

text \<open>A call of the method starts with its future before the first await.\<close>

definition start_call :: "bytes \<Rightarrow> ('e, 'r) forward_future" where
  "start_call raw = \<lparr>ff_raw = raw, ff_point = AtPool, ff_local = None, ff_remote = None, ff_dropped = False\<rparr>"

text \<open>One poll of the future, with the tasks of the runtime: it runs from its await point to the next
  one or to its end; nothing changes while what it waits for has not answered.\<close>

definition send_raw_transaction ::
  "('p, 'e, 'r) forward_env \<Rightarrow> ('e, 'r) forward_future \<Rightarrow> bytes list \<Rightarrow> ('e, 'r) forward_future \<times> bytes list" where
  "send_raw_transaction fw call spawned =
     (case ff_point call of
        AtPool \<Rightarrow>
          (case ff_local call of
             None \<Rightarrow> (call, spawned)
           | Some (Inl error) \<Rightarrow> (call\<lparr>ff_point := Returned (Inl error)\<rparr>, spawned)
           | Some (Inr local_hash) \<Rightarrow>
               if fw_propagate_local_transactions fw
               then (call\<lparr>ff_point := Returned (Inr local_hash)\<rparr>, spawned @ [ff_raw call])
               else (call\<lparr>ff_point := AtSequencer local_hash\<rparr>, spawned))
      | AtSequencer local_hash \<Rightarrow>
          (case ff_remote call of
             None \<Rightarrow> (call, spawned)
           | Some (Inl (SequencerRpc error)) \<Rightarrow> (call\<lparr>ff_point := Returned (Inl (fw_other fw error))\<rparr>, spawned)
           | Some (Inr sequencer_hash) \<Rightarrow> (call\<lparr>ff_point := Returned (Inr local_hash)\<rparr>, spawned))
      | Returned _ \<Rightarrow> (call, spawned))"

text \<open>The pool handles the transaction of a call; a call that waits for the sequencer reaches it.\<close>

definition pool_answers ::
  "('p, 'e, 'r) forward_env \<Rightarrow> nat \<Rightarrow> ('p, 'e, 'r) forward_state \<Rightarrow> ('p, 'e, 'r) forward_state" where
  "pool_answers fw i st =
     (let call = fs_calls st ! i in
      if i < length (fs_calls st) \<and> ff_local call = None
      then case fw_send_raw_transaction fw (ff_raw call) (fs_pool st) of (r, pool) \<Rightarrow>
        st\<lparr>fs_pool := pool, fs_calls := (fs_calls st)[i := call\<lparr>ff_local := Some r\<rparr>]\<rparr>
      else st)"

definition sequencer_answers ::
  "('p, 'e, 'r) forward_env \<Rightarrow> nat \<Rightarrow> ('p, 'e, 'r) forward_state \<Rightarrow> ('p, 'e, 'r) forward_state" where
  "sequencer_answers fw i st =
     (let call = fs_calls st ! i in
      if i < length (fs_calls st) \<and> (\<exists>local_hash. ff_point call = AtSequencer local_hash) \<and> ff_remote call = None
      then case forward_raw_transaction fw (ff_raw call) st of (r, st) \<Rightarrow>
        st\<lparr>fs_calls := (fs_calls st)[i := call\<lparr>ff_remote := Some r\<rparr>]\<rparr>
      else st)"

definition resume_call ::
  "('p, 'e, 'r) forward_env \<Rightarrow> nat \<Rightarrow> ('p, 'e, 'r) forward_state \<Rightarrow> ('p, 'e, 'r) forward_state" where
  "resume_call fw i st =
     (if i < length (fs_calls st) \<and> \<not> ff_dropped (fs_calls st ! i)
      then case send_raw_transaction fw (fs_calls st ! i) (fs_spawned st) of (call, spawned) \<Rightarrow>
        st\<lparr>fs_calls := (fs_calls st)[i := call], fs_spawned := spawned\<rparr>
      else st)"

definition drop_call :: "nat \<Rightarrow> ('p, 'e, 'r) forward_state \<Rightarrow> ('p, 'e, 'r) forward_state" where
  "drop_call i st =
     (if i < length (fs_calls st)
      then st\<lparr>fs_calls := (fs_calls st)[i := (fs_calls st ! i)\<lparr>ff_dropped := True\<rparr>]\<rparr>
      else st)"

text \<open>A spawned task forwards its transaction and logs the answer.\<close>

definition run_spawned ::
  "('p, 'e, 'r) forward_env \<Rightarrow> nat \<Rightarrow> ('p, 'e, 'r) forward_state \<Rightarrow> ('p, 'e, 'r) forward_state" where
  "run_spawned fw i st =
     (if i < length (fs_spawned st)
      then snd (forward_raw_transaction fw (fs_spawned st ! i)
             (st\<lparr>fs_spawned := take i (fs_spawned st) @ drop (Suc i) (fs_spawned st)\<rparr>))
      else st)"

text \<open>The interleavings of any number of calls, of the answers to them and of the turns of the runtime.\<close>

datatype forward_op =
    SendRaw bytes
  | PoolAnswers nat
  | SequencerAnswers nat
  | Resume nat
  | DropCall nat
  | RunTask nat

fun forward_step ::
  "('p, 'e, 'r) forward_env \<Rightarrow> forward_op \<Rightarrow> ('p, 'e, 'r) forward_state \<Rightarrow> ('p, 'e, 'r) forward_state" where
  "forward_step fw (SendRaw raw) st = st\<lparr>fs_calls := fs_calls st @ [start_call raw]\<rparr>"
| "forward_step fw (PoolAnswers i) st = pool_answers fw i st"
| "forward_step fw (SequencerAnswers i) st = sequencer_answers fw i st"
| "forward_step fw (Resume i) st = resume_call fw i st"
| "forward_step fw (DropCall i) st = drop_call i st"
| "forward_step fw (RunTask i) st = run_spawned fw i st"

definition forward_new :: "'p \<Rightarrow> ('p, 'e, 'r) forward_state" where
  "forward_new pool = \<lparr>fs_pool = pool, fs_requests = [], fs_spawned = [], fs_calls = []\<rparr>"

definition forward_call :: "('p, 'e, 'r) forward_env \<Rightarrow> bytes \<Rightarrow> string \<times> string" where
  "forward_call fw raw = (''eth_sendRawTransaction'', fw_encode_prefixed fw raw)"

text \<open>The pool has accepted the transaction of a call; the call still has to hand it on.\<close>

definition pool_accepted :: "('e, 'r) forward_future \<Rightarrow> bool" where
  "pool_accepted call \<longleftrightarrow> (case ff_local call of Some (Inr _) \<Rightarrow> True | _ \<Rightarrow> False)"

definition on_the_way :: "('e, 'r) forward_future \<Rightarrow> bool" where
  "on_the_way call \<longleftrightarrow> pool_accepted call \<and>
     (case ff_point call of
        AtPool \<Rightarrow> True
      | AtSequencer _ \<Rightarrow> ff_remote call = None
      | Returned _ \<Rightarrow> False)"

section \<open>Execution witnesses\<close>

















section \<open>Properties of forwarding\<close>

lemma forwarded_state:
  "forward_raw_transaction fw raw st =
     (map_err SequencerRpc (fw_request fw (length (fs_requests st)) ''eth_sendRawTransaction'' (fw_encode_prefixed fw raw)),
      st\<lparr>fs_requests := fs_requests st @ [forward_call fw raw]\<rparr>)"
  by (simp add: forward_raw_transaction_def send_rpc_call_def forward_call_def)

text \<open>The answer a call returns, by the answers of the pool and of the sequencer, and the request behind
  the sequencer's answer.\<close>

definition call_answer ::
  "('p, 'e, 'r) forward_env \<Rightarrow> ('e, 'r) forward_future \<Rightarrow> 'e + b256 \<Rightarrow> bool" where
  "call_answer fw call r \<longleftrightarrow>
     (case ff_local call of
        None \<Rightarrow> False
      | Some (Inl error) \<Rightarrow> r = Inl error \<and> ff_remote call = None
      | Some (Inr local_hash) \<Rightarrow>
          (case ff_remote call of
             None \<Rightarrow> fw_propagate_local_transactions fw \<and> r = Inr local_hash
           | Some (Inl (SequencerRpc error)) \<Rightarrow> \<not> fw_propagate_local_transactions fw \<and> r = Inl (fw_other fw error)
           | Some (Inr _) \<Rightarrow> \<not> fw_propagate_local_transactions fw \<and> r = Inr local_hash))"

definition call_ok ::
  "('p, 'e, 'r) forward_env \<Rightarrow> (string \<times> string) list \<Rightarrow> ('e, 'r) forward_future \<Rightarrow> bool" where
  "call_ok fw requests call \<longleftrightarrow>
     (case ff_point call of
        AtPool \<Rightarrow> ff_remote call = None
      | AtSequencer local_hash \<Rightarrow> \<not> fw_propagate_local_transactions fw \<and> ff_local call = Some (Inr local_hash)
      | Returned r \<Rightarrow> call_answer fw call r) \<and>
     (\<forall>answer. ff_remote call = Some answer \<longrightarrow>
        (\<exists>n < length requests. requests ! n = forward_call fw (ff_raw call) \<and>
           answer = map_err SequencerRpc (fw_request fw n (fst (requests ! n)) (snd (requests ! n)))))"

definition forward_ok :: "('p, 'e, 'r) forward_env \<Rightarrow> ('p, 'e, 'r) forward_state \<Rightarrow> bool" where
  "forward_ok fw st \<longleftrightarrow>
     mset (fs_requests st) + mset (map (forward_call fw) (fs_spawned st)) +
       mset (map (forward_call fw \<circ> ff_raw) (filter on_the_way (fs_calls st))) =
       mset (map (forward_call fw \<circ> ff_raw) (filter pool_accepted (fs_calls st))) \<and>
     (\<forall>call \<in> set (fs_calls st). call_ok fw (fs_requests st) call) \<and>
     (\<not> fw_propagate_local_transactions fw \<longrightarrow> fs_spawned st = [])"

lemma dropped_same [simp]:
  "pool_accepted (call\<lparr>ff_dropped := b\<rparr>) = pool_accepted call"
  "on_the_way (call\<lparr>ff_dropped := b\<rparr>) = on_the_way call"
  "call_ok fw requests (call\<lparr>ff_dropped := b\<rparr>) = call_ok fw requests call"
  by (simp_all add: pool_accepted_def on_the_way_def call_ok_def call_answer_def
      split: forward_point.split option.split sum.split SequencerClientError.split)

lemma call_ok_more: "call_ok fw requests call \<Longrightarrow> call_ok fw (requests @ sent) call"
  unfolding call_ok_def by (metis length_append nth_append trans_less_add1)

lemma mset_filter_update:
  assumes "i < length xs"
  shows "mset (map g (filter P (xs[i := y]))) + (if P (xs ! i) then {#g (xs ! i)#} else {#}) =
    mset (map g (filter P xs)) + (if P y then {#g y#} else {#})"
proof -
  have "mset (xs[i := y]) + {#xs ! i#} = mset xs + {#y#}"
    using assms by (simp add: mset_update)
  then have "image_mset g (filter_mset P (mset (xs[i := y]) + {#xs ! i#})) = image_mset g (filter_mset P (mset xs + {#y#}))"
    by simp
  then show ?thesis by (simp add: mset_filter split: if_splits)
qed

lemma balanced_update:
  fixes A :: "'m::cancel_comm_monoid_add"
  assumes "R + T + W = A" and "W' + xw = W + yw" and "A' + xa = A + ya" and "r + t + yw + xa = xw + ya"
  shows "(R + r) + (T + t) + W' = A'"
proof -
  have "(R + r) + (T + t) + W' + (xw + xa) = R + T + (W' + xw) + (r + t + xa)" by (simp only: ac_simps)
  also have "\<dots> = (R + T + W) + (r + t + yw + xa)" unfolding assms(2) by (simp only: ac_simps)
  also have "\<dots> = (A' + xa) + xw" unfolding assms(1,3,4) by (simp only: ac_simps)
  also have "\<dots> = A' + (xw + xa)" by (simp only: ac_simps)
  finally show ?thesis by simp
qed

text \<open>The invariant after a call has been replaced, with its own balance as the condition.\<close>

lemma forward_ok_update:
  assumes ok: "forward_ok fw st" and i: "i < length (fs_calls st)"
    and calls: "fs_calls st' = (fs_calls st)[i := call]" and raw: "ff_raw call = ff_raw (fs_calls st ! i)"
    and new: "fs_requests st' = fs_requests st @ reqs" "fs_spawned st' = fs_spawned st @ tasks"
    and balance: "mset reqs + mset (map (forward_call fw) tasks) +
        (if on_the_way call then {#forward_call fw (ff_raw call)#} else {#}) +
        (if pool_accepted (fs_calls st ! i) then {#forward_call fw (ff_raw call)#} else {#}) =
      (if on_the_way (fs_calls st ! i) then {#forward_call fw (ff_raw call)#} else {#}) +
        (if pool_accepted call then {#forward_call fw (ff_raw call)#} else {#})"
    and call: "call_ok fw (fs_requests st) (fs_calls st ! i) \<Longrightarrow> call_ok fw (fs_requests st') call"
    and tasks: "\<not> fw_propagate_local_transactions fw \<Longrightarrow> tasks = []"
  shows "forward_ok fw st'"
proof -
  let ?g = "forward_call fw \<circ> ff_raw" and ?old = "fs_calls st ! i"
  have g: "?g ?old = forward_call fw (ff_raw call)" "?g call = forward_call fw (ff_raw call)" using raw by simp_all
  note upd = mset_filter_update [OF i, of ?g _ call, folded calls, unfolded g]
  have cons: "mset (fs_requests st) + mset (map (forward_call fw) (fs_spawned st)) +
       mset (map ?g (filter on_the_way (fs_calls st))) = mset (map ?g (filter pool_accepted (fs_calls st)))"
    using ok by (simp add: forward_ok_def)
  have "mset (fs_requests st') + mset (map (forward_call fw) (fs_spawned st')) +
       mset (map ?g (filter on_the_way (fs_calls st'))) = mset (map ?g (filter pool_accepted (fs_calls st')))"
    using balanced_update [OF cons upd [of on_the_way] upd [of pool_accepted] balance] by (simp add: new)
  moreover have "\<forall>c \<in> set (fs_calls st'). call_ok fw (fs_requests st') c"
    using ok i call unfolding calls by (auto simp: forward_ok_def new call_ok_more dest!: set_update_subset_insert [THEN subsetD])
  ultimately show ?thesis using ok tasks new by (simp add: forward_ok_def)
qed

lemma resume_ok:
  assumes ok: "forward_ok fw st"
  shows "forward_ok fw (resume_call fw i st)"
proof (cases "i < length (fs_calls st) \<and> \<not> ff_dropped (fs_calls st ! i)")
  case True
  let ?c = "fs_calls st ! i"
  define tasks where "tasks = (if fw_propagate_local_transactions fw \<and> ff_point ?c = AtPool \<and> pool_accepted ?c
    then [ff_raw ?c] else [])"
  obtain c spawned where c: "send_raw_transaction fw ?c (fs_spawned st) = (c, spawned)" by fastforce
  have call: "call_ok fw (fs_requests st) ?c" using ok True by (simp add: forward_ok_def)
  have st': "resume_call fw i st = st\<lparr>fs_calls := (fs_calls st)[i := c], fs_spawned := spawned\<rparr>"
    using True c by (simp add: resume_call_def)
  have res: "ff_raw c = ff_raw ?c" "spawned = fs_spawned st @ tasks" "call_ok fw (fs_requests st) c"
    "pool_accepted c = pool_accepted ?c" "on_the_way ?c = (on_the_way c \<or> tasks \<noteq> [])" "tasks \<noteq> [] \<longrightarrow> \<not> on_the_way c"
    using c call
    by (auto simp: send_raw_transaction_def tasks_def call_ok_def call_answer_def pool_accepted_def on_the_way_def
        split: forward_point.splits option.splits sum.splits if_splits SequencerClientError.splits)
  show ?thesis unfolding st' using True res
    by (intro forward_ok_update [OF ok, where i = i and reqs = "[]" and tasks = tasks and call = c]) (auto simp: tasks_def)
qed (use ok in \<open>auto simp: resume_call_def\<close>)

lemma run_spawned_ok:
  assumes ok: "forward_ok fw st"
  shows "forward_ok fw (run_spawned fw i st)"
proof (cases "i < length (fs_spawned st)")
  case True
  have "mset (fs_spawned st) = mset (take i (fs_spawned st) @ drop (Suc i) (fs_spawned st)) + {#fs_spawned st ! i#}"
    by (subst id_take_nth_drop [OF True]) simp
  then show ?thesis using ok True
    by (auto simp: forward_ok_def run_spawned_def forwarded_state call_ok_more)
qed (use ok in \<open>simp add: run_spawned_def\<close>)

lemma forward_step_ok:
  assumes ok: "forward_ok fw st"
  shows "forward_ok fw (forward_step fw op st)"
proof (cases op)
  case (SendRaw raw)
  then show ?thesis using ok
    by (simp add: forward_ok_def start_call_def on_the_way_def pool_accepted_def call_ok_def)
next
  case (PoolAnswers i)
  show ?thesis
  proof (cases "i < length (fs_calls st) \<and> ff_local (fs_calls st ! i) = None")
    case True
    obtain r pool where r: "fw_send_raw_transaction fw (ff_raw (fs_calls st ! i)) (fs_pool st) = (r, pool)" by fastforce
    then have st': "forward_step fw op st =
        st\<lparr>fs_pool := pool, fs_calls := (fs_calls st)[i := (fs_calls st ! i)\<lparr>ff_local := Some r\<rparr>]\<rparr>"
      using True by (simp add: PoolAnswers pool_answers_def Let_def)
    have "call_ok fw (fs_requests st) (fs_calls st ! i)" using ok True by (simp add: forward_ok_def)
    then have point: "ff_point (fs_calls st ! i) = AtPool"
      using True by (auto simp: call_ok_def call_answer_def split: forward_point.splits)
    show ?thesis unfolding st' using True point
      by (intro forward_ok_update [OF ok, where i = i and reqs = "[]" and tasks = "[]" and
          call = "(fs_calls st ! i)\<lparr>ff_local := Some r\<rparr>"])
        (auto simp: on_the_way_def pool_accepted_def call_ok_def split: sum.splits)
  qed (use ok in \<open>auto simp: PoolAnswers pool_answers_def Let_def\<close>)
next
  case (SequencerAnswers i)
  show ?thesis
  proof (cases "i < length (fs_calls st) \<and> (\<exists>h. ff_point (fs_calls st ! i) = AtSequencer h) \<and> ff_remote (fs_calls st ! i) = None")
    case True
    then obtain h where h: "ff_point (fs_calls st ! i) = AtSequencer h" by blast
    let ?raw = "ff_raw (fs_calls st ! i)"
    let ?r = "map_err SequencerRpc (fw_request fw (length (fs_requests st)) ''eth_sendRawTransaction'' (fw_encode_prefixed fw ?raw))"
    have st': "forward_step fw op st = st\<lparr>fs_requests := fs_requests st @ [forward_call fw ?raw],
        fs_calls := (fs_calls st)[i := (fs_calls st ! i)\<lparr>ff_remote := Some ?r\<rparr>]\<rparr>"
      using True by (simp add: SequencerAnswers sequencer_answers_def Let_def forwarded_state)
    have "call_ok fw (fs_requests st) (fs_calls st ! i)" using ok True by (simp add: forward_ok_def)
    then have local: "ff_local (fs_calls st ! i) = Some (Inr h)" "\<not> fw_propagate_local_transactions fw"
      using h by (simp_all add: call_ok_def)
    have "call_ok fw (fs_requests st @ [forward_call fw ?raw]) ((fs_calls st ! i)\<lparr>ff_remote := Some ?r\<rparr>)"
      by (simp add: call_ok_def h local) (rule exI [of _ "length (fs_requests st)"], simp add: forward_call_def)
    then show ?thesis unfolding st' using True h local
      by (intro forward_ok_update [OF ok, where i = i and reqs = "[forward_call fw ?raw]" and tasks = "[]" and
          call = "(fs_calls st ! i)\<lparr>ff_remote := Some ?r\<rparr>"])
        (simp_all add: on_the_way_def pool_accepted_def)
  qed (use ok in \<open>auto simp: SequencerAnswers sequencer_answers_def Let_def\<close>)
next
  case (Resume i)
  then show ?thesis by (simp add: resume_ok [OF ok])
next
  case (DropCall i)
  show ?thesis
  proof (cases "i < length (fs_calls st)")
    case True
    then show ?thesis unfolding DropCall
      by (intro forward_ok_update [OF ok, where i = i and reqs = "[]" and tasks = "[]" and
          call = "(fs_calls st ! i)\<lparr>ff_dropped := True\<rparr>"])
        (auto simp: drop_call_def)
  qed (use ok in \<open>simp add: DropCall drop_call_def\<close>)
next
  case (RunTask i)
  then show ?thesis by (simp add: run_spawned_ok [OF ok])
qed

interpretation forwarding: step_invariant "forward_step fw" "forward_ok fw" for fw
  by unfold_locales (rule forward_step_ok)

text \<open>A schedule that brings every call that is not dropped to its end: each await is answered and the
  call is polled again; then the waiting tasks run.\<close>

definition finish_call :: "nat \<Rightarrow> forward_op list" where
  "finish_call i = [PoolAnswers i, Resume i, SequencerAnswers i, Resume i]"

definition same_call :: "('e, 'r) forward_future \<Rightarrow> ('e, 'r) forward_future \<Rightarrow> bool" where
  "same_call c c' \<longleftrightarrow> ff_raw c' = ff_raw c \<and> ff_dropped c' = ff_dropped c"

lemma step_one_call:
  assumes "i < length (fs_calls st)" and "op \<in> set (finish_call i)"
  shows "fs_calls (forward_step fw op st) = (fs_calls st)[i := fs_calls (forward_step fw op st) ! i]"
    and "same_call (fs_calls st ! i) (fs_calls (forward_step fw op st) ! i)"
  using assms
  by (auto simp: finish_call_def pool_answers_def resume_call_def sequencer_answers_def send_raw_transaction_def Let_def
      forwarded_state same_call_def
      split: prod.splits forward_point.splits option.splits sum.splits SequencerClientError.splits if_splits)

lemma steps_one_call:
  assumes "i < length (fs_calls st)" and "set ops \<subseteq> set (finish_call i)"
  shows "fs_calls (fold (forward_step fw) ops st) = (fs_calls st)[i := fs_calls (fold (forward_step fw) ops st) ! i] \<and>
    same_call (fs_calls st ! i) (fs_calls (fold (forward_step fw) ops st) ! i)"
  using assms
proof (induction ops arbitrary: st)
  case (Cons op ops)
  let ?st = "forward_step fw op st"
  have one: "fs_calls ?st = (fs_calls st)[i := fs_calls ?st ! i]" "same_call (fs_calls st ! i) (fs_calls ?st ! i)"
    using step_one_call [OF Cons.prems(1), of op fw] Cons.prems(2) by simp_all
  then have "i < length (fs_calls ?st)" using Cons.prems(1) by (metis length_list_update)
  from Cons.IH [OF this] Cons.prems(2) one show ?case
    by (simp add: same_call_def) (metis list_update_overwrite)
qed (simp add: same_call_def)

lemma finished_call:
  assumes i: "i < length (fs_calls st)"
  shows "ff_dropped (fs_calls st ! i) \<or> (\<exists>r. ff_point (fs_calls (fold (forward_step fw) (finish_call i) st) ! i) = Returned r)"
proof (cases "ff_dropped (fs_calls st ! i)")
  case False
  define st1 where "st1 = forward_step fw (Resume i) (forward_step fw (PoolAnswers i) st)"
  define st2 where "st2 = forward_step fw (Resume i) (forward_step fw (SequencerAnswers i) st1)"
  have "set [PoolAnswers i, Resume i] \<subseteq> set (finish_call i)" by (simp add: finish_call_def)
  from steps_one_call [OF i this, of fw]
  have st1: "i < length (fs_calls st1)" "\<not> ff_dropped (fs_calls st1 ! i)"
    using i False by (simp_all add: st1_def same_call_def) (metis i length_list_update)
  have "ff_point (fs_calls st1 ! i) \<noteq> AtPool"
    using i False
    by (auto simp: st1_def pool_answers_def resume_call_def send_raw_transaction_def Let_def
        split: prod.splits forward_point.splits option.splits sum.splits SequencerClientError.splits if_splits)
  then have "\<exists>r. ff_point (fs_calls st2 ! i) = Returned r"
    using st1
    by (auto simp: st2_def sequencer_answers_def forwarded_state resume_call_def send_raw_transaction_def Let_def
        split: prod.splits forward_point.splits option.splits sum.splits SequencerClientError.splits if_splits)
  then show ?thesis by (simp add: finish_call_def st1_def st2_def)
qed simp

text \<open>All calls of a state, in turn.\<close>

definition finish_all :: "nat \<Rightarrow> forward_op list" where
  "finish_all n = concat (map finish_call [0..<n])"

lemma finish_all_calls:
  assumes "n \<le> length (fs_calls st)" and "fold (forward_step fw) (finish_all n) st = st'"
  shows "length (fs_calls st') = length (fs_calls st) \<and>
    (\<forall>i < length (fs_calls st). same_call (fs_calls st ! i) (fs_calls st' ! i)) \<and>
    (\<forall>i < n. ff_dropped (fs_calls st' ! i) \<or> (\<exists>r. ff_point (fs_calls st' ! i) = Returned r))"
  using assms
proof (induction n arbitrary: st')
  case (Suc n)
  define st1 where "st1 = fold (forward_step fw) (finish_all n) st"
  have IH: "length (fs_calls st1) = length (fs_calls st)"
    "\<forall>i < length (fs_calls st). same_call (fs_calls st ! i) (fs_calls st1 ! i)"
    "\<forall>i < n. ff_dropped (fs_calls st1 ! i) \<or> (\<exists>r. ff_point (fs_calls st1 ! i) = Returned r)"
    using Suc.IH [OF _ st1_def [symmetric]] Suc.prems(1) by simp_all
  have n: "n < length (fs_calls st1)" using Suc.prems(1) IH(1) by simp
  have st': "st' = fold (forward_step fw) (finish_call n) st1"
    using Suc.prems(2) by (simp add: finish_all_def st1_def)
  have one: "fs_calls st' = (fs_calls st1)[n := fs_calls st' ! n]" "same_call (fs_calls st1 ! n) (fs_calls st' ! n)"
    using steps_one_call [OF n, of "finish_call n" fw] by (simp_all add: st')
  have others: "i \<noteq> n \<Longrightarrow> fs_calls st' ! i = fs_calls st1 ! i" for i
    by (subst one(1)) simp
  have "ff_dropped (fs_calls st' ! n) \<or> (\<exists>r. ff_point (fs_calls st' ! n) = Returned r)"
    using finished_call [OF n, of fw] one(2) by (simp add: st' same_call_def)
  moreover have "length (fs_calls st') = length (fs_calls st)"
    using arg_cong [OF one(1), of length] IH(1) by simp
  moreover have "same_call (fs_calls st ! i) (fs_calls st' ! i)" if "i < length (fs_calls st)" for i
    using IH(2) that one(2) others [of i] by (cases "i = n") (auto simp: same_call_def)
  ultimately show ?case using IH(3) others by (metis less_Suc_eq)
qed (simp add: finish_all_def same_call_def)

lemma drain_spawned:
  "fs_spawned (fold (forward_step fw) (replicate (length (fs_spawned st)) (RunTask 0)) st) = [] \<and>
   fs_calls (fold (forward_step fw) (replicate (length (fs_spawned st)) (RunTask 0)) st) = fs_calls st"
proof (induction "fs_spawned st" arbitrary: st)
  case (Cons raw rest)
  have "fs_spawned (run_spawned fw 0 st) = rest \<and> fs_calls (run_spawned fw 0 st) = fs_calls st"
    using Cons.hyps(2) [symmetric] by (simp add: run_spawned_def forwarded_state)
  then show ?case using Cons.hyps(1) [of "run_spawned fw 0 st"] Cons.hyps(2) [symmetric] by simp
qed simp

text \<open>Without the calls on the way the balance is that of the accepted ones.\<close>

lemma forwarded_balance:
  assumes ok: "forward_ok fw st" and none: "fs_spawned st = []"
  shows "mset (fs_requests st) = mset (map (forward_call fw \<circ> ff_raw) (filter (\<lambda>c. pool_accepted c \<and> \<not> on_the_way c) (fs_calls st)))"
proof -
  have "mset (map g (filter (\<lambda>c. pool_accepted c \<and> \<not> on_the_way c) cs)) + mset (map g (filter on_the_way cs)) =
      mset (map g (filter pool_accepted cs))" for g :: "('e, 'r) forward_future \<Rightarrow> 'g" and cs
    by (induction cs) (auto simp: on_the_way_def)
  note split = this [of "forward_call fw \<circ> ff_raw" "fs_calls st"]
  have "mset (fs_requests st) + mset (map (forward_call fw \<circ> ff_raw) (filter on_the_way (fs_calls st))) =
      mset (map (forward_call fw \<circ> ff_raw) (filter pool_accepted (fs_calls st)))"
    using ok unfolding forward_ok_def none by simp
  then show ?thesis unfolding split [symmetric] by (rule add_right_imp_eq)
qed

lemma returned_answer:
  assumes ok: "call_ok fw requests call" and r: "ff_point call = Returned r"
  shows "\<not> on_the_way call \<and>
      (case ff_local call of
         None \<Rightarrow> False
       | Some (Inl error) \<Rightarrow> r = Inl error \<and> ff_remote call = None
       | Some (Inr local_hash) \<Rightarrow>
           if fw_propagate_local_transactions fw then r = Inr local_hash
           else \<exists>n < length requests.
             requests ! n = (''eth_sendRawTransaction'', fw_encode_prefixed fw (ff_raw call)) \<and>
             r = (case fw_request fw n ''eth_sendRawTransaction'' (fw_encode_prefixed fw (ff_raw call)) of
                    Inl error \<Rightarrow> Inl (fw_other fw error) | Inr sequencer_hash \<Rightarrow> Inr local_hash))"
proof -
  have answer: "call_answer fw call r" using ok r by (simp add: call_ok_def)
  have way: "\<not> on_the_way call" using r by (simp add: on_the_way_def)
  show ?thesis
  proof (cases "ff_remote call")
    case None
    then show ?thesis using answer way
      by (simp add: call_answer_def split: option.splits sum.splits)
  next
    case (Some ans)
    then obtain n where n: "n < length requests" "requests ! n = forward_call fw (ff_raw call)"
      "ans = map_err SequencerRpc (fw_request fw n (fst (requests ! n)) (snd (requests ! n)))"
      using ok by (auto simp: call_ok_def)
    obtain h where h: "ff_local call = Some (Inr h)" "\<not> fw_propagate_local_transactions fw"
      using answer Some by (auto simp: call_answer_def split: option.splits sum.splits SequencerClientError.splits)
    have "r = (case fw_request fw n ''eth_sendRawTransaction'' (fw_encode_prefixed fw (ff_raw call)) of
        Inl error \<Rightarrow> Inl (fw_other fw error) | Inr sequencer_hash \<Rightarrow> Inr h)"
      using answer n Some h by (auto simp: call_answer_def forward_call_def map_err_def split: sum.splits)
    then show ?thesis using way h n(1) n(2) [unfolded forward_call_def] by auto
  qed
qed

text \<open>C18. Every transaction the local pool accepts is forwarded once, and none that it refuses. Any number
  of calls are in flight, each suspended at its await of the pool or of the sequencer; over every
  interleaving of new calls, answers, polls, dropped calls and turns of the runtime:
  the requests sent to the sequencer, the tasks still waiting and the calls that still have to hand on
  an accepted transaction are together the transactions the pool accepted, each with its own bytes;
  a call that has returned never is one of the latter, and has returned the error of the pool, or the
  local hash, or, when local transactions are not propagated, the error in the sequencer's answer to
  a request with its own bytes; only the first case returns without a task or a request. No call waits
  for the sequencer when local transactions are propagated, and no task is spawned otherwise; nothing
  but the pool's own run changes the pool, so an accepted transaction stays in it whatever happens to
  its call. From every such state, answering each await once and running the tasks brings every
  call that is not dropped to its end, and then the requests are exactly the accepted
  transactions, less those of the calls that were dropped before they handed theirs on.\<close>

theorem forwarded_exactly_once:
  fixes fw :: "('p, 'e, 'r) forward_env"
  assumes run: "fold (forward_step fw) ops (forward_new pool) = st"
  shows "mset (fs_requests st) + mset (map (forward_call fw) (fs_spawned st)) +
      mset (map (forward_call fw \<circ> ff_raw) (filter on_the_way (fs_calls st))) =
      mset (map (forward_call fw \<circ> ff_raw) (filter pool_accepted (fs_calls st))) \<and>
    (\<forall>call \<in> set (fs_calls st). \<forall>r. ff_point call = Returned r \<longrightarrow>
      \<not> on_the_way call \<and>
      (case ff_local call of
         None \<Rightarrow> False
       | Some (Inl error) \<Rightarrow> r = Inl error \<and> ff_remote call = None
       | Some (Inr local_hash) \<Rightarrow>
           if fw_propagate_local_transactions fw then r = Inr local_hash
           else \<exists>n < length (fs_requests st).
             fs_requests st ! n = (''eth_sendRawTransaction'', fw_encode_prefixed fw (ff_raw call)) \<and>
             r = (case fw_request fw n ''eth_sendRawTransaction'' (fw_encode_prefixed fw (ff_raw call)) of
                    Inl error \<Rightarrow> Inl (fw_other fw error) | Inr sequencer_hash \<Rightarrow> Inr local_hash))) \<and>
    (if fw_propagate_local_transactions fw then \<forall>call \<in> set (fs_calls st). \<forall>h. ff_point call \<noteq> AtSequencer h
     else fs_spawned st = []) \<and>
    (\<forall>op. (\<forall>i. op \<noteq> PoolAnswers i) \<longrightarrow> fs_pool (forward_step fw op st) = fs_pool st) \<and>
    (let st1 = fold (forward_step fw) (finish_all (length (fs_calls st))) st;
         st' = fold (forward_step fw) (replicate (length (fs_spawned st1)) (RunTask 0)) st1 in
       map ff_raw (fs_calls st') = map ff_raw (fs_calls st) \<and>
       map ff_dropped (fs_calls st') = map ff_dropped (fs_calls st) \<and>
       (\<forall>call \<in> set (fs_calls st'). ff_dropped call \<or> (\<exists>r. ff_point call = Returned r)) \<and>
       fs_spawned st' = [] \<and>
       mset (fs_requests st') = mset (map (forward_call fw \<circ> ff_raw)
         (filter (\<lambda>call. pool_accepted call \<and> \<not> (ff_dropped call \<and> on_the_way call)) (fs_calls st'))))"
proof -
  have ok: "forward_ok fw st"
    using forwarding.steps_keep [of fw "forward_new pool" ops] run by (simp add: forward_ok_def forward_new_def)
  have answers: "\<not> on_the_way call \<and>
      (case ff_local call of
         None \<Rightarrow> False
       | Some (Inl error) \<Rightarrow> r = Inl error \<and> ff_remote call = None
       | Some (Inr local_hash) \<Rightarrow>
           if fw_propagate_local_transactions fw then r = Inr local_hash
           else \<exists>n < length (fs_requests st).
             fs_requests st ! n = (''eth_sendRawTransaction'', fw_encode_prefixed fw (ff_raw call)) \<and>
             r = (case fw_request fw n ''eth_sendRawTransaction'' (fw_encode_prefixed fw (ff_raw call)) of
                    Inl error \<Rightarrow> Inl (fw_other fw error) | Inr sequencer_hash \<Rightarrow> Inr local_hash))"
    if "call \<in> set (fs_calls st)" "ff_point call = Returned r" for call r
  proof -
    have "call_ok fw (fs_requests st) call" using ok that(1) by (simp add: forward_ok_def)
    then show ?thesis using that(2) by (rule returned_answer)
  qed
  have points: "if fw_propagate_local_transactions fw then \<forall>call \<in> set (fs_calls st). \<forall>h. ff_point call \<noteq> AtSequencer h
     else fs_spawned st = []"
    using ok by (force simp: forward_ok_def call_ok_def)
  have pool: "fs_pool (forward_step fw op st) = fs_pool st" if "\<forall>i. op \<noteq> PoolAnswers i" for op
    using that by (cases op) (simp_all add: sequencer_answers_def resume_call_def drop_call_def run_spawned_def Let_def
        forwarded_state split: prod.splits)
  define st1 where "st1 = fold (forward_step fw) (finish_all (length (fs_calls st))) st"
  define st' where "st' = fold (forward_step fw) (replicate (length (fs_spawned st1)) (RunTask 0)) st1"
  note finished = finish_all_calls [OF order_refl st1_def [symmetric]]
  have st': "fs_calls st' = fs_calls st1" "fs_spawned st' = []"
    using drain_spawned [of fw st1] by (simp_all add: st'_def)
  have ok': "forward_ok fw st'" unfolding st'_def st1_def by (intro forwarding.steps_keep ok)
  have all: "\<forall>call \<in> set (fs_calls st'). ff_dropped call \<or> (\<exists>r. ff_point call = Returned r)"
    using finished unfolding st' by (metis in_set_conv_nth)
  then have "filter (\<lambda>call. pool_accepted call \<and> \<not> (ff_dropped call \<and> on_the_way call)) (fs_calls st') =
      filter (\<lambda>call. pool_accepted call \<and> \<not> on_the_way call) (fs_calls st')"
    by (intro filter_cong) (auto simp: on_the_way_def)
  note balance = forwarded_balance [OF ok' st'(2), folded this]
  have same: "map ff_raw (fs_calls st') = map ff_raw (fs_calls st)" "map ff_dropped (fs_calls st') = map ff_dropped (fs_calls st)"
    using finished unfolding st' by (auto simp: same_call_def intro: nth_equalityI)
  show ?thesis
    unfolding Let_def st1_def [symmetric] st'_def [symmetric]
    using ok [unfolded forward_ok_def, THEN conjunct1] answers points pool same all st'(2) balance by blast
qed

definition sample_forward :: "bool \<Rightarrow> (bytes list, string, string) forward_env" where
  "sample_forward propagate = \<lparr>
     fw_send_raw_transaction = (\<lambda>raw pool. if raw = [] then (Inl ''empty'', pool) else (Inr (ucast (hd raw)), pool @ [raw])),
     fw_encode_prefixed = (\<lambda>raw. ''0x''), fw_request = (\<lambda>_ _ _. Inl ''unreachable''), fw_other = id,
     fw_propagate_local_transactions = propagate\<rparr>"

text \<open>Four calls in flight at once: the first is forwarded and answered with the sequencer's error, the
  second is refused, the third is dropped after the pool accepted it, the fourth is still waiting.\<close>

theorem forwarded_exactly_once_witness:
  "let st = fold (forward_step (sample_forward False))
       [SendRaw [1], SendRaw [], PoolAnswers 0, SendRaw [2], PoolAnswers 1, Resume 0, PoolAnswers 2, DropCall 2, Resume 1,
        Resume 2, SendRaw [3], SequencerAnswers 0, Resume 0] (forward_new []) in
   fs_requests st = [(''eth_sendRawTransaction'', ''0x'')] \<and>
   map ff_point (fs_calls st) = [Returned (Inl ''unreachable''), Returned (Inl ''empty''), AtPool, AtPool] \<and>
   fs_pool st = [[1], [2]] \<and> map ff_raw (filter on_the_way (fs_calls st)) = [[2]] \<and>
   mset (fs_requests st) + {#(''eth_sendRawTransaction'', ''0x'')#} =
     mset (map (forward_call (sample_forward False) \<circ> ff_raw) (filter pool_accepted (fs_calls st)))"
proof -
  define st where "st = fold (forward_step (sample_forward False))
       [SendRaw [1], SendRaw [], PoolAnswers 0, SendRaw [2], PoolAnswers 1, Resume 0, PoolAnswers 2, DropCall 2, Resume 1,
        Resume 2, SendRaw [3], SequencerAnswers 0, Resume 0] (forward_new [])"
  note run = forwarded_exactly_once [OF st_def [symmetric]]
  have "fs_requests st = [(''eth_sendRawTransaction'', ''0x'')]"
    "map ff_point (fs_calls st) = [Returned (Inl ''unreachable''), Returned (Inl ''empty''), AtPool, AtPool]"
    "fs_pool st = [[1], [2]]" "map ff_raw (filter on_the_way (fs_calls st)) = [[2]]" "fs_spawned st = []"
    by (simp_all add: st_def sample_forward_def forward_new_def start_call_def pool_answers_def resume_call_def drop_call_def
        sequencer_answers_def send_raw_transaction_def forward_raw_transaction_def send_rpc_call_def Let_def map_err_def
        on_the_way_def pool_accepted_def)
  then show ?thesis
    unfolding st_def [symmetric] Let_def
    using run [THEN conjunct1] by (simp add: forward_call_def sample_forward_def flip: map_map)
qed

section \<open>Properties of witnesses\<close>









end
