(* ===== verification/Block_Replay.thy ===== *)
theory Block_Replay
  imports Built_Blocks
begin

text \<open>
  Importing a built block. The engine executes a payload through \<open>evm_env_for_payload\<close>,
  \<open>context_for_payload\<close> and \<open>tx_iterator_for_payload\<close> of \<open>crates/dogeos-reth-evm/src/config.rs\<close>, on
  an EVM without an inspector and an executor of \<open>ScrollBlockExecutorFactory\<close>. The builder
  executed the same block on an inspected EVM, after trying other candidates and dropping them.

  The relation \<open>exec_agree\<close> holds between the executor of a build and the executor of the import:
  the same database, block, chain and fork, the same gas, receipts equal up to the L1 fee.
  \<open>replayed\<close> says that executing the transactions of the block so far leads to such an executor.
  Every candidate keeps it: a committed one is matched by one step of the import, a dropped one by
  none. The locale \<open>candidate_invariant\<close> carries it over the loops of the builder.

  Laws of the parameters. \<open>interpreter_laws\<close>: executing does not write the database (the changes
  are returned), and the outcome is a function of the transaction, the database, the block, the
  configuration and the fork. \<open>observed_laws\<close>: an inspector that did not stop the interpreter did
  not change the outcome. \<open>payload_codec_laws\<close>: the codecs of alloy, and a legacy encoding starts
  with the header of an RLP list. \<open>receipts_by_encoding\<close>: the receipts root is computed from the
  EIP-2718 encodings, which \<open>Receipts\<close> models.
\<close>

section \<open>The transactions of an engine payload\<close>

datatype payload_tx_error = PayloadDecode forced_error | PayloadRecover string

definition decode_2718_exact ::
  "rlp_api \<Rightarrow> alloy_codec \<Rightarrow> (bytes \<Rightarrow> b256) \<Rightarrow> (bytes \<Rightarrow> u8 option) \<Rightarrow> bytes \<Rightarrow>
   forced_error + ScrollTxEnvelope" where
  "decode_2718_exact r ac keccak256 extract_type_byte buf =
     rbind (map_err Eip2718Error (decode_2718 r ac keccak256 extract_type_byte buf)) (\<lambda>(transaction, buf).
       if buf \<noteq> [] then Inl UnexpectedLength else Inr transaction)"

definition tx_iterator_for_payload ::
  "rlp_api \<Rightarrow> alloy_codec \<Rightarrow> (bytes \<Rightarrow> b256) \<Rightarrow> (bytes \<Rightarrow> u8 option) \<Rightarrow> ExecutionPayload \<Rightarrow>
   (payload_tx_error + ScrollTxEnvelope \<times> address) list" where
  "tx_iterator_for_payload r ac keccak256 extract_type_byte payload =
     (let convert = (\<lambda>encoded.
        rbind (map_err PayloadDecode (decode_2718_exact r ac keccak256 extract_type_byte encoded)) (\<lambda>transaction.
        rbind (map_err PayloadRecover (env_recover_signer ac transaction)) (\<lambda>signer.
          Inr (transaction, signer))))
      in map convert (ep_transactions payload))"

text \<open>\<open>ScrollBlockExecutorFactory::create_executor\<close> on the EVM of the payload.\<close>

definition import_executor ::
  "('db, 'l1, 'd, 'x, 'i, 'b, 'p) payload_env \<Rightarrow> 'db \<Rightarrow> ExecutionPayload \<Rightarrow> ('db, 'l1) executor" where
  "import_executor pe db payload =
     executor_new (create_evm (pe_context pe) db
       (evm_env_for_payload (ee_fork_api (pe_env pe)) (ee_spec (pe_env pe)) payload))
       (context_for_payload payload)"

section \<open>Laws of the interpreter\<close>

definition same_world :: "('db, 'l1) scroll_evm \<Rightarrow> ('db, 'l1) scroll_evm \<Rightarrow> bool" where
  "same_world e1 e2 \<longleftrightarrow> ev_db e1 = ev_db e2 \<and> ev_block e1 = ev_block e2 \<and>
     ev_chain_id e1 = ev_chain_id e2 \<and> ev_spec e1 = ev_spec e2"

definition same_checks :: "('db, 'l1) scroll_evm \<Rightarrow> ('db, 'l1) scroll_evm \<Rightarrow> bool" where
  "same_checks e1 e2 \<longleftrightarrow> ev_disable_base_fee e1 = ev_disable_base_fee e2 \<and>
     ev_disable_nonce_check e1 = ev_disable_nonce_check e2"

definition interpreter_laws :: "('db, 'l1, 'x) evm_api \<Rightarrow> bool" where
  "interpreter_laws api \<longleftrightarrow> evm_laws api \<and>
     (\<forall>tx evm. ev_db (snd (api_transact api tx evm)) = ev_db evm) \<and>
     (\<forall>a c d evm. ev_db (snd (api_system_call api a c d evm)) = ev_db evm) \<and>
     (\<forall>tx e1 e2. same_world e1 e2 \<and> same_checks e1 e2 \<longrightarrow>
        fst (api_transact api tx e1) = fst (api_transact api tx e2)) \<and>
     (\<forall>a c d e1 e2. same_world e1 e2 \<and> same_checks e1 e2 \<longrightarrow>
        fst (api_system_call api a c d e1) = fst (api_system_call api a c d e2))"

text \<open>The EVM as \<open>execute_transaction_without_commit\<close> sets it up for a transaction, and the changes
  before the system call of \<open>apply_pre_execution_changes\<close>.\<close>

definition tx_evm :: "alloy_tx_api \<Rightarrow> ScrollTxEnvelope \<Rightarrow> ('db, 'l1) scroll_evm \<Rightarrow> ('db, 'l1) scroll_evm" where
  "tx_evm api tx evm =
     (let l2 = (env_ty api tx \<noteq> L1_MESSAGE_TRANSACTION_TYPE) in
      with_nonce_check l2 (with_base_fee_check l2 evm))"

definition fork_changes :: "('db, 'l1, 'd, 'x) exec_env \<Rightarrow> ('db, 'l1, 'd, 'x, unit) exec" where
  "fork_changes ee =
     run_bind (\<lambda>ex. run_result
        (map_err OverheadReadFailed (base_fee_overhead (ee_ops ee) (ee_spec ee) (ex_db ex))) ex)
     (\<lambda>_. run_bind (fork_step ee Feynman apply_feynman_hard_fork)
     (\<lambda>_. run_bind (fork_step ee GalileoV2 apply_galileo_v2_hard_fork)
     (\<lambda>_. fork_step ee Tsuki apply_tsuki_hard_fork)))"

definition within_budget :: "('db, 'l1, 'd, 'x, 'i, 'b, 'p) payload_env \<Rightarrow> 'i hook list \<Rightarrow> CodeWitnessInspector \<Rightarrow> bool" where
  "within_budget pe hooks insp \<longleftrightarrow> code_exceeded (ci_meter (run_hooks (pe_interp pe) hooks insp)) = None"

definition observed_laws :: "('db, 'l1, 'd, 'x, 'i, 'b, 'p) payload_env \<Rightarrow> bool" where
  "observed_laws pe \<longleftrightarrow>
     (\<forall>insp tx evm. ev_db (snd (api_inspect_tx (pe_evm pe insp) tx evm)) = ev_db evm) \<and>
     (\<forall>insp a c d evm. ev_db (snd (api_inspect_system_call (pe_evm pe insp) a c d evm)) = ev_db evm) \<and>
     (\<forall>insp t ex. within_budget pe (pe_tx_hooks pe insp t ex) insp \<longrightarrow>
        fst (api_inspect_tx (pe_evm pe insp) (fst t) (tx_evm (ee_tx (pe_env pe)) (snd t) (ex_evm ex))) =
        fst (api_transact (ee_evm (pe_env pe)) (fst t) (tx_evm (ee_tx (pe_env pe)) (snd t) (ex_evm ex)))) \<and>
     (\<forall>insp ex. within_budget pe (pe_pre_hooks pe insp ex) insp \<longrightarrow>
        (let evm = ex_evm (snd (fork_changes (pe_env pe) ex));
             caller = ee_system_address (pe_env pe); contract = ee_history_storage_address (pe_env pe);
             data = b256_bytes (ex_parent_hash ex) in
         fst (api_inspect_system_call (pe_evm pe insp) caller contract data evm) =
         fst (api_system_call (ee_evm (pe_env pe)) caller contract data evm)))"

definition replay_laws :: "('db, 'l1, 'd, 'x, 'i, 'b, 'p) payload_env \<Rightarrow> bool" where
  "replay_laws pe \<longleftrightarrow> payload_laws pe \<and> interpreter_laws (ee_evm (pe_env pe)) \<and> observed_laws pe"

section \<open>Agreeing executors\<close>

definition exec_agree :: "('db, 'l1) executor \<Rightarrow> ('db, 'l1) executor \<Rightarrow> bool" where
  "exec_agree e1 e2 \<longleftrightarrow> same_world (ex_evm e1) (ex_evm e2) \<and> ex_gas_used e1 = ex_gas_used e2 \<and>
     ex_parent_hash e1 = ex_parent_hash e2 \<and>
     map without_l1_fee (ex_receipts e1) = map without_l1_fee (ex_receipts e2)"

lemma same_world_frame:
  assumes "evm_frame e e'" and "ev_db e' = ev_db e"
  shows "same_world e' f \<longleftrightarrow> same_world e f" "same_world f e' \<longleftrightarrow> same_world f e"
  using assms by (auto simp: same_world_def evm_frame_def)

lemma same_world_tx_evm [simp]:
  "same_world (tx_evm api tx e) f = same_world e f" "same_world f (tx_evm api tx e) = same_world f e"
  "same_checks (tx_evm api tx e) (tx_evm api tx f)" "ev_inspect (tx_evm api tx e) = ev_inspect e"
  "ev_db (tx_evm api tx e) = ev_db e"
  by (simp_all add: same_world_def same_checks_def tx_evm_def with_nonce_check_def with_base_fee_check_def Let_def)

lemma execute_without_commit_tx_evm:
  "execute_transaction_without_commit ee (env, tx) ex =
     (let avail = be_gas_limit (ev_block (ex_evm ex)) - ex_gas_used ex in
      if avail < env_gas_limit (ee_tx ee) tx
      then (Some (Inl (TransactionGasLimitMoreThanAvailableBlockGas (env_gas_limit (ee_tx ee) tx) avail)), ex)
      else if env_ty (ee_tx ee) tx = 3 then (Some (Inl (Eip4844NotSupported (env_trie_hash tx))), ex)
      else
        let (res, evm) = transact_raw (ee_evm ee) env (tx_evm (ee_tx ee) tx (ex_evm ex)); ex = ex\<lparr>ex_evm := evm\<rparr> in
        case res of
          Inl err \<Rightarrow> (Some (Inl (EvmError err (env_trie_hash tx))), ex)
        | Inr result \<Rightarrow>
            (case (if env_ty (ee_tx ee) tx = L1_MESSAGE_TRANSACTION_TYPE then Some 0 else evm_l1_fee (ee_evm ee) evm) of
               None \<Rightarrow> (None, ex)
             | Some l1_fee \<Rightarrow> (Some (Inr \<lparr>tr_result = result, tr_l1_fee = l1_fee,
                 tr_tx_type = env_ty (ee_tx ee) tx\<rparr>), ex)))"
  by (simp add: execute_transaction_without_commit_def tx_evm_def Let_def split: prod.splits sum.splits option.splits)

lemma l1_fee_some:
  assumes "evm_laws api" and "transact_raw api tx evm = (res, evm')"
  shows "evm_l1_fee api evm' = None \<longleftrightarrow> ste_rlp_bytes tx = None"
  using transact_raw_law(2) [OF assms] by (simp add: evm_l1_fee_def split: option.splits)

text \<open>A transaction attempted in the builder leaves the world alone.\<close>

lemma attempt_keeps:
  assumes laws: "evm_laws (ee_evm ee)"
    and db: "\<And>tx evm. ev_inspect evm = ev_inspect (ex_evm ex) \<Longrightarrow>
      ev_db (snd (transact_raw (ee_evm ee) tx evm)) = ev_db evm"
    and run: "execute_transaction_without_commit ee t ex = (res, ex')"
  shows "exec_agree ex' other \<longleftrightarrow> exec_agree ex other" "exec_agree other ex' \<longleftrightarrow> exec_agree other ex"
    "ev_inspect (ex_evm ex') = ev_inspect (ex_evm ex)"
proof -
  obtain env tx where t: "t = (env, tx)" by fastforce
  obtain r evm' where r: "transact_raw (ee_evm ee) env (tx_evm (ee_tx ee) tx (ex_evm ex)) = (r, evm')" by fastforce
  have "same_world evm' f \<longleftrightarrow> same_world (ex_evm ex) f" "same_world f evm' \<longleftrightarrow> same_world f (ex_evm ex)" for f
    using same_world_frame [OF transact_raw_law(1) [OF laws r]] db [of "tx_evm (ee_tx ee) tx (ex_evm ex)" env] r
    by simp_all
  moreover have "ev_inspect evm' = ev_inspect (ex_evm ex)"
    using transact_raw_law(1) [OF laws r] by (simp add: evm_frame_def)
  moreover have "ex' = ex \<or> ex' = ex\<lparr>ex_evm := evm'\<rparr>"
    using run r by (auto simp: t execute_without_commit_tx_evm Let_def split: if_splits sum.splits option.splits)
  ultimately show "exec_agree ex' other \<longleftrightarrow> exec_agree ex other" "exec_agree other ex' \<longleftrightarrow> exec_agree other ex"
    "ev_inspect (ex_evm ex') = ev_inspect (ex_evm ex)"
    by (auto simp: exec_agree_def)
qed

text \<open>A committed transaction has the same effect when the importing node executes it.\<close>

lemma plain_execution:
  assumes laws: "replay_laws pe" and agree: "exec_agree ex1 ex2"
    and modes: "ev_inspect (ex_evm ex1)" "\<not> ev_inspect (ex_evm ex2)"
    and budget: "within_budget pe (pe_tx_hooks pe (bu_insp b) t ex1) (bu_insp b)"
    and run: "execute_transaction_without_commit (metered_env pe b) t ex1 = (Some (Inr out1), ex1')"
  obtains out2 ex2' where
    "execute_transaction_without_commit (pe_env pe) t ex2 = (Some (Inr out2), ex2')"
    "tr_result out2 = tr_result out1" "tr_tx_type out2 = tr_tx_type out1"
proof -
  let ?api = "ee_tx (pe_env pe)" and ?plain = "ee_evm (pe_env pe)" and ?seen = "pe_evm pe (bu_insp b)"
  obtain env tx where t: "t = (env, tx)" by fastforce
  have l: "evm_laws ?plain" "evm_laws ?seen"
    using laws by (simp_all add: replay_laws_def interpreter_laws_def payload_laws_def)
  obtain r1 e1 where r1: "transact_raw ?seen env (tx_evm ?api tx (ex_evm ex1)) = (r1, e1)" by fastforce
  obtain r2 e2 where r2: "transact_raw ?plain env (tx_evm ?api tx (ex_evm ex2)) = (r2, e2)" by fastforce
  have "fst (api_inspect_tx ?seen env (tx_evm ?api tx (ex_evm ex1))) =
      fst (api_transact ?plain env (tx_evm ?api tx (ex_evm ex1)))"
    using laws budget by (simp add: replay_laws_def observed_laws_def t)
  also have "\<dots> = fst (api_transact ?plain env (tx_evm ?api tx (ex_evm ex2)))"
    using laws agree by (simp add: replay_laws_def interpreter_laws_def exec_agree_def)
  finally have res: "r2 = r1" using r1 r2 modes by (simp add: transact_raw_def)
  have fee: "evm_l1_fee ?plain e2 = None \<longleftrightarrow> evm_l1_fee ?seen e1 = None"
    using l1_fee_some [OF l(1) r2] l1_fee_some [OF l(2) r1] by simp
  have same: "ev_block (ex_evm ex2) = ev_block (ex_evm ex1)" "ex_gas_used ex2 = ex_gas_used ex1"
    using agree by (simp_all add: exec_agree_def same_world_def)
  have m: "ee_tx (metered_env pe b) = ?api" "ee_evm (metered_env pe b) = ?seen" by (simp_all add: metered_env_def)
  show thesis
    using run r1 r2 fee that
    by (auto simp: t execute_without_commit_tx_evm m same res Let_def
        split: if_splits sum.splits option.splits)
qed

lemma without_l1_fee_built:
  "build_receipt c1 = Some s1 \<Longrightarrow> rb_tx_type c2 = rb_tx_type c1 \<Longrightarrow> rb_result c2 = rb_result c1 \<Longrightarrow>
   rb_cumulative_gas_used c2 = rb_cumulative_gas_used c1 \<Longrightarrow>
   \<exists>s2. build_receipt c2 = Some s2 \<and> without_l1_fee s2 = without_l1_fee s1"
  by (auto simp: build_receipt_def without_l1_fee_def scroll_receipt_new_def Let_def
      split: sum.splits ScrollTxType.splits)

lemma plain_commit:
  assumes agree: "exec_agree ex1 ex2" and ops: "ee_ops ee2 = ee_ops ee1"
    and out: "tr_result out2 = tr_result out1" "tr_tx_type out2 = tr_tx_type out1"
    and run: "commit_transaction ee1 out1 ex1 = (Some (Inr g), ex1')"
  obtains ex2' where "commit_transaction ee2 out2 ex2 = (Some (Inr g), ex2')" "exec_agree ex1' ex2'"
    "ev_inspect (ex_evm ex1') = ev_inspect (ex_evm ex1)" "ev_inspect (ex_evm ex2') = ev_inspect (ex_evm ex2)"
proof -
  obtain result state where rs: "tr_result out1 = (result, state)" by fastforce
  let ?c = "\<lambda>out ex. \<lparr>rb_tx_type = tr_tx_type out, rb_result = result,
      rb_cumulative_gas_used = ex_gas_used ex + er_gas_used result, rb_l1_fee = tr_l1_fee out\<rparr>"
  from run rs obtain s1 where s1: "build_receipt (?c out1 ex1) = Some s1"
    by (auto simp: commit_transaction_def Let_def split: option.splits)
  from without_l1_fee_built [OF this, of "?c out2 ex2"] agree out obtain s2 where
    s2: "build_receipt (?c out2 ex2) = Some s2" "without_l1_fee s2 = without_l1_fee s1"
    by (auto simp: exec_agree_def)
  show thesis
    using that run rs s1 s2 agree ops out
    by (auto simp: commit_transaction_def Let_def exec_agree_def same_world_def set_db_def ex_db_def)
qed

section \<open>The simulation\<close>

lemma execute_transactions_snoc:
  "execute_transactions ee ts ex = (Some (Inr gs), ex1) \<Longrightarrow> execute_transaction ee t ex1 = (Some (Inr g), ex2) \<Longrightarrow>
   execute_transactions ee (ts @ [t]) ex = (Some (Inr (gs @ [g])), ex2)"
  by (induction ts arbitrary: ex gs) (auto simp: run_bind_ok_iff)

definition recovered :: "('db, 'l1, 'd, 'x, 'i, 'b, 'p) payload_env \<Rightarrow> ScrollTxEnvelope \<times> address \<Rightarrow> bool" where
  "recovered pe tx \<longleftrightarrow> env_recover_signer (pe_codec pe) (fst tx) = Inr (snd tx)"

definition replayed ::
  "('db, 'l1, 'd, 'x, 'i, 'b, 'p) payload_env \<Rightarrow> ('db, 'l1) executor \<Rightarrow> ('db, 'l1) builder \<Rightarrow> bool" where
  "replayed pe start b \<longleftrightarrow> ev_inspect (ex_evm (bu_exec b)) \<and> (\<forall>tx \<in> set (bu_txs b). recovered pe tx) \<and>
     (\<exists>gs ex. execute_transactions (pe_env pe) (map (executable_of pe) (bu_txs b)) start = (Some (Inr gs), ex) \<and>
        \<not> ev_inspect (ex_evm ex) \<and> exec_agree (bu_exec b) ex)"

lemma metered_keeps_db:
  "replay_laws pe \<Longrightarrow> ev_inspect evm \<Longrightarrow> ev_db (snd (transact_raw (ee_evm (metered_env pe b)) tx evm)) = ev_db evm"
  by (simp add: replay_laws_def observed_laws_def metered_env_def transact_raw_def)


lemma plain_keeps_db:
  "replay_laws pe \<Longrightarrow> \<not> ev_inspect evm \<Longrightarrow> ev_db (snd (transact_raw (ee_evm (pe_env pe)) tx evm)) = ev_db evm"
  by (simp add: replay_laws_def interpreter_laws_def transact_raw_def)

lemma replay_lawsD:
  assumes "replay_laws pe"
  shows "evm_laws (ee_evm (metered_env pe b))" "evm_laws (ee_evm (pe_env pe))" "payload_laws pe"
  using assms by (simp_all add: replay_laws_def interpreter_laws_def payload_laws_def metered_env_def)

lemma replayed_commit:
  assumes laws: "replay_laws pe" and old: "replayed pe start b" and tx: "recovered pe tx"
    and wo: "execute_transaction_without_commit (metered_env pe b0) (executable_of pe tx) (bu_exec b) = (Some (Inr out), ex1)"
    and budget: "within_budget pe (pe_tx_hooks pe (bu_insp b0) (executable_of pe tx) (bu_exec b)) (bu_insp b0)"
    and co: "commit_transaction (metered_env pe b0) out ex1 = (Some (Inr g), ex2)"
    and b': "bu_exec b' = ex2" "bu_txs b' = bu_txs b @ [tx]"
  shows "replayed pe start b'"
proof -
  from old obtain gs ex where run: "execute_transactions (pe_env pe) (map (executable_of pe) (bu_txs b)) start = (Some (Inr gs), ex)"
    and modes: "ev_inspect (ex_evm (bu_exec b))" "\<not> ev_inspect (ex_evm ex)" and agree: "exec_agree (bu_exec b) ex"
    by (auto simp: replayed_def)
  obtain out' ex' where wo': "execute_transaction_without_commit (pe_env pe) (executable_of pe tx) ex = (Some (Inr out'), ex')"
    and out: "tr_result out' = tr_result out" "tr_tx_type out' = tr_tx_type out"
    by (rule plain_execution [OF laws agree modes budget wo])
  note keep1 = attempt_keeps [OF replay_lawsD(1) [OF laws] _ wo]
  note keep2 = attempt_keeps [OF replay_lawsD(2) [OF laws] _ wo']
  have agree': "exec_agree ex1 ex'" and modes': "ev_inspect (ex_evm ex1)" "\<not> ev_inspect (ex_evm ex')"
    using keep1 keep2 agree modes metered_keeps_db [OF laws] plain_keeps_db [OF laws] by auto
  have ops: "ee_ops (pe_env pe) = ee_ops (metered_env pe b0)" by (simp add: metered_env_def)
  obtain ex2' where co': "commit_transaction (pe_env pe) out' ex' = (Some (Inr g), ex2')"
    and new: "exec_agree ex2 ex2'" "ev_inspect (ex_evm ex2) = ev_inspect (ex_evm ex1)"
      "ev_inspect (ex_evm ex2') = ev_inspect (ex_evm ex')"
    by (rule plain_commit [OF agree' ops out co])
  have "execute_transaction (pe_env pe) (executable_of pe tx) ex = (Some (Inr g), ex2')"
    using wo' co' by (simp add: execute_transaction_def run_bind_ok_iff)
  from execute_transactions_snoc [OF run this] old tx new modes' b' show ?thesis
    by (auto simp: replayed_def)
qed

lemma replayed_candidate:
  assumes laws: "replay_laws pe" and old: "replayed pe start b"
    and run: "execute_with_code_budget pe tx b = (Some out, b')"
    and rec: "(\<exists>g. out = Inr (Some g)) \<longrightarrow> recovered pe tx"
  shows "replayed pe start b'"
proof -
  let ?b0 = "on_meter begin_transaction b" and ?t = "executable_of pe tx"
  let ?insp = "run_hooks (pe_interp pe) (pe_tx_hooks pe (bu_insp ?b0) ?t (bu_exec b)) (bu_insp ?b0)"
  obtain res ex1 where wo: "execute_transaction_without_commit (metered_env pe ?b0) ?t (bu_exec b) = (res, ex1)"
    by fastforce
  note keep = attempt_keeps [OF replay_lawsD(1) [OF laws] _ wo]
  show ?thesis
  proof (cases "\<exists>g. out = Inr (Some g)")
    case True
    with run wo obtain o1 g ex2 where "res = Some (Inr o1)" "code_exceeded (ci_meter ?insp) = None"
      "commit_transaction (metered_env pe ?b0) o1 ex1 = (Some (Inr g), ex2)" "bu_exec b' = ex2" "bu_txs b' = bu_txs b @ [tx]"
      by (auto simp: execute_with_code_budget_def execute_transaction_with_commit_condition_def Let_def
          code_witness_commit_def split: prod.splits option.splits sum.splits if_splits)
    with replayed_commit [OF laws old _ _ _, of tx ?b0] rec True wo show ?thesis
      by (simp add: within_budget_def)
  next
    case False
    then have "bu_exec b' = ex1 \<and> bu_txs b' = bu_txs b"
      using run wo
      by (auto simp: execute_with_code_budget_def execute_transaction_with_commit_condition_def Let_def
          commit_transaction_def split: prod.splits option.splits sum.splits if_splits)
    then show ?thesis
      using old keep metered_keeps_db [OF laws] by (auto simp: replayed_def)
  qed
qed


section \<open>Invariants of the transactions of a block\<close>

text \<open>What every candidate of a build keeps, both loops of the builder keep. The candidates that are
  committed come with their recovered signer.\<close>

locale candidate_invariant =
  fixes laws :: "('db, 'l1, 'd, 'x, 'i, 'b, 'p) payload_env \<Rightarrow> bool"
    and inv :: "('db, 'l1, 'd, 'x, 'i, 'b, 'p) payload_env \<Rightarrow> 's \<Rightarrow> ('db, 'l1) builder \<Rightarrow> bool"
  assumes candidate_keeps: "laws pe \<Longrightarrow> inv pe s b \<Longrightarrow> execute_with_code_budget pe tx b = (Some out, b') \<Longrightarrow>
      (\<exists>g. out = Inr (Some g)) \<longrightarrow> recovered pe tx \<Longrightarrow> inv pe s b'"
    and record_keeps: "inv pe s b \<Longrightarrow> inv pe s (record_forced g n b)" "inv pe s b \<Longrightarrow> inv pe s (record_pool pe t g f b)"
begin

lemma forced_loop_keeps:
  assumes "laws pe"
  shows "forced_loop pe cf lim rest fg b = (Some (Inr ()), b') \<Longrightarrow> inv pe s b \<Longrightarrow> inv pe s b'"
proof (induction rest arbitrary: fg b)
  case Nil
  then show ?case by simp
next
  case (Cons f rest)
  from Cons.prems(1) obtain signer out b1 where sgn: "env_recover_signer (pe_codec pe) (snd f) = Inr signer"
    and ex: "execute_with_code_budget pe (snd f, signer) b = (Some out, b1)"
    and cont: "(\<exists>g. forced_loop pe cf lim rest (fg @ [g]) (record_forced g (of_nat (length (fst f))) b1) = (Some (Inr ()), b')) \<or>
      forced_loop pe cf lim rest fg b1 = (Some (Inr ()), b')"
    by (auto simp: Let_def forced_code_budget_result_def result_elims
        split: if_splits sum.splits prod.splits option.splits)
  have "inv pe s b1"
    using candidate_keeps [OF assms Cons.prems(2) ex] sgn by (simp add: recovered_def)
  then show ?case using cont Cons.IH record_keeps(1) by blast
qed

lemma pool_loop_keeps:
  assumes "laws pe" and pool: "\<And>p. recovered pe (bt_to_consensus (pe_best pe) p)"
  shows "pool_loop pe cf lim fee bk n i best b = (Some (Inr e), b') \<Longrightarrow> inv pe s b \<Longrightarrow> inv pe s b'"
proof (induction n arbitrary: i best b)
  case 0
  then show ?case by simp
next
  case (Suc n)
  from Suc.prems(1) show ?case
  proof (cases rule: pool_loop_turn)
    case stop
    then show ?thesis using Suc.prems by simp
  next
    case (skip best1 i1)
    from Suc.IH [OF skip Suc.prems(2)] show ?thesis .
  next
    case (reject tx out b1 best1 i1)
    with candidate_keeps [OF assms(1) Suc.prems(2)] Suc.IH show ?thesis by blast
  next
    case (commit p tx g f b1 best1 i1)
    with candidate_keeps [OF assms(1) Suc.prems(2)] pool Suc.IH record_keeps(2) show ?thesis by blast
  qed
qed

lemma phases_keep:
  assumes "laws pe" and "\<And>p. recovered pe (bt_to_consensus (pe_best pe) p)" and "inv pe s b1"
    and forced: "forced_phase pe cf a lim b1 = (Some (Inr ()), b2)"
    and pool: "pool_phase pe cf a lim b2 = (Some (Inr e), b3)"
  shows "inv pe s b3"
proof -
  have "inv pe s b2"
    using forced forced_loop_keeps [OF assms(1) _ assms(3)]
    by (auto simp: forced_phase_def result_elims Let_def split: option.splits if_splits)
  then show ?thesis
    using pool pool_loop_keeps [OF assms(1,2)] by (auto simp: pool_phase_def Let_def split: if_splits)
qed

end

interpretation replay: candidate_invariant replay_laws replayed
  by unfold_locales (simp_all add: replayed_candidate, simp_all add: replayed_def)

section \<open>Before the transactions\<close>

lemma pre_execution_split:
  "apply_pre_execution_changes ee ex = run_bind (fork_changes ee) (\<lambda>_. apply_blockhashes_contract_call ee) ex"
  by (simp add: apply_pre_execution_changes_def fork_changes_def run_bind_def split: prod.splits option.splits sum.splits)

lemma fork_step_metered [simp]: "fork_step (metered_env pe b) fork tr = fork_step (pe_env pe) fork tr"
  by (rule ext) (auto simp: fork_step_def metered_env_def split: option.split)

lemma fork_changes_metered [simp]: "fork_changes (metered_env pe b) = fork_changes (pe_env pe)"
  by (simp add: fork_changes_def) (simp add: metered_env_def)

definition start_agree :: "('db, 'l1) executor \<Rightarrow> ('db, 'l1) executor \<Rightarrow> bool" where
  "start_agree e1 e2 \<longleftrightarrow> exec_agree e1 e2 \<and> same_checks (ex_evm e1) (ex_evm e2) \<and>
     ev_inspect (ex_evm e1) \<and> \<not> ev_inspect (ex_evm e2)"

lemma fork_step_agree:
  assumes "fork_step ee fork tr e1 = (Some (Inr ()), e1')" and "start_agree e1 e2"
  shows "\<exists>e2'. fork_step ee fork tr e2 = (Some (Inr ()), e2') \<and> start_agree e1' e2' \<and> ex_parent_hash e1' = ex_parent_hash e1"
  using assms
  by (auto simp: fork_step_def start_agree_def exec_agree_def same_world_def same_checks_def ex_db_def set_db_def
      split: option.splits if_splits sum.splits prod.splits)

lemma fork_changes_agree:
  assumes "fork_changes ee e1 = (Some (Inr ()), e1')" and "start_agree e1 e2"
  obtains e2' where "fork_changes ee e2 = (Some (Inr ()), e2')" "start_agree e1' e2'" "ex_parent_hash e1' = ex_parent_hash e1"
proof -
  from assms(1) obtain o1 f1 f2 where
    0: "base_fee_overhead (ee_ops ee) (ee_spec ee) (ex_db e1) = Inr o1"
    and 1: "fork_step ee Feynman apply_feynman_hard_fork e1 = (Some (Inr ()), f1)"
    and 2: "fork_step ee GalileoV2 apply_galileo_v2_hard_fork f1 = (Some (Inr ()), f2)"
    and 3: "fork_step ee Tsuki apply_tsuki_hard_fork f2 = (Some (Inr ()), e1')"
    by (auto simp: fork_changes_def result_elims)
  have db: "ex_db e2 = ex_db e1" using assms(2) by (simp add: start_agree_def exec_agree_def same_world_def ex_db_def)
  from fork_step_agree [OF 1 assms(2)] fork_step_agree [OF 2] fork_step_agree [OF 3] obtain g1 g2 e2' where
    "fork_step ee Feynman apply_feynman_hard_fork e2 = (Some (Inr ()), g1)"
    "fork_step ee GalileoV2 apply_galileo_v2_hard_fork g1 = (Some (Inr ()), g2)"
    "fork_step ee Tsuki apply_tsuki_hard_fork g2 = (Some (Inr ()), e2')"
    "start_agree e1' e2'" "ex_parent_hash e1' = ex_parent_hash e1" by metis
  then show thesis using 0 db by (intro that) (simp_all add: fork_changes_def run_bind_ok_iff map_err_def)
qed


definition modes_agree :: "('db, 'l1) executor \<Rightarrow> ('db, 'l1) executor \<Rightarrow> bool" where
  "modes_agree e1 e2 \<longleftrightarrow> exec_agree e1 e2 \<and> ev_inspect (ex_evm e1) \<and> \<not> ev_inspect (ex_evm e2)"

lemma system_call_keeps:
  assumes "evm_laws api" and "transact_system_call api a c d evm = (res, evm')" and "ev_db evm' = ev_db evm"
  shows "same_world evm' f \<longleftrightarrow> same_world evm f" "same_world f evm' \<longleftrightarrow> same_world f evm" "ev_inspect evm' = ev_inspect evm"
proof -
  have "\<forall>t \<in> {api_system_call api, api_inspect_system_call api}. \<forall>a b d evm res evm'.
        t a b d evm = (res, evm') \<longrightarrow> evm_frame evm evm'"
    using assms(1) unfolding evm_laws_def by (rule conjunct2)
  then have "evm_frame evm evm'"
    using assms(2) by (auto simp: transact_system_call_def split: if_splits)
  with assms(3) show "same_world evm' f \<longleftrightarrow> same_world evm f" "same_world f evm' \<longleftrightarrow> same_world f evm"
    "ev_inspect evm' = ev_inspect evm"
    by (simp_all add: same_world_frame) (simp add: evm_frame_def)
qed

lemma blockhashes_call_agree:
  assumes laws: "replay_laws pe" and agree: "start_agree e1 e2"
    and e1: "e1 = snd (fork_changes (pe_env pe) e0)" "ex_parent_hash e1 = ex_parent_hash e0"
    and budget: "within_budget pe (pe_pre_hooks pe (bu_insp b) e0) (bu_insp b)"
    and run: "transact_blockhashes_contract_call (metered_env pe b) (ex_parent_hash e1) e1 = (Some (Inr r), e1')"
  obtains e2' where "transact_blockhashes_contract_call (pe_env pe) (ex_parent_hash e2) e2 = (Some (Inr r), e2')"
    "modes_agree e1' e2'"
proof -
  let ?a = "ee_system_address (pe_env pe)" and ?c = "ee_history_storage_address (pe_env pe)"
  let ?d = "b256_bytes (ex_parent_hash e0)"
  let ?seen = "pe_evm pe (bu_insp b)" and ?plain = "ee_evm (pe_env pe)"
  have modes: "ev_inspect (ex_evm e1)" "\<not> ev_inspect (ex_evm e2)" and world: "same_world (ex_evm e1) (ex_evm e2)"
    and same: "ev_block (ex_evm e2) = ev_block (ex_evm e1)" "ex_parent_hash e2 = ex_parent_hash e0"
    using agree e1(2) by (auto simp: start_agree_def exec_agree_def same_world_def)
  obtain r1 v1 where r1: "transact_system_call ?seen ?a ?c ?d (ex_evm e1) = (r1, v1)" by fastforce
  obtain r2 v2 where r2: "transact_system_call ?plain ?a ?c ?d (ex_evm e2) = (r2, v2)" by fastforce
  have "fst (api_inspect_system_call ?seen ?a ?c ?d (ex_evm e1)) = fst (api_system_call ?plain ?a ?c ?d (ex_evm e1))"
    using laws budget by (simp add: replay_laws_def observed_laws_def e1(1) Let_def)
  also have "\<dots> = fst (api_system_call ?plain ?a ?c ?d (ex_evm e2))"
    using laws agree by (simp add: replay_laws_def interpreter_laws_def start_agree_def exec_agree_def)
  finally have res: "r2 = r1" using r1 r2 modes by (simp add: transact_system_call_def)
  have "ev_db (snd (api_inspect_system_call ?seen ?a ?c ?d (ex_evm e1))) = ev_db (ex_evm e1)"
    "ev_db (snd (api_system_call ?plain ?a ?c ?d (ex_evm e2))) = ev_db (ex_evm e2)"
    using laws by (simp_all add: replay_laws_def observed_laws_def interpreter_laws_def)
  then have db: "ev_db v1 = ev_db (ex_evm e1)" "ev_db v2 = ev_db (ex_evm e2)"
    using r1 r2 modes by (simp_all add: transact_system_call_def)
  have new: "modes_agree e1 e2" "modes_agree (e1\<lparr>ex_evm := v1\<rparr>) (e2\<lparr>ex_evm := v2\<rparr>)"
    using system_call_keeps [OF _ r1 db(1)] system_call_keeps [OF _ r2 db(2)] replay_lawsD [OF laws] agree modes
    by (auto simp: modes_agree_def start_agree_def exec_agree_def metered_env_def)
  show thesis
    using run r1 r2 new that
    by (auto simp: transact_blockhashes_contract_call_def metered_env_def same res e1(2) Let_def
        split: option.splits if_splits sum.splits)
qed

definition after_call :: "('db, 'd) db_ops \<Rightarrow> ResultAndState option \<Rightarrow> ('db, 'l1) executor \<Rightarrow> ('db, 'l1) executor" where
  "after_call ops r ex = (case r of None \<Rightarrow> ex | Some (_, state) \<Rightarrow> (set_db (db_commit ops (ex_db ex) state) ex)
      \<lparr>ex_system_caller := on_state PreBlockBlockHashes state (ex_system_caller ex)\<rparr>)"

lemma blockhashes_ok_iff:
  fixes ee :: "('db, 'l1, 'd, 'x) exec_env"
  shows "apply_blockhashes_contract_call ee ex = (Some (Inr ()), ex') \<longleftrightarrow>
   (\<exists>r ex1. transact_blockhashes_contract_call ee (ex_parent_hash ex) ex = (Some (Inr r), ex1) \<and>
      ex' = after_call (ee_ops ee) r ex1)"
proof -
  have "((case r of None \<Rightarrow> run_return () | Some (_, state) \<Rightarrow> run_modify (\<lambda>ex.
           (set_db (db_commit (ee_ops ee) (ex_db ex) state) ex)\<lparr>ex_system_caller :=
              on_state PreBlockBlockHashes state (ex_system_caller ex)\<rparr>))
         :: ('db, 'l1, 'd, 'x, unit) exec) ex1 = (Some (Inr ()), after_call (ee_ops ee) r ex1)" for r ex1
    by (cases r) (auto simp: after_call_def)
  then show ?thesis by (auto simp: apply_blockhashes_contract_call_def run_bind_ok_iff)
qed

lemma after_call_agree: "modes_agree e f \<Longrightarrow> modes_agree (after_call ops r e) (after_call ops r f)"
  by (auto simp: after_call_def modes_agree_def exec_agree_def same_world_def set_db_def ex_db_def split: option.split)

lemma pre_execution_agree:
  assumes laws: "replay_laws pe" and agree: "start_agree e0 f0"
    and budget: "within_budget pe (pe_pre_hooks pe (bu_insp b) e0) (bu_insp b)"
    and run: "apply_pre_execution_changes (metered_env pe b) e0 = (Some (Inr ()), e')"
  obtains f' where "apply_pre_execution_changes (pe_env pe) f0 = (Some (Inr ()), f')" "modes_agree e' f'"
proof -
  from run obtain e1 where fork: "fork_changes (pe_env pe) e0 = (Some (Inr ()), e1)"
    and call: "apply_blockhashes_contract_call (metered_env pe b) e1 = (Some (Inr ()), e')"
    by (auto simp: pre_execution_split run_bind_ok_iff)
  obtain f1 where fork': "fork_changes (pe_env pe) f0 = (Some (Inr ()), f1)" and agree1: "start_agree e1 f1"
    and ph: "ex_parent_hash e1 = ex_parent_hash e0"
    by (rule fork_changes_agree [OF fork agree])
  from call obtain r e2 where tc: "transact_blockhashes_contract_call (metered_env pe b) (ex_parent_hash e1) e1 = (Some (Inr r), e2)"
    and e': "e' = after_call (ee_ops (pe_env pe)) r e2"
    by (auto simp: blockhashes_ok_iff) (simp add: metered_env_def)
  obtain f2 where tc': "transact_blockhashes_contract_call (pe_env pe) (ex_parent_hash f1) f1 = (Some (Inr r), f2)"
    and agree2: "modes_agree e2 f2"
    using blockhashes_call_agree [OF laws agree1 _ ph budget tc] fork by auto
  show thesis
    using fork' tc' after_call_agree [OF agree2]
    by (intro that [of "after_call (ee_ops (pe_env pe)) r f2"])
      (auto simp: pre_execution_split run_bind_ok_iff blockhashes_ok_iff e')
qed


section \<open>The check after execution\<close>

text \<open>The root of receipts is a function of their encodings, and a bloom of the logs.\<close>

definition receipts_by_encoding :: "rlp_api \<Rightarrow> receipt_rlp \<Rightarrow> consensus_api \<Rightarrow> bool" where
  "receipts_by_encoding r rr ca \<longleftrightarrow>
     (\<exists>trie_root logs_bloom. (\<forall>rc. ca_bloom ca rc = logs_bloom (rc_logs (as_receipt rc))) \<and>
        (\<forall>rs. ca_receipt_root ca rs = trie_root (map (\<lambda>rc. receipt_2718_encode_with_bloom r rr rc (ca_bloom ca rc)) rs)))"

lemma without_l1_fee_facts [simp]:
  "as_receipt (without_l1_fee s) = as_receipt s" "receipt_tx_type (without_l1_fee s) = receipt_tx_type s"
  by (cases s; simp add: without_l1_fee_def receipt_of_type_def)+

lemma fee_not_in_root:
  assumes "receipts_by_encoding r rr ca"
  shows "ca_receipt_root ca (map without_l1_fee rs) = ca_receipt_root ca rs"
    "ca_bloom ca (without_l1_fee s) = ca_bloom ca s"
proof -
  obtain trie bl where ca: "\<And>rc. ca_bloom ca rc = bl (rc_logs (as_receipt rc))"
    "\<And>rs. ca_receipt_root ca rs = trie (map (\<lambda>rc. receipt_2718_encode_with_bloom r rr rc (ca_bloom ca rc)) rs)"
    using assms unfolding receipts_by_encoding_def by blast
  show "ca_bloom ca (without_l1_fee s) = ca_bloom ca s" by (simp add: ca)
  have "receipt_2718_encode_with_bloom r rr (without_l1_fee s) b = receipt_2718_encode_with_bloom r rr s b" for s b
    by (simp add: receipt_2718_encode_with_bloom_def receipt_header_inner_def receipt_fields_by_receipt)
  then show "ca_receipt_root ca (map without_l1_fee rs) = ca_receipt_root ca rs"
    by (simp add: ca comp_def)
qed

lemma last_cumulative_without_fee: "last_cumulative_gas (map without_l1_fee rs) = last_cumulative_gas rs"
  by (cases rs rule: rev_cases) (simp_all add: last_cumulative_gas_def receipt_cumulative_gas_used_def)

text \<open>The check cannot tell receipts apart by their L1 fee.\<close>

lemma post_execution_without_fee:
  assumes ca: "receipts_by_encoding r rr ca" and eq: "map without_l1_fee rs1 = map without_l1_fee rs2"
  shows "validate_block_post_execution ca h \<lparr>br_receipts = rs1, br_gas_used = g1, br_blob_gas_used = u1\<rparr> None =
    validate_block_post_execution ca h \<lparr>br_receipts = rs2, br_gas_used = g2, br_blob_gas_used = u2\<rparr> None"
proof -
  have "last_cumulative_gas rs1 = last_cumulative_gas rs2"
    using last_cumulative_without_fee [of rs1] last_cumulative_without_fee [of rs2] eq by simp
  moreover have "ca_receipt_root ca rs1 = ca_receipt_root ca rs2"
    using fee_not_in_root(1) [OF ca, of rs1] fee_not_in_root(1) [OF ca, of rs2] eq by simp
  moreover have "fold (\<lambda>rc bloom. or bloom (ca_bloom ca rc)) (map without_l1_fee rs) x =
      fold (\<lambda>rc bloom. or bloom (ca_bloom ca rc)) rs x" for rs and x :: bloom
    by (induction rs arbitrary: x) (simp_all add: fee_not_in_root(2) [OF ca])
  from this [of rs1 0] this [of rs2 0] eq
  have "fold (\<lambda>rc bloom. or bloom (ca_bloom ca rc)) rs1 0 = fold (\<lambda>rc bloom. or bloom (ca_bloom ca rc)) rs2 (0 :: bloom)"
    by simp
  ultimately show ?thesis by (simp add: validate_block_post_execution_def Let_def)
qed

section \<open>Reading the payload back\<close>

definition payload_codec_laws :: "('db, 'l1, 'd, 'x, 'i, 'b, 'p) payload_env \<Rightarrow> bool" where
  "payload_codec_laws pe \<longleftrightarrow> rlp_laws (pe_rlp pe) \<and> alloy_codec_laws (pe_keccak256 pe) (pe_codec pe) \<and>
     (\<forall>ty rest. pe_extract_type_byte pe (ty # rest) = (if ty \<le> 0x7f then Some ty else None)) \<and>
     (\<forall>t sg. ac_encode (pe_codec pe) (ALegacy t) sg \<noteq> [] \<and> 0xc0 \<le> hd (ac_encode (pe_codec pe) (ALegacy t) sg))"

lemma envelope_read_back:
  assumes laws: "payload_codec_laws pe"
    and hash: "env_hash_consistent (pe_rlp pe) (pe_codec pe) (pe_keccak256 pe) e"
  shows "decode_2718_exact (pe_rlp pe) (pe_codec pe) (pe_keccak256 pe) (pe_extract_type_byte pe)
      (env_encode_2718 (pe_rlp pe) (pe_codec pe) e) = Inr e"
proof -
  let ?enc = "env_encode_2718 (pe_rlp pe) (pe_codec pe) e"
  have l: "rlp_laws (pe_rlp pe)" "alloy_codec_laws (pe_keccak256 pe) (pe_codec pe)"
    "\<And>ty rest. pe_extract_type_byte pe (ty # rest) = (if ty \<le> 0x7f then Some ty else None)"
    "\<And>t sg. ac_encode (pe_codec pe) (ALegacy t) sg \<noteq> [] \<and> 0xc0 \<le> hd (ac_encode (pe_codec pe) (ALegacy t) sg)"
    using laws by (auto simp: payload_codec_laws_def)
  note ok = envelope_decode_ok [OF l(1,2) hash, of "[]"]
  show ?thesis
  proof (cases "env_type_flag e")
    case None
    then obtain tx where e: "e = Legacy tx" by (cases e) auto
    have "?enc = hd ?enc # tl ?enc" "0xc0 \<le> hd ?enc" using l(4) by (auto simp: e env_encode_2718_def)
    moreover from this(2) have "\<not> hd ?enc \<le> 0x7f" by (simp add: word_le_nat_alt)
    ultimately have "pe_extract_type_byte pe ?enc = None" using l(3) by metis
    then show ?thesis using ok None by (simp add: decode_2718_exact_def decode_2718_def map_err_def)
  next
    case (Some ty)
    then have "ty \<le> 0x7f" by (cases e) (auto simp: L1_MESSAGE_TX_TYPE_ID_def L1_MESSAGE_TRANSACTION_TYPE_def)
    moreover from ok Some have enc: "?enc = ty # tl ?enc" by simp
    ultimately have "pe_extract_type_byte pe ?enc = Some ty" using l(3) [of ty "tl ?enc"] by simp
    then show ?thesis using ok Some by (simp add: decode_2718_exact_def decode_2718_def map_err_def)
  qed
qed

lemma payload_read_back:
  assumes "payload_codec_laws pe" and "\<forall>tx \<in> set txs. recovered pe tx"
    and "\<forall>tx \<in> set txs. env_hash_consistent (pe_rlp pe) (pe_codec pe) (pe_keccak256 pe) (fst tx)"
    and "ep_transactions payload = map (env_encode_2718 (pe_rlp pe) (pe_codec pe)) (map fst txs)"
  shows "tx_iterator_for_payload (pe_rlp pe) (pe_codec pe) (pe_keccak256 pe) (pe_extract_type_byte pe) payload = map Inr txs"
  using assms(2-4) envelope_read_back [OF assms(1)]
  by (auto simp: tx_iterator_for_payload_def recovered_def map_err_def)


section \<open>The whole block\<close>

text \<open>The engine payload of a block: the fields of its header and its encoded transactions.\<close>

definition carries_block ::
  "('db, 'l1, 'd, 'x, 'i, 'b, 'p) payload_env \<Rightarrow> Block \<Rightarrow> ExecutionPayload \<Rightarrow> bool" where
  "carries_block pe blk payload \<longleftrightarrow>
     (let h = b_header blk in payload = \<lparr>
        ep_parent_hash = h_parent_hash h, ep_fee_recipient = h_beneficiary h, ep_number = h_number h,
        ep_gas_limit = h_gas_limit h, ep_timestamp = h_timestamp h,
        ep_base_fee_per_gas = (case h_base_fee_per_gas h of Some fee \<Rightarrow> ucast fee | None \<Rightarrow> 0),
        ep_transactions = map (env_encode_2718 (pe_rlp pe) (pe_codec pe)) (b_transactions blk)\<rparr>)"

lemma system_phase_replays:
  fixes pe :: "('db, 'l1, 'd, 'x, 'i, 'b, 'p) payload_env"
  assumes laws: "replay_laws pe" and agree: "start_agree (bu_exec b0) f0" and none: "bu_txs b0 = []"
    and run: "run_bind (pre_execution pe) (\<lambda>_. accept_system_code_budget lim) b0 = (Some (Inr ()), b1)"
  obtains f1 where "apply_pre_execution_changes (pe_env pe) f0 = (Some (Inr ()), f1)" "replayed pe f1 b1"
proof -
  let ?b = "on_meter begin_transaction b0"
  let ?insp = "run_hooks (pe_interp pe) (pe_pre_hooks pe (bu_insp ?b) (bu_exec b0)) (bu_insp ?b)"
  from run obtain b1' where pre: "pre_execution pe b0 = (Some (Inr ()), b1')"
    and acc: "(accept_system_code_budget lim :: ('db, 'l1, ('d, 'x) PayloadBuilderError, unit) build) b1' = (Some (Inr ()), b1)"
    by (auto simp: run_bind_ok_iff)
  obtain ex where ex: "apply_pre_execution_changes (metered_env pe ?b) (bu_exec b0) = (Some (Inr ()), ex)"
    and b1': "b1' = ?b\<lparr>bu_exec := ex, bu_insp := ?insp\<rparr>"
    using pre by (auto simp: pre_execution_def Let_def result_elims split: prod.splits)
  have "within_budget pe (pe_pre_hooks pe (bu_insp ?b) (bu_exec b0)) (bu_insp ?b)"
    and b1: "bu_exec b1 = ex" "bu_txs b1 = []"
    using acc none
    by (auto simp: accept_system_code_budget_def accept_transaction_def within_budget_def code_exceeded_def b1' Let_def
        split: if_splits)
  then obtain f1 where "apply_pre_execution_changes (pe_env pe) f0 = (Some (Inr ()), f1)" "modes_agree ex f1"
    using pre_execution_agree [OF laws agree _ ex] by blast
  then show thesis using b1 that by (auto simp: replayed_def modes_agree_def)
qed

lemma builder_start_agrees:
  assumes "evm_env_for_payload (ee_fork_api (pe_env pe)) (ee_spec (pe_env pe)) payload = env"
    and "ep_parent_hash payload = sh_hash (ba_parent_header args)"
  shows "start_agree (bu_exec (builder_start pe cf args db env)) (import_executor pe db payload)"
  using assms
  by (simp add: start_agree_def exec_agree_def same_world_def same_checks_def builder_start_def import_executor_def
      executor_new_def create_evm_def create_evm_with_inspector_def executor_set_state_hook_def context_for_payload_def
      context_for_next_block_def Let_def)

text \<open>C2. A built block is accepted when it is imported. An importing node that decodes the engine payload of a
  block this builder made, on the parent state, reads back its transactions and signers, executes
  them without an error although it does not run the code witness inspector and never saw the
  candidates the builder tried and discarded, and ends in the builder's state: the same database,
  the same gas, receipts that differ at most in the L1 fee, which their consensus encoding leaves
  out. So the checks after execution pass, and the state root of the header is the root of a state
  with that database. The suggested fee recipient has to be zero unless a fee vault is configured.\<close>

theorem built_block_replays:
  fixes pe :: "('db, 'l1, 'd, 'x, 'i, 'b, 'p) payload_env"
  assumes laws: "replay_laws pe" "payload_codec_laws pe"
    and ca: "roots_agree ca (pe_assembler pe)" "receipts_by_encoding r rr ca"
    and run: "build_payload pe cf args db = Some (Inr out)" and built: "built_as out p" and blk: "blk = sb_block (bp_block p)"
    and small: "(\<Sum>enc\<leftarrow>forced_list (ba_attributes args). length enc) < 2 ^ 64"
    and vault: "fee_vault_address (sv_config (ee_spec (pe_env pe))) \<noteq> None \<or>
      pa_suggested_fee_recipient (sa_payload_attributes (ba_attributes args)) = 0"
    and pool: "\<forall>q. recovered pe (bt_to_consensus (pe_best pe) q)"
    and hash: "\<forall>tx \<in> set (b_transactions blk). env_hash_consistent (pe_rlp pe) (pe_codec pe) (pe_keccak256 pe) tx"
    and payload: "carries_block pe blk payload"
  shows "\<exists>txs gs ex result.
    tx_iterator_for_payload (pe_rlp pe) (pe_codec pe) (pe_keccak256 pe) (pe_extract_type_byte pe) payload = map Inr txs \<and>
    map fst txs = b_transactions blk \<and>
    run_bind (apply_pre_execution_changes (pe_env pe))
      (\<lambda>_. execute_transactions (pe_env pe) (map (executable_of pe) txs)) (import_executor pe db payload) = (Some (Inr gs), ex) \<and>
    bp_executed_block p = Some result \<and> map without_l1_fee (ex_receipts ex) = map without_l1_fee (br_receipts result) \<and>
    ex_gas_used ex = h_gas_used (b_header blk) \<and>
    validate_block_post_execution ca (b_header blk) (executor_finish ex) None = Inr () \<and>
    (ba_trie_root args = None \<longrightarrow>
      (\<exists>ex'. pe_state_root pe ex' = Inr (h_state_root (b_header blk)) \<and> ex_db ex' = ex_db ex))"
  using run
proof (rule build_payload_block)
  fix base_fee env b'
  let ?ee = "pe_env pe" and ?a = "next_attributes_of pe cf args base_fee" and ?h = "b_header blk"
  let ?b0 = "builder_start pe cf args db env"
  assume env: "env = next_evm_env (ee_fork_api ?ee) (ee_spec ?ee) (sh_header (ba_parent_header args)) ?a"
    and bb: "build_block pe cf args env ?b0 = (Some (Inr out), b')"
  from build_block_contents [OF replay_lawsD(3) [OF laws(1)] bb built small] obtain txs result root where
    res: "bp_executed_block p = Some result"
    and asm: "assemble_block (pe_assembler pe) env (sh_hash (ba_parent_header args)) txs result root = Inr blk"
    and used: "last_cumulative_gas (br_receipts result) = br_gas_used result"
    unfolding blk by blast
  have hdr: "h_parent_hash ?h = sh_hash (ba_parent_header args)" "h_gas_used ?h = br_gas_used result"
    "h_receipts_root ?h = as_receipt_root (pe_assembler pe) (br_receipts result)"
    "h_logs_bloom ?h = as_logs_bloom (pe_assembler pe) (concat (map (\<lambda>rc. rc_logs (as_receipt rc)) (br_receipts result)))"
    "h_base_fee_per_gas ?h = Some (nb_base_fee ?a)"
    using asm unfolding env assemble_next_env by auto
  have ep: "evm_env_for_payload (ee_fork_api ?ee) (ee_spec ?ee) payload = env" "ep_parent_hash payload = sh_hash (ba_parent_header args)"
    using replay_environment [OF asm [unfolded env] refl refl] vault payload hdr env
    by (simp_all add: carries_block_def next_attributes_of_def Let_def)
  from bb built show ?thesis
  proof (rule build_block_phases)
    fix b1 b2 b3 res'
    assume sys: "run_bind (pre_execution pe) (\<lambda>_. accept_system_code_budget (cf_max_code_witness_bytes cf)) ?b0 = (Some (Inr ()), b1)"
      and forced: "forced_phase pe cf (ba_attributes args) (be_gas_limit (ev_block (ex_evm (bu_exec b1)))) b1 = (Some (Inr ()), b2)"
      and pooled: "pool_phase pe cf (ba_attributes args) (be_gas_limit (ev_block (ex_evm (bu_exec b1)))) b2 = (Some (Inr PoolDone), b3)"
      and fin: "finish_block pe cf (ba_trie_root args) env b3 = (Some (Inr (bp_block p, res')), b')"
      and res': "bp_executed_block p = Some res'"
    obtain f1 where pre: "apply_pre_execution_changes ?ee (import_executor pe db payload) = (Some (Inr ()), f1)"
      and start: "replayed pe f1 b1"
      by (rule system_phase_replays [OF laws(1) builder_start_agrees [OF ep] _ sys]) (simp_all add: builder_start_def Let_def)
    from replay.phases_keep [OF laws(1) pool [rule_format] start forced pooled] obtain gs ex where
      rec: "\<forall>tx \<in> set (bu_txs b3). recovered pe tx"
      and exec: "execute_transactions ?ee (map (executable_of pe) (bu_txs b3)) f1 = (Some (Inr gs), ex)"
      and agree: "exec_agree (bu_exec b3) ex"
      by (auto simp: replayed_def)
    have result: "br_receipts result = ex_receipts (bu_exec b3)" "br_gas_used result = ex_gas_used (bu_exec b3)"
      and txs3: "b_transactions blk = map fst (bu_txs b3)"
      using finish_block_result [OF fin] res res' blk by simp_all
    have "tx_iterator_for_payload (pe_rlp pe) (pe_codec pe) (pe_keccak256 pe) (pe_extract_type_byte pe) payload = map Inr (bu_txs b3)"
      using payload_read_back [OF laws(2) rec, of payload] hash payload by (simp add: carries_block_def txs3 Let_def)
    moreover have "run_bind (apply_pre_execution_changes ?ee)
        (\<lambda>_. execute_transactions ?ee (map (executable_of pe) (bu_txs b3))) (import_executor pe db payload) = (Some (Inr gs), ex)"
      using pre exec by (auto simp: run_bind_ok_iff)
    moreover have eq: "map without_l1_fee (ex_receipts ex) = map without_l1_fee (br_receipts result)"
      "ex_gas_used ex = h_gas_used ?h" "ex_db ex = ex_db (bu_exec b3)"
      using agree result hdr by (simp_all add: exec_agree_def same_world_def ex_db_def)
    moreover have "validate_block_post_execution ca ?h (executor_finish ex) None = Inr ()"
      using post_execution_without_fee [OF ca(2) eq(1), of ?h "ex_gas_used ex" 0 "ex_gas_used ex" 0] ca(1) hdr used
      by (simp add: executor_finish_def validate_block_post_execution_def roots_agree_def Let_def)
    moreover have "ba_trie_root args = None \<longrightarrow> pe_state_root pe (bu_exec b3) = Inr (h_state_root ?h)"
      using finish_block_root fin blk by metis
    ultimately show ?thesis using res txs3 by metis
  qed
qed

definition sample_agreeing_consensus :: consensus_api where
  "sample_agreeing_consensus = sample_consensus\<lparr>ca_bloom := (\<lambda>_. 0)\<rparr>"

lemma sample_roots_agree: "roots_agree sample_agreeing_consensus (pe_assembler sample_payload_env)"
proof -
  have "fold (\<lambda>rc bloom. bloom) rs x = x" for rs :: "ScrollReceipt list" and x :: bloom
    by (induction rs) simp_all
  then show ?thesis
    by (simp add: roots_agree_def sample_agreeing_consensus_def sample_consensus_def sample_assembler_def)
qed

lemma sample_receipts_by_encoding: "receipts_by_encoding sample_rlp sample_receipt_rlp sample_agreeing_consensus"
  unfolding receipts_by_encoding_def
  by (rule exI [of _ "\<lambda>encs. of_nat (length encs)"], rule exI [of _ "\<lambda>_. 0"])
    (simp add: sample_agreeing_consensus_def sample_consensus_def)

lemma sample_replay_laws: "replay_laws sample_payload_env" "payload_codec_laws sample_payload_env"
  using sample_payload_laws
  by (simp_all add: replay_laws_def interpreter_laws_def observed_laws_def payload_codec_laws_def sample_exec_env_inactive_def
      sample_exec_env_def sample_evm_api_def sample_transact_def sample_system_call_def sample_alloy_codec_def)
    (simp_all add: flip: sample_evm_api_def sample_alloy_codec_def)

theorem built_block_replays_witness:
  "\<exists>p payload ex. build_payload sample_payload_env sample_builder_config sample_build_args empty_map_db =
      Some (Inr (Better p)) \<and> carries_block sample_payload_env (sb_block (bp_block p)) payload \<and>
    tx_iterator_for_payload sample_rlp sample_alloy_codec sample_keccak (pe_extract_type_byte sample_payload_env) payload =
      [Inr (Legacy sample_legacy, 9)] \<and>
    (\<exists>gs. run_bind (apply_pre_execution_changes sample_exec_env_inactive) (\<lambda>_. execute_transactions sample_exec_env_inactive
       [executable_of sample_payload_env (Legacy sample_legacy, 9)]) (import_executor sample_payload_env empty_map_db payload) =
       (Some (Inr gs), ex)) \<and>
    ex_gas_used ex = h_gas_used (b_header (sb_block (bp_block p)))"
proof -
  obtain p where run: "build_payload sample_payload_env sample_builder_config sample_build_args empty_map_db = Some (Inr (Better p))"
    and txs: "b_transactions (sb_block (bp_block p)) = [Legacy sample_legacy]"
    using sample_build by blast
  obtain payload where payload: "carries_block sample_payload_env (sb_block (bp_block p)) payload"
    by (auto simp: carries_block_def Let_def)
  have recov: "\<forall>q. recovered sample_payload_env (bt_to_consensus (pe_best sample_payload_env) q)"
    by (simp add: recovered_def sample_best_def sample_legacy_codec)
  have vault: "fee_vault_address (sv_config (ee_spec (pe_env sample_payload_env))) \<noteq> None"
    by (simp add: sample_exec_env_inactive_def sample_exec_env_def sample_view_def scroll_chain_config_mainnet_def
        scroll_chain_config_new_def)
  have small: "(\<Sum>enc\<leftarrow>forced_list (ba_attributes sample_build_args). length enc) < 2 ^ 64"
    by (simp add: sample_build_args_def sample_payload_attributes_def)
  have hash: "\<forall>tx \<in> set (b_transactions (sb_block (bp_block p))).
      env_hash_consistent (pe_rlp sample_payload_env) (pe_codec sample_payload_env) (pe_keccak256 sample_payload_env) tx"
    by (simp add: txs sample_legacy_codec)
  have built: "built_as (Better p) p" by (simp add: built_as_def)
  from built_block_replays [OF sample_replay_laws sample_roots_agree sample_receipts_by_encoding run built refl small
      disjI1 [OF vault] recov hash payload]
  obtain ts gs ex where ts: "tx_iterator_for_payload (pe_rlp sample_payload_env) (pe_codec sample_payload_env)
      (pe_keccak256 sample_payload_env) (pe_extract_type_byte sample_payload_env) payload = map Inr ts"
      "map fst ts = [Legacy sample_legacy]"
    and ex: "run_bind (apply_pre_execution_changes (pe_env sample_payload_env)) (\<lambda>_. execute_transactions (pe_env sample_payload_env)
       (map (executable_of sample_payload_env) ts)) (import_executor sample_payload_env empty_map_db payload) = (Some (Inr gs), ex)"
      "ex_gas_used ex = h_gas_used (b_header (sb_block (bp_block p)))"
    unfolding txs by (elim exE conjE) (rule that)
  have "ts = [(Legacy sample_legacy, 9)]"
    using ts payload
    by (auto simp: tx_iterator_for_payload_def txs carries_block_def Let_def result_elims sample_legacy_codec)
  then show ?thesis
    using run payload ts ex by (intro exI [of _ p] exI [of _ payload] exI [of _ ex]) auto
qed

end
