(* ===== verification/Tx_Forms.thy ===== *)
theory Tx_Forms
  imports Tx_Codec
begin

text \<open>
  The serialized forms of transactions (\<open>crates/dogeos-protocol-types/src/transaction/\<close>): the JSON
  objects of envelopes and unsigned transactions (\<open>serde_from\<close> in \<open>envelope.rs\<close> and \<open>typed.rs\<close>),
  which carry a type tag that may be missing for legacy transactions, and the bincode form of
  envelopes (\<open>serde_bincode_compat\<close> in \<open>envelope.rs\<close>).

  An object is the list of its fields. The fields of the structs of \<open>alloy\<close> and the readers for them
  are parameters (\<open>tx_json\<close>, \<open>bincode_tx\<close>) with the laws \<open>tx_json_laws\<close> and \<open>bincode_laws\<close>; what
  \<open>serde\<close> makes of the attributes \<open>tag\<close>, \<open>rename\<close>, \<open>alias\<close>, \<open>untagged\<close>, \<open>from\<close> and \<open>into\<close> is
  written out. A reader answers \<open>None\<close> for every error.
\<close>

section \<open>Tagged and untagged objects\<close>

type_synonym 'v json_object = "(string \<times> 'v) list"

text \<open>\<open>sj_identifier\<close> is what \<open>serde\<close> reads as the identifier of a variant: a name or an index.\<close>

record 'v serde_json =
  sj_string :: "string \<Rightarrow> 'v"
  sj_identifier :: "'v \<Rightarrow> (string + nat) option"

definition without_key :: "string \<Rightarrow> 'v json_object \<Rightarrow> 'v json_object" where
  "without_key k obj = filter (\<lambda>(k', _). k' \<noteq> k) obj"

definition values_of :: "string \<Rightarrow> 'v json_object \<Rightarrow> 'v list" where
  "values_of k obj = map snd (filter (\<lambda>(k', _). k' = k) obj)"

fun variant_index :: "string list list \<Rightarrow> string + nat \<Rightarrow> nat option" where
  "variant_index [] _ = None"
| "variant_index (names # rest) (Inl name) =
     (if name \<in> set names then Some 0 else map_option Suc (variant_index rest (Inl name)))"
| "variant_index (names # rest) (Inr i) =
     (case i of 0 \<Rightarrow> Some 0 | Suc j \<Rightarrow> map_option Suc (variant_index rest (Inr j)))"

text \<open>An enumeration with \<open>tag = "type"\<close>: exactly one tag, naming a variant, which reads the other
  fields. An \<open>untagged\<close> enumeration takes the first variant that reads the whole object.\<close>

definition deserialize_tagged ::
  "('v, 'z) serde_json_scheme \<Rightarrow> string list list \<Rightarrow> (nat \<Rightarrow> 'v json_object \<Rightarrow> 't option) \<Rightarrow> 'v json_object \<Rightarrow> 't option" where
  "deserialize_tagged sj names variant obj =
     (case values_of ''type'' obj of
        [v] \<Rightarrow> Option.bind (Option.bind (sj_identifier sj v) (variant_index names))
                 (\<lambda>i. variant i (without_key ''type'' obj))
      | _ \<Rightarrow> None)"

definition deserialize_untagged :: "('o \<Rightarrow> 'a option) \<Rightarrow> ('o \<Rightarrow> 'a option) \<Rightarrow> 'o \<Rightarrow> 'a option" where
  "deserialize_untagged first second obj =
     (case first obj of Some x \<Rightarrow> Some x | None \<Rightarrow> second obj)"

definition serialize_tagged ::
  "('v, 'z) serde_json_scheme \<Rightarrow> string \<Rightarrow> 'v json_object \<Rightarrow> 'v json_object" where
  "serialize_tagged sj tag fds = (''type'', sj_string sj tag) # fds"

section \<open>JSON of envelopes\<close>

record 'v tx_json = "'v serde_json" +
  tj_signed_legacy :: "TxLegacy Signed \<Rightarrow> 'v json_object"
  tj_signed_2930 :: "TxEip2930 Signed \<Rightarrow> 'v json_object"
  tj_signed_1559 :: "TxEip1559 Signed \<Rightarrow> 'v json_object"
  tj_signed_7702 :: "TxEip7702 Signed \<Rightarrow> 'v json_object"
  tj_sealed_l1 :: "L1MsgSerdeHelper Sealed \<Rightarrow> 'v json_object"
  tj_legacy :: "TxLegacy \<Rightarrow> 'v json_object"
  tj_2930 :: "TxEip2930 \<Rightarrow> 'v json_object"
  tj_1559 :: "TxEip1559 \<Rightarrow> 'v json_object"
  tj_7702 :: "TxEip7702 \<Rightarrow> 'v json_object"
  tj_l1 :: "L1MsgSerdeHelper \<Rightarrow> 'v json_object"
  tj_signature :: "Signature \<Rightarrow> 'v json_object"
  tj_read_signed_legacy :: "'v json_object \<Rightarrow> TxLegacy Signed option"
  tj_read_signed_2930 :: "'v json_object \<Rightarrow> TxEip2930 Signed option"
  tj_read_signed_1559 :: "'v json_object \<Rightarrow> TxEip1559 Signed option"
  tj_read_signed_7702 :: "'v json_object \<Rightarrow> TxEip7702 Signed option"
  tj_read_sealed_l1 :: "'v json_object \<Rightarrow> L1MsgSerdeHelper Sealed option"
  tj_read_legacy :: "'v json_object \<Rightarrow> TxLegacy option"
  tj_read_2930 :: "'v json_object \<Rightarrow> TxEip2930 option"
  tj_read_1559 :: "'v json_object \<Rightarrow> TxEip1559 option"
  tj_read_7702 :: "'v json_object \<Rightarrow> TxEip7702 option"
  tj_read_l1 :: "'v json_object \<Rightarrow> L1MsgSerdeHelper option"

definition serde_l1_message_tx_rpc :: "'v tx_json \<Rightarrow> 'v json_object \<Rightarrow> 'v json_object" where
  "serde_l1_message_tx_rpc j fds = fds @ tj_signature j l1_signature"

definition map_sealed :: "('a \<Rightarrow> 'b) \<Rightarrow> 'a Sealed \<Rightarrow> 'b Sealed" where
  "map_sealed f s = \<lparr>sealed_inner = f (sealed_inner s), sealed_hash = sealed_hash s\<rparr>"

datatype TaggedTxEnvelope =
    TagLegacy "TxLegacy Signed"
  | TagEip2930 "TxEip2930 Signed"
  | TagEip1559 "TxEip1559 Signed"
  | TagEip7702 "TxEip7702 Signed"
  | TagL1Message "TxL1Message Sealed"

datatype MaybeTaggedTxEnvelope = Tagged TaggedTxEnvelope | Untagged "TxLegacy Signed"

fun tagged_from_envelope :: "ScrollTxEnvelope \<Rightarrow> TaggedTxEnvelope" where
  "tagged_from_envelope (Legacy stx) = TagLegacy stx"
| "tagged_from_envelope (Eip2930 stx) = TagEip2930 stx"
| "tagged_from_envelope (Eip1559 stx) = TagEip1559 stx"
| "tagged_from_envelope (Eip7702 stx) = TagEip7702 stx"
| "tagged_from_envelope (L1Message tx) = TagL1Message tx"

fun envelope_from_tagged :: "TaggedTxEnvelope \<Rightarrow> ScrollTxEnvelope" where
  "envelope_from_tagged (TagLegacy stx) = Legacy stx"
| "envelope_from_tagged (TagEip2930 stx) = Eip2930 stx"
| "envelope_from_tagged (TagEip1559 stx) = Eip1559 stx"
| "envelope_from_tagged (TagEip7702 stx) = Eip7702 stx"
| "envelope_from_tagged (TagL1Message tx) = L1Message tx"

fun envelope_from_maybe_tagged :: "MaybeTaggedTxEnvelope \<Rightarrow> ScrollTxEnvelope" where
  "envelope_from_maybe_tagged (Tagged tagged) = envelope_from_tagged tagged"
| "envelope_from_maybe_tagged (Untagged tx) = Legacy tx"

definition tagged_envelope_names :: "string list list" where
  "tagged_envelope_names =
     [[''0x0'', ''0x00''], [''0x1'', ''0x01''], [''0x2'', ''0x02''], [''0x4'', ''0x04''], [''0x7e'', ''0x7E'']]"

fun tagged_envelope_fields :: "'v tx_json \<Rightarrow> TaggedTxEnvelope \<Rightarrow> string \<times> 'v json_object" where
  "tagged_envelope_fields j (TagLegacy stx) = (''0x0'', tj_signed_legacy j stx)"
| "tagged_envelope_fields j (TagEip2930 stx) = (''0x1'', tj_signed_2930 j stx)"
| "tagged_envelope_fields j (TagEip1559 stx) = (''0x2'', tj_signed_1559 j stx)"
| "tagged_envelope_fields j (TagEip7702 stx) = (''0x4'', tj_signed_7702 j stx)"
| "tagged_envelope_fields j (TagL1Message tx) =
     (''0x7e'', serde_l1_message_tx_rpc j (tj_sealed_l1 j (map_sealed l1_to_serde tx)))"

definition tagged_envelope_variant :: "'v tx_json \<Rightarrow> nat \<Rightarrow> 'v json_object \<Rightarrow> TaggedTxEnvelope option" where
  "tagged_envelope_variant j i obj =
     (if i = 0 then map_option TagLegacy (tj_read_signed_legacy j obj)
      else if i = 1 then map_option TagEip2930 (tj_read_signed_2930 j obj)
      else if i = 2 then map_option TagEip1559 (tj_read_signed_1559 j obj)
      else if i = 3 then map_option TagEip7702 (tj_read_signed_7702 j obj)
      else map_option (TagL1Message \<circ> map_sealed l1_from_serde) (tj_read_sealed_l1 j obj))"

definition envelope_serialize :: "'v tx_json \<Rightarrow> ScrollTxEnvelope \<Rightarrow> 'v json_object" where
  "envelope_serialize j e =
     (case tagged_envelope_fields j (tagged_from_envelope e) of (tag, fds) \<Rightarrow> serialize_tagged j tag fds)"

definition envelope_deserialize :: "'v tx_json \<Rightarrow> 'v json_object \<Rightarrow> ScrollTxEnvelope option" where
  "envelope_deserialize j obj =
     map_option envelope_from_maybe_tagged
       (deserialize_untagged
          (\<lambda>obj. map_option Tagged (deserialize_tagged j tagged_envelope_names (tagged_envelope_variant j) obj))
          (\<lambda>obj. map_option Untagged (tj_read_signed_legacy j obj)) obj)"

section \<open>JSON of unsigned transactions\<close>

datatype TaggedTypedTransaction =
    TagTLegacy TxLegacy
  | TagTEip2930 TxEip2930
  | TagTEip1559 TxEip1559
  | TagTEip7702 TxEip7702
  | TagTL1Message TxL1Message

datatype MaybeTaggedTypedTransaction = TTagged TaggedTypedTransaction | TUntagged TxLegacy

fun tagged_from_typed :: "ScrollTypedTransaction \<Rightarrow> TaggedTypedTransaction" where
  "tagged_from_typed (TLegacy tx) = TagTLegacy tx"
| "tagged_from_typed (TEip2930 tx) = TagTEip2930 tx"
| "tagged_from_typed (TEip1559 tx) = TagTEip1559 tx"
| "tagged_from_typed (TEip7702 tx) = TagTEip7702 tx"
| "tagged_from_typed (TL1Message tx) = TagTL1Message tx"

fun typed_from_tagged :: "TaggedTypedTransaction \<Rightarrow> ScrollTypedTransaction" where
  "typed_from_tagged (TagTLegacy tx) = TLegacy tx"
| "typed_from_tagged (TagTEip2930 tx) = TEip2930 tx"
| "typed_from_tagged (TagTEip1559 tx) = TEip1559 tx"
| "typed_from_tagged (TagTEip7702 tx) = TEip7702 tx"
| "typed_from_tagged (TagTL1Message tx) = TL1Message tx"

fun typed_from_maybe_tagged :: "MaybeTaggedTypedTransaction \<Rightarrow> ScrollTypedTransaction" where
  "typed_from_maybe_tagged (TTagged tagged) = typed_from_tagged tagged"
| "typed_from_maybe_tagged (TUntagged tx) = TLegacy tx"

definition tagged_typed_names :: "string list list" where
  "tagged_typed_names =
     [[''0x00'', ''0x0''], [''0x01'', ''0x1''], [''0x02'', ''0x2''], [''0x04'', ''0x4''], [''0x7e'', ''0x7E'']]"

fun tagged_typed_fields :: "'v tx_json \<Rightarrow> TaggedTypedTransaction \<Rightarrow> string \<times> 'v json_object" where
  "tagged_typed_fields j (TagTLegacy tx) = (''0x00'', tj_legacy j tx)"
| "tagged_typed_fields j (TagTEip2930 tx) = (''0x01'', tj_2930 j tx)"
| "tagged_typed_fields j (TagTEip1559 tx) = (''0x02'', tj_1559 j tx)"
| "tagged_typed_fields j (TagTEip7702 tx) = (''0x04'', tj_7702 j tx)"
| "tagged_typed_fields j (TagTL1Message tx) = (''0x7e'', serde_l1_message_tx_rpc j (tj_l1 j (l1_to_serde tx)))"

definition tagged_typed_variant :: "'v tx_json \<Rightarrow> nat \<Rightarrow> 'v json_object \<Rightarrow> TaggedTypedTransaction option" where
  "tagged_typed_variant j i obj =
     (if i = 0 then map_option TagTLegacy (tj_read_legacy j obj)
      else if i = 1 then map_option TagTEip2930 (tj_read_2930 j obj)
      else if i = 2 then map_option TagTEip1559 (tj_read_1559 j obj)
      else if i = 3 then map_option TagTEip7702 (tj_read_7702 j obj)
      else map_option (TagTL1Message \<circ> l1_from_serde) (tj_read_l1 j obj))"

definition typed_serialize :: "'v tx_json \<Rightarrow> ScrollTypedTransaction \<Rightarrow> 'v json_object" where
  "typed_serialize j t =
     (case tagged_typed_fields j (tagged_from_typed t) of (tag, fds) \<Rightarrow> serialize_tagged j tag fds)"

definition typed_deserialize :: "'v tx_json \<Rightarrow> 'v json_object \<Rightarrow> ScrollTypedTransaction option" where
  "typed_deserialize j obj =
     map_option typed_from_maybe_tagged
       (deserialize_untagged
          (\<lambda>obj. map_option TTagged (deserialize_tagged j tagged_typed_names (tagged_typed_variant j) obj))
          (\<lambda>obj. map_option TUntagged (tj_read_legacy j obj)) obj)"

section \<open>The bincode form of envelopes\<close>

text \<open>The borrowed transactions of \<open>alloy\<close> are the type parameters of the form; \<open>bt_to\<close> and \<open>bt_from\<close>
  convert them.\<close>

record ('l, 'a, 'd, 's) bincode_tx =
  bt_to_legacy :: "TxLegacy \<Rightarrow> 'l"
  bt_to_2930 :: "TxEip2930 \<Rightarrow> 'a"
  bt_to_1559 :: "TxEip1559 \<Rightarrow> 'd"
  bt_to_7702 :: "TxEip7702 \<Rightarrow> 's"
  bt_from_legacy :: "'l \<Rightarrow> TxLegacy"
  bt_from_2930 :: "'a \<Rightarrow> TxEip2930"
  bt_from_1559 :: "'d \<Rightarrow> TxEip1559"
  bt_from_7702 :: "'s \<Rightarrow> TxEip7702"

datatype ('l, 'a, 'd, 's) BincodeTxEnvelope =
    BLegacy Signature 'l
  | BEip2930 Signature 'a
  | BEip1559 Signature 'd
  | BEip7702 Signature 's
  | BTxL1Message b256 TxL1Message

fun bincode_from_envelope ::
  "('l, 'a, 'd, 's) bincode_tx \<Rightarrow> ScrollTxEnvelope \<Rightarrow> ('l, 'a, 'd, 's) BincodeTxEnvelope" where
  "bincode_from_envelope bt (Legacy s) = BLegacy (signed_signature s) (bt_to_legacy bt (signed_tx s))"
| "bincode_from_envelope bt (Eip2930 s) = BEip2930 (signed_signature s) (bt_to_2930 bt (signed_tx s))"
| "bincode_from_envelope bt (Eip1559 s) = BEip1559 (signed_signature s) (bt_to_1559 bt (signed_tx s))"
| "bincode_from_envelope bt (Eip7702 s) = BEip7702 (signed_signature s) (bt_to_7702 bt (signed_tx s))"
| "bincode_from_envelope bt (L1Message m) = BTxL1Message (sealed_hash m) (sealed_inner m)"

fun envelope_from_bincode ::
  "alloy_codec \<Rightarrow> ('l, 'a, 'd, 's) bincode_tx \<Rightarrow> ('l, 'a, 'd, 's) BincodeTxEnvelope \<Rightarrow> ScrollTxEnvelope" where
  "envelope_from_bincode ac bt (BLegacy sg tx) = Legacy (new_unhashed ac ALegacy (bt_from_legacy bt tx) sg)"
| "envelope_from_bincode ac bt (BEip2930 sg tx) = Eip2930 (new_unhashed ac A2930 (bt_from_2930 bt tx) sg)"
| "envelope_from_bincode ac bt (BEip1559 sg tx) = Eip1559 (new_unhashed ac A1559 (bt_from_1559 bt tx) sg)"
| "envelope_from_bincode ac bt (BEip7702 sg tx) = Eip7702 (new_unhashed ac A7702 (bt_from_7702 bt tx) sg)"
| "envelope_from_bincode ac bt (BTxL1Message h tx) = L1Message \<lparr>sealed_inner = tx, sealed_hash = h\<rparr>"

definition bincode_serialize_as ::
  "('l, 'a, 'd, 's) bincode_tx \<Rightarrow> (('l, 'a, 'd, 's) BincodeTxEnvelope \<Rightarrow> 'e + 'o) \<Rightarrow> ScrollTxEnvelope \<Rightarrow> 'e + 'o" where
  "bincode_serialize_as bt serialize source = serialize (bincode_from_envelope bt source)"

definition bincode_deserialize_as ::
  "alloy_codec \<Rightarrow> ('l, 'a, 'd, 's) bincode_tx \<Rightarrow> ('o \<Rightarrow> 'e + ('l, 'a, 'd, 's) BincodeTxEnvelope) \<Rightarrow> 'o \<Rightarrow>
   'e + ScrollTxEnvelope" where
  "bincode_deserialize_as ac bt deserialize input =
     rbind (deserialize input) (\<lambda>borrowed. Inr (envelope_from_bincode ac bt borrowed))"

section \<open>Laws of the parameters\<close>

definition has_no_tag :: "'v json_object \<Rightarrow> bool" where
  "has_no_tag obj \<longleftrightarrow> ''type'' \<notin> fst ` set obj"

definition reads_back :: "('a \<Rightarrow> 'v json_object) \<Rightarrow> ('v json_object \<Rightarrow> 'a option) \<Rightarrow> bool" where
  "reads_back write read \<longleftrightarrow> (\<forall>x. read (write x) = Some x \<and> has_no_tag (write x))"

definition reads_back_signed ::
  "'v tx_json \<Rightarrow> ('a \<Rightarrow> 'v json_object) \<Rightarrow> ('v json_object \<Rightarrow> 'a option) \<Rightarrow> bool" where
  "reads_back_signed j write read \<longleftrightarrow>
     (\<forall>x sg. read (write x @ tj_signature j sg) = Some x \<and> has_no_tag (write x) \<and> has_no_tag (tj_signature j sg))"

text \<open>Every struct reads the fields it writes, which never include a tag, keeping the stored hash; the
  reader of an L1 message skips the fields of a signature, as \<open>serde\<close> skips unknown fields.\<close>

definition tx_json_laws :: "'v tx_json \<Rightarrow> bool" where
  "tx_json_laws j \<longleftrightarrow>
     (\<forall>s. sj_identifier j (sj_string j s) = Some (Inl s)) \<and>
     reads_back (tj_signed_legacy j) (tj_read_signed_legacy j) \<and>
     reads_back (tj_signed_2930 j) (tj_read_signed_2930 j) \<and>
     reads_back (tj_signed_1559 j) (tj_read_signed_1559 j) \<and>
     reads_back (tj_signed_7702 j) (tj_read_signed_7702 j) \<and>
     reads_back_signed j (tj_sealed_l1 j) (tj_read_sealed_l1 j) \<and>
     reads_back (tj_legacy j) (tj_read_legacy j) \<and>
     reads_back (tj_2930 j) (tj_read_2930 j) \<and>
     reads_back (tj_1559 j) (tj_read_1559 j) \<and>
     reads_back (tj_7702 j) (tj_read_7702 j) \<and>
     reads_back_signed j (tj_l1 j) (tj_read_l1 j)"

definition bincode_laws :: "('l, 'a, 'd, 's) bincode_tx \<Rightarrow> bool" where
  "bincode_laws bt \<longleftrightarrow>
     (\<forall>tx. bt_from_legacy bt (bt_to_legacy bt tx) = tx) \<and> (\<forall>tx. bt_from_2930 bt (bt_to_2930 bt tx) = tx) \<and>
     (\<forall>tx. bt_from_1559 bt (bt_to_1559 bt tx) = tx) \<and> (\<forall>tx. bt_from_7702 bt (bt_to_7702 bt tx) = tx)"

section \<open>The contract of a tagged format\<close>

lemma tag_of_tagged:
  assumes "has_no_tag fds"
  shows "values_of ''type'' (serialize_tagged sj tag fds) = [sj_string sj tag]"
    and "without_key ''type'' (serialize_tagged sj tag fds) = fds"
  using assms
  by (auto simp: has_no_tag_def values_of_def without_key_def serialize_tagged_def image_iff
      filter_empty_conv filter_id_conv)

lemma variant_index_name:
  "distinct (concat names) \<Longrightarrow> i < length names \<Longrightarrow> name \<in> set (names ! i) \<Longrightarrow>
   variant_index names (Inl name) = Some i"
proof (induction names arbitrary: i)
  case (Cons ns names)
  then show ?case
  proof (cases i)
    case (Suc k)
    then have "name \<in> set (concat names)" using Cons.prems(2,3) by (auto intro: nth_mem)
    with Cons.prems(1) have "name \<notin> set ns" by auto
    with Cons Suc show ?thesis by simp
  qed simp
qed simp

lemma no_tag_values: "has_no_tag obj \<Longrightarrow> values_of ''type'' obj = []"
  by (auto simp: has_no_tag_def values_of_def image_iff filter_empty_conv)

text \<open>A format writes a tag and the fields of a variant; its reader accepts the fields under any name
  of the variant, and an untagged object under the reader \<open>fallback\<close>.\<close>

locale tagged_format =
  fixes names :: "string list list"
    and emit :: "'v tx_json \<Rightarrow> 't \<Rightarrow> string \<times> 'v json_object"
    and variant :: "'v tx_json \<Rightarrow> nat \<Rightarrow> 'v json_object \<Rightarrow> 't option"
  assumes written: "tx_json_laws j \<Longrightarrow> emit j x = (tag, fds) \<Longrightarrow>
      has_no_tag fds \<and> (\<exists>i. i < length names \<and> tag \<in> set (names ! i) \<and> variant j i fds = Some x)"
    and distinct_names: "distinct (concat names)"
begin

lemmas disjoint = variant_index_name [OF distinct_names]

lemma reads_any_name:
  assumes laws: "tx_json_laws j" and x: "emit j x = (tag, fds)"
    and name: "i < length names" "tag \<in> set (names ! i)" "name \<in> set (names ! i)"
  shows "deserialize_tagged j names (variant j) (serialize_tagged j name fds) = Some x"
proof -
  obtain k where k: "has_no_tag fds" "k < length names" "tag \<in> set (names ! k)" "variant j k fds = Some x"
    using written [OF laws x] by blast
  have "k = i" using disjoint [OF k(2,3)] disjoint [OF name(1,2)] by simp
  moreover have "sj_identifier j (sj_string j name) = Some (Inl name)"
    using laws by (simp add: tx_json_laws_def)
  ultimately show ?thesis
    using k(4) disjoint [OF name(1,3)]
    by (simp add: deserialize_tagged_def tag_of_tagged [OF k(1)])
qed

lemma reads_written:
  assumes "tx_json_laws j" and "emit j x = (tag, fds)"
  shows "deserialize_tagged j names (variant j) (serialize_tagged j tag fds) = Some x"
  using written [OF assms] reads_any_name [OF assms] by blast

lemma untagged_not_read:
  "has_no_tag fds \<Longrightarrow> deserialize_tagged j names (variant j) fds = None"
  by (simp add: deserialize_tagged_def no_tag_values)

end

lemma sealed_helper: "map_sealed l1_from_serde (map_sealed l1_to_serde m) = m"
  by (simp add: map_sealed_def l1_serde_roundtrip)

lemma no_tag_append: "has_no_tag (a @ b) \<longleftrightarrow> has_no_tag a \<and> has_no_tag b"
  by (auto simp: has_no_tag_def)

interpretation envelopes: tagged_format tagged_envelope_names tagged_envelope_fields tagged_envelope_variant
proof
  fix j :: "'v tx_json" and x tag fds
  assume laws: "tx_json_laws j" and w: "tagged_envelope_fields j x = (tag, fds)"
  define i :: nat where "i = (case x of TagLegacy _ \<Rightarrow> 0 | TagEip2930 _ \<Rightarrow> 1 | TagEip1559 _ \<Rightarrow> 2 | TagEip7702 _ \<Rightarrow> 3 | TagL1Message _ \<Rightarrow> 4)"
  have "has_no_tag fds \<and> i < length tagged_envelope_names \<and> tag \<in> set (tagged_envelope_names ! i) \<and>
      tagged_envelope_variant j i fds = Some x"
    using laws w
    by (cases x) (auto simp: i_def tagged_envelope_names_def tagged_envelope_variant_def tx_json_laws_def reads_back_def
        reads_back_signed_def serde_l1_message_tx_rpc_def no_tag_append sealed_helper)
  then show "has_no_tag fds \<and> (\<exists>i. i < length tagged_envelope_names \<and> tag \<in> set (tagged_envelope_names ! i) \<and>
      tagged_envelope_variant j i fds = Some x)"
    by blast
qed (simp add: tagged_envelope_names_def)

interpretation typed: tagged_format tagged_typed_names tagged_typed_fields tagged_typed_variant
proof
  fix j :: "'v tx_json" and x tag fds
  assume laws: "tx_json_laws j" and w: "tagged_typed_fields j x = (tag, fds)"
  define i :: nat where "i = (case x of TagTLegacy _ \<Rightarrow> 0 | TagTEip2930 _ \<Rightarrow> 1 | TagTEip1559 _ \<Rightarrow> 2 | TagTEip7702 _ \<Rightarrow> 3 | TagTL1Message _ \<Rightarrow> 4)"
  have "has_no_tag fds \<and> i < length tagged_typed_names \<and> tag \<in> set (tagged_typed_names ! i) \<and>
      tagged_typed_variant j i fds = Some x"
    using laws w
    by (cases x) (auto simp: i_def tagged_typed_names_def tagged_typed_variant_def tx_json_laws_def reads_back_def
        reads_back_signed_def serde_l1_message_tx_rpc_def no_tag_append l1_serde_roundtrip)
  then show "has_no_tag fds \<and> (\<exists>i. i < length tagged_typed_names \<and> tag \<in> set (tagged_typed_names ! i) \<and>
      tagged_typed_variant j i fds = Some x)"
    by blast
qed (simp add: tagged_typed_names_def)

section \<open>Concrete forms\<close>

text \<open>An instance that satisfies the laws: every struct is one field. Used by the witness only.\<close>

datatype sample_value =
    VString string | VNumber nat
  | VSignedLegacy "TxLegacy Signed" | VSigned2930 "TxEip2930 Signed" | VSigned1559 "TxEip1559 Signed"
  | VSigned7702 "TxEip7702 Signed" | VSealed "L1MsgSerdeHelper Sealed"
  | VLegacy TxLegacy | V2930 TxEip2930 | V1559 TxEip1559 | V7702 TxEip7702 | VL1 L1MsgSerdeHelper
  | VSignature Signature

definition sample_write :: "('a \<Rightarrow> sample_value) \<Rightarrow> 'a \<Rightarrow> sample_value json_object" where
  "sample_write con x = [(''tx'', con x)]"

definition sample_read :: "(sample_value \<Rightarrow> 'a option) \<Rightarrow> sample_value json_object \<Rightarrow> 'a option" where
  "sample_read sel obj = Option.bind (map_of obj ''tx'') sel"

definition sample_tx_json :: "sample_value tx_json" where
  "sample_tx_json = \<lparr>
     sj_string = VString,
     sj_identifier = (\<lambda>v. case v of VString s \<Rightarrow> Some (Inl s) | VNumber n \<Rightarrow> Some (Inr n) | _ \<Rightarrow> None),
     tj_signed_legacy = sample_write VSignedLegacy, tj_signed_2930 = sample_write VSigned2930,
     tj_signed_1559 = sample_write VSigned1559, tj_signed_7702 = sample_write VSigned7702,
     tj_sealed_l1 = sample_write VSealed,
     tj_legacy = sample_write VLegacy, tj_2930 = sample_write V2930, tj_1559 = sample_write V1559,
     tj_7702 = sample_write V7702, tj_l1 = sample_write VL1,
     tj_signature = (\<lambda>sg. [(''r'', VSignature sg)]),
     tj_read_signed_legacy = sample_read (\<lambda>v. case v of VSignedLegacy x \<Rightarrow> Some x | _ \<Rightarrow> None),
     tj_read_signed_2930 = sample_read (\<lambda>v. case v of VSigned2930 x \<Rightarrow> Some x | _ \<Rightarrow> None),
     tj_read_signed_1559 = sample_read (\<lambda>v. case v of VSigned1559 x \<Rightarrow> Some x | _ \<Rightarrow> None),
     tj_read_signed_7702 = sample_read (\<lambda>v. case v of VSigned7702 x \<Rightarrow> Some x | _ \<Rightarrow> None),
     tj_read_sealed_l1 = sample_read (\<lambda>v. case v of VSealed x \<Rightarrow> Some x | _ \<Rightarrow> None),
     tj_read_legacy = sample_read (\<lambda>v. case v of VLegacy x \<Rightarrow> Some x | _ \<Rightarrow> None),
     tj_read_2930 = sample_read (\<lambda>v. case v of V2930 x \<Rightarrow> Some x | _ \<Rightarrow> None),
     tj_read_1559 = sample_read (\<lambda>v. case v of V1559 x \<Rightarrow> Some x | _ \<Rightarrow> None),
     tj_read_7702 = sample_read (\<lambda>v. case v of V7702 x \<Rightarrow> Some x | _ \<Rightarrow> None),
     tj_read_l1 = sample_read (\<lambda>v. case v of VL1 x \<Rightarrow> Some x | _ \<Rightarrow> None)\<rparr>"

lemma sample_tx_json_laws: "tx_json_laws sample_tx_json"
  by (simp add: tx_json_laws_def sample_tx_json_def reads_back_def reads_back_signed_def sample_write_def
      sample_read_def has_no_tag_def)

definition sample_bincode :: "(TxLegacy, TxEip2930, TxEip1559, TxEip7702) bincode_tx" where
  "sample_bincode = \<lparr>
     bt_to_legacy = id, bt_to_2930 = id, bt_to_1559 = id, bt_to_7702 = id,
     bt_from_legacy = id, bt_from_2930 = id, bt_from_1559 = id, bt_from_7702 = id\<rparr>"

lemma sample_bincode_laws: "bincode_laws sample_bincode"
  by (simp add: bincode_laws_def sample_bincode_def)

section \<open>Round trips\<close>

lemma tagged_from_envelope_inverse: "envelope_from_tagged (tagged_from_envelope e) = e"
  by (cases e) simp_all

lemma tagged_from_typed_inverse: "typed_from_tagged (tagged_from_typed t) = t"
  by (cases t) simp_all

lemma envelope_reads_any_name:
  assumes "tx_json_laws j" and "tagged_envelope_fields j (tagged_from_envelope e) = (tag, fds)"
    and "i < length tagged_envelope_names" "tag \<in> set (tagged_envelope_names ! i)"
      "name \<in> set (tagged_envelope_names ! i)"
  shows "envelope_deserialize j (serialize_tagged j name fds) = Some e"
  by (simp add: envelope_deserialize_def deserialize_untagged_def envelopes.reads_any_name [OF assms]
      tagged_from_envelope_inverse)

lemma envelope_json_roundtrip:
  assumes "tx_json_laws j"
  shows "envelope_deserialize j (envelope_serialize j e) = Some e"
  using envelopes.reads_written [OF assms, of "tagged_from_envelope e"]
  by (simp add: envelope_serialize_def envelope_deserialize_def deserialize_untagged_def
      tagged_from_envelope_inverse split: prod.split)

lemma typed_json_roundtrip:
  assumes "tx_json_laws j"
  shows "typed_deserialize j (typed_serialize j t) = Some t"
  using typed.reads_written [OF assms, of "tagged_from_typed t"]
  by (simp add: typed_serialize_def typed_deserialize_def deserialize_untagged_def
      tagged_from_typed_inverse split: prod.split)

lemma untagged_is_legacy:
  assumes "has_no_tag obj"
  shows "envelope_deserialize j obj = map_option Legacy (tj_read_signed_legacy j obj)"
    and "typed_deserialize j obj = map_option TLegacy (tj_read_legacy j obj)"
  by (simp_all add: envelope_deserialize_def typed_deserialize_def deserialize_untagged_def
      envelopes.untagged_not_read [OF assms] typed.untagged_not_read [OF assms] option.map_comp comp_def)

lemma bincode_rebuilds:
  assumes bt: "bincode_laws bt" and ac: "alloy_codec_laws keccak256 ac"
  shows "envelope_from_bincode ac bt (bincode_from_envelope bt e) = e \<longleftrightarrow>
     env_is_l1_message e \<or> env_hash_consistent r ac keccak256 e"
  using bt
  by (cases e) (simp_all add: bincode_laws_def env_is_l1_message_def hash_consistent_cases [OF ac])

text \<open>C39. The serialized forms of transactions. JSON: the object of an envelope, or of an unsigned
  transaction, is read back to the same value, whichever spelling of its type tag is used for an
  envelope; an object without a tag is read exactly as a legacy transaction, and a legacy
  transaction written without one is accepted. Bincode: for a serializer whose output its
  deserializer reads, an envelope comes back unchanged exactly when it is an L1 message, whose hash
  is stored, or a signed transaction whose stored hash is the hash of its encoding, since that hash
  is dropped and recomputed.\<close>

theorem transaction_forms_roundtrip:
  assumes j: "tx_json_laws j" and bt: "bincode_laws bt" and ac: "alloy_codec_laws keccak256 ac"
    and codec: "\<forall>b. \<exists>out. serialize b = Inr out \<and> deserialize out = Inr b"
  shows "envelope_deserialize j (envelope_serialize j e) = Some e \<and>
    typed_deserialize j (typed_serialize j t) = Some t \<and>
    (\<forall>names \<in> set tagged_envelope_names. \<forall>name \<in> set names. \<forall>tag fds.
       tagged_envelope_fields j (tagged_from_envelope e) = (tag, fds) \<and> tag \<in> set names \<longrightarrow>
       envelope_deserialize j (serialize_tagged j name fds) = Some e) \<and>
    (\<forall>obj. has_no_tag obj \<longrightarrow>
       envelope_deserialize j obj = map_option Legacy (tj_read_signed_legacy j obj) \<and>
       typed_deserialize j obj = map_option TLegacy (tj_read_legacy j obj)) \<and>
    envelope_deserialize j (tj_signed_legacy j legacy) = Some (Legacy legacy) \<and>
    typed_deserialize j (tj_legacy j (signed_tx legacy)) = Some (TLegacy (signed_tx legacy)) \<and>
    (rbind (bincode_serialize_as bt serialize e) (bincode_deserialize_as ac bt deserialize) = Inr e \<longleftrightarrow>
       env_is_l1_message e \<or> env_hash_consistent r ac keccak256 e)"
proof (intro conjI ballI allI impI)
  fix names name tag fds
  assume names: "names \<in> set tagged_envelope_names" and name: "name \<in> set names"
    and tag: "tagged_envelope_fields j (tagged_from_envelope e) = (tag, fds) \<and> tag \<in> set names"
  obtain i where "i < length tagged_envelope_names" "names = tagged_envelope_names ! i"
    using names by (metis in_set_conv_nth)
  then show "envelope_deserialize j (serialize_tagged j name fds) = Some e"
    using envelope_reads_any_name [OF j] tag name by blast
next
  have legacy: "reads_back (tj_signed_legacy j) (tj_read_signed_legacy j)"
    "reads_back (tj_legacy j) (tj_read_legacy j)"
    using j by (simp_all add: tx_json_laws_def)
  show "envelope_deserialize j (tj_signed_legacy j legacy) = Some (Legacy legacy)"
    using legacy(1) by (simp add: reads_back_def untagged_is_legacy)
  show "typed_deserialize j (tj_legacy j (signed_tx legacy)) = Some (TLegacy (signed_tx legacy))"
    using legacy(2) by (simp add: reads_back_def untagged_is_legacy)
next
  obtain out where "serialize (bincode_from_envelope bt e) = Inr out"
    "deserialize out = Inr (bincode_from_envelope bt e)"
    using codec by blast
  then show "rbind (bincode_serialize_as bt serialize e) (bincode_deserialize_as ac bt deserialize) = Inr e \<longleftrightarrow>
       env_is_l1_message e \<or> env_hash_consistent r ac keccak256 e"
    by (simp add: bincode_serialize_as_def bincode_deserialize_as_def bincode_rebuilds [OF bt ac])
qed (simp_all add: envelope_json_roundtrip [OF j] typed_json_roundtrip [OF j] untagged_is_legacy)

theorem transaction_forms_roundtrip_witness:
  "envelope_deserialize sample_tx_json (envelope_serialize sample_tx_json (L1Message sample_l1_message))
     = Some (L1Message sample_l1_message) \<and>
   envelope_serialize sample_tx_json (Legacy sample_legacy)
     = [(''type'', VString ''0x0''), (''tx'', VSignedLegacy sample_legacy)] \<and>
   envelope_from_bincode sample_alloy_codec sample_bincode
     (bincode_from_envelope sample_bincode (L1Message sample_l1_message)) = L1Message sample_l1_message"
proof -
  note forms = transaction_forms_roundtrip [OF sample_tx_json_laws sample_bincode_laws sample_alloy_codec_laws,
      of "\<lambda>b. Inr b :: string + _" Inr "L1Message sample_l1_message"]
  have "rbind (bincode_serialize_as sample_bincode (\<lambda>b. Inr b :: string + _) (L1Message sample_l1_message))
      (bincode_deserialize_as sample_alloy_codec sample_bincode Inr) = Inr (L1Message sample_l1_message)"
    using forms by (simp add: env_is_l1_message_def)
  then show ?thesis using forms
    by (simp add: bincode_serialize_as_def bincode_deserialize_as_def envelope_serialize_def serialize_tagged_def
        sample_tx_json_def sample_write_def)
qed

end
