(* ===== verification/Receipt_Envelopes.thy ===== *)
theory Receipt_Envelopes
  imports Receipts
begin

text \<open>
  The codec of receipt envelopes (\<open>crates/dogeos-protocol-types/src/receipt/envelope.rs\<close>): lengths, the
  EIP-2718 form, the form wrapped for the network, and their decoders. The codec of a receipt with
  its bloom belongs to \<open>alloy\<close> and rests on the parameter \<open>receipt_rlp\<close> of \<open>Receipts\<close>.
\<close>

section \<open>Encoding\<close>

text \<open>The codec of a receipt with its bloom: a list header and the fields.\<close>

definition with_bloom_encode :: "rlp_api \<Rightarrow> receipt_rlp \<Rightarrow> Receipt ReceiptWithBloom \<Rightarrow> bytes" where
  "with_bloom_encode r rr w =
     rlp_enc_header r (True, rr_fields_len rr (rwb_receipt w) (rwb_logs_bloom w)) @
     rr_enc_fields rr (rwb_receipt w) (rwb_logs_bloom w)"

definition with_bloom_length :: "rlp_api \<Rightarrow> receipt_rlp \<Rightarrow> Receipt ReceiptWithBloom \<Rightarrow> nat" where
  "with_bloom_length r rr w =
     (let n = rr_fields_len rr (rwb_receipt w) (rwb_logs_bloom w) in rlp_len_header r (True, n) + n)"

definition envelope_inner_length :: "rlp_api \<Rightarrow> receipt_rlp \<Rightarrow> ScrollReceiptEnvelope \<Rightarrow> nat" where
  "envelope_inner_length r rr e =
     (case e of
        ELegacy t \<Rightarrow> with_bloom_length r rr t
      | EEip2930 t \<Rightarrow> with_bloom_length r rr t
      | EEip1559 t \<Rightarrow> with_bloom_length r rr t
      | EEip7702 t \<Rightarrow> with_bloom_length r rr t
      | EL1Message t \<Rightarrow> with_bloom_length r rr t)"

definition envelope_rlp_payload_length :: "rlp_api \<Rightarrow> receipt_rlp \<Rightarrow> ScrollReceiptEnvelope \<Rightarrow> nat" where
  "envelope_rlp_payload_length r rr e =
     (let len = envelope_inner_length r rr e in case e of ELegacy _ \<Rightarrow> len | _ \<Rightarrow> len + 1)"

definition envelope_type_flag :: "ScrollReceiptEnvelope \<Rightarrow> u8 option" where
  "envelope_type_flag e =
     (case e of
        ELegacy _ \<Rightarrow> None
      | EEip2930 _ \<Rightarrow> Some (tx_type_to_u8 TyEip2930)
      | EEip1559 _ \<Rightarrow> Some (tx_type_to_u8 TyEip1559)
      | EEip7702 _ \<Rightarrow> Some (tx_type_to_u8 TyEip7702)
      | EL1Message _ \<Rightarrow> Some (tx_type_to_u8 TyL1Message))"

definition envelope_ty :: "ScrollReceiptEnvelope \<Rightarrow> u8" where
  "envelope_ty e =
     tx_type_to_u8
      (case e of
         ELegacy _ \<Rightarrow> TyLegacy
       | EEip2930 _ \<Rightarrow> TyEip2930
       | EEip1559 _ \<Rightarrow> TyEip1559
       | EEip7702 _ \<Rightarrow> TyEip7702
       | EL1Message _ \<Rightarrow> TyL1Message)"

text \<open>\<open>is_legacy\<close> of \<open>Typed2718\<close>: the type is zero.\<close>

definition envelope_is_legacy :: "ScrollReceiptEnvelope \<Rightarrow> bool" where
  "envelope_is_legacy e \<longleftrightarrow> envelope_ty e = 0"

definition envelope_encode_2718_len :: "rlp_api \<Rightarrow> receipt_rlp \<Rightarrow> ScrollReceiptEnvelope \<Rightarrow> nat" where
  "envelope_encode_2718_len r rr e = envelope_inner_length r rr e + (if envelope_is_legacy e then 0 else 1)"

definition envelope_encode_2718 :: "rlp_api \<Rightarrow> receipt_rlp \<Rightarrow> ScrollReceiptEnvelope \<Rightarrow> bytes" where
  "envelope_encode_2718 r rr e =
     (case envelope_type_flag e of None \<Rightarrow> [] | Some ty \<Rightarrow> [ty]) @
     (case e of
        ELegacy t \<Rightarrow> with_bloom_encode r rr t
      | EEip2930 t \<Rightarrow> with_bloom_encode r rr t
      | EEip1559 t \<Rightarrow> with_bloom_encode r rr t
      | EEip7702 t \<Rightarrow> with_bloom_encode r rr t
      | EL1Message t \<Rightarrow> with_bloom_encode r rr t)"

definition envelope_length :: "rlp_api \<Rightarrow> receipt_rlp \<Rightarrow> (nat \<Rightarrow> nat) \<Rightarrow> ScrollReceiptEnvelope \<Rightarrow> nat" where
  "envelope_length r rr length_of_length e =
     (let payload_length = envelope_rlp_payload_length r rr e in
      if \<not> envelope_is_legacy e then payload_length + length_of_length payload_length else payload_length)"

section \<open>Decoding\<close>

definition envelope_typed_decode ::
  "receipt_rlp \<Rightarrow> u8 \<Rightarrow> bytes \<Rightarrow> eip2718_error + ScrollReceiptEnvelope \<times> bytes" where
  "envelope_typed_decode rr ty buf =
     rbind (map_err (\<lambda>_. UnexpectedType ty) (tx_type_try_from_u8 ty)) (\<lambda>t.
       map_err rlp_to_eip2718
        (case t of
           TyLegacy \<Rightarrow> Inl (CustomRlp ''type-0 eip2718 transactions are not supported'')
         | TyEip2930 \<Rightarrow> rbind (rr_dec_with_bloom rr buf) (\<lambda>(w, buf). Inr (EEip2930 w, buf))
         | TyEip1559 \<Rightarrow> rbind (rr_dec_with_bloom rr buf) (\<lambda>(w, buf). Inr (EEip1559 w, buf))
         | TyEip7702 \<Rightarrow> rbind (rr_dec_with_bloom rr buf) (\<lambda>(w, buf). Inr (EEip7702 w, buf))
         | TyL1Message \<Rightarrow> rbind (rr_dec_with_bloom rr buf) (\<lambda>(w, buf). Inr (EL1Message w, buf))))"

definition envelope_fallback_decode ::
  "receipt_rlp \<Rightarrow> bytes \<Rightarrow> eip2718_error + ScrollReceiptEnvelope \<times> bytes" where
  "envelope_fallback_decode rr buf =
     map_err rlp_to_eip2718 (rbind (rr_dec_with_bloom rr buf) (\<lambda>(w, buf). Inr (ELegacy w, buf)))"

text \<open>\<open>Decodable\<close> reports every error of the network decoder as one.\<close>

definition envelope_decode ::
  "(bytes \<Rightarrow> eip2718_error + ScrollReceiptEnvelope \<times> bytes) \<Rightarrow> ScrollReceiptEnvelope decoder" where
  "envelope_decode network_decode buf =
     (case network_decode buf of Inl _ \<Rightarrow> Inl (CustomRlp ''Unexpected type'') | Inr e \<Rightarrow> Inr e)"

section \<open>L1 messages\<close>

definition as_l1_message_receipt_with_bloom :: "ScrollReceiptEnvelope \<Rightarrow> Receipt ReceiptWithBloom option" where
  "as_l1_message_receipt_with_bloom e = (case e of EL1Message t \<Rightarrow> Some t | _ \<Rightarrow> None)"

definition as_l1_message_receipt :: "ScrollReceiptEnvelope \<Rightarrow> Receipt option" where
  "as_l1_message_receipt e = (case e of EL1Message t \<Rightarrow> Some (rwb_receipt t) | _ \<Rightarrow> None)"

section \<open>Lemmas\<close>

lemma with_bloom_codec:
  assumes "receipt_rlp_laws r rr"
  shows "with_bloom_length r rr w = length (with_bloom_encode r rr w)"
    and "rr_dec_with_bloom rr (with_bloom_encode r rr w @ rest) = Inr (w, rest)"
proof -
  have l: "rlp_laws r" "\<And>rc b. rr_fields_len rr rc b = length (rr_enc_fields rr rc b)"
    "\<And>rc b rest. rr_dec_with_bloom rr (rlp_enc_header r (True, length (rr_enc_fields rr rc b)) @
          rr_enc_fields rr rc b @ rest) = Inr (\<lparr>rwb_receipt = rc, rwb_logs_bloom = b\<rparr>, rest)"
    using assms by (auto simp: receipt_rlp_laws_def)
  show "with_bloom_length r rr w = length (with_bloom_encode r rr w)"
    using l(1,2) by (simp add: with_bloom_length_def with_bloom_encode_def rlp_laws_def Let_def)
  show "rr_dec_with_bloom rr (with_bloom_encode r rr w @ rest) = Inr (w, rest)"
    by (simp add: with_bloom_encode_def l(2,3))
qed

lemma envelope_is_legacy_iff: "envelope_is_legacy e \<longleftrightarrow> envelope_type_flag e = None"
  by (cases e) (simp_all add: envelope_is_legacy_def envelope_ty_def envelope_type_flag_def L1_MESSAGE_TX_TYPE_ID_def)

text \<open>C40. The EIP-2718 encoding of a receipt envelope is read back: without a type byte by the fallback
  decoder, with one by the typed decoder. What either decoder reads keeps its form: a typed envelope
  has the type byte it was read with, one of the fallback decoder has none. The documentation of the
  enum says that it distinguishes tagged and untagged legacy receipts; it does not: type zero is
  always refused, and no envelope is written with that byte. The announced lengths are the
  lengths written, in the network form too, where a typed receipt is wrapped in a string header of
  that length. An envelope made from the parts of a stored receipt has the very bytes from which the
  receipts root of a block is computed, whatever L1 fee is stored.\<close>

theorem receipt_envelope_codec:
  assumes laws: "receipt_rlp_laws r rr"
    and lol: "\<forall>n. length_of_length n = rlp_len_header r (False, n)"
  shows "envelope_encode_2718_len r rr e = length (envelope_encode_2718 r rr e) \<and>
    (case envelope_type_flag e of
       None \<Rightarrow> envelope_fallback_decode rr (envelope_encode_2718 r rr e @ rest) = Inr (e, rest) \<and>
         envelope_length r rr length_of_length e = length (envelope_encode_2718 r rr e)
     | Some ty \<Rightarrow> ty = envelope_ty e \<and> envelope_encode_2718 r rr e = ty # tl (envelope_encode_2718 r rr e) \<and>
         envelope_typed_decode rr ty (tl (envelope_encode_2718 r rr e) @ rest) = Inr (e, rest) \<and>
         envelope_length r rr length_of_length e =
           length (rlp_enc_header r (False, envelope_encode_2718_len r rr e) @ envelope_encode_2718 r rr e)) \<and>
    (\<forall>ty buf e' rest'. envelope_typed_decode rr ty buf = Inr (e', rest') \<longrightarrow> envelope_type_flag e' = Some ty) \<and>
    (\<forall>buf e' rest'. envelope_fallback_decode rr buf = Inr (e', rest') \<longrightarrow> envelope_type_flag e' = None) \<and>
    (\<exists>err. envelope_typed_decode rr 0 buf = Inl err) \<and> envelope_type_flag e \<noteq> Some 0 \<and>
    (rc_status (as_receipt s) = Eip658 ok \<longrightarrow>
       envelope_encode_2718 r rr (receipt_envelope_from_parts bloom_of ok (rc_cumulative_gas_used (as_receipt s))
         (rc_logs (as_receipt s)) (receipt_tx_type s)) =
       receipt_2718_encode_with_bloom r rr s (bloom_of (rc_logs (as_receipt s))))"
proof (intro conjI)
  note codec = with_bloom_codec [OF laws]
  note hdr = rlp_header_len [OF receipt_lawsD(1) [OF laws]]
  show len: "envelope_encode_2718_len r rr e = length (envelope_encode_2718 r rr e)"
    by (cases e) (simp_all add: envelope_encode_2718_len_def envelope_encode_2718_def envelope_inner_length_def
        envelope_is_legacy_iff envelope_type_flag_def codec(1))
  show "case envelope_type_flag e of
       None \<Rightarrow> envelope_fallback_decode rr (envelope_encode_2718 r rr e @ rest) = Inr (e, rest) \<and>
         envelope_length r rr length_of_length e = length (envelope_encode_2718 r rr e)
     | Some ty \<Rightarrow> ty = envelope_ty e \<and> envelope_encode_2718 r rr e = ty # tl (envelope_encode_2718 r rr e) \<and>
         envelope_typed_decode rr ty (tl (envelope_encode_2718 r rr e) @ rest) = Inr (e, rest) \<and>
         envelope_length r rr length_of_length e =
           length (rlp_enc_header r (False, envelope_encode_2718_len r rr e) @ envelope_encode_2718 r rr e)"
    using lol
    by (cases e) (auto simp: envelope_length_def envelope_rlp_payload_length_def envelope_inner_length_def
        envelope_encode_2718_len_def envelope_encode_2718_def envelope_is_legacy_iff envelope_type_flag_def
        envelope_ty_def envelope_typed_decode_def envelope_fallback_decode_def tx_type_try_from_u8_def
        L1_MESSAGE_TX_TYPE_ID_def codec hdr Let_def)
  show "\<forall>ty buf e' rest'. envelope_typed_decode rr ty buf = Inr (e', rest') \<longrightarrow> envelope_type_flag e' = Some ty"
    by (auto simp: envelope_typed_decode_def tx_type_try_from_u8_def envelope_type_flag_def L1_MESSAGE_TX_TYPE_ID_def
        map_err_def result_elims split: if_splits option.splits sum.splits ScrollTxType.splits)
  show "\<forall>buf e' rest'. envelope_fallback_decode rr buf = Inr (e', rest') \<longrightarrow> envelope_type_flag e' = None"
    by (auto simp: envelope_fallback_decode_def envelope_type_flag_def map_err_def result_elims split: sum.splits prod.splits)
  show "envelope_type_flag e \<noteq> Some 0"
    by (cases e) (simp_all add: envelope_type_flag_def L1_MESSAGE_TX_TYPE_ID_def)
  show "\<exists>err. envelope_typed_decode rr 0 buf = Inl err"
    by (simp add: envelope_typed_decode_def tx_type_try_from_u8_def map_err_def)
  show "rc_status (as_receipt s) = Eip658 ok \<longrightarrow>
       envelope_encode_2718 r rr (receipt_envelope_from_parts bloom_of ok (rc_cumulative_gas_used (as_receipt s))
         (rc_logs (as_receipt s)) (receipt_tx_type s)) =
       receipt_2718_encode_with_bloom r rr s (bloom_of (rc_logs (as_receipt s)))"
  proof
    assume "rc_status (as_receipt s) = Eip658 ok"
    then have "\<lparr>rc_status = Eip658 ok, rc_cumulative_gas_used = rc_cumulative_gas_used (as_receipt s),
        rc_logs = rc_logs (as_receipt s)\<rparr> = as_receipt s"
      by (simp add: receipt_restatus)
    then show "envelope_encode_2718 r rr (receipt_envelope_from_parts bloom_of ok (rc_cumulative_gas_used (as_receipt s))
         (rc_logs (as_receipt s)) (receipt_tx_type s)) =
       receipt_2718_encode_with_bloom r rr s (bloom_of (rc_logs (as_receipt s)))"
      by (cases s) (simp_all add: receipt_envelope_from_parts_def envelope_encode_2718_def envelope_type_flag_def
        with_bloom_encode_def receipt_2718_encode_with_bloom_def receipt_header_inner_def receipt_fields_by_receipt Let_def)
  qed
qed

theorem receipt_envelope_codec_witness:
  "let e = receipt_envelope_from_parts (\<lambda>_. 5) True 21000 [] TyL1Message in
   envelope_typed_decode sample_receipt_rlp 126 (tl (envelope_encode_2718 sample_rlp sample_receipt_rlp e) @ [1]) = Inr (e, [1]) \<and>
   envelope_length sample_rlp sample_receipt_rlp (\<lambda>n. rlp_len_header sample_rlp (False, n)) e =
     length (rlp_enc_header sample_rlp (False, envelope_encode_2718_len sample_rlp sample_receipt_rlp e) @
       envelope_encode_2718 sample_rlp sample_receipt_rlp e)"
  using receipt_envelope_codec [OF sample_receipt_rlp_laws, of "\<lambda>n. rlp_len_header sample_rlp (False, n)"
      "receipt_envelope_from_parts (\<lambda>_. 5) True 21000 [] TyL1Message" "[1]"]
  by (simp add: receipt_envelope_from_parts_def envelope_type_flag_def L1_MESSAGE_TX_TYPE_ID_def Let_def)

end
