(* ===== verification/Spec_Builder.thy ===== *)
theory Spec_Builder
  imports Chainspec "HOL-Library.Multiset"
begin

text \<open>
  The specification builder and the fork identifiers (\<open>crates/dogeos-chainspec/src/lib.rs\<close>:
  \<open>DogeosChainSpecBuilder\<close>, \<open>fork\<close>, \<open>fork_filter\<close>, \<open>fork_id\<close>, \<open>latest_fork_id\<close>).

  The builder of \<open>reth\<close> is the parameter \<open>spec_builder_api\<close>, with \<open>cb_view\<close> for what it has
  collected; \<open>ForkFilter\<close> is the parameter \<open>fork_filter_api\<close>. \<open>None\<close> is a panic: the builder of \<open>reth\<close>
  panics when the chain or the genesis was never set.
\<close>

section \<open>The builder\<close>

type_synonym hardfork_list = "(hardfork_id \<times> ForkCondition) list"

record ('b, 'n, 'a) spec_builder_api =
  cb_default :: 'b
  cb_chain :: "u64 \<Rightarrow> 'b \<Rightarrow> 'b"
  cb_genesis :: "('n, 'a) genesis \<Rightarrow> 'b \<Rightarrow> 'b"
  cb_with_forks :: "hardfork_list \<Rightarrow> 'b \<Rightarrow> 'b"
  cb_with_fork :: "hardfork_id \<Rightarrow> ForkCondition \<Rightarrow> 'b \<Rightarrow> 'b"
  cb_build :: "'b \<Rightarrow> (u64 \<times> ('n, 'a) genesis \<times> hardfork_list) option"
  cb_view :: "'b \<Rightarrow> u64 option \<times> ('n, 'a) genesis option \<times> hardfork_list"

text \<open>Setting a fork replaces its condition; where the entry is put in the list is left open.\<close>

definition spec_builder_laws :: "('b, 'n, 'a) spec_builder_api \<Rightarrow> bool" where
  "spec_builder_laws cb \<longleftrightarrow>
     (\<forall>b chain g hs. cb_view cb b = (chain, g, hs) \<longrightarrow>
        (\<forall>c. cb_view cb (cb_chain cb c b) = (Some c, g, hs)) \<and>
        (\<forall>g'. cb_view cb (cb_genesis cb g' b) = (chain, Some g', hs)) \<and>
        (\<forall>hs'. cb_view cb (cb_with_forks cb hs' b) = (chain, g, hs')) \<and>
        (\<forall>f c. distinct (map fst hs) \<longrightarrow>
           (\<exists>hs'. cb_view cb (cb_with_fork cb f c b) = (chain, g, hs') \<and> distinct (map fst hs') \<and>
              map_of hs' = (map_of hs)(f \<mapsto> c))) \<and>
        cb_build cb b = (case (chain, g) of (Some c, Some g') \<Rightarrow> Some (c, g', hs) | _ \<Rightarrow> None))"

definition builder_from_spec ::
  "('b, 'n, 'a) spec_builder_api \<Rightarrow> ('n, 'a) DogeosChainSpec \<Rightarrow> 'b" where
  "builder_from_spec cb spec =
     cb_with_forks cb (spec_hardforks spec)
       (cb_genesis cb (spec_genesis spec) (cb_chain cb (spec_chain spec) (cb_default cb)))"

definition builder_chain :: "('b, 'n, 'a) spec_builder_api \<Rightarrow> u64 \<Rightarrow> 'b \<Rightarrow> 'b" where
  "builder_chain cb chain b = cb_chain cb chain b"

definition builder_genesis :: "('b, 'n, 'a) spec_builder_api \<Rightarrow> ('n, 'a) genesis \<Rightarrow> 'b \<Rightarrow> 'b" where
  "builder_genesis cb g b = cb_genesis cb g b"

definition builder_with_fork ::
  "('b, 'n, 'a) spec_builder_api \<Rightarrow> hardfork_id \<Rightarrow> ForkCondition \<Rightarrow> 'b \<Rightarrow> 'b" where
  "builder_with_fork cb fork condition b = cb_with_fork cb fork condition b"

definition builder_build ::
  "('b, 'n, 'a) spec_builder_api \<Rightarrow> header \<Rightarrow> ('a \<Rightarrow> b256) \<Rightarrow> ScrollChainConfig \<Rightarrow> 'b \<Rightarrow>
   ('n, 'a) DogeosChainSpec option" where
  "builder_build cb dflt state_root config b =
     Option.bind (cb_build cb b)
       (\<lambda>(chain, g, hardforks). build_spec_with_hardforks dflt state_root g config hardforks (Some chain))"

section \<open>Forks and fork identifiers\<close>

definition spec_fork :: "fork_lookup \<Rightarrow> ('n, 'a) DogeosChainSpec \<Rightarrow> hardfork_id \<Rightarrow> ForkCondition" where
  "spec_fork hf_lookup spec fork = hf_lookup (spec_hardforks spec) fork"

record Head =
  head_number :: u64
  head_hash :: b256
  head_difficulty :: u256
  head_total_difficulty :: u256
  head_timestamp :: u64

record 'i fork_filter_api =
  ff_genesis_hash :: "header \<Rightarrow> b256"
  ff_current :: "Head \<Rightarrow> b256 \<Rightarrow> u64 \<Rightarrow> ForkFilterKey list \<Rightarrow> 'i"

text \<open>The arguments of \<open>ForkFilter::new\<close>; \<open>current\<close> of the filter they make is \<open>ff_current\<close>.\<close>

definition spec_fork_filter ::
  "'i fork_filter_api \<Rightarrow> fork_api \<Rightarrow> fork_lookup \<Rightarrow> ('n, 'a) DogeosChainSpec \<Rightarrow> Head \<Rightarrow>
   Head \<times> b256 \<times> u64 \<times> ForkFilterKey list" where
  "spec_fork_filter ff fa hf_lookup spec hd' =
     (hd', ff_genesis_hash ff (spec_genesis_header spec), g_timestamp (spec_genesis spec),
      fork_filter_keys fa hf_lookup spec)"

definition spec_fork_id ::
  "'i fork_filter_api \<Rightarrow> fork_api \<Rightarrow> fork_lookup \<Rightarrow> ('n, 'a) DogeosChainSpec \<Rightarrow> Head \<Rightarrow> 'i" where
  "spec_fork_id ff fa hf_lookup spec hd' =
     (case spec_fork_filter ff fa hf_lookup spec hd' of (h, hash, ts, keys) \<Rightarrow> ff_current ff h hash ts keys)"

definition latest_fork_id ::
  "'i fork_filter_api \<Rightarrow> fork_api \<Rightarrow> fork_lookup \<Rightarrow> ('n, 'a) DogeosChainSpec \<Rightarrow> 'i" where
  "latest_fork_id ff fa hf_lookup spec =
     spec_fork_id ff fa hf_lookup spec
       \<lparr>head_number = - 1, head_hash = 0, head_difficulty = 0, head_total_difficulty = 0, head_timestamp = - 1\<rparr>"

text \<open>\<open>ForkFilter\<close> sorts and deduplicates the keys it is given.\<close>

definition fork_filter_laws :: "'i fork_filter_api \<Rightarrow> bool" where
  "fork_filter_laws ff \<longleftrightarrow>
     (\<forall>h hash ts keys keys'. set keys = set keys' \<longrightarrow> ff_current ff h hash ts keys = ff_current ff h hash ts keys')"

section \<open>Sequences of insertions\<close>

definition builder_with_all ::
  "('b, 'n, 'a) spec_builder_api \<Rightarrow> hardfork_list \<Rightarrow> 'b \<Rightarrow> 'b" where
  "builder_with_all cb updates b = fold (\<lambda>(f, c). builder_with_fork cb f c) updates b"

lemma view_from_spec:
  assumes "spec_builder_laws cb"
  shows "cb_view cb (builder_from_spec cb spec)
    = (Some (spec_chain spec), Some (spec_genesis spec), spec_hardforks spec)"
  using assms unfolding builder_from_spec_def spec_builder_laws_def by (metis prod.exhaust)

lemma view_with_all:
  assumes laws: "spec_builder_laws cb"
    and "cb_view cb b = (chain, g, hs)" and "distinct (map fst hs)"
  shows "\<exists>hs'. cb_view cb (builder_with_all cb updates b) = (chain, g, hs') \<and> distinct (map fst hs') \<and>
     map_of hs' = map_of hs ++ map_of (rev updates)"
  using assms(2,3)
proof (induction updates arbitrary: b hs)
  case (Cons u updates)
  obtain f c where u: "u = (f, c)" by (cases u)
  obtain hs1 where hs1: "cb_view cb (cb_with_fork cb f c b) = (chain, g, hs1)" "distinct (map fst hs1)"
    "map_of hs1 = (map_of hs)(f \<mapsto> c)"
    using laws Cons.prems unfolding spec_builder_laws_def by blast
  have "map_of hs1 ++ map_of (rev updates) = map_of hs ++ map_of (rev (u # updates))"
    by (simp add: hs1(3) u)
  with Cons.IH [OF hs1(1,2)] show ?case
    by (auto simp: builder_with_all_def u builder_with_fork_def)
qed (simp add: builder_with_all_def)

lemma same_updates:
  assumes "distinct (map fst xs)" and "mset ys = mset xs"
  shows "distinct (map fst ys)" and "map_of ys = map_of xs"
proof -
  have "mset (map fst ys) = mset (map fst xs)" using assms(2) by simp
  then show "distinct (map fst ys)" using assms(1) mset_eq_imp_distinct_iff by blast
  with assms show "map_of ys = map_of xs" using map_of_inject_set mset_eq_setD by blast
qed

lemma map_of_rev_distinct:
  "distinct (map fst xs) \<Longrightarrow> map_of (rev xs) = map_of xs"
  by (rule same_updates(2)) simp_all

lemma build_view:
  assumes "spec_builder_laws cb" and "cb_view cb b = (Some chain, Some g, hs)"
  shows "builder_build cb dflt state_root config b
     = build_spec_with_hardforks dflt state_root g config hs (Some chain)"
proof -
  have "cb_build cb b = Some (chain, g, hs)"
    using assms unfolding spec_builder_laws_def by fastforce
  then show ?thesis by (simp add: builder_build_def)
qed

lemma keys_of_same_forks:
  assumes "fork_lookup_laws hf_lookup"
    and "distinct (map fst (spec_hardforks s1))" "distinct (map fst (spec_hardforks s2))"
    and same: "map_of (spec_hardforks s1) = map_of (spec_hardforks s2)"
    and "spec_genesis s1 = spec_genesis s2"
  shows "set (fork_filter_keys fa hf_lookup s1) = set (fork_filter_keys fa hf_lookup s2)"
    and "spec_fork hf_lookup s1 = spec_fork hf_lookup s2"
proof -
  have sets: "set (spec_hardforks s1) = set (spec_hardforks s2)"
    using assms(2-4) by (metis map_of_eq_Some_iff prod.exhaust subsetI subset_antisym)
  show fork: "spec_fork hf_lookup s1 = spec_fork hf_lookup s2"
    using fork_lookup_lawsD [OF assms(1)] assms(2,3) same by (auto simp: spec_fork_def fun_eq_iff)
  have "spec_dogeos_fork_activation hf_lookup s1 = spec_dogeos_fork_activation hf_lookup s2"
    using fork by (auto simp: spec_fork_def spec_dogeos_fork_activation_def fun_eq_iff)
  then show "set (fork_filter_keys fa hf_lookup s1) = set (fork_filter_keys fa hf_lookup s2)"
    using sets assms(5) by (auto simp: fork_filter_keys_def Let_def in_set_map_filter)
qed

section \<open>Concrete parameters\<close>

text \<open>An instance that satisfies the laws, used by the witness only.\<close>

definition sample_builder ::
  "(u64 option \<times> ('n, 'a) genesis option \<times> hardfork_list, 'n, 'a) spec_builder_api" where
  "sample_builder = \<lparr>
     cb_default = (None, None, []),
     cb_chain = (\<lambda>c (_, g, hs). (Some c, g, hs)),
     cb_genesis = (\<lambda>g (c, _, hs). (c, Some g, hs)),
     cb_with_forks = (\<lambda>hs (c, g, _). (c, g, hs)),
     cb_with_fork = (\<lambda>f cond (c, g, hs). (c, g, (f, cond) # filter (\<lambda>(f', _). f' \<noteq> f) hs)),
     cb_build = (\<lambda>b. case b of (Some c, Some g, hs) \<Rightarrow> Some (c, g, hs) | _ \<Rightarrow> None),
     cb_view = id\<rparr>"

lemma map_of_filter_other:
  "map_of (filter (\<lambda>(f', _). f' \<noteq> f) hs) = (map_of hs)(f := None)"
  by (induction hs) (auto simp: fun_eq_iff)

lemma sample_builder_laws: "spec_builder_laws sample_builder"
  by (auto simp: spec_builder_laws_def sample_builder_def map_of_filter_other distinct_map_filter
      split: option.split)

definition sample_fork_filter :: "nat fork_filter_api" where
  "sample_fork_filter = \<lparr>ff_genesis_hash = (\<lambda>_. 0), ff_current = (\<lambda>_ _ _ keys. card (set keys))\<rparr>"

lemma sample_fork_filter_laws: "fork_filter_laws sample_fork_filter"
  by (simp add: fork_filter_laws_def sample_fork_filter_def)

section \<open>The schedule of a built specification\<close>

lemma built_with_all:
  assumes cb: "spec_builder_laws cb" and base: "distinct (map fst (spec_hardforks base))"
    and updates: "distinct (map fst updates)"
  obtains hs where
    "builder_build cb dflt state_root config (builder_with_all cb updates (builder_from_spec cb base))
       = build_spec_with_hardforks dflt state_root (spec_genesis base) config hs (Some (spec_chain base))"
    "distinct (map fst hs)" "map_of hs = map_of (spec_hardforks base) ++ map_of updates"
  using view_with_all [OF cb view_from_spec [OF cb] base, of updates] build_view [OF cb]
    map_of_rev_distinct [OF updates] that by metis

text \<open>C38. Insertion order does not matter: for a specification made from a base specification and a
  sequence of \<open>with_fork\<close> calls for different forks, every fork has the condition last set, the
  base one where none was; the chain and the genesis are those of the base, whose document is not
  consulted for forks; the build panics exactly when the genesis base fee does not fit in 64 bits;
  and any other order of the same calls gives the same forks and the same fork identifier at
  every head.\<close>

theorem builder_order_irrelevant:
  assumes cb: "spec_builder_laws cb" and hf: "fork_lookup_laws hf_lookup" and ff: "fork_filter_laws ff"
    and base: "distinct (map fst (spec_hardforks base))"
    and updates: "distinct (map fst updates)" and perm: "mset updates' = mset updates"
  shows "(case builder_build cb dflt state_root config (builder_with_all cb updates (builder_from_spec cb base)) of
       None \<Rightarrow> \<exists>fee. g_base_fee_per_gas (spec_genesis base) = Some fee \<and> 2 ^ 64 \<le> unat fee
     | Some spec \<Rightarrow>
         (\<forall>fork. spec_fork hf_lookup spec fork =
            (case map_of updates fork of Some c \<Rightarrow> c | None \<Rightarrow> spec_fork hf_lookup base fork)) \<and>
         spec_chain spec = spec_chain base \<and> spec_genesis spec = spec_genesis base \<and>
         spec_config spec = config \<and>
         (\<exists>spec'. builder_build cb dflt state_root config (builder_with_all cb updates' (builder_from_spec cb base))
              = Some spec' \<and>
            spec_fork hf_lookup spec' = spec_fork hf_lookup spec \<and>
            spec_fork_id ff fa hf_lookup spec' = spec_fork_id ff fa hf_lookup spec \<and>
            latest_fork_id ff fa hf_lookup spec' = latest_fork_id ff fa hf_lookup spec))"
proof -
  have updates': "distinct (map fst updates')" and same: "map_of updates' = map_of updates"
    by (rule same_updates [OF updates perm])+
  obtain hs where hs: "builder_build cb dflt state_root config (builder_with_all cb updates (builder_from_spec cb base))
       = build_spec_with_hardforks dflt state_root (spec_genesis base) config hs (Some (spec_chain base))"
    "distinct (map fst hs)" "map_of hs = map_of (spec_hardforks base) ++ map_of updates"
    by (rule built_with_all [OF cb base updates])
  obtain hs' where hs': "builder_build cb dflt state_root config (builder_with_all cb updates' (builder_from_spec cb base))
       = build_spec_with_hardforks dflt state_root (spec_genesis base) config hs' (Some (spec_chain base))"
    "distinct (map fst hs')" "map_of hs' = map_of (spec_hardforks base) ++ map_of updates'"
    by (rule built_with_all [OF cb base updates'])
  show ?thesis
  proof (cases "make_genesis_header dflt state_root (spec_genesis base)")
    case None
    then show ?thesis
      by (auto simp: hs(1) build_spec_with_hardforks_def make_genesis_header_def Let_def not_less
          split: if_splits option.splits)
  next
    case (Some hdr)
    obtain spec where spec: "build_spec_with_hardforks dflt state_root (spec_genesis base) config hs (Some (spec_chain base)) = Some spec"
      "spec_hardforks spec = hs" "spec_genesis spec = spec_genesis base" "spec_genesis_header spec = hdr"
      "spec_chain spec = spec_chain base" "spec_config spec = config"
      by (simp add: build_spec_with_hardforks_def Some)
    obtain spec' where spec': "build_spec_with_hardforks dflt state_root (spec_genesis base) config hs' (Some (spec_chain base)) = Some spec'"
      "spec_hardforks spec' = hs'" "spec_genesis spec' = spec_genesis base" "spec_genesis_header spec' = hdr"
      by (simp add: build_spec_with_hardforks_def Some)
    have keys: "set (fork_filter_keys fa hf_lookup spec') = set (fork_filter_keys fa hf_lookup spec)"
      and forks: "spec_fork hf_lookup spec' = spec_fork hf_lookup spec"
      using keys_of_same_forks [OF hf, of spec' spec] hs hs' spec spec' same by simp_all
    have "ff_current ff h hash ts (fork_filter_keys fa hf_lookup spec')
        = ff_current ff h hash ts (fork_filter_keys fa hf_lookup spec)" for h hash ts
      using ff keys unfolding fork_filter_laws_def by blast
    then have ids: "spec_fork_id ff fa hf_lookup spec' = spec_fork_id ff fa hf_lookup spec"
      by (simp add: spec_fork_id_def spec_fork_filter_def fun_eq_iff spec(3,4) spec'(3,4))
    have "spec_fork hf_lookup spec fork =
        (case map_of updates fork of Some c \<Rightarrow> c | None \<Rightarrow> spec_fork hf_lookup base fork)" for fork
      using fork_lookup_lawsD [OF hf] hs base spec(2)
      by (simp add: spec_fork_def map_add_def split: option.split)
    then show ?thesis
      using hs(1) hs'(1) spec spec' forks ids by (simp add: latest_fork_id_def)
  qed
qed

theorem builder_order_irrelevant_witness:
  "\<exists>spec spec'.
     builder_build sample_builder sample_header (\<lambda>_. 0) scroll_chain_config_chikyu
       (builder_with_all sample_builder [(DogeFork Tsuki, Timestamp 5), (DogeFork TsukiV2, Timestamp 7)]
          (builder_from_spec sample_builder sample_spec)) = Some spec \<and>
     builder_build sample_builder sample_header (\<lambda>_. 0) scroll_chain_config_chikyu
       (builder_with_all sample_builder [(DogeFork TsukiV2, Timestamp 7), (DogeFork Tsuki, Timestamp 5)]
          (builder_from_spec sample_builder sample_spec)) = Some spec' \<and>
     spec_fork sample_fork_lookup spec (DogeFork Tsuki) = Timestamp 5 \<and>
     latest_fork_id sample_fork_filter sample_fork_api sample_fork_lookup spec'
       = latest_fork_id sample_fork_filter sample_fork_api sample_fork_lookup spec"
proof -
  have base: "distinct (map fst (spec_hardforks sample_spec))" "g_base_fee_per_gas (spec_genesis sample_spec) = Some 1000000000"
    using build_spec_hardforks [OF sample_spec_built]
    by (simp_all add: feynman_hardforks_distinct hardfork_chikyu_def sample_genesis_def)
  show ?thesis
    using builder_order_irrelevant [OF sample_builder_laws sample_fork_lookup_laws sample_fork_filter_laws base(1),
        where updates = "[(DogeFork Tsuki, Timestamp 5), (DogeFork TsukiV2, Timestamp 7)]"
          and updates' = "[(DogeFork TsukiV2, Timestamp 7), (DogeFork Tsuki, Timestamp 5)]"
          and dflt = sample_header and state_root = "\<lambda>_. 0" and config = scroll_chain_config_chikyu
          and fa = sample_fork_api]
    by (auto simp: base(2) split: option.splits)
qed

end
