(* ===== verification/Spec2Isabelle.thy ===== *)
theory Spec2Isabelle
  imports Dogeos_Node Rpc_Service Block_Replay Tx_Forms Receipt_Envelopes Spec_Builder
begin

text \<open>
  Verification development of the DogeOS execution node (\<open>dogeos-reth\<close>), a rollup node built on
  reth. Paths below are relative to \<open>src/\<close>.

  \<^bold>\<open>The program.\<close> A chain specification fixes the fork schedule. Blocks are executed on a scroll EVM:
  fork transitions first, then the transactions, which are L1 messages (a prefix of the block, in
  queue order, paying no fee) and signed transactions (paying gas and an L1 data fee that depends on
  their compressed size). The base fee follows EIP-1559 plus an overhead read from the L2 system
  configuration, under a cap. Transactions enter a pool after an admission that checks the L1 fee
  against a cached snapshot of the head and simulates the code a transaction touches; a maintenance
  task keeps the snapshot fresh. The engine API asks for payloads; the builder takes forced
  transactions, then pool transactions, under limits of gas, data and distinct code. Blocks arrive
  through the engine or, signed, over the \<open>scroll/1\<close> protocol. RPC exposes all of this.

  \<^bold>\<open>Theories and sources.\<close>
  \<^item> \<open>Prelude\<close>: machine integers as words, saturating arithmetic, results as sums, runs over a state
    with panics; the collections \<open>sat_simps\<close> and \<open>result_elims\<close>.
  \<^item> \<open>Hardforks\<close> (\<open>crates/dogeos-hardforks\<close>, \<open>dogeos-reth-evm/src/spec.rs\<close>): fork identifiers, built-in
    schedules, sorted lookup, activation queries. \<open>Chainspec\<close> (\<open>crates/dogeos-chainspec\<close>): genesis fork
    fields and their validation, building of a specification, fork-filter keys; \<open>Spec_Builder\<close>: the
    builder and the fork identifiers.
  \<^item> \<open>Evm_Db\<close> (the database interface of revm), \<open>Base_Fee\<close> (\<open>dogeos-reth-evm/src/base_fee.rs\<close>),
    \<open>Transitions\<close> (\<open>transitions/\<close>, \<open>system_caller.rs\<close>, \<open>gas_price_oracle.rs\<close>), \<open>Tx_Env\<close> (\<open>tx/\<close>:
    environments and compression), \<open>Executor\<close> (\<open>block/\<close>, \<open>receipt.rs\<close>, \<open>l1.rs\<close>), \<open>Evm_Config\<close>
    (\<open>config.rs\<close>, \<open>build.rs\<close>), \<open>Code_Witness\<close> (\<open>code_witness.rs\<close>): all of \<open>crates/dogeos-reth-evm\<close>.
  \<^item> \<open>Transactions\<close>, \<open>Tx_Codec\<close>, \<open>Receipts\<close> (\<open>crates/dogeos-protocol-types\<close>,
    \<open>crates/dogeos-reth-primitives\<close>): the transaction and receipt types, their accessors,
    conversions, RLP, EIP-2718 and database codecs; \<open>Tx_Forms\<close>: JSON and bincode forms of
    transactions; \<open>Receipt_Envelopes\<close>: the codec of receipt envelopes.
  \<^item> \<open>Consensus\<close> (\<open>crates/dogeos-reth-consensus\<close>): header, parent, body and post-execution rules.
  \<^item> \<open>Engine\<close> (\<open>crates/dogeos-reth-engine\<close>): payload attributes and their identifier, field
    validation, conversion of payloads and blocks.
  \<^item> \<open>Payload\<close> and \<open>Builder\<close> (\<open>crates/dogeos-reth-payload\<close>): limits, breaker, forced transactions,
    gas limit, the building of a block; \<open>Built_Blocks\<close> holds the proofs about built blocks and
    \<open>Block_Replay\<close> their import through the engine.
  \<^item> \<open>Txpool_Validator\<close>, \<open>Txpool_Executor\<close>, \<open>Txpool_Maintenance\<close>, \<open>Txpool_Code_Witness\<close>
    (\<open>crates/dogeos-reth-txpool\<close>): admission and the fee cache, the bounded executor as a transition
    system, the base fee of the pool, the admission simulation. \<open>Node_Pool\<close>
    (\<open>crates/dogeos-reth-node/src/pool.rs\<close>): the assembled pool and its fee maintenance task.
  \<^item> \<open>Scroll_Wire\<close> (\<open>crates/dogeos-scroll-wire\<close>, \<open>dogeos-reth-node/src/wire_import.rs\<close>): messages,
    signatures, connections, manager, importer. \<open>Countable_Types\<close> provides a concrete block codec.
  \<^item> \<open>Rpc_Types\<close> (\<open>crates/dogeos-rpc-types\<close> and the converters of \<open>crates/dogeos-reth-rpc\<close>),
    \<open>Rpc_Fees\<close> (\<open>priority_fee.rs\<close>), \<open>Rpc_Service\<close> (\<open>forwarder.rs\<close>, \<open>sequencer.rs\<close>, \<open>witness.rs\<close>,
    \<open>dogeos-reth-evm/src/witness_state.rs\<close>).
  \<^item> \<open>Dogeos_Node\<close> (the rest of \<open>crates/dogeos-reth-node\<close> and \<open>bin/dogeos-reth\<close>): arguments, what
    every component is built from, storage of bodies, start.

  \<^bold>\<open>Conventions.\<close> A struct is a record, an enum a datatype, a function a definition of the same
  name, prefixed by its type where names would clash; \<open>u64\<close> and the like are words, so a bare \<open>+\<close>
  wraps as it does in a release build. A \<open>Result\<close> is a sum with the error on the left; a panic is
  \<open>None\<close>. Mutable state is a record passed through; concurrency (the admission executor, the
  maintenance task, channels) is a sequence of steps over every interleaving; the async method that
  forwards transactions is cut at its await points, so that its calls interleave and may be dropped
  there.
  Code of other packages (alloy, revm, reth, tokio, the EVM interpreter) is an argument: a record of
  functions whose name ends in \<open>_api\<close>, \<open>_ops\<close> or \<open>_env\<close>, with the documented behaviour that is relied
  on as a predicate ending in \<open>_laws\<close>; each has a concrete instance \<open>sample_...\<close> that satisfies the
  laws, on which the witnesses evaluate. Interfaces inside the node are locales, interpreted on the
  model: fork schedules in order (\<open>ordered_schedule\<close>), the prediction of the base fee for the pool and
  the fee history (\<open>base_fee_source\<close>), transitions that can be repeated (\<open>idempotent_transition\<close>), the
  code budget the builder and the admission rely on (\<open>code_budget\<close>), the refresh behind the fee
  maintenance task (\<open>fee_refresh\<close>), the tagged JSON objects (\<open>tagged_format\<close>) and invariants of sequences of steps (\<open>step_invariant\<close>).

  \<^bold>\<open>What is shown.\<close>
  \<^item> Across components: a built block passes the node's own validators, contains what was asked for
    (every forced transaction that is valid where it is executed, then items of the pool's iterator)
    and stays within every limit (here and in \<open>Built_Blocks\<close>), and its building ends at the deadline, and a node that imports it executes it
    to the same state and receipts (\<open>Block_Replay\<close>); a candidate transaction is atomic; the
    base fee announced over RPC is the one the pool enforces (\<open>Rpc_Fees\<close>); what a request builds can
    enter the pool (\<open>Rpc_Types\<close>); a started node imports only blocks of its signer (\<open>Dogeos_Node\<close>).
  \<^item> Execution: gas accounting never exceeds the block limit, every branch of the execution of a
    transaction, transitions are idempotent, the base fee and its bounds, replay of an environment.
  \<^item> Code witness: the meter refines a count of distinct code, reserves and steps; admission by
    simulation always answers and accepts exactly the transactions within both limits.
  \<^item> Pool: admission is decided by the very data fee that execution charges; a failed refresh closes admission until a good one; the
    permits of the executor are conserved and all jobs finish; the maintenance task retries at the last
    refresh plus its backoff; the fee of the pool stays under the protocol cap.
  \<^item> Schedules: the order in which forks are set does not change a specification (\<open>Spec_Builder\<close>).
  \<^item> Formats: round trips of transactions, receipts, payloads, announcements, RPC receipts and
    transactions, JSON and bincode; what the payload identifier and the signing encoding bind.
  \<^item> RPC: capacity and tip of a block in exact arithmetic; every accepted transaction is forwarded once,
    waits in a task or is on the way in its call; coverage of execution witnesses.

  \<^bold>\<open>Fuel.\<close> The pool loop of the builder is the only loop with fuel, because the pool iterator is a
  parameter that may yield new items as long as it is read. It runs out only on an iterator that
  yields as many items as there is fuel and, past the deadline, only items the loop passes over without
  looking at the clock; when it does not run out, the outcome is the same with any more fuel. The refresh
  of the fee cache has the bound on attempts of the source. Every other loop is structural.

  \<^bold>\<open>Not modelled.\<close> The EVM interpreter, the zstd compressor, the trie, hashing and elliptic curves
  (parameters); derived serde implementations other than those of transactions and accessors that only forward to a wrapped value;
  logging and metrics; the wiring into the reth node builder at the level of types, the registration
  of RPC methods, task spawning and sockets, which are input and output; \<open>crates/dogeos-reth-spike\<close>, a
  compile-time probe without behaviour.
\<close>

lemma next_block_base_fee_le:
  assumes "next_block_base_fee fa calc ops spec db parent ts = Some (Inr fee)"
  shows "fee \<le> MAX_L2_BASE_FEE"
proof -
  obtain overhead p where "fee = next_block_base_fee_with_overhead fa calc spec p overhead ts"
    using assms by (auto simp: next_block_base_fee_def next_block_base_fee_for_parent_def result_elims
        split: option.splits)
  then show ?thesis using next_base_fee_le_cap max_l2_base_fee_le by (metis order_trans)
qed

lemma built_child_of_parent:
  assumes "consensus_laws ca" and "h_parent_hash h = sh_hash parent" and "h_number h = h_number (sh_header parent) + 1"
    and "h_timestamp (sh_header parent) \<le> h_timestamp h"
    and "h_gas_limit h = next_block_gas_limit (ca_gas_limit_bound_divisor ca) None target (h_gas_limit (sh_header parent))"
    and "ca_minimum_gas_limit ca \<le> h_gas_limit h"
  shows "validate_header_against_parent ca h parent = Inr ()"
  using assms gas_limit_step [of "ca_gas_limit_bound_divisor ca" target "h_gas_limit (sh_header parent)"]
  by (simp add: validate_header_against_parent_def gas_limit_ok_iff consensus_laws_def not_less)

lemma built_fee_passes_import:
  assumes "next_block_base_fee fa calc ops spec db (sh_header parent) (h_timestamp h) = Some (Inr fee)"
    and "h_base_fee_per_gas h = Some fee"
  shows "validate_block_pre_execution fa calc ops spec db (evm_env fa spec h) (sh_hash parent) parent = Some (Inr ())"
  using assms
  by (auto simp: validate_block_pre_execution_def evm_env_def next_block_base_fee_def Let_def split: option.splits)

text \<open>C1. The builder and the validators agree. A payload built for a request whose timestamp is
  neither before its parent nor ahead of the clock, with the gas limit left to the builder, passes
  the node's own checks: the header rules, the rules against its parent, the base-fee check of the
  import, the receipt and bloom checks after execution; the checks of its body reduce to the order
  of its L1 messages.\<close>

theorem built_block_passes_consensus:
  fixes pe :: "('db, 'l1, 'd, 'x, 'i, 'b, 'p) payload_env"
  assumes laws: "payload_laws pe" and ca: "consensus_laws ca" "roots_agree ca (pe_assembler pe)"
      "ca_gas_limit_bound_divisor ca = pe_gas_limit_bound_divisor pe"
    and run: "build_payload pe cf args db = Some (Inr out)" and built: "built_as out p"
    and small: "(\<Sum>enc\<leftarrow>forced_list (ba_attributes args). length enc) < 2 ^ 64"
    and parent: "parent = ba_parent_header args" and blk: "blk = sb_block (bp_block p)" and h: "h = b_header blk"
    and attrs: "sa_gas_limit (ba_attributes args) = None"
      "attributes_against_header (ba_attributes args) (sh_header parent)" "pa_timestamp (sa_payload_attributes (ba_attributes args)) \<le> now"
    and gas: "g = next_block_gas_limit (pe_gas_limit_bound_divisor pe) None (cf_gas_limit cf) (h_gas_limit (sh_header parent))"
      "ca_minimum_gas_limit ca \<le> g" "g \<le> 0x7fffffffffffffff"
  shows "validate_header ca now h = Inr () \<and> validate_header_against_parent ca h parent = Inr () \<and>
    validate_block_pre_execution (ee_fork_api (pe_env pe)) (pe_calc pe) (ee_ops (pe_env pe)) (ee_spec (pe_env pe))
      db (evm_env (ee_fork_api (pe_env pe)) (ee_spec (pe_env pe)) h) (sh_hash parent) parent = Some (Inr ()) \<and>
    cons_validate_block_pre_execution ca blk = validate_l1_messages (b_transactions blk) \<and>
    (\<exists>result. bp_executed_block p = Some result \<and> validate_block_post_execution ca h result None = Inr ())"
  using run
proof (rule build_payload_block)
  fix base_fee env b'
  let ?ee = "pe_env pe" and ?a = "next_attributes_of pe cf args base_fee"
  assume fee: "next_block_base_fee (ee_fork_api ?ee) (pe_calc pe) (ee_ops ?ee) (ee_spec ?ee) db
       (sh_header (ba_parent_header args)) (pa_timestamp (sa_payload_attributes (ba_attributes args))) = Some (Inr base_fee)"
    and env: "env = next_evm_env (ee_fork_api ?ee) (ee_spec ?ee) (sh_header (ba_parent_header args)) ?a"
    and bb: "build_block pe cf args env (builder_start pe cf args db env) = (Some (Inr out), b')"
  from build_block_contents [OF laws bb built small] obtain txs result root where
    res: "bp_executed_block p = Some result"
    and asm: "assemble_block (pe_assembler pe) env (sh_hash parent) txs result root = Inr blk"
    and used: "br_gas_used result \<le> be_gas_limit (env_block env)"
      "last_cumulative_gas (br_receipts result) = br_gas_used result"
    unfolding blk parent by blast
  have hdr: "h_parent_hash h = sh_hash parent" "h_ommers_hash h = as_empty_ommer_root (pe_assembler pe)"
    "h_beneficiary h = 0" "h_transactions_root h = as_transaction_root (pe_assembler pe) txs"
    "h_receipts_root h = as_receipt_root (pe_assembler pe) (br_receipts result)"
    "h_logs_bloom h = as_logs_bloom (pe_assembler pe) (concat (map (\<lambda>rc. rc_logs (as_receipt rc)) (br_receipts result)))"
    "h_difficulty h = 1" "h_number h = h_number (sh_header parent) + 1" "h_gas_limit h = nb_gas_limit ?a"
    "h_gas_used h = br_gas_used result" "h_timestamp h = nb_timestamp ?a" "h_extra_data h = []" "h_mix_hash h = 0"
    "h_nonce h = as_beacon_nonce (pe_assembler pe)" "h_base_fee_per_gas h = Some base_fee"
    "h_withdrawals_root h = None" "h_blob_gas_used h = None" "h_excess_blob_gas h = None"
    "h_parent_beacon_block_root h = None" "h_requests_hash h = None"
    "b_transactions blk = txs" "b_ommers blk = []" "b_withdrawals blk = None"
    using asm unfolding env assemble_next_env parent h by (auto simp: next_attributes_of_def Let_def)
  have hdr2: "h_gas_limit h = g" "h_timestamp h = pa_timestamp (sa_payload_attributes (ba_attributes args))"
    "be_gas_limit (env_block env) = g"
    using hdr attrs(1) gas(1) parent env by (simp_all add: next_attributes_of_def next_env_block_fields Let_def)
  have feele: "base_fee \<le> MAX_L2_BASE_FEE" using next_block_base_fee_le [OF fee] .
  have 1: "validate_header ca now h = Inr ()"
    using ca(1,2) hdr2 hdr used feele attrs gas
    by (intro validate_header_ok [where fee = base_fee]) (simp_all add: roots_agree_def)
  have 2: "validate_header_against_parent ca h parent = Inr ()"
    using ca(1,3) hdr2 hdr attrs gas
    by (intro built_child_of_parent [where target = "cf_gas_limit cf"])
      (simp_all add: attributes_against_header_def not_less)
  have 3: "validate_block_pre_execution (ee_fork_api ?ee) (pe_calc pe) (ee_ops ?ee) (ee_spec ?ee)
      db (evm_env (ee_fork_api ?ee) (ee_spec ?ee) h) (sh_hash parent) parent = Some (Inr ())"
    using fee hdr by (intro built_fee_passes_import [where fee = base_fee])
      (simp_all add: next_attributes_of_def parent Let_def)
  have 4: "cons_validate_block_pre_execution ca blk = validate_l1_messages (b_transactions blk)"
    using ca(2) hdr h by (simp add: cons_validate_block_pre_execution_def roots_agree_def)
  have 5: "validate_block_post_execution ca h result None = Inr ()"
    using ca(2) hdr used by (simp add: validate_block_post_execution_def roots_agree_def Let_def)
  from 1 2 3 4 5 res show ?thesis by blast
qed

theorem built_block_passes_consensus_witness:
  "\<exists>p. build_payload sample_payload_env sample_builder_config sample_build_args empty_map_db =
      Some (Inr (Better p)) \<and>
    validate_header sample_agreeing_consensus 20 (b_header (sb_block (bp_block p))) = Inr ()"
proof -
  let ?g = "next_block_gas_limit 1024 None (Some 40000000) 30000000"
  obtain p where run: "build_payload sample_payload_env sample_builder_config sample_build_args empty_map_db =
      Some (Inr (Better p))"
    using sample_build by blast
  have args: "forced_list (ba_attributes sample_build_args) = []" "sa_gas_limit (ba_attributes sample_build_args) = None"
    "h_timestamp (sh_header (ba_parent_header sample_build_args)) = 0"
    "h_gas_limit (sh_header (ba_parent_header sample_build_args)) = 30000000"
    "pa_timestamp (sa_payload_attributes (ba_attributes sample_build_args)) = 12"
    "cf_gas_limit sample_builder_config = Some 40000000"
    by (simp_all add: sample_build_args_def sample_payload_attributes_def sample_header_def sample_builder_config_def)
  have g: "?g = 30029296"
    by (simp add: next_block_gas_limit_def clamp_def saturating_sub_def saturating_add_def Let_def)
  have laws: "consensus_laws sample_agreeing_consensus"
    "ca_gas_limit_bound_divisor sample_agreeing_consensus = pe_gas_limit_bound_divisor sample_payload_env"
    "ca_minimum_gas_limit sample_agreeing_consensus = 5000"
    by (simp_all add: sample_agreeing_consensus_def consensus_laws_def sample_consensus_def)
  have "validate_header sample_agreeing_consensus 20 (b_header (sb_block (bp_block p))) = Inr ()"
    using built_block_passes_consensus [OF sample_payload_laws laws(1) sample_roots_agree laws(2) run _ _ refl refl refl,
        of p 20, OF _ _ _ _ _ refl] args g laws(3)
    by (simp add: built_as_def attributes_against_header_def)
  then show ?thesis using run by blast
qed

end
